(* ===== verification/Prelude.thy ===== *)
theory Prelude
  imports Main "HOL-Library.AList" "HOL-Library.List_Lexorder" "HOL-Library.Char_ord"
    "HOL-Library.Code_Target_Nat" "HOL-Library.Code_Target_Int"
begin

text \<open>
  Shared vocabulary of the development: JavaScript exceptions as the left summand of a
  result, the \<open>Map\<close> objects of the source as insertion-ordered association lists, the
  contract of a keyed store, the generic invariant argument for a machine that is driven by
  a list of events, decimal printing, and the facts on sorted lists that several components
  use.
\<close>

named_theorems js_simps \<open>equations of the JavaScript primitives, for evaluation and case analysis\<close>

section \<open>Exceptions as values\<close>

text \<open>
  A statement that throws is \<open>Inl\<close>; one that completes is \<open>Inr\<close>. \<open>TypeErr\<close> carries the
  message of a \<open>TypeError\<close>, \<open>Err\<close> the message of an \<open>Error\<close>, \<open>Coded\<close> the code
  of one of the repository's own error classes.
\<close>

datatype js_exn = TypeErr string | Err string | Coded string

type_synonym 'a js = "js_exn + 'a"

definition bindE :: "'a js \<Rightarrow> ('a \<Rightarrow> 'b js) \<Rightarrow> 'b js" where
  "bindE m f = (case m of Inl e \<Rightarrow> Inl e | Inr x \<Rightarrow> f x)"

lemma bindE_simps [simp, js_simps]:
  "bindE (Inl e) f = Inl e"
  "bindE (Inr x) f = f x"
  by (simp_all add: bindE_def)

lemma bindE_Inr_iff: "bindE m f = Inr y \<longleftrightarrow> (\<exists>x. m = Inr x \<and> f x = Inr y)"
  by (cases m) auto

lemma bindE_cong [fundef_cong]:
  "m = m' \<Longrightarrow> (\<And>x. m' = Inr x \<Longrightarrow> f x = g x) \<Longrightarrow> bindE m f = bindE m' g"
  by (cases m') auto

text \<open>\<open>xs.map(f)\<close> for an \<open>f\<close> that may throw: the first exception ends the loop.\<close>

fun mapE :: "('a \<Rightarrow> 'b js) \<Rightarrow> 'a list \<Rightarrow> 'b list js" where
  "mapE f [] = Inr []"
| "mapE f (x # xs) = bindE (f x) (\<lambda>y. bindE (mapE f xs) (\<lambda>ys. Inr (y # ys)))"

lemma mapE_cong [fundef_cong]:
  "xs = ys \<Longrightarrow> (\<And>x. x \<in> set ys \<Longrightarrow> f x = g x) \<Longrightarrow> mapE f xs = mapE g ys"
proof (induction ys arbitrary: xs)
  case (Cons y ys)
  then show ?case by (cases xs) (auto intro!: bindE_cong)
qed simp

lemma mapE_Inr_iff: "mapE f xs = Inr ys \<longleftrightarrow> list_all2 (\<lambda>x y. f x = Inr y) xs ys"
  by (induction xs arbitrary: ys) (auto simp: bindE_Inr_iff list_all2_Cons1)

lemma mapE_map_cong: "map f xs = map g ys \<Longrightarrow> mapE f xs = mapE g ys"
proof (induction xs arbitrary: ys)
  case (Cons x xs)
  then show ?case by (cases ys) (auto intro!: bindE_cong)
qed simp

text \<open>\<open>try { m } catch { h }\<close>\<close>

definition catchE :: "'a js \<Rightarrow> 'a \<Rightarrow> 'a" where
  "catchE m h = (case m of Inl e \<Rightarrow> h | Inr x \<Rightarrow> x)"

lemma catchE_simps [simp, js_simps]: "catchE (Inl e) h = h" "catchE (Inr x) h = x"
  by (simp_all add: catchE_def)

text \<open>\<open>a || b || ...\<close> over tests that may throw: the first true test or exception decides.\<close>

fun any_js :: "bool js list \<Rightarrow> bool js" where
  "any_js [] = Inr False"
| "any_js (m # ms) = bindE m (\<lambda>b. if b then Inr True else any_js ms)"

text \<open>\<open>a && b && ...\<close> over tests that may throw.\<close>

definition all_js :: "bool js list \<Rightarrow> bool js" where
  "all_js ms = bindE (any_js (map (\<lambda>m. bindE m (\<lambda>b. Inr (\<not> b))) ms)) (\<lambda>b. Inr (\<not> b))"

lemma all_js_simps:
  "all_js [] = Inr True"
  "all_js (m # ms) = bindE m (\<lambda>b. if b then all_js ms else Inr False)"
  by (auto simp: all_js_def bindE_def split: sum.splits)

lemma any_js_False: "any_js ms = Inr False \<longleftrightarrow> (\<forall>m \<in> set ms. m = Inr False)"
  by (induction ms) (auto simp: bindE_Inr_iff split: if_splits)

declare any_js.simps [simp del]

section \<open>Accumulated error messages\<close>

text \<open>\<open>if (b) errors.push(e)\<close>: the messages a statement adds.\<close>

definition chk :: "bool \<Rightarrow> string \<Rightarrow> string list" where
  "chk b e = (if b then [e] else [])"

lemma chk_simps [simp, js_simps]: "chk True e = [e]" "chk False e = []"
  by (simp_all add: chk_def)

lemma chk_Nil_iff [simp]: "chk b e = [] \<longleftrightarrow> \<not> b"
  by (simp add: chk_def)

text \<open>The same for a test that may throw, and statements in sequence.\<close>

definition chkE :: "bool js \<Rightarrow> string \<Rightarrow> string list js" where
  "chkE m e = bindE m (\<lambda>b. Inr (chk b e))"

definition collectE :: "string list js list \<Rightarrow> string list js" where
  "collectE ms = bindE (mapE (\<lambda>m. m) ms) (\<lambda>ess. Inr (concat ess))"

lemma chkE_Nil_iff: "chkE m e = Inr [] \<longleftrightarrow> m = Inr False"
  by (cases m) (auto simp: chkE_def)

lemma collectE_Nil_iff: "collectE ms = Inr [] \<longleftrightarrow> (\<forall>m \<in> set ms. m = Inr [])"
proof (induction ms)
  case (Cons m ms)
  then show ?case by (cases m; cases "mapE (\<lambda>m. m) ms") (auto simp: collectE_def)
qed (simp add: collectE_def)

text \<open>\<open>xs.forEach((x, index) => errors.push(...f(index, x)))\<close>\<close>

definition each_indexed :: "(nat \<Rightarrow> 'a \<Rightarrow> string list) \<Rightarrow> 'a list \<Rightarrow> string list" where
  "each_indexed f xs = concat (map (\<lambda>(i, x). f i x) (enumerate 0 xs))"

lemma each_indexed_Nil_iff:
  "each_indexed f xs = [] \<longleftrightarrow> (\<forall>i < length xs. f i (xs ! i) = [])"
proof -
  have "(\<forall>p \<in> set (enumerate 0 xs). f (fst p) (snd p) = []) \<longleftrightarrow>
      (\<forall>i < length xs. f i (xs ! i) = [])"
    by (auto simp: Ball_def in_set_enumerate_eq)
  then show ?thesis by (simp add: each_indexed_def case_prod_unfold)
qed

text \<open>Insertion-ordered \<open>Set\<close>: the first occurrence of each element, in order.\<close>

fun js_set :: "'a list \<Rightarrow> 'a list" where
  "js_set [] = []"
| "js_set (x # xs) = x # filter (\<lambda>y. y \<noteq> x) (js_set xs)"

lemma set_js_set [simp]: "set (js_set xs) = set xs"
  by (induction xs) auto

lemma distinct_js_set [simp]: "distinct (js_set xs)"
  by (induction xs) auto

lemma js_set_distinct: "distinct xs \<Longrightarrow> js_set xs = xs"
  by (induction xs) (auto simp: filter_id_conv)

lemma length_js_set_le: "length (js_set xs) \<le> length xs"
  by (induction xs) (auto intro: order_trans [OF length_filter_le])

lemma length_js_set_iff: "length (js_set xs) = length xs \<longleftrightarrow> distinct xs"
proof (induction xs)
  case (Cons x xs)
  show ?case
  proof (cases "x \<in> set xs")
    case True
    then have "length (filter (\<lambda>y. y \<noteq> x) (js_set xs)) < length (js_set xs)"
      by (intro length_filter_less [of x]) auto
    with True show ?thesis using length_js_set_le [of xs] by simp
  next
    case False
    then have "filter (\<lambda>y. y \<noteq> x) (js_set xs) = js_set xs"
      by (auto simp: filter_id_conv)
    with False Cons show ?thesis by simp
  qed
qed simp

section \<open>Keyed stores\<close>

text \<open>
  A JavaScript \<open>Map\<close> keeps its keys in insertion order; \<open>set\<close> on a present key leaves
  the position unchanged. \<^const>\<open>AList.update\<close> and \<^const>\<open>AList.delete\<close> do exactly
  that on an association list. The components below rely on the following contract only.
\<close>

locale keyed_store =
  fixes lookup :: "'m \<Rightarrow> 'k \<Rightarrow> 'v option"
    and store :: "'k \<Rightarrow> 'v \<Rightarrow> 'm \<Rightarrow> 'm"
    and remove :: "'k \<Rightarrow> 'm \<Rightarrow> 'm"
    and keys :: "'m \<Rightarrow> 'k list"
    and wf :: "'m \<Rightarrow> bool"
  assumes lookup_store: "lookup (store k v m) k' = (if k' = k then Some v else lookup m k')"
    and lookup_remove: "lookup (remove k m) k' = (if k' = k then None else lookup m k')"
    and keys_lookup: "k \<in> set (keys m) \<longleftrightarrow> lookup m k \<noteq> None"
    and keys_distinct: "wf m \<Longrightarrow> distinct (keys m)"
    and wf_store: "wf m \<Longrightarrow> wf (store k v m)"
    and wf_remove: "wf m \<Longrightarrow> wf (remove k m)"
begin

lemma lookup_store_same [simp]: "lookup (store k v m) k = Some v"
  by (simp add: lookup_store)

lemma lookup_store_other: "k' \<noteq> k \<Longrightarrow> lookup (store k v m) k' = lookup m k'"
  by (simp add: lookup_store)

lemma lookup_remove_same [simp]: "lookup (remove k m) k = None"
  by (simp add: lookup_remove)

lemma lookup_remove_other: "k' \<noteq> k \<Longrightarrow> lookup (remove k m) k' = lookup m k'"
  by (simp add: lookup_remove)

lemma size_keys: "wf m \<Longrightarrow> length (keys m) = card {k. lookup m k \<noteq> None}"
  using distinct_card [OF keys_distinct, of m]
  by (metis (mono_tags, lifting) Collect_cong Collect_mem_eq keys_lookup)

lemma finite_keys: "finite {k. lookup m k \<noteq> None}"
  by (rule finite_subset [OF _ finite_set [of "keys m"]]) (auto simp: keys_lookup)

lemma size_store_new:
  assumes "wf m" and "lookup m k = None"
  shows "length (keys (store k v m)) = Suc (length (keys m))"
proof -
  have "{x. lookup (store k v m) x \<noteq> None} = insert k {x. lookup m x \<noteq> None}"
    by (auto simp: lookup_store)
  then show ?thesis
    using assms finite_keys [of m] by (simp add: size_keys wf_store)
qed

lemma size_store_old:
  assumes "wf m" and "lookup m k \<noteq> None"
  shows "length (keys (store k v m)) = length (keys m)"
proof -
  have "{x. lookup (store k v m) x \<noteq> None} = {x. lookup m x \<noteq> None}"
    using assms(2) by (auto simp: lookup_store)
  then show ?thesis using assms(1) by (simp add: size_keys wf_store)
qed

lemma size_remove_old:
  assumes "wf m" and "lookup m k \<noteq> None"
  shows "Suc (length (keys (remove k m))) = length (keys m)"
proof -
  have "{x. lookup (remove k m) x \<noteq> None} = {x. lookup m x \<noteq> None} - {k}"
    by (auto simp: lookup_remove)
  moreover have "k \<in> {x. lookup m x \<noteq> None}" using assms(2) by simp
  moreover have "Suc (card ({x. lookup m x \<noteq> None} - {k})) = card {x. lookup m x \<noteq> None}"
    by (rule card_Suc_Diff1) (use finite_keys calculation(2) in auto)
  ultimately show ?thesis
    using assms(1) by (metis (no_types) size_keys wf_remove)
qed

end

definition jm_keys :: "('k \<times> 'v) list \<Rightarrow> 'k list" where
  "jm_keys m = map fst m"

definition jm_wf :: "('k \<times> 'v) list \<Rightarrow> bool" where
  "jm_wf m \<longleftrightarrow> distinct (map fst m)"

interpretation jmap: keyed_store map_of AList.update AList.delete jm_keys jm_wf
proof unfold_locales
  fix k k' :: 'a and v :: 'b and m :: "('a \<times> 'b) list"
  show "map_of (AList.update k v m) k' = (if k' = k then Some v else map_of m k')"
    by (simp add: update_conv')
  show "map_of (AList.delete k m) k' = (if k' = k then None else map_of m k')"
    by (simp add: delete_conv')
  show "k \<in> set (jm_keys m) \<longleftrightarrow> map_of m k \<noteq> None"
    by (simp add: jm_keys_def map_of_eq_None_iff)
  show "jm_wf m \<Longrightarrow> distinct (jm_keys m)"
    by (simp add: jm_keys_def jm_wf_def)
  show "jm_wf m \<Longrightarrow> jm_wf (AList.update k v m)"
    by (simp add: jm_wf_def distinct_update)
  show "jm_wf m \<Longrightarrow> jm_wf (AList.delete k m)"
    by (simp add: jm_wf_def distinct_delete)
qed

lemma jm_wf_empty [simp]: "jm_wf []"
  by (simp add: jm_wf_def)

section \<open>Machines driven by events\<close>

text \<open>
  A component with a step function and a predicate every step keeps. What holds of one step
  holds of every run.
\<close>

locale guarded_machine =
  fixes step :: "'e \<Rightarrow> 's \<Rightarrow> 's"
    and ok :: "'e \<Rightarrow> bool"
    and inv :: "'s \<Rightarrow> bool"
  assumes step_inv: "ok e \<Longrightarrow> inv s \<Longrightarrow> inv (step e s)"
begin

lemma run_inv: "list_all ok es \<Longrightarrow> inv s \<Longrightarrow> inv (fold step es s)"
  by (induction es arbitrary: s) (auto intro: step_inv)

text \<open>A measure no step increases is bounded by its first value on every run.\<close>

lemma run_antimono:
  fixes f :: "'s \<Rightarrow> 'o::preorder"
  assumes "\<And>e s. ok e \<Longrightarrow> inv s \<Longrightarrow> f (step e s) \<le> f s"
  shows "list_all ok es \<Longrightarrow> inv s \<Longrightarrow> f (fold step es s) \<le> f s"
proof (induction es arbitrary: s)
  case (Cons e es)
  then have "f (fold step es (step e s)) \<le> f (step e s)" by (auto intro: step_inv)
  also have "\<dots> \<le> f s" using Cons.prems assms by simp
  finally show ?case by simp
qed simp

end

section \<open>Decimal notation\<close>

fun dec_digits :: "nat \<Rightarrow> string" where
  "dec_digits n =
     (if n < 10 then [char_of (48 + n)] else dec_digits (n div 10) @ [char_of (48 + n mod 10)])"

declare dec_digits.simps [simp del]

text \<open>\<open>String(i)\<close> for an integer.\<close>

definition int_to_string :: "int \<Rightarrow> string" where
  "int_to_string i = (if i < 0 then ''-'' @ dec_digits (nat (- i)) else dec_digits (nat i))"

definition is_digit :: "char \<Rightarrow> bool" where
  "is_digit c \<longleftrightarrow> 48 \<le> (of_char c :: nat) \<and> (of_char c :: nat) \<le> 57"

fun dec_value :: "nat \<Rightarrow> string \<Rightarrow> nat" where
  "dec_value acc [] = acc"
| "dec_value acc (c # cs) = dec_value (10 * acc + (of_char c - 48)) cs"

lemma dec_value_append: "dec_value acc (s @ t) = dec_value (dec_value acc s) t"
  by (induction s arbitrary: acc) auto

lemma of_char_digit: "n < 10 \<Longrightarrow> (of_char (char_of (48 + n) :: char) :: nat) = 48 + n"
  by simp

lemma dec_digits_nonempty [simp]: "dec_digits n \<noteq> []"
  by (subst dec_digits.simps) simp

lemma dec_digits_all: "\<forall>c \<in> set (dec_digits n). is_digit c"
proof (induction n rule: dec_digits.induct)
  case (1 n)
  show ?case
  proof (cases "n < 10")
    case True
    then show ?thesis by (subst dec_digits.simps) (simp add: is_digit_def)
  next
    case False
    have "is_digit (char_of (48 + n mod 10))" by (simp add: is_digit_def)
    with False 1 show ?thesis by (subst dec_digits.simps) auto
  qed
qed

lemma dec_value_digits: "dec_value 0 (dec_digits n) = n"
proof (induction n rule: dec_digits.induct)
  case (1 n)
  show ?case
  proof (cases "n < 10")
    case True
    then show ?thesis by (subst dec_digits.simps) simp
  next
    case False
    then show ?thesis using 1 by (subst dec_digits.simps) (simp add: dec_value_append)
  qed
qed

lemma dec_digits_inj: "dec_digits m = dec_digits n \<longleftrightarrow> m = n"
  by (metis dec_value_digits)

section \<open>Strictly sorted lists\<close>

text \<open>
  The loops of the source that walk adjacent pairs and stop at the first pair out of order:
  the outcome is whether the list is strictly increasing.
\<close>

lemma strict_sorted_nth_iff:
  fixes xs :: "'a::linorder list"
  shows "sorted_wrt (<) xs \<longleftrightarrow> (\<forall>i. Suc i < length xs \<longrightarrow> xs ! i < xs ! Suc i)"
  by (simp add: sorted_wrt_iff_nth_Suc_transp)

lemma strict_sorted_distinct:
  fixes xs :: "'a::linorder list"
  shows "sorted_wrt (<) xs \<Longrightarrow> distinct xs"
  using strict_sorted_iff by blast

lemma strict_sorted_sort_id:
  fixes xs :: "'a::linorder list"
  shows "sorted_wrt (<) xs \<Longrightarrow> sort xs = xs"
  by (simp add: sorted_sort_id strict_sorted_imp_sorted)

lemma sort_key_sorted: "sorted (map f xs) \<Longrightarrow> sort_key f xs = xs"
  by (induction xs) (simp_all add: insort_is_Cons)

end
