(* ===== verification/JsValue.thy ===== *)
theory JsValue
  imports Prelude
begin

text \<open>
  The JavaScript values the contract validators inspect, the primitives of the language they
  use on them (property access, strict equality, truthiness, \<open>Number.isSafeInteger\<close>,
  \<open>trim\<close>, \<open>path.posix.normalize\<close>, \<open>Date\<close>), and the two functions of the host that
  stay parameters: Unicode normalisation and SHA-256.

  Strings are well-formed Unicode text held as its UTF-8 bytes, one byte per \<^typ>\<open>char\<close>:
  \<open>Buffer.byteLength(s, 'utf8')\<close> is \<^const>\<open>length\<close>, \<open>Buffer.compare\<close> of two encodings
  is the lexicographic order of \<^typ>\<open>string\<close>, and the round trip through a \<open>Buffer\<close> is
  the identity. A document is a tree (it comes out of \<open>JSON.parse\<close> or an object literal), so
  two array or object positions are never the same reference.
\<close>

section \<open>Values\<close>

text \<open>
  Numbers: \<open>JInt i\<close> is an integral double other than negative zero, \<open>JFloat m k\<close> the
  non-integral double m / 2 ^ k. An object lists its own properties in \<open>Object.keys\<close> order.
\<close>

datatype jsval =
    JUndef
  | JNull
  | JBool bool
  | JInt int
  | JNegZero
  | JFloat int nat
  | JNaN
  | JInf bool
  | JStr string
  | JArr "jsval list"
  | JObj "(string \<times> jsval) list"

text \<open>\<open>String.prototype.length\<close> counts UTF-16 units: one for each character of the basic plane,
  two for a four-byte character, none for a continuation byte.\<close>

definition utf16_units :: "char \<Rightarrow> int" where
  "utf16_units c =
     (let b = (of_char c :: nat) in if 128 \<le> b \<and> b < 192 then 0 else if 240 \<le> b then 2 else 1)"

definition utf16_length :: "string \<Rightarrow> int" where
  "utf16_length s = sum_list (map utf16_units s)"

text \<open>\<open>v?.k\<close>: undefined on a missing property and on \<open>null\<close> or \<open>undefined\<close>.\<close>

definition opt_prop :: "jsval \<Rightarrow> string \<Rightarrow> jsval" where
  "opt_prop v k =
     (case v of
        JObj kvs \<Rightarrow> (case map_of kvs k of None \<Rightarrow> JUndef | Some x \<Rightarrow> x)
      | JArr xs \<Rightarrow> if k = ''length'' then JInt (int (length xs)) else JUndef
      | JStr s \<Rightarrow> if k = ''length'' then JInt (utf16_length s) else JUndef
      | _ \<Rightarrow> JUndef)"

text \<open>\<open>v.k\<close>: a \<open>TypeError\<close> on \<open>null\<close> and \<open>undefined\<close>.\<close>

definition js_prop :: "jsval \<Rightarrow> string \<Rightarrow> jsval js" where
  "js_prop v k = (if v = JNull \<or> v = JUndef then Inl (TypeErr ''cannot read properties'') else Inr (opt_prop v k))"

text \<open>\<open>===\<close>: by value on primitives; two array or object positions differ.\<close>

definition strict_eq :: "jsval \<Rightarrow> jsval \<Rightarrow> bool" where
  "strict_eq a b =
     (case a of
        JNaN \<Rightarrow> False
      | JArr _ \<Rightarrow> False
      | JObj _ \<Rightarrow> False
      | JNegZero \<Rightarrow> b = JNegZero \<or> b = JInt 0
      | JInt i \<Rightarrow> b = JInt i \<or> (i = 0 \<and> b = JNegZero)
      | _ \<Rightarrow> a = b)"

definition truthy :: "jsval \<Rightarrow> bool" where
  "truthy v =
     (case v of
        JUndef \<Rightarrow> False
      | JNull \<Rightarrow> False
      | JBool b \<Rightarrow> b
      | JInt i \<Rightarrow> i \<noteq> 0
      | JNegZero \<Rightarrow> False
      | JNaN \<Rightarrow> False
      | JStr s \<Rightarrow> s \<noteq> []
      | _ \<Rightarrow> True)"

definition is_array :: "jsval \<Rightarrow> bool" where
  "is_array v = (case v of JArr _ \<Rightarrow> True | _ \<Rightarrow> False)"

definition elements :: "jsval \<Rightarrow> jsval list" where
  "elements v = (case v of JArr xs \<Rightarrow> xs | _ \<Rightarrow> [])"

definition is_string :: "jsval \<Rightarrow> bool" where
  "is_string v = (case v of JStr _ \<Rightarrow> True | _ \<Rightarrow> False)"

definition str_of :: "jsval \<Rightarrow> string" where
  "str_of v = (case v of JStr s \<Rightarrow> s | _ \<Rightarrow> [])"

definition is_bool :: "jsval \<Rightarrow> bool" where
  "is_bool v = (case v of JBool _ \<Rightarrow> True | _ \<Rightarrow> False)"

text \<open>A test applied to a value that has to be a string first: \<open>typeof v === 'string' && p(v)\<close>.\<close>

definition str_sat :: "(string \<Rightarrow> bool) \<Rightarrow> jsval \<Rightarrow> bool" where
  "str_sat p v = (case v of JStr s \<Rightarrow> p s | _ \<Rightarrow> False)"

text \<open>\<open>['a', 'b'].includes(v)\<close>, and \<open>new Set(['a', 'b']).has(v)\<close>.\<close>

definition str_in :: "jsval \<Rightarrow> string list \<Rightarrow> bool" where
  "str_in v xs = str_sat (\<lambda>s. s \<in> set xs) v"

definition MAX_SAFE_INTEGER :: int where
  "MAX_SAFE_INTEGER = 9007199254740991"

text \<open>\<open>Number.isSafeInteger(v)\<close> and the value it lets through.\<close>

definition safe_int :: "jsval \<Rightarrow> int option" where
  "safe_int v =
     (case v of
        JInt i \<Rightarrow> if - MAX_SAFE_INTEGER \<le> i \<and> i \<le> MAX_SAFE_INTEGER then Some i else None
      | JNegZero \<Rightarrow> Some 0
      | _ \<Rightarrow> None)"

definition int_ge :: "jsval \<Rightarrow> int \<Rightarrow> bool" where
  "int_ge v lo = (case safe_int v of None \<Rightarrow> False | Some i \<Rightarrow> lo \<le> i)"

definition int_in :: "jsval \<Rightarrow> int \<Rightarrow> int \<Rightarrow> bool" where
  "int_in v lo hi = (case safe_int v of None \<Rightarrow> False | Some i \<Rightarrow> lo \<le> i \<and> i \<le> hi)"

text \<open>\<open>v?.length > n\<close>, \<open>v?.length < n\<close> and \<open>v?.length === n\<close>: a comparison with a value
  that is not a number is false.\<close>

definition length_sat :: "(int \<Rightarrow> bool) \<Rightarrow> jsval \<Rightarrow> bool" where
  "length_sat p v = (case opt_prop v ''length'' of JInt i \<Rightarrow> p i | JNegZero \<Rightarrow> p 0 | _ \<Rightarrow> False)"

lemma opt_prop_simps [simp]:
  "opt_prop JUndef k = JUndef" "opt_prop JNull k = JUndef" "opt_prop (JBool b) k = JUndef"
  "opt_prop (JInt i) k = JUndef"
  "opt_prop (JObj kvs) k = (case map_of kvs k of None \<Rightarrow> JUndef | Some x \<Rightarrow> x)"
  "opt_prop (JArr xs) ''length'' = JInt (int (length xs))"
  "opt_prop (JStr s) ''length'' = JInt (utf16_length s)"
  by (simp_all add: opt_prop_def)

lemma str_sat_iff: "str_sat p v \<longleftrightarrow> (\<exists>s. v = JStr s \<and> p s)"
  by (cases v) (auto simp: str_sat_def)

lemma strict_eq_JStr [simp]:
  "strict_eq (JStr s) v \<longleftrightarrow> v = JStr s"
  "strict_eq v (JStr s) \<longleftrightarrow> v = JStr s"
  by (auto simp: strict_eq_def split: jsval.splits)

lemma strict_eq_sym: "strict_eq a b \<longleftrightarrow> strict_eq b a"
  by (auto simp: strict_eq_def split: jsval.splits)

lemma strict_eq_JNull [simp]:
  "strict_eq JNull v \<longleftrightarrow> v = JNull"
  "strict_eq v JNull \<longleftrightarrow> v = JNull"
  by (auto simp: strict_eq_def split: jsval.splits)

lemma strict_eq_JBool [simp]:
  "strict_eq (JBool b) v \<longleftrightarrow> v = JBool b"
  "strict_eq v (JBool b) \<longleftrightarrow> v = JBool b"
  by (auto simp: strict_eq_def split: jsval.splits)

lemma int_in_iff: "int_in v lo hi \<longleftrightarrow> (\<exists>i. safe_int v = Some i \<and> lo \<le> i \<and> i \<le> hi)"
  by (simp add: int_in_def split: option.splits)

lemma int_ge_iff: "int_ge v lo \<longleftrightarrow> (\<exists>i. safe_int v = Some i \<and> lo \<le> i)"
  by (simp add: int_ge_def split: option.splits)

lemma is_array_iff: "is_array v \<longleftrightarrow> (\<exists>xs. v = JArr xs)"
  by (cases v) (auto simp: is_array_def)

lemma elements_JArr [simp]: "elements (JArr xs) = xs"
  by (simp add: elements_def)

lemma str_of_JStr [simp]: "str_of (JStr s) = s"
  by (simp add: str_of_def)

section \<open>Text\<close>

text \<open>White space of \<open>String.prototype.trim\<close> at the front of a UTF-8 text, dropped.\<close>

definition byte :: "nat \<Rightarrow> char" where
  "byte n = char_of n"

definition ascii_ws :: "char \<Rightarrow> bool" where
  "ascii_ws c = (let b = (of_char c :: nat) in (9 \<le> b \<and> b \<le> 13) \<or> b = 32)"

definition ws2 :: "char \<Rightarrow> char \<Rightarrow> bool" where
  "ws2 a b = (a = byte 194 \<and> b = byte 160)"

definition ws3 :: "char \<Rightarrow> char \<Rightarrow> char \<Rightarrow> bool" where
  "ws3 a b c =
     (let n = (of_char c :: nat) in
        (a = byte 225 \<and> b = byte 154 \<and> n = 128)
      \<or> (a = byte 226 \<and> b = byte 128 \<and> ((128 \<le> n \<and> n \<le> 138) \<or> n = 168 \<or> n = 169 \<or> n = 175))
      \<or> (a = byte 226 \<and> b = byte 129 \<and> n = 159)
      \<or> (a = byte 227 \<and> b = byte 128 \<and> n = 128)
      \<or> (a = byte 239 \<and> b = byte 187 \<and> n = 191))"

text \<open>\<open>s.trim().length > 0\<close>: something is left once the leading white space is gone.\<close>

fun trim_nonempty :: "string \<Rightarrow> bool" where
  "trim_nonempty [] = False"
| "trim_nonempty (a # s) =
     (if ascii_ws a then trim_nonempty s
      else (case s of
              b # c # s' \<Rightarrow>
                if ws2 a b then trim_nonempty (c # s')
                else if ws3 a b c then trim_nonempty s'
                else True
            | [b] \<Rightarrow> \<not> ws2 a b
            | [] \<Rightarrow> True))"

text \<open>\<open>s.split('/')\<close>\<close>

fun split_at :: "char \<Rightarrow> string \<Rightarrow> string list" where
  "split_at d [] = [[]]"
| "split_at d (c # s) =
     (if c = d then [] # split_at d s
      else (case split_at d s of [] \<Rightarrow> [[c]] | w # ws \<Rightarrow> (c # w) # ws))"

text \<open>\<open>xs.join('/')\<close>\<close>

fun join_with :: "string \<Rightarrow> string list \<Rightarrow> string" where
  "join_with d [] = []"
| "join_with d [w] = w"
| "join_with d (w # v # ws) = w @ d @ join_with d (v # ws)"

lemma split_at_nonempty [simp]: "split_at d s \<noteq> []"
  by (induction s) (auto split: list.splits)

lemma split_at_no_sep: "w \<in> set (split_at d s) \<Longrightarrow> d \<notin> set w"
  by (induction s arbitrary: w) (auto split: if_splits list.splits)

lemma join_Cons: "ws \<noteq> [] \<Longrightarrow> join_with d (w # ws) = w @ d @ join_with d ws"
  by (cases ws) auto

lemma join_split: "join_with [d] (split_at d s) = s"
proof (induction s)
  case (Cons c s)
  obtain w ws where ws: "split_at d s = w # ws"
    by (cases "split_at d s") auto
  with Cons show ?case by (cases ws) (auto split: if_splits)
qed simp

text \<open>\<open>path.posix.normalize\<close>: \<open>.\<close> and empty segments go, \<open>..\<close> removes the segment before it.\<close>

fun normalize_segments :: "bool \<Rightarrow> string list \<Rightarrow> string list \<Rightarrow> string list" where
  "normalize_segments up acc [] = rev acc"
| "normalize_segments up acc (s # ss) =
     (if s = [] \<or> s = ''.'' then normalize_segments up acc ss
      else if s = ''..'' then
        (case acc of
           [] \<Rightarrow> if up then normalize_segments up [''..''] ss else normalize_segments up [] ss
         | a # acc' \<Rightarrow>
             if a = ''..'' then (if up then normalize_segments up (''..'' # acc) ss
                                 else normalize_segments up acc ss)
             else normalize_segments up acc' ss)
      else normalize_segments up (s # acc) ss)"

definition posix_isAbsolute :: "string \<Rightarrow> bool" where
  "posix_isAbsolute p = (case p of [] \<Rightarrow> False | c # _ \<Rightarrow> c = CHR ''/'')"

definition ends_with_slash :: "string \<Rightarrow> bool" where
  "ends_with_slash p = (p \<noteq> [] \<and> last p = CHR ''/'')"

definition posix_normalize :: "string \<Rightarrow> string" where
  "posix_normalize p =
     (if p = [] then ''.''
      else
        let abs = posix_isAbsolute p;
            body = join_with ''/'' (normalize_segments (\<not> abs) [] (split_at (CHR ''/'') p))
        in if body = [] then (if abs then ''/'' else if ends_with_slash p then ''./'' else ''.'')
           else (if abs then ''/'' else []) @ body @ (if ends_with_slash p then ''/'' else []))"

lemma normalize_segments_id:
  assumes "\<forall>s \<in> set ss. s \<noteq> [] \<and> s \<noteq> ''.'' \<and> s \<noteq> ''..''"
  shows "normalize_segments up acc ss = rev acc @ ss"
  using assms by (induction ss arbitrary: acc) auto

lemma split_at_append: "split_at d (s @ d # t) = split_at d s @ split_at d t"
proof (induction s)
  case (Cons c s)
  then show ?case by (cases "split_at d s") (auto simp: neq_Nil_conv)
qed simp

lemma split_at_word: "d \<notin> set w \<Longrightarrow> split_at d w = [w]"
  by (induction w) auto

lemma split_join: "ws \<noteq> [] \<Longrightarrow> \<forall>w \<in> set ws. d \<notin> set w \<Longrightarrow> split_at d (join_with [d] ws) = ws"
proof (induction ws)
  case (Cons w ws)
  then show ?case
    by (cases ws) (simp_all add: split_at_word split_at_append)
qed simp

text \<open>What \<open>normalize\<close> leaves of an absolute path: proper segments of the path.\<close>

definition proper_segment :: "string \<Rightarrow> bool" where
  "proper_segment w \<longleftrightarrow> w \<noteq> [] \<and> w \<noteq> ''.'' \<and> w \<noteq> ''..''"

lemma normalize_step:
  "\<exists>acc'. normalize_segments up acc (s # ss) = normalize_segments up acc' ss
     \<and> set acc' \<subseteq> insert s (set acc) \<and> (\<not> up \<longrightarrow> list_all proper_segment acc \<longrightarrow> list_all proper_segment acc')"
proof -
  consider "s = [] \<or> s = ''.''" | "s = ''..''" | "proper_segment s"
    by (auto simp: proper_segment_def)
  then show ?thesis
  proof cases
    case 1
    then show ?thesis by auto
  next
    case 2
    show ?thesis
    proof (cases acc)
      case Nil
      with 2 show ?thesis by (intro exI [of _ "if up then [''..''] else []"]) simp
    next
      case (Cons a acc')
      with 2 show ?thesis
        by (intro exI [of _ "if a = ''..'' then (if up then ''..'' # acc else acc) else acc'"]) auto
    qed
  next
    case 3
    then show ?thesis by (intro exI [of _ "s # acc"]) (auto simp: proper_segment_def)
  qed
qed

lemma normalize_segments_from:
  "w \<in> set (normalize_segments up acc ss) \<Longrightarrow> w \<in> set acc \<or> w \<in> set ss"
proof (induction ss arbitrary: acc)
  case (Cons s ss)
  obtain acc' where "normalize_segments up acc (s # ss) = normalize_segments up acc' ss"
      "set acc' \<subseteq> insert s (set acc)"
    using normalize_step by blast
  with Cons show ?case by (metis insert_iff list.set_intros(1,2) subsetD)
qed simp

lemma normalize_segments_proper:
  "list_all proper_segment acc \<Longrightarrow> list_all proper_segment (normalize_segments False acc ss)"
proof (induction ss arbitrary: acc)
  case (Cons s ss)
  obtain acc' where "normalize_segments False acc (s # ss) = normalize_segments False acc' ss"
      "list_all proper_segment acc'"
    using normalize_step [of False acc s ss] Cons.prems by blast
  with Cons.IH show ?case by simp
qed simp

text \<open>The segments of a canonical absolute path other than the root, and why appending proper
  segments stays below it.\<close>

lemma absolute_segments:
  assumes "posix_isAbsolute p" and "posix_normalize p = p" and "p \<noteq> ''/''" and "\<not> ends_with_slash p"
  obtains ws where "p = CHR ''/'' # join_with ''/'' ws" and "ws \<noteq> []"
    and "split_at (CHR ''/'') p = [] # ws" and "list_all proper_segment ws"
proof -
  let ?ws = "normalize_segments False [] (split_at (CHR ''/'') p)"
  have ne: "p \<noteq> []" using assms(1) by (auto simp: posix_isAbsolute_def)
  have p: "p = CHR ''/'' # join_with ''/'' ?ws"
    using assms ne by (auto simp: posix_normalize_def Let_def split: if_splits)
  then have ws: "?ws \<noteq> []" using assms(3) by (metis join_with.simps(1))
  have nosep: "\<forall>w \<in> set ?ws. CHR ''/'' \<notin> set w"
    using normalize_segments_from [of _ False "[]" "split_at (CHR ''/'') p"]
      split_at_no_sep [of _ "CHR ''/''" p] by fastforce
  have "split_at (CHR ''/'') p = [] # split_at (CHR ''/'') (join_with ''/'' ?ws)"
    by (subst p) simp
  also have "\<dots> = [] # ?ws" using split_join [OF ws nosep] by simp
  finally show thesis
    using that [OF p ws] normalize_segments_proper [of "[]"] by (simp add: list_all_iff)
qed

lemma join_append:
  "ws \<noteq> [] \<Longrightarrow> vs \<noteq> [] \<Longrightarrow> join_with d (ws @ vs) = join_with d ws @ d @ join_with d vs"
proof (induction ws)
  case (Cons w ws)
  then show ?case by (cases ws) (simp_all add: join_Cons)
qed simp

lemma normalize_below:
  assumes root: "posix_isAbsolute root" "posix_normalize root = root" "root \<noteq> ''/''" "\<not> ends_with_slash root"
    and rel: "list_all proper_segment (split_at (CHR ''/'') p)" "\<not> ends_with_slash p"
  shows "posix_normalize (root @ ''/'' @ p) = root @ ''/'' @ p"
proof -
  obtain ws where ws: "root = CHR ''/'' # join_with ''/'' ws" "ws \<noteq> []"
      "split_at (CHR ''/'') root = [] # ws" "list_all proper_segment ws"
    using absolute_segments [OF root] by blast
  let ?q = "root @ ''/'' @ p" and ?ps = "split_at (CHR ''/'') p"
  have "split_at (CHR ''/'') ?q = [] # ws @ ?ps" using ws by (simp add: split_at_append)
  moreover have "normalize_segments False [] (ws @ ?ps) = ws @ ?ps"
    using ws(4) rel(1) normalize_segments_id [of "ws @ ?ps" False "[]"]
    by (auto simp: list_all_iff proper_segment_def)
  moreover have "join_with ''/'' (ws @ ?ps) = join_with ''/'' ws @ ''/'' @ p"
    using ws(2) join_split [of "CHR ''/''" p] by (simp add: join_append)
  moreover have "posix_isAbsolute ?q" using root(1) by (cases root) (auto simp: posix_isAbsolute_def)
  moreover have "\<not> ends_with_slash ?q"
    using rel by (cases "p = []") (auto simp: ends_with_slash_def proper_segment_def)
  ultimately show ?thesis using ws(1) by (simp add: posix_normalize_def)
qed

section \<open>Host functions\<close>

text \<open>
  \<open>nfc\<close> is \<open>String.prototype.normalize('NFC')\<close>, \<open>to_lower\<close> is \<open>toLowerCase\<close> and
  \<open>word_runs\<close> is \<open>match(/[\p{L}\p{N}_]+/gu)\<close> (empty for no match), all three tables of the
  Unicode standard; \<open>sha256\<close> is \<open>createHash('sha256').update(text, 'utf8').digest('hex')\<close> of
  \<open>node:crypto\<close>. They are parameters of every definition that reaches them. \<open>host_ok\<close> states what is documented of
  them: normalisation is idempotent and leaves ASCII alone, a digest is 64 lower-case
  hexadecimal digits.
\<close>

record js_env =
  nfc :: "string \<Rightarrow> string"
  sha256 :: "string \<Rightarrow> string"
  to_lower :: "string \<Rightarrow> string"
  word_runs :: "string \<Rightarrow> string list"

definition is_hex :: "char \<Rightarrow> bool" where
  "is_hex c = (let b = (of_char c :: nat) in (48 \<le> b \<and> b \<le> 57) \<or> (97 \<le> b \<and> b \<le> 102))"

definition is_ascii :: "string \<Rightarrow> bool" where
  "is_ascii s = list_all (\<lambda>c. (of_char c :: nat) < 128) s"

text \<open>\<open>/^sha256:[0-9a-f]{64}$/\<close> and its siblings: a fixed prefix and \<open>n\<close> hexadecimal digits.\<close>

definition hex_tail :: "string \<Rightarrow> nat \<Rightarrow> string \<Rightarrow> bool" where
  "hex_tail pre n s =
     (take (length pre) s = pre \<and> length (drop (length pre) s) = n
      \<and> list_all is_hex (drop (length pre) s))"

lemma hex_tail_append: "hex_tail pre n (pre @ t) \<longleftrightarrow> length t = n \<and> list_all is_hex t"
  by (auto simp: hex_tail_def)

definition host_ok :: "js_env \<Rightarrow> bool" where
  "host_ok E \<longleftrightarrow>
     (\<forall>s. nfc E (nfc E s) = nfc E s) \<and> (\<forall>s. is_ascii s \<longrightarrow> nfc E s = s)
     \<and> (\<forall>s. length (sha256 E s) = 64 \<and> list_all is_hex (sha256 E s))"

text \<open>A host to evaluate ASCII documents on; the length of the text stands in the last digit.\<close>

definition ascii_lower :: "char \<Rightarrow> char" where
  "ascii_lower c = (let b = (of_char c :: nat) in if 65 \<le> b \<and> b \<le> 90 then char_of (b + 32) else c)"

definition ascii_word :: "char \<Rightarrow> bool" where
  "ascii_word c =
     (let b = (of_char c :: nat)
      in (48 \<le> b \<and> b \<le> 57) \<or> (65 \<le> b \<and> b \<le> 90) \<or> (97 \<le> b \<and> b \<le> 122) \<or> b = 95)"

fun ascii_words :: "string \<Rightarrow> string list" where
  "ascii_words [] = []"
| "ascii_words (c # s) =
     (if \<not> ascii_word c then ascii_words s
      else (case s of
              d # _ \<Rightarrow> if ascii_word d
                then (case ascii_words s of [] \<Rightarrow> [[c]] | w # ws \<Rightarrow> (c # w) # ws) else [c] # ascii_words s
            | [] \<Rightarrow> [[c]]))"

definition ascii_env :: js_env where
  "ascii_env =
     \<lparr>nfc = (\<lambda>s. s),
      sha256 = (\<lambda>s. replicate 63 CHR ''0'' @ [''0123456789abcdef'' ! (length s mod 16)]),
      to_lower = map ascii_lower, word_runs = ascii_words\<rparr>"

lemma zeros63: "replicate 63 CHR ''0'' = ''000000000000000000000000000000000000000000000000000000000000000''"
  by (simp add: numeral_eq_Suc)

text \<open>Evaluation rules for the sample host: the length modulo 16 is found by dropping 16 at a time.\<close>

fun hex_of_length :: "string \<Rightarrow> char" where
  "hex_of_length (_ # _ # _ # _ # _ # _ # _ # _ # _ # _ # _ # _ # _ # _ # _ # _ # s) = hex_of_length s"
| "hex_of_length s = ''0123456789abcdef'' ! length s"

lemma hex_of_length: "hex_of_length s = ''0123456789abcdef'' ! (length s mod 16)"
  by (induction s rule: hex_of_length.induct) simp_all

lemma ascii_env_code [code]:
  "ascii_env =
     \<lparr>nfc = (\<lambda>s. s),
      sha256 = (\<lambda>s. ''000000000000000000000000000000000000000000000000000000000000000'' @ [hex_of_length s]),
      to_lower = map ascii_lower, word_runs = ascii_words\<rparr>"
  by (simp add: ascii_env_def hex_of_length flip: zeros63)

lemma host_ok_ascii_env: "host_ok ascii_env"
proof -
  have "list_all is_hex ''0123456789abcdef''" by (simp add: is_hex_def)
  then have "is_hex (''0123456789abcdef'' ! (n mod 16))" for n :: nat
    unfolding list_all_length by simp
  moreover have "is_hex CHR ''0''" by (simp add: is_hex_def)
  ultimately show ?thesis
    by (simp add: host_ok_def ascii_env_def list_all_iff)
qed

section \<open>Dates\<close>

text \<open>
  Days since 1970-01-01 of a proleptic Gregorian date and back, \<open>Date.parse\<close> on the ISO
  layouts that \<open>toISOString\<close> prints, and \<open>toISOString\<close> itself. A field out of its range is
  carried over by the day count, and is then caught because the text printed back differs: only
  the texts \<open>toISOString\<close> prints are canonical.
\<close>

definition days_from_civil :: "int \<Rightarrow> int \<Rightarrow> int \<Rightarrow> int" where
  "days_from_civil y m d =
     (let y' = (if m \<le> 2 then y - 1 else y);
          era = y' div 400;
          yoe = y' - era * 400;
          doy = (153 * (if m > 2 then m - 3 else m + 9) + 2) div 5 + d - 1;
          doe = yoe * 365 + yoe div 4 - yoe div 100 + doy
      in era * 146097 + doe - 719468)"

definition civil_from_days :: "int \<Rightarrow> int \<times> int \<times> int" where
  "civil_from_days z0 =
     (let z = z0 + 719468;
          era = z div 146097;
          doe = z - era * 146097;
          yoe = (doe - doe div 1460 + doe div 36524 - doe div 146096) div 365;
          doy = doe - (365 * yoe + yoe div 4 - yoe div 100);
          mp = (5 * doy + 2) div 153;
          d = doy - (153 * mp + 2) div 5 + 1;
          m = (if mp < 10 then mp + 3 else mp - 9);
          y = yoe + era * 400 + (if m \<le> 2 then 1 else 0)
      in (y, m, d))"

definition pad :: "nat \<Rightarrow> int \<Rightarrow> string" where
  "pad n i = (let s = dec_digits (nat i) in replicate (n - length s) CHR ''0'' @ s)"

definition MAX_TIME :: int where
  "MAX_TIME = 8640000000000000"

definition toISOString :: "int \<Rightarrow> string" where
  "toISOString ms =
     (let days = ms div 86400000; rest = ms mod 86400000; (y, m, d) = civil_from_days days
      in (if 0 \<le> y \<and> y \<le> 9999 then pad 4 y
          else if y < 0 then ''-'' @ pad 6 (- y) else ''+'' @ pad 6 y)
         @ ''-'' @ pad 2 m @ ''-'' @ pad 2 d @ ''T'' @ pad 2 (rest div 3600000)
         @ '':'' @ pad 2 (rest div 60000 mod 60) @ '':'' @ pad 2 (rest div 1000 mod 60)
         @ ''.'' @ pad 3 (rest mod 1000) @ ''Z'')"

definition num_at :: "string \<Rightarrow> nat \<Rightarrow> nat \<Rightarrow> int option" where
  "num_at s i n =
     (let t = take n (drop i s)
      in if length t = n \<and> list_all is_digit t then Some (int (dec_value 0 t)) else None)"

definition parse_fields :: "int \<Rightarrow> string \<Rightarrow> int option" where
  "parse_fields y s =
     (case (num_at s 1 2, num_at s 4 2, num_at s 7 2, num_at s 10 2, num_at s 13 2, num_at s 16 3) of
        (Some mo, Some d, Some h, Some mi, Some sec, Some ms) \<Rightarrow>
          let t = days_from_civil y mo d * 86400000 + h * 3600000 + mi * 60000 + sec * 1000 + ms
          in if - MAX_TIME \<le> t \<and> t \<le> MAX_TIME then Some t else None
      | _ \<Rightarrow> None)"

definition Date_parse :: "string \<Rightarrow> int option" where
  "Date_parse s =
     (case s of
        [] \<Rightarrow> None
      | c # r \<Rightarrow>
          if c = CHR ''+'' \<or> c = CHR ''-'' then
            (case num_at r 0 6 of
               None \<Rightarrow> None
             | Some y \<Rightarrow> parse_fields (if c = CHR ''-'' then - y else y) (drop 6 r))
          else (case num_at s 0 4 of None \<Rightarrow> None | Some y \<Rightarrow> parse_fields y (drop 4 s)))"

text \<open>
  \<open>isCanonicalTimestamp\<close>, written alike in the execution, governance and lifecycle contracts
  and in the session authority: the text parses and prints back as itself.
\<close>

definition isCanonicalTimestamp :: "jsval \<Rightarrow> bool" where
  "isCanonicalTimestamp v =
     str_sat (\<lambda>s. case Date_parse s of None \<Rightarrow> False | Some ms \<Rightarrow> toISOString ms = s) v"

text \<open>\<open>Date.parse(v)\<close> of a canonical timestamp.\<close>

definition time_of :: "jsval \<Rightarrow> int" where
  "time_of v = (case Date_parse (str_of v) of None \<Rightarrow> 0 | Some ms \<Rightarrow> ms)"

lemma isCanonicalTimestampD:
  "isCanonicalTimestamp v \<Longrightarrow> v = JStr (toISOString (time_of v))"
  by (auto simp: isCanonicalTimestamp_def str_sat_iff time_of_def split: option.splits)

lemma time_of_inj:
  assumes "isCanonicalTimestamp v" and "isCanonicalTimestamp w" and "time_of v = time_of w"
  shows "v = w"
  using assms isCanonicalTimestampD by metis

end
