(* ===== verification/M1Contract.thy ===== *)
theory M1Contract
  imports JsValue
begin

text \<open>
  \<open>contracts/m1/shared.js\<close>: the checks every contract of the repository is built from, and
  \<open>contracts/m1/terminal.js\<close>: \<open>classifyTerminal\<close>, the one place that decides whether a
  finished conversation turn may be shown and stored. The lemmas characterise each check and
  show what an accepted terminal guarantees.
\<close>

section \<open>contracts/m1/shared.js\<close>

text \<open>\<open>M1_TERMINAL_STATUS\<close> and \<open>TERMINAL_STATUSES\<close>\<close>

definition TERMINAL_STATUSES :: "string list" where
  "TERMINAL_STATUSES = [''ok'', ''cancelled'', ''timeout'', ''error'']"

definition hasOwn :: "jsval \<Rightarrow> string \<Rightarrow> bool" where
  "hasOwn v k = (case v of JObj kvs \<Rightarrow> k \<in> fst ` set kvs | _ \<Rightarrow> False)"

definition isPlainRecord :: "jsval \<Rightarrow> bool" where
  "isPlainRecord v = (case v of JObj _ \<Rightarrow> True | _ \<Rightarrow> False)"

definition isNonEmptyString :: "jsval \<Rightarrow> bool" where
  "isNonEmptyString v = str_sat trim_nonempty v"

definition alnum :: "char \<Rightarrow> bool" where
  "alnum c = (let b = (of_char c :: nat)
              in (48 \<le> b \<and> b \<le> 57) \<or> (65 \<le> b \<and> b \<le> 90) \<or> (97 \<le> b \<and> b \<le> 122))"

definition upper :: "char \<Rightarrow> bool" where
  "upper c = (let b = (of_char c :: nat) in 65 \<le> b \<and> b \<le> 90)"

text \<open>\<open>IDENTIFIER_PATTERN\<close>: one alphanumeric, then at most 127 of \<open>[A-Za-z0-9._:-]\<close>\<close>

definition ident_char :: "char \<Rightarrow> bool" where
  "ident_char c = (alnum c \<or> c \<in> {CHR ''.'', CHR ''_'', CHR '':'', CHR ''-''})"

definition identifier_text :: "string \<Rightarrow> bool" where
  "identifier_text s =
     (case s of [] \<Rightarrow> False | c # r \<Rightarrow> alnum c \<and> length r \<le> 127 \<and> list_all ident_char r)"

definition isIdentifier :: "jsval \<Rightarrow> bool" where
  "isIdentifier v = str_sat identifier_text v"

text \<open>\<open>/^[A-Z][A-Z0-9_:-]{0,n}$/\<close>\<close>

definition code_text :: "nat \<Rightarrow> string \<Rightarrow> bool" where
  "code_text n s =
     (case s of [] \<Rightarrow> False
      | c # r \<Rightarrow> upper c \<and> length r \<le> n
          \<and> list_all (\<lambda>x. upper x \<or> is_digit x \<or> x \<in> {CHR ''_'', CHR '':'', CHR ''-''}) r)"

definition validateExactKeys :: "jsval \<Rightarrow> string list \<Rightarrow> string list \<Rightarrow> string \<Rightarrow> string list" where
  "validateExactKeys v required optional context =
     (case v of
        JObj kvs \<Rightarrow>
          concat (map (\<lambda>k. chk (\<not> hasOwn v k) (context @ '':missing-'' @ k)) (js_set required))
          @ concat (map (\<lambda>k. chk (k \<notin> set required \<union> set optional) (context @ '':unknown-'' @ k))
                      (map fst kvs))
      | _ \<Rightarrow> [context @ '':not-object''])"

definition validateError :: "jsval \<Rightarrow> string \<Rightarrow> string list" where
  "validateError v context =
     (let errors = validateExactKeys v [''code'', ''message''] [] context
      in if \<not> isPlainRecord v then errors
         else errors
           @ chk (\<not> str_sat (code_text 63) (opt_prop v ''code'')) (context @ '':invalid-code'')
           @ chk (\<not> isNonEmptyString (opt_prop v ''message'')) (context @ '':invalid-message''))"

text \<open>The depth counts from the outside; a document is a tree, so no value is seen twice.\<close>

fun isJsonValue :: "nat \<Rightarrow> jsval \<Rightarrow> bool" where
  "isJsonValue depth v =
     (if depth > 32 then False
      else (case v of
              JNull \<Rightarrow> True
            | JStr _ \<Rightarrow> True
            | JBool _ \<Rightarrow> True
            | JInt _ \<Rightarrow> True
            | JNegZero \<Rightarrow> True
            | JFloat _ _ \<Rightarrow> True
            | JNaN \<Rightarrow> False
            | JInf _ \<Rightarrow> False
            | JUndef \<Rightarrow> False
            | JArr xs \<Rightarrow> list_all (isJsonValue (depth + 1)) xs
            | JObj kvs \<Rightarrow> list_all (\<lambda>(k, x). k \<noteq> [] \<and> isJsonValue (depth + 1) x) kvs))"

declare isJsonValue.simps [simp del]

record validation =
  valid :: bool
  errors :: "string list"
  value_of :: jsval

definition validationResult :: "string list \<Rightarrow> jsval \<Rightarrow> validation" where
  "validationResult es v =
     \<lparr>valid = (es = []), errors = es, value_of = (if es = [] then v else JNull)\<rparr>"

lemma validationResult_simps [simp]:
  "valid (validationResult es v) \<longleftrightarrow> es = []"
  "errors (validationResult es v) = es"
  "value_of (validationResult es v) = (if es = [] then v else JNull)"
  by (simp_all add: validationResult_def)

lemma isPlainRecord_iff: "isPlainRecord v \<longleftrightarrow> (\<exists>kvs. v = JObj kvs)"
  by (cases v) (auto simp: isPlainRecord_def)

lemma validateExactKeys_other [simp]:
  "\<not> isPlainRecord v \<Longrightarrow> validateExactKeys v required optional context = [context @ '':not-object'']"
  by (cases v) (auto simp: validateExactKeys_def isPlainRecord_def)

lemma validateExactKeys_Nil_iff:
  "validateExactKeys v required optional context = [] \<longleftrightarrow>
     isPlainRecord v \<and> (\<forall>k \<in> set required. hasOwn v k)
     \<and> (\<forall>k. hasOwn v k \<longrightarrow> k \<in> set required \<union> set optional)"
  by (cases v) (auto simp: validateExactKeys_def isPlainRecord_def hasOwn_def)

lemma isIdentifier_iff: "isIdentifier v \<longleftrightarrow> (\<exists>s. v = JStr s \<and> identifier_text s)"
  by (simp add: isIdentifier_def str_sat_iff)

lemma identifier_text_length: "identifier_text s \<Longrightarrow> 1 \<le> length s \<and> length s \<le> 128"
  by (cases s) (auto simp: identifier_text_def)

section \<open>contracts/m1/terminal.js\<close>

definition validateConversationResponse :: "jsval \<Rightarrow> string list" where
  "validateConversationResponse v =
     (let errors = validateExactKeys v [''content''] [''metadata''] ''response''
      in if \<not> isPlainRecord v then errors
         else errors
           @ chk (\<not> isNonEmptyString (opt_prop v ''content'')) ''response:invalid-content''
           @ chk (hasOwn v ''metadata'' \<and> \<not> isJsonValue 0 (opt_prop v ''metadata''))
               ''response:invalid-metadata'')"

definition validateModelResponse :: "jsval \<Rightarrow> string list" where
  "validateModelResponse v =
     (let errors = validateExactKeys v [''content'', ''model''] [''usage''] ''response''
      in if \<not> isPlainRecord v then errors
         else errors
           @ chk (\<not> isNonEmptyString (opt_prop v ''content'')) ''response:invalid-content''
           @ chk (\<not> isNonEmptyString (opt_prop v ''model'')) ''response:invalid-model''
           @ chk (hasOwn v ''usage'' \<and> \<not> isJsonValue 0 (opt_prop v ''usage''))
               ''response:invalid-usage'')"

text \<open>\<open>RESPONSE_VALIDATORS[responseKind]\<close>; \<open>None\<close> is a kind the table does not own.\<close>

definition RESPONSE_VALIDATORS :: "string option \<Rightarrow> (jsval \<Rightarrow> string list) option" where
  "RESPONSE_VALIDATORS kind =
     (if kind = Some ''conversation'' then Some validateConversationResponse
      else if kind = Some ''model'' then Some validateModelResponse
      else None)"

definition validateToolResult :: "nat \<Rightarrow> jsval \<Rightarrow> string list" where
  "validateToolResult index v =
     (let context = ''partial.toolResults['' @ int_to_string (int index) @ '']'';
          errors = validateExactKeys v [''toolCallId'', ''tool'', ''status''] [''summary'', ''error''] context
      in if \<not> isPlainRecord v then errors
         else errors
           @ chk (\<not> isIdentifier (opt_prop v ''toolCallId'')) (context @ '':invalid-toolCallId'')
           @ chk (\<not> isNonEmptyString (opt_prop v ''tool'')) (context @ '':invalid-tool'')
           @ chk (\<not> str_in (opt_prop v ''status'') [''ok'', ''error'']) (context @ '':invalid-status'')
           @ (if opt_prop v ''status'' = JStr ''ok'' then
                chk (\<not> isNonEmptyString (opt_prop v ''summary'')) (context @ '':invalid-summary'')
                @ chk (hasOwn v ''error'') (context @ '':error-on-ok'')
              else if opt_prop v ''status'' = JStr ''error'' then
                (if \<not> hasOwn v ''error'' then [context @ '':missing-error'']
                 else validateError (opt_prop v ''error'') (context @ ''.error''))
                @ chk (hasOwn v ''summary'') (context @ '':summary-on-error'')
              else []))"

definition validatePartial :: "jsval \<Rightarrow> string list" where
  "validatePartial v =
     (let errors = validateExactKeys v [''toolResults''] [] ''partial'';
          results = opt_prop v ''toolResults''
      in if \<not> isPlainRecord v then errors
         else if \<not> is_array results \<or> elements results = [] then
           errors @ [''partial:invalid-toolResults'']
         else errors @ each_indexed validateToolResult (elements results))"

record terminal_class =
  tc_valid :: bool
  tc_errors :: "string list"
  tc_status :: jsval
  renderAssistant :: bool
  persistAssistant :: bool
  persistPartialToolResults :: bool
  acceptLateAssistant :: bool

text \<open>The messages \<open>classifyTerminal\<close> collects for a plain record.\<close>

definition terminal_errors :: "jsval \<Rightarrow> bool \<Rightarrow> jsval \<Rightarrow> string option \<Rightarrow> string list" where
  "terminal_errors v allowPartial priorStatus responseKind =
     (let status = opt_prop v ''status'';
          hasResponse = hasOwn v ''response'';
          hasError = hasOwn v ''error'';
          hasPartial = hasOwn v ''partial''
      in chk (\<not> str_in status TERMINAL_STATUSES) ''terminal:invalid-status''
         @ (if priorStatus \<noteq> JNull then
              (if \<not> str_in priorStatus TERMINAL_STATUSES then [''terminal:invalid-prior-status'']
               else ''terminal:already-final''
                 # chk (priorStatus = JStr ''cancelled'' \<and> status = JStr ''ok'')
                     ''terminal:late-assistant-after-cancel'')
            else [])
         @ (if status = JStr ''ok'' then
              (if \<not> hasResponse then [''terminal:missing-response'']
               else (case RESPONSE_VALIDATORS responseKind of
                       None \<Rightarrow> [''terminal:invalid-response-kind'']
                     | Some f \<Rightarrow> f (opt_prop v ''response'')))
              @ chk hasError ''terminal:error-on-ok''
              @ chk hasPartial ''terminal:partial-on-ok''
            else if str_in status TERMINAL_STATUSES then
              chk hasResponse ''terminal:response-on-error''
              @ (if \<not> hasError then [''terminal:missing-error'']
                 else validateError (opt_prop v ''error'') ''terminal.error'')
              @ (if hasPartial then
                   (if \<not> allowPartial \<or> status \<noteq> JStr ''error'' then [''terminal:partial-not-allowed'']
                    else validatePartial (opt_prop v ''partial''))
                 else [])
            else []))"

definition classifyTerminal :: "jsval \<Rightarrow> bool \<Rightarrow> jsval \<Rightarrow> string option \<Rightarrow> terminal_class" where
  "classifyTerminal v allowPartial priorStatus responseKind =
     (if \<not> isPlainRecord v then
        \<lparr>tc_valid = False, tc_errors = [''terminal:not-object''], tc_status = JNull,
         renderAssistant = False, persistAssistant = False,
         persistPartialToolResults = False, acceptLateAssistant = False\<rparr>
      else
        let es = terminal_errors v allowPartial priorStatus responseKind;
            ok = (es = []);
            status = opt_prop v ''status''
        in \<lparr>tc_valid = ok, tc_errors = es, tc_status = (if ok then status else JNull),
            renderAssistant = (ok \<and> status = JStr ''ok''),
            persistAssistant = (ok \<and> status = JStr ''ok''),
            persistPartialToolResults = (ok \<and> status = JStr ''error'' \<and> hasOwn v ''partial''),
            acceptLateAssistant = False\<rparr>)"

lemmas terminal_defs = classifyTerminal_def terminal_errors_def Let_def

lemma classify_valid_record: "tc_valid (classifyTerminal v ap prior kind) \<Longrightarrow> isPlainRecord v"
  by (simp add: classifyTerminal_def Let_def split: if_splits)

lemma classify_valid_prior: "tc_valid (classifyTerminal v ap prior kind) \<Longrightarrow> prior = JNull"
  by (auto simp: terminal_defs split: if_splits)

lemma classify_valid_status:
  "tc_valid (classifyTerminal v ap prior kind) \<Longrightarrow>
     tc_status (classifyTerminal v ap prior kind) = opt_prop v ''status''
     \<and> str_in (opt_prop v ''status'') TERMINAL_STATUSES"
  by (auto simp: terminal_defs split: if_splits)

text \<open>The shapes a terminal must have, stated without reference to the order of the checks.\<close>

definition fields_within :: "jsval \<Rightarrow> string list \<Rightarrow> string list \<Rightarrow> bool" where
  "fields_within v required optional =
     (case v of JObj kvs \<Rightarrow> set required \<subseteq> fst ` set kvs \<and> fst ` set kvs \<subseteq> set required \<union> set optional | _ \<Rightarrow> False)"

definition good_error :: "jsval \<Rightarrow> bool" where
  "good_error v \<longleftrightarrow> fields_within v [''code'', ''message''] [] \<and> str_sat (code_text 63) (opt_prop v ''code'')
     \<and> isNonEmptyString (opt_prop v ''message'')"

definition good_response :: "string option \<Rightarrow> jsval \<Rightarrow> bool" where
  "good_response kind v \<longleftrightarrow> isNonEmptyString (opt_prop v ''content'')
     \<and> (if kind = Some ''conversation'' then
          fields_within v [''content''] [''metadata''] \<and> (hasOwn v ''metadata'' \<longrightarrow> isJsonValue 0 (opt_prop v ''metadata''))
        else kind = Some ''model'' \<and> fields_within v [''content'', ''model''] [''usage''] \<and> isNonEmptyString (opt_prop v ''model'')
          \<and> (hasOwn v ''usage'' \<longrightarrow> isJsonValue 0 (opt_prop v ''usage'')))"

definition good_tool_result :: "jsval \<Rightarrow> bool" where
  "good_tool_result r \<longleftrightarrow> isIdentifier (opt_prop r ''toolCallId'') \<and> isNonEmptyString (opt_prop r ''tool'')
     \<and> (opt_prop r ''status'' = JStr ''ok'' \<and> fields_within r [''toolCallId'', ''tool'', ''status'', ''summary''] []
          \<and> isNonEmptyString (opt_prop r ''summary'')
        \<or> opt_prop r ''status'' = JStr ''error'' \<and> fields_within r [''toolCallId'', ''tool'', ''status'', ''error''] []
          \<and> good_error (opt_prop r ''error''))"

definition good_partial :: "jsval \<Rightarrow> bool" where
  "good_partial p \<longleftrightarrow> fields_within p [''toolResults''] []
     \<and> (\<exists>rs. opt_prop p ''toolResults'' = JArr rs \<and> rs \<noteq> [] \<and> list_all good_tool_result rs)"

lemma fields_within_iff: "fields_within v required optional \<longleftrightarrow> validateExactKeys v required optional ctx = []"
  unfolding validateExactKeys_Nil_iff by (cases v) (auto simp: fields_within_def isPlainRecord_def hasOwn_def)

lemma fields_within_record: "fields_within v required optional \<Longrightarrow> isPlainRecord v"
  by (cases v) (auto simp: fields_within_def isPlainRecord_def)

lemma nonempty_own: "isPlainRecord v \<Longrightarrow> isNonEmptyString (opt_prop v k) \<Longrightarrow> hasOwn v k"
  by (force simp: isPlainRecord_iff isNonEmptyString_def str_sat_iff hasOwn_def dest!: map_of_SomeD split: option.splits)

lemma good_error_iff: "validateError v context = [] \<longleftrightarrow> good_error v"
  unfolding good_error_def fields_within_iff [where ctx = "context"]
  by (auto simp: validateError_def Let_def split: if_splits)

lemma conversation_iff:
  "validateConversationResponse v = [] \<longleftrightarrow> fields_within v [''content''] [''metadata''] \<and> isNonEmptyString (opt_prop v ''content'')
     \<and> (hasOwn v ''metadata'' \<longrightarrow> isJsonValue 0 (opt_prop v ''metadata''))"
  unfolding fields_within_iff [where ctx = "''response''"]
  by (cases "isPlainRecord v") (simp_all add: validateConversationResponse_def Let_def)

lemma model_iff:
  "validateModelResponse v = [] \<longleftrightarrow> fields_within v [''content'', ''model''] [''usage''] \<and> isNonEmptyString (opt_prop v ''content'')
     \<and> isNonEmptyString (opt_prop v ''model'') \<and> (hasOwn v ''usage'' \<longrightarrow> isJsonValue 0 (opt_prop v ''usage''))"
  unfolding fields_within_iff [where ctx = "''response''"]
  by (cases "isPlainRecord v") (simp_all add: validateModelResponse_def Let_def)

lemma good_response_iff:
  "(case RESPONSE_VALIDATORS kind of None \<Rightarrow> False | Some f \<Rightarrow> f v = []) \<longleftrightarrow> good_response kind v"
  unfolding good_response_def RESPONSE_VALIDATORS_def by (simp add: conversation_iff model_iff conj_ac)

lemma response_checked:
  "(case RESPONSE_VALIDATORS kind of None \<Rightarrow> [''terminal:invalid-response-kind''] | Some f \<Rightarrow> f v) = [] \<longleftrightarrow> good_response kind v"
  unfolding good_response_iff [symmetric] by (simp split: option.splits)

lemma one_of_two_fields:
  assumes "b \<notin> set required" and "a \<noteq> b" and "optional = [a, b] \<or> optional = [b, a]"
  shows "fields_within r (required @ [a]) [] \<longleftrightarrow> fields_within r required optional \<and> hasOwn r a \<and> \<not> hasOwn r b"
proof (cases r)
  case (JObj kvs)
  obtain names where names: "names = fst ` set kvs" by simp
  have fields: "fields_within r req opt \<longleftrightarrow> set req \<subseteq> names \<and> names \<subseteq> set req \<union> set opt" for req opt
    by (simp add: JObj names fields_within_def)
  have own: "hasOwn r k \<longleftrightarrow> k \<in> names" for k by (simp add: JObj names hasOwn_def)
  have both: "set optional = {a, b}" using assms(3) by (elim disjE) (simp_all add: insert_commute)
  have "set (required @ [a]) \<subseteq> names \<and> names \<subseteq> set (required @ [a]) \<union> {}
      \<longleftrightarrow> (set required \<subseteq> names \<and> names \<subseteq> set required \<union> {a, b}) \<and> a \<in> names \<and> b \<notin> names"
    using assms(1,2) by (simp, blast)
  then show ?thesis unfolding fields own both by simp
qed (simp_all add: fields_within_def)

lemma tool_result_fields:
  "fields_within r [''toolCallId'', ''tool'', ''status'', ''summary''] []
    \<longleftrightarrow> fields_within r [''toolCallId'', ''tool'', ''status''] [''summary'', ''error''] \<and> hasOwn r ''summary'' \<and> \<not> hasOwn r ''error''"
  "fields_within r [''toolCallId'', ''tool'', ''status'', ''error''] []
    \<longleftrightarrow> fields_within r [''toolCallId'', ''tool'', ''status''] [''summary'', ''error''] \<and> hasOwn r ''error'' \<and> \<not> hasOwn r ''summary''"
  by (rule one_of_two_fields [of "''error''" "[''toolCallId'', ''tool'', ''status'']" "''summary''", unfolded append_Cons append_Nil]; simp)
    (rule one_of_two_fields [of "''summary''" "[''toolCallId'', ''tool'', ''status'']" "''error''", unfolded append_Cons append_Nil]; simp)

lemma good_tool_result_iff: "validateToolResult i r = [] \<longleftrightarrow> good_tool_result r"
proof (cases "isPlainRecord r")
  case False
  then show ?thesis using fields_within_record by (auto simp: validateToolResult_def good_tool_result_def)
next
  case True
  note summary = nonempty_own [OF True]
  let ?ctx = "''partial.toolResults['' @ int_to_string (int i) @ '']''"
  have ok: ?thesis if "opt_prop r ''status'' = JStr ''ok''"
    using True that summary [of "''summary''"]
    unfolding validateToolResult_def good_tool_result_def tool_result_fields
    unfolding fields_within_iff [where ctx = ?ctx]
    by (auto simp: Let_def str_in_def str_sat_def)
  have err: ?thesis if "opt_prop r ''status'' = JStr ''error''"
    using True that
    unfolding validateToolResult_def good_tool_result_def tool_result_fields
    unfolding fields_within_iff [where ctx = ?ctx]
    by (auto simp: Let_def str_in_def str_sat_def good_error_iff)
  show ?thesis
  proof (cases "str_in (opt_prop r ''status'') [''ok'', ''error'']")
    case True
    then show ?thesis using ok err by (auto simp: str_in_def str_sat_iff)
  next
    case False
    with True show ?thesis by (auto simp: validateToolResult_def good_tool_result_def Let_def) (auto simp: str_in_def str_sat_def)
  qed
qed

lemma good_partial_iff: "validatePartial p = [] \<longleftrightarrow> good_partial p"
  unfolding good_partial_def fields_within_iff [where ctx = "''partial''"]
  by (auto simp: validatePartial_def Let_def is_array_iff each_indexed_Nil_iff good_tool_result_iff list_all_length split: if_splits)

text \<open>
  A terminal that carries a prior status is never accepted, whatever the document says: it
  is not rendered, not stored, and its partial tool results are not stored. A turn ends once.
\<close>

theorem terminal_finalised_once:
  assumes "priorStatus \<noteq> JNull"
  shows "\<not> tc_valid (classifyTerminal v allowPartial priorStatus responseKind)
    \<and> \<not> renderAssistant (classifyTerminal v allowPartial priorStatus responseKind)
    \<and> \<not> persistAssistant (classifyTerminal v allowPartial priorStatus responseKind)
    \<and> \<not> persistPartialToolResults (classifyTerminal v allowPartial priorStatus responseKind)
    \<and> tc_status (classifyTerminal v allowPartial priorStatus responseKind) = JNull"
  using assms by (auto simp: terminal_defs)

theorem terminal_finalised_once_witness:
  "\<not> tc_valid (classifyTerminal
        (JObj [(''status'', JStr ''ok''), (''response'', JObj [(''content'', JStr ''hi'')])])
        False (JStr ''cancelled'') (Some ''conversation''))"
  using terminal_finalised_once [of "JStr ''cancelled''"] by simp

text \<open>
  C39. What is shown or stored has passed every check, and nothing else is needed. An assistant message is
  rendered and stored exactly for a first \<open>ok\<close> terminal without error or partial results whose response is
  of a known kind and well formed: the fields of its kind and no others, content that is not blank, for a
  model also the name of the model, and metadata or usage that are JSON values. Partial tool results are
  stored exactly when the caller allows them, for a first \<open>error\<close> terminal without a response, with a well
  formed error and at least one result, every one of which has an identifier, a tool and, and no other
  field, either a summary (when \<open>ok\<close>) or a well formed error. The only other terminals accepted are first
  ones with a well formed error and nothing else to store. The two outcomes exclude each other and no late
  assistant message is ever accepted.
\<close>

theorem terminal_outcome_sound:
  fixes v allowPartial priorStatus kind
  defines "c \<equiv> classifyTerminal v allowPartial priorStatus kind"
  shows "(persistAssistant c \<longleftrightarrow> renderAssistant c)
    \<and> (renderAssistant c \<longleftrightarrow> isPlainRecord v \<and> priorStatus = JNull \<and> opt_prop v ''status'' = JStr ''ok''
         \<and> hasOwn v ''response'' \<and> good_response kind (opt_prop v ''response'') \<and> \<not> hasOwn v ''error'' \<and> \<not> hasOwn v ''partial'')
    \<and> (persistPartialToolResults c \<longleftrightarrow> isPlainRecord v \<and> allowPartial \<and> priorStatus = JNull
         \<and> opt_prop v ''status'' = JStr ''error'' \<and> \<not> hasOwn v ''response'' \<and> hasOwn v ''error''
         \<and> good_error (opt_prop v ''error'') \<and> hasOwn v ''partial'' \<and> good_partial (opt_prop v ''partial''))
    \<and> (tc_valid c \<longleftrightarrow> renderAssistant c \<or> persistPartialToolResults c
         \<or> isPlainRecord v \<and> priorStatus = JNull \<and> str_in (opt_prop v ''status'') [''cancelled'', ''timeout'', ''error'']
           \<and> \<not> hasOwn v ''response'' \<and> hasOwn v ''error'' \<and> good_error (opt_prop v ''error'') \<and> \<not> hasOwn v ''partial'')
    \<and> \<not> (renderAssistant c \<and> persistPartialToolResults c) \<and> \<not> acceptLateAssistant c"
proof (cases "isPlainRecord v \<and> priorStatus = JNull")
  case False
  then show ?thesis by (auto simp: c_def terminal_defs)
next
  case True
  consider "opt_prop v ''status'' = JStr ''ok''" | "opt_prop v ''status'' = JStr ''error''"
    | "opt_prop v ''status'' = JStr ''cancelled'' \<or> opt_prop v ''status'' = JStr ''timeout''"
    | "\<not> str_in (opt_prop v ''status'') TERMINAL_STATUSES"
    by (auto simp: str_in_def str_sat_iff TERMINAL_STATUSES_def)
  then show ?thesis
  proof cases
    case 1
    with True show ?thesis
      by (auto simp: c_def terminal_defs str_in_def str_sat_def TERMINAL_STATUSES_def response_checked)
  next
    case 2
    with True show ?thesis
      by (auto simp: c_def terminal_defs str_in_def str_sat_def TERMINAL_STATUSES_def good_error_iff good_partial_iff)
  next
    case 3
    with True show ?thesis
      by (auto simp: c_def terminal_defs str_in_def str_sat_def TERMINAL_STATUSES_def good_error_iff)
  next
    case 4
    with True show ?thesis
      by (auto simp: c_def terminal_defs) (auto simp: str_in_def str_sat_iff TERMINAL_STATUSES_def)
  qed
qed

theorem terminal_outcome_sound_witness:
  "renderAssistant (classifyTerminal (JObj [(''status'', JStr ''ok''), (''response'', JObj [(''content'', JStr ''hi'')])])
      False JNull (Some ''conversation''))
   \<and> \<not> renderAssistant (classifyTerminal (JObj [(''status'', JStr ''ok''),
        (''response'', JObj [(''content'', JStr ''hi''), (''note'', JNull)])]) False JNull (Some ''conversation''))"
proof -
  let ?r = "\<lambda>more. JObj ([(''content'', JStr ''hi'')] @ more)"
  let ?v = "\<lambda>more. JObj [(''status'', JStr ''ok''), (''response'', ?r more)]"
  have own: "hasOwn (?v more) ''response''" "\<not> hasOwn (?v more) ''error''" "\<not> hasOwn (?v more) ''partial''" for more
    by (simp_all add: hasOwn_def)
  have "good_response (Some ''conversation'') (?r [])" "\<not> good_response (Some ''conversation'') (?r [(''note'', JNull)])"
    by code_simp+
  then show ?thesis
    using terminal_outcome_sound [of "?v []" False JNull "Some ''conversation''"]
      terminal_outcome_sound [of "?v [(''note'', JNull)]" False JNull "Some ''conversation''"] own [of "[]"] own [of "[(''note'', JNull)]"]
    by (simp add: isPlainRecord_def)
qed

end
