(* ===== verification/JsonParse.thy ===== *)
theory JsonParse
  imports JsValue
begin

text \<open>
  \<open>JSON.parse\<close>, in full: white space, literals, strings with their escapes, numbers rounded to the
  nearest double, arrays and objects. The text is the UTF-8 of a string, as every string here is; an
  escape for half of a surrogate pair has no such string, so a text with one counts as malformed.
  The parser runs on fuel; the length of the text is proved to be enough.
\<close>

section \<open>The order of the properties of an object\<close>

text \<open>
  \<open>Object.keys\<close> lists the array indices (the decimal numbers below 2 ^ 32 - 1) in ascending order, then
  the other names as they were added.
\<close>

fun decimal :: "int \<Rightarrow> string \<Rightarrow> int" where
  "decimal acc [] = acc"
| "decimal acc (c # cs) = decimal (10 * acc + (int (of_char c) - 48)) cs"

definition array_index :: "string \<Rightarrow> int option" where
  "array_index k =
     (if k \<noteq> [] \<and> list_all is_digit k \<and> (k = ''0'' \<or> hd k \<noteq> CHR ''0'') \<and> decimal 0 k < 4294967295
      then Some (decimal 0 k) else None)"

definition property_order :: "(string \<times> 'a) list \<Rightarrow> (string \<times> 'a) list" where
  "property_order kvs =
     sort_key (\<lambda>(k, x). the (array_index k)) (filter (\<lambda>(k, x). array_index k \<noteq> None) kvs)
     @ filter (\<lambda>(k, x). array_index k = None) kvs"

section \<open>Numbers\<close>

function bit_size :: "int \<Rightarrow> int" where
  "bit_size n = (if n \<le> 0 then 0 else 1 + bit_size (n div 2))"
  by pat_completeness auto
termination by (relation "measure nat") auto

declare bit_size.simps [simp del]

definition round_half_even :: "int \<Rightarrow> int \<Rightarrow> int" where
  "round_half_even n d =
     (let q = n div d; r = n mod d in if 2 * r > d \<or> (2 * r = d \<and> odd q) then q + 1 else q)"

fun lowest_terms :: "int \<Rightarrow> nat \<Rightarrow> int \<times> nat" where
  "lowest_terms q 0 = (q, 0)"
| "lowest_terms q (Suc k) = (if odd q then (q, Suc k) else lowest_terms (q div 2) k)"

definition signed :: "bool \<Rightarrow> int \<Rightarrow> jsval" where
  "signed neg m = (if m = 0 then (if neg then JNegZero else JInt 0) else JInt (if neg then - m else m))"

text \<open>
  The double nearest to n / d, ties to even: n / d is scaled by a power of two to lie below 2 ^ 53
  (and not under the subnormal grid), rounded, and scaled back.
\<close>

definition nearest_double :: "bool \<Rightarrow> int \<Rightarrow> int \<Rightarrow> jsval" where
  "nearest_double neg n d =
     (if d = 1 \<and> n \<le> MAX_SAFE_INTEGER then signed neg n
      else if n = 0 then signed neg 0
      else
       (let e0 = bit_size n - bit_size d - 53;
            num = (\<lambda>e. n * 2 ^ nat (- e)); den = (\<lambda>e. d * 2 ^ nat e);
            e = max (- 1074) (if num e0 \<ge> den e0 * 2 ^ 53 then e0 + 1 else e0);
            q = round_half_even (num e) (den e)
        in if e \<ge> 0 then (if q * 2 ^ nat e \<ge> 2 ^ 1024 then JInf (\<not> neg) else signed neg (q * 2 ^ nat e))
           else (case lowest_terms q (nat (- e)) of
                   (m, 0) \<Rightarrow> signed neg m
                 | (m, k) \<Rightarrow> JFloat (if neg then - m else m) k)))"

text \<open>\<open>frac\<close> and \<open>exp\<close> of the grammar: nothing, or a mark with at least one digit.\<close>

definition json_fraction :: "string \<Rightarrow> (string \<times> string) option" where
  "json_fraction s =
     (case s of
        c # r \<Rightarrow>
          if c \<noteq> CHR ''.'' then Some ([], s)
          else if takeWhile is_digit r = [] then None
          else Some (takeWhile is_digit r, dropWhile is_digit r)
      | [] \<Rightarrow> Some ([], s))"

definition json_exponent :: "string \<Rightarrow> (int \<times> string) option" where
  "json_exponent s =
     (case s of
        c # r \<Rightarrow>
          if c \<noteq> CHR ''e'' \<and> c \<noteq> CHR ''E'' then Some (0, s)
          else let ds = (case r of x # r' \<Rightarrow> if x = CHR ''+'' \<or> x = CHR ''-'' then r' else r | [] \<Rightarrow> []);
                   n = decimal 0 (takeWhile is_digit ds)
               in if takeWhile is_digit ds = [] then None
                  else Some (if hd r = CHR ''-'' then - n else n, dropWhile is_digit ds)
      | [] \<Rightarrow> Some (0, s))"

definition json_digits :: "string \<Rightarrow> string \<times> string" where
  "json_digits s =
     (case s of
        c # r \<Rightarrow> if c = CHR ''0'' then ([c], r) else (takeWhile is_digit s, dropWhile is_digit s)
      | [] \<Rightarrow> ([], []))"

definition decimal_value :: "bool \<Rightarrow> string \<Rightarrow> string \<Rightarrow> int \<Rightarrow> jsval" where
  "decimal_value neg ds frac e =
     (let m = decimal 0 (ds @ frac); x = e - int (length frac)
      in if x \<ge> 0 then nearest_double neg (m * 10 ^ nat x) 1 else nearest_double neg m (10 ^ nat (- x)))"

definition json_number :: "string \<Rightarrow> (jsval \<times> string) option" where
  "json_number s =
     (let neg = s \<noteq> [] \<and> hd s = CHR ''-''
      in case json_digits (if neg then tl s else s) of
           (ds, r) \<Rightarrow>
             if ds = [] then None
             else (case json_fraction r of
                     None \<Rightarrow> None
                   | Some (frac, r') \<Rightarrow>
                       (case json_exponent r' of
                          None \<Rightarrow> None
                        | Some (e, r'') \<Rightarrow> Some (decimal_value neg ds frac e, r''))))"

section \<open>Strings\<close>

definition hex_value :: "char \<Rightarrow> nat option" where
  "hex_value c =
     (let b = (of_char c :: nat)
      in if 48 \<le> b \<and> b \<le> 57 then Some (b - 48)
         else if 97 \<le> b \<and> b \<le> 102 then Some (b - 87)
         else if 65 \<le> b \<and> b \<le> 70 then Some (b - 55) else None)"

definition four_hex :: "string \<Rightarrow> nat option" where
  "four_hex s =
     (case s of
        a # b # c # d # _ \<Rightarrow>
          (case (hex_value a, hex_value b, hex_value c, hex_value d) of
             (Some w, Some x, Some y, Some z) \<Rightarrow> Some (((w * 16 + x) * 16 + y) * 16 + z)
           | _ \<Rightarrow> None)
      | _ \<Rightarrow> None)"

definition utf8_encode :: "nat \<Rightarrow> string" where
  "utf8_encode n =
     (let cont = (\<lambda>m. char_of (128 + m mod 64))
      in if n < 128 then [char_of n]
         else if n < 2048 then [char_of (192 + n div 64), cont n]
         else if n < 65536 then [char_of (224 + n div 4096), cont (n div 64), cont n]
         else [char_of (240 + n div 262144), cont (n div 4096), cont (n div 64), cont n])"

text \<open>The text after a backslash: what it stands for, and how much of it that takes.\<close>

definition json_unicode :: "string \<Rightarrow> (string \<times> nat) option" where
  "json_unicode r =
     (case four_hex r of
        None \<Rightarrow> None
      | Some n \<Rightarrow>
          if 55296 \<le> n \<and> n < 56320 then
            (if take 2 (drop 4 r) \<noteq> [CHR 0x5C, CHR ''u''] then None
             else (case four_hex (drop 6 r) of
                     None \<Rightarrow> None
                   | Some l \<Rightarrow>
                       if 56320 \<le> l \<and> l < 57344
                       then Some (utf8_encode (65536 + (n - 55296) * 1024 + (l - 56320)), 11) else None))
          else if 56320 \<le> n \<and> n < 57344 then None
          else Some (utf8_encode n, 5))"

definition json_unescape :: "string \<Rightarrow> (string \<times> nat) option" where
  "json_unescape r =
     (case r of
        [] \<Rightarrow> None
      | c # r' \<Rightarrow>
          if c = CHR 0x22 \<or> c = CHR 0x5C \<or> c = CHR ''/'' then Some ([c], 1)
          else if c = CHR ''b'' then Some ([CHR 0x08], 1)
          else if c = CHR ''f'' then Some ([CHR 0x0C], 1)
          else if c = CHR ''n'' then Some ([CHR 0x0A], 1)
          else if c = CHR ''r'' then Some ([CHR 0x0D], 1)
          else if c = CHR ''t'' then Some ([CHR 0x09], 1)
          else if c = CHR ''u'' then json_unicode r'
          else None)"

text \<open>The body of a string, after the opening quote, and what follows the closing quote.\<close>

function json_body :: "string \<Rightarrow> (string \<times> string) option" where
  "json_body s =
     (case s of
        [] \<Rightarrow> None
      | c # r \<Rightarrow>
          if c = CHR 0x22 then Some ([], r)
          else if (of_char c :: nat) < 32 then None
          else if c \<noteq> CHR 0x5C then map_option (\<lambda>(t, r'). (c # t, r')) (json_body r)
          else (case json_unescape r of
                  None \<Rightarrow> None
                | Some (u, k) \<Rightarrow> map_option (\<lambda>(t, r'). (u @ t, r')) (json_body (drop k r))))"
  by pat_completeness auto
termination by (relation "measure length") auto

declare json_body.simps [simp del]

section \<open>Values\<close>

definition json_space :: "char \<Rightarrow> bool" where
  "json_space c \<longleftrightarrow> c = CHR '' '' \<or> c = CHR 0x09 \<or> c = CHR 0x0A \<or> c = CHR 0x0D"

lemma json_space_marks [simp]:
  "\<not> json_space CHR '',''" "\<not> json_space CHR '':''" "\<not> json_space CHR 0x22" "\<not> json_space CHR ''[''"
  "\<not> json_space CHR '']''" "\<not> json_space CHR ''{''" "\<not> json_space CHR ''}''"
  by (simp_all add: json_space_def)

abbreviation skip_space :: "string \<Rightarrow> string" where
  "skip_space \<equiv> dropWhile json_space"

text \<open>A value of one token.\<close>

definition json_token :: "string \<Rightarrow> (jsval \<times> string) option" where
  "json_token s =
     (if take 4 s = ''null'' then Some (JNull, drop 4 s)
      else if take 4 s = ''true'' then Some (JBool True, drop 4 s)
      else if take 5 s = ''false'' then Some (JBool False, drop 5 s)
      else json_number s)"

text \<open>The members of an object are kept as the text lists them; the object is made from them below.\<close>

fun json_value :: "nat \<Rightarrow> string \<Rightarrow> (jsval \<times> string) option"
  and json_items :: "nat \<Rightarrow> string \<Rightarrow> (jsval list \<times> string) option"
  and json_members :: "nat \<Rightarrow> string \<Rightarrow> ((string \<times> jsval) list \<times> string) option" where
  "json_value 0 s = None"
| "json_value (Suc n) s =
     (case skip_space s of
        [] \<Rightarrow> None
      | c # r \<Rightarrow>
          if c = CHR 0x22 then map_option (\<lambda>(t, r'). (JStr t, r')) (json_body r)
          else if c = CHR ''['' then
            (case skip_space r of
               [] \<Rightarrow> None
             | d # r' \<Rightarrow> if d = CHR '']'' then Some (JArr [], r')
                         else map_option (\<lambda>(xs, r''). (JArr xs, r'')) (json_items n r))
          else if c = CHR ''{'' then
            (case skip_space r of
               [] \<Rightarrow> None
             | d # r' \<Rightarrow> if d = CHR ''}'' then Some (JObj [], r')
                         else map_option (\<lambda>(kvs, r''). (JObj kvs, r'')) (json_members n r))
          else json_token (c # r))"
| "json_items 0 s = None"
| "json_items (Suc n) s =
     (case json_value n s of
        None \<Rightarrow> None
      | Some (x, r) \<Rightarrow>
          (case skip_space r of
             [] \<Rightarrow> None
           | c # r' \<Rightarrow>
               if c = CHR '','' then map_option (\<lambda>(xs, r''). (x # xs, r'')) (json_items n r')
               else if c = CHR '']'' then Some ([x], r') else None))"
| "json_members 0 s = None"
| "json_members (Suc n) s =
     (case skip_space s of
        [] \<Rightarrow> None
      | q # b \<Rightarrow>
          if q \<noteq> CHR 0x22 then None
          else (case json_body b of
                  None \<Rightarrow> None
                | Some (k, r) \<Rightarrow>
                    (case skip_space r of
                       [] \<Rightarrow> None
                     | d # r1 \<Rightarrow>
                         if d \<noteq> CHR '':'' then None
                         else (case json_value n r1 of
                                 None \<Rightarrow> None
                               | Some (x, r2) \<Rightarrow>
                                   (case skip_space r2 of
                                      [] \<Rightarrow> None
                                    | c # r3 \<Rightarrow>
                                        if c = CHR '','' then
                                          map_option (\<lambda>(kvs, r'). ((k, x) # kvs, r')) (json_members n r3)
                                        else if c = CHR ''}'' then Some ([(k, x)], r3) else None)))))"

text \<open>The object with the given members: a repeated name keeps its place and takes the last value.\<close>

definition json_object :: "(string \<times> jsval) list \<Rightarrow> jsval" where
  "json_object kvs = JObj (property_order (foldl (\<lambda>acc (k, x). AList.update k x acc) [] kvs))"

fun json_build :: "jsval \<Rightarrow> jsval" where
  "json_build (JArr xs) = JArr (map json_build xs)"
| "json_build (JObj kvs) = json_object (map (\<lambda>(k, x). (k, json_build x)) kvs)"
| "json_build v = v"

definition JSON_parse :: "string \<Rightarrow> jsval option" where
  "JSON_parse s =
     (case json_value (2 * length s + 1) s of
        None \<Rightarrow> None
      | Some (v, r) \<Rightarrow> if skip_space r = [] then Some (json_build v) else None)"

section \<open>The length of the text is fuel enough\<close>

lemma json_body_Cons:
  "json_body [] = None"
  "json_body (c # r) =
     (if c = CHR 0x22 then Some ([], r)
      else if (of_char c :: nat) < 32 then None
      else if c \<noteq> CHR 0x5C then map_option (\<lambda>(t, r'). (c # t, r')) (json_body r)
      else (case json_unescape r of
              None \<Rightarrow> None
            | Some (u, k) \<Rightarrow> map_option (\<lambda>(t, r'). (u @ t, r')) (json_body (drop k r))))"
  by (simp_all add: json_body.simps [of "c # r"] json_body.simps [of "[]"])

lemma body_shorter: "json_body s = Some (t, r) \<Longrightarrow> length r < length s"
proof (induction "length s" arbitrary: s t r rule: less_induct)
  case less
  show ?case
  proof (cases s)
    case (Cons c b)
    have tail: "length r < length s" if "json_body (drop k b) = Some (t', r)" for k t'
      using less(1) [OF _ that] Cons by (simp add: le_imp_less_Suc)
    show ?thesis using less(2) tail tail [of 0]
      by (auto simp: json_body_Cons Cons split: if_splits option.splits)
  qed (use less in \<open>simp add: json_body_Cons\<close>)
qed

lemma dropWhile_shorter: "length (dropWhile P s) < Suc (length s)"
  by (simp add: le_imp_less_Suc length_dropWhile_le)

lemma digits_shorter: "json_digits s = (ds, r) \<Longrightarrow> ds \<noteq> [] \<Longrightarrow> length r < length s"
  by (auto simp: json_digits_def dropWhile_shorter split: list.splits if_splits)

lemma fraction_shorter: "json_fraction s = Some (ds, r) \<Longrightarrow> length r \<le> length s"
  by (auto simp: json_fraction_def le_SucI length_dropWhile_le split: list.splits if_splits)

lemma exponent_shorter: "json_exponent s = Some (n, r) \<Longrightarrow> length r \<le> length s"
  by (auto simp: json_exponent_def Let_def le_SucI length_dropWhile_le split: list.splits if_splits)

lemma number_shorter: "json_number s = Some (v, r) \<Longrightarrow> length r < length s"
proof -
  assume a: "json_number s = Some (v, r)"
  let ?s = "if s \<noteq> [] \<and> hd s = CHR ''-'' then tl s else s"
  obtain ds r1 where d: "json_digits ?s = (ds, r1)" by fastforce
  with a obtain fr r2 e where f: "ds \<noteq> []" "json_fraction r1 = Some (fr, r2)" "json_exponent r2 = Some (e, r)"
    by (auto simp: json_number_def Let_def split: option.splits if_splits prod.splits)
  have "length r < length ?s"
    using digits_shorter [OF d f(1)] fraction_shorter [OF f(2)] exponent_shorter [OF f(3)] by linarith
  then show ?thesis by (auto split: if_splits)
qed

lemma token_shorter: "json_token s = Some (v, r) \<Longrightarrow> s \<noteq> [] \<Longrightarrow> length r < length s"
  by (auto simp: json_token_def dest: number_shorter split: if_splits)

lemma space_shorter: "skip_space s = c # r \<Longrightarrow> length r < length s"
  using length_dropWhile_le [of json_space s] by simp

lemma value_shorter:
  "json_value n s = Some (v, r) \<Longrightarrow> length r < length s"
  "json_items n s = Some (xs, r) \<Longrightarrow> length r < length s"
  "json_members n s = Some (kvs, r) \<Longrightarrow> length r < length s"
proof (induction n arbitrary: s v r xs kvs)
  case (Suc n)
  {
    case 1
    then show ?case
      by (auto dest!: space_shorter body_shorter token_shorter Suc.IH split: list.splits if_splits)
  next
    case 2
    then show ?case
      by (fastforce dest!: space_shorter Suc.IH split: option.splits list.splits if_splits)
  next
    case 3
    then show ?case
      by (fastforce dest!: space_shorter body_shorter Suc.IH split: option.splits list.splits if_splits)
  }
qed simp_all

text \<open>One step of each function depends on the fuel only through the calls on shorter texts.\<close>

lemma value_fuel:
  assumes "\<And>r. length r < length s \<Longrightarrow> json_items n r = json_items m r \<and> json_members n r = json_members m r"
  shows "json_value (Suc n) s = json_value (Suc m) s"
proof (cases "skip_space s")
  case (Cons c r)
  with assms [OF space_shorter [OF Cons]] show ?thesis
    by (cases "skip_space r") (simp_all del: dropWhile_eq_Nil_conv)
qed (simp del: dropWhile_eq_Nil_conv)

lemma items_fuel:
  assumes "json_value n s = json_value m s" and "\<And>r. length r < length s \<Longrightarrow> json_items n r = json_items m r"
  shows "json_items (Suc n) s = json_items (Suc m) s"
proof (cases "json_value m s")
  case (Some xr)
  obtain x r where xr: "xr = (x, r)" by (cases xr)
  show ?thesis
  proof (cases "skip_space r")
    case (Cons c r')
    have "json_items n r' = json_items m r'"
      using assms(2) value_shorter(1) [OF Some [unfolded xr]] space_shorter [OF Cons] by simp
    then show ?thesis by (simp add: assms(1) Some xr Cons)
  qed (simp add: assms(1) Some xr del: dropWhile_eq_Nil_conv)
qed (simp add: assms(1))

lemma members_fuel:
  assumes "\<And>r. length r + 3 \<le> length s \<Longrightarrow> json_value n r = json_value m r \<and> json_members n r = json_members m r"
  shows "json_members (Suc n) s = json_members (Suc m) s"
proof (cases "\<exists>b k r r1. skip_space s = CHR 0x22 # b \<and> json_body b = Some (k, r) \<and> skip_space r = CHR '':'' # r1")
  case True
  then obtain b k r r1 where
    at: "skip_space s = CHR 0x22 # b" "json_body b = Some (k, r)" "skip_space r = CHR '':'' # r1" by blast
  have less: "length r1 + 3 \<le> length s"
    using space_shorter [OF at(1)] body_shorter [OF at(2)] space_shorter [OF at(3)] by simp
  note first = assms [OF less]
  show ?thesis
  proof (cases "json_value m r1")
    case (Some xr)
    obtain x r2 where xr: "xr = (x, r2)" by (cases xr)
    show ?thesis
    proof (cases "skip_space r2")
      case (Cons c r3)
      have "json_members n r3 = json_members m r3"
        using assms less value_shorter(1) [OF Some [unfolded xr]] space_shorter [OF Cons] by simp
      then show ?thesis by (simp add: at first Some xr Cons)
    qed (simp add: at first Some xr del: dropWhile_eq_Nil_conv)
  qed (simp add: at first)
next
  case False
  show ?thesis
  proof (cases "skip_space s")
    case (Cons q b)
    note at = Cons
    show ?thesis
    proof (cases "json_body b")
      case (Some kr)
      with False at show ?thesis by (cases kr; cases "skip_space (snd kr)") (auto simp del: dropWhile_eq_Nil_conv)
    qed (simp add: at)
  qed (simp del: dropWhile_eq_Nil_conv)
qed

lemma json_fuel:
  "(2 * length s < n \<longrightarrow> 2 * length s < m \<longrightarrow> json_value n s = json_value m s)
   \<and> (2 * length s + 1 < n \<longrightarrow> 2 * length s + 1 < m \<longrightarrow> json_items n s = json_items m s \<and> json_members n s = json_members m s)"
proof (induction n arbitrary: s m)
  case (Suc n)
  show ?case
  proof (cases m)
    case (Suc m')
    have "json_value (Suc n) s = json_value (Suc m') s" if "2 * length s < Suc n" "2 * length s < Suc m'"
      by (rule value_fuel) (use Suc.IH [of _ m'] that in auto)
    moreover have "json_items (Suc n) s = json_items (Suc m') s" if "2 * length s + 1 < Suc n" "2 * length s + 1 < Suc m'"
      by (rule items_fuel) (use Suc.IH [of _ m'] that in auto)
    moreover have "json_members (Suc n) s = json_members (Suc m') s" if "2 * length s + 1 < Suc n" "2 * length s + 1 < Suc m'"
      by (rule members_fuel) (use Suc.IH [of _ m'] that in auto)
    ultimately show ?thesis unfolding Suc by blast
  qed simp
qed simp

text \<open>
  \<open>JSON.parse\<close> returns on every text: with any fuel beyond twice the length of the text the parser
  gives the same result, so the fuel never runs out, and a text is refused only for what it says.
\<close>

theorem parse_terminates:
  assumes "2 * length s < n"
  shows "JSON_parse s = (case json_value n s of None \<Rightarrow> None
    | Some (v, r) \<Rightarrow> if skip_space r = [] then Some (json_build v) else None)"
  using json_fuel [of s n "2 * length s + 1"] assms by (simp add: JSON_parse_def)

theorem parse_terminates_witness:
  "JSON_parse ''[-2 ]'' = Some (JArr [JInt (- 2)]) \<and> json_value 20 ''[-2 ]'' = Some (JArr [JInt (- 2)], [])"
proof -
  have v: "json_value 20 ''[-2 ]'' = Some (JArr [JInt (- 2)], [])" by code_simp
  have "2 * length ''[-2 ]'' < 20" by simp
  from parse_terminates [OF this] v show ?thesis by (simp del: json_value.simps)
qed

end
