(* ===== verification/M2Canonical.thy ===== *)
theory M2Canonical
  imports M1Contract JsonParse "HOL-Library.Multiset"
begin

text \<open>
  The canonical text of a document and its digest (\<open>contracts/m2/execution-v1.js\<close>,
  \<open>canonicalize\<close> to \<open>computeM2ExecutionValueDigest\<close>). Every identity of the authority
  pipeline is the SHA-256 of this text. The main results: two documents have the same canonical
  text exactly when they are equal up to the order of properties and Unicode normalisation, and so
  a digest that matches names the document or exhibits a collision of the hash.
\<close>

section \<open>\<open>JSON.stringify\<close> of a string\<close>

definition hex_digit :: "nat \<Rightarrow> char" where
  "hex_digit n = char_of (if n < 10 then 48 + n else 87 + n)"

definition json_escape :: "char \<Rightarrow> string" where
  "json_escape c =
     (let b = (of_char c :: nat)
      in if b = 34 \<or> b = 92 then [CHR 0x5C, c]
         else if b = 8 then [CHR 0x5C, CHR ''b'']
         else if b = 9 then [CHR 0x5C, CHR ''t'']
         else if b = 10 then [CHR 0x5C, CHR ''n'']
         else if b = 12 then [CHR 0x5C, CHR ''f'']
         else if b = 13 then [CHR 0x5C, CHR ''r'']
         else if b < 32 then CHR 0x5C # ''u00'' @ [hex_digit (b div 16), hex_digit (b mod 16)]
         else [c])"

text \<open>An evaluation rule: a character from the code point 32 on needs no look at the escapes.\<close>

lemma bits_ge_32: "of_char (Char b0 b1 b2 b3 b4 b5 b6 b7) \<ge> (32::nat)" if "b5 \<or> b6 \<or> b7"
  using that by (cases b0; cases b1; cases b2; cases b3; cases b4; cases b5; cases b6; cases b7) simp_all

lemma json_escape_code [code]:
  "json_escape c =
     (if (case c of Char b0 b1 b2 b3 b4 b5 b6 b7 \<Rightarrow> b5 \<or> b6 \<or> b7) \<and> c \<noteq> CHR 0x22 \<and> c \<noteq> CHR 0x5C then [c]
      else (let b = (of_char c :: nat)
      in if b = 34 \<or> b = 92 then [CHR 0x5C, c]
         else if b = 8 then [CHR 0x5C, CHR ''b'']
         else if b = 9 then [CHR 0x5C, CHR ''t'']
         else if b = 10 then [CHR 0x5C, CHR ''n'']
         else if b = 12 then [CHR 0x5C, CHR ''f'']
         else if b = 13 then [CHR 0x5C, CHR ''r'']
         else if b < 32 then CHR 0x5C # ''u00'' @ [hex_digit (b div 16), hex_digit (b mod 16)]
         else [c]))"
proof (cases "(case c of Char b0 b1 b2 b3 b4 b5 b6 b7 \<Rightarrow> b5 \<or> b6 \<or> b7) \<and> c \<noteq> CHR 0x22 \<and> c \<noteq> CHR 0x5C")
  case True
  have b: "of_char c \<ge> (32::nat)" using True bits_ge_32 by (cases c) auto
  have q: "of_char c \<noteq> (34::nat)"
  proof
    assume "of_char c = (34::nat)"
    then have "of_char c = (of_char CHR 0x22 :: nat)" by simp
    then show False using True by (simp only: of_char_eq_iff) 
  qed
  have s: "of_char c \<noteq> (92::nat)"
  proof
    assume "of_char c = (92::nat)"
    then have "of_char c = (of_char CHR 0x5C :: nat)" by simp
    then show False using True by (simp only: of_char_eq_iff) 
  qed
  show ?thesis using b q s True by (simp add: json_escape_def Let_def)
next
  case False
  then show ?thesis by (simp only: json_escape_def if_False)
qed

definition json_quote :: "string \<Rightarrow> string" where
  "json_quote s = CHR 0x22 # concat (map json_escape s) @ [CHR 0x22]"

section \<open>\<open>canonicalize\<close>\<close>

text \<open>
  \<open>fields\<close> of the source: the properties with their normalised names, sorted bytewise. The
  sort is stable, as \<open>Array.prototype.sort\<close> is.
\<close>

definition canonical_fields :: "js_env \<Rightarrow> (string \<times> 'a) list \<Rightarrow> (string \<times> 'a) list" where
  "canonical_fields E kvs = sort_key fst (map (\<lambda>(k, x). (nfc E k, x)) kvs)"

definition canonical_number :: "jsval \<Rightarrow> string js" where
  "canonical_number v =
     (case v of
        JInt i \<Rightarrow> (if - MAX_SAFE_INTEGER \<le> i \<and> i \<le> MAX_SAFE_INTEGER then Inr (int_to_string i)
                   else Inl (TypeErr ''m2-execution-canonical:invalid-number''))
      | _ \<Rightarrow> Inl (TypeErr ''m2-execution-canonical:invalid-number''))"

function canonicalize :: "js_env \<Rightarrow> nat \<Rightarrow> jsval \<Rightarrow> string js" where
  "canonicalize E depth v =
     (if depth > 32 then Inl (TypeErr ''m2-execution-canonical:too-deep'')
      else (case v of
              JNull \<Rightarrow> Inr ''null''
            | JStr s \<Rightarrow> Inr (json_quote (nfc E s))
            | JBool b \<Rightarrow> Inr (if b then ''true'' else ''false'')
            | JUndef \<Rightarrow> Inl (TypeErr ''m2-execution-canonical:unsupported-value'')
            | JArr xs \<Rightarrow>
                bindE (mapE (canonicalize E (depth + 1)) xs)
                  (\<lambda>ts. Inr (''['' @ join_with '','' ts @ '']''))
            | JObj kvs \<Rightarrow>
                (let fields = canonical_fields E kvs
                 in if \<not> distinct_adj (map fst fields)
                    then Inl (TypeErr ''m2-execution-canonical:normalized-key-collision'')
                    else bindE (mapE (\<lambda>(k, x). bindE (canonicalize E (depth + 1) x)
                                        (\<lambda>t. Inr (json_quote k @ '':'' @ t))) fields)
                           (\<lambda>ts. Inr (''{'' @ join_with '','' ts @ ''}'')))
            | _ \<Rightarrow> canonical_number v))"
  by pat_completeness auto

termination by (relation "measure (\<lambda>(E, d, v). 33 - d)") auto

declare canonicalize.simps [simp del]

definition canonicalizeM2ExecutionValue :: "js_env \<Rightarrow> jsval \<Rightarrow> string js" where
  "canonicalizeM2ExecutionValue E v = canonicalize E 0 v"

definition computeM2ExecutionValueDigest :: "js_env \<Rightarrow> jsval \<Rightarrow> string js" where
  "computeM2ExecutionValueDigest E v =
     bindE (canonicalizeM2ExecutionValue E v) (\<lambda>t. Inr (''sha256:'' @ sha256 E t))"

text \<open>
  The value the canonical text stands for (\<open>normalizeM2ExecutionValue\<close>, the text parsed
  again): strings and property names normalised, properties sorted.
\<close>

fun normal_value :: "js_env \<Rightarrow> jsval \<Rightarrow> jsval" where
  "normal_value E (JStr s) = JStr (nfc E s)"
| "normal_value E (JArr xs) = JArr (map (normal_value E) xs)"
| "normal_value E (JObj kvs) = JObj (canonical_fields E (map (\<lambda>(k, x). (k, normal_value E x)) kvs))"
| "normal_value E v = v"

section \<open>Reading a canonical text\<close>

text \<open>A canonical text is in the layout \<open>JSON.parse\<close> reads: one escape, one string body, one number, then values.\<close>

lemma char_code_iff:
  "(of_char c :: nat) = 34 \<longleftrightarrow> c = CHR 0x22" "(of_char c :: nat) = 92 \<longleftrightarrow> c = CHR 0x5C"
  "(of_char c :: nat) = 8 \<longleftrightarrow> c = CHR 0x08" "(of_char c :: nat) = 9 \<longleftrightarrow> c = CHR 0x09"
  "(of_char c :: nat) = 10 \<longleftrightarrow> c = CHR 0x0A" "(of_char c :: nat) = 12 \<longleftrightarrow> c = CHR 0x0C"
  "(of_char c :: nat) = 13 \<longleftrightarrow> c = CHR 0x0D"
  by (simp_all flip: of_char_eq_iff [where 'a = nat])

lemma hex_value_digit: "n < 16 \<Longrightarrow> hex_value (hex_digit n) = Some n"
  by (auto simp: hex_value_def hex_digit_def Let_def)

lemma unescape_control:
  assumes "(of_char c :: nat) < 32"
  shows "json_unescape (''u00'' @ hex_digit (of_char c div 16) # hex_digit (of_char c mod 16) # w) = Some ([c], 5)"
proof -
  have "hex_value CHR ''0'' = Some 0" by (simp add: hex_value_def)
  moreover have "of_char c div 16 * 16 + of_char c mod 16 = (of_char c :: nat)" by simp
  ultimately show ?thesis using assms
    by (simp add: json_unescape_def json_unicode_def four_hex_def hex_value_digit utf8_encode_def)
qed

lemma body_escape: "json_body (json_escape c @ w) = map_option (\<lambda>(t, r). (c # t, r)) (json_body w)"
proof -
  consider "c = CHR 0x22" | "c = CHR 0x5C" | "c = CHR 0x08" | "c = CHR 0x09" | "c = CHR 0x0A" | "c = CHR 0x0C" | "c = CHR 0x0D"
    | "(of_char c :: nat) \<notin> {34, 92, 8, 9, 10, 12, 13}"
    by (auto simp: char_code_iff)
  then show ?thesis
  proof cases
    case 8
    then have ne: "c \<noteq> CHR 0x22" "c \<noteq> CHR 0x5C" by auto
    show ?thesis
    proof (cases "(of_char c :: nat) < 32")
      case True
      with 8 have "json_escape c = CHR 0x5C # ''u00'' @ [hex_digit (of_char c div 16), hex_digit (of_char c mod 16)]"
        by (simp add: json_escape_def Let_def)
      then show ?thesis using unescape_control [OF True, of w] by (simp add: json_body_Cons)
    next
      case False
      with 8 have "json_escape c = [c]" by (simp add: json_escape_def Let_def)
      then show ?thesis using ne False by (simp add: json_body_Cons)
    qed
  qed (simp_all add: json_escape_def json_body_Cons json_unescape_def)
qed

lemma body_escaped: "json_body (concat (map json_escape s) @ CHR 0x22 # r) = Some (s, r)"
  by (induction s) (simp_all add: json_body_Cons body_escape)

lemma takeWhile_digits:
  assumes "list_all is_digit ds" and "r = [] \<or> \<not> is_digit (hd r)"
  shows "takeWhile is_digit (ds @ r) = ds" and "dropWhile is_digit (ds @ r) = r"
  using assms by (induction ds) (cases r; auto)+

lemma decimal_value_nat: "list_all is_digit s \<Longrightarrow> decimal (int a) s = int (dec_value a s)"
proof (induction s arbitrary: a)
  case (Cons c s)
  then have "48 \<le> (of_char c :: nat)" by (simp add: is_digit_def)
  then have "int (of_char c - 48) = int (of_char c) - 48" by (simp only: of_nat_diff of_nat_numeral)
  then have "10 * int a + (int (of_char c) - 48) = int (10 * a + (of_char c - 48))"
    by (simp only: of_nat_add of_nat_mult of_nat_numeral)
  then show ?case using Cons by (simp only: decimal.simps dec_value.simps list.pred_inject)
qed simp

lemma dec_digits_zero: "hd (dec_digits n) = CHR ''0'' \<Longrightarrow> n = 0"
proof (induction n rule: dec_digits.induct)
  case (1 n)
  show ?case
  proof (cases "n < 10")
    case True
    with 1(2) have "char_of (48 + n) = CHR ''0''" by (simp add: dec_digits.simps [of n])
    then have "of_char (char_of (48 + n) :: char) = (48 :: nat)" by simp
    then show ?thesis using True by simp
  next
    case False
    with 1 show ?thesis by (simp add: dec_digits.simps [of n])
  qed
qed

text \<open>What may follow a value in a canonical text: nothing, or a delimiter.\<close>

definition delimited :: "string \<Rightarrow> bool" where
  "delimited r \<longleftrightarrow> r = [] \<or> hd r \<in> {CHR '','', CHR '']'', CHR ''}''}"

definition reads :: "string \<Rightarrow> jsval \<Rightarrow> bool" where
  "reads t x \<longleftrightarrow> t \<noteq> [] \<and> hd t \<notin> {CHR '']'', CHR ''}''} \<and> \<not> json_space (hd t)
     \<and> (\<forall>n r. 2 * length t < n \<longrightarrow> delimited r \<longrightarrow> json_value n (t @ r) = Some (x, r))"

lemma delimited_simps [simp]:
  "delimited []" "delimited (CHR '','' # r)" "delimited (CHR '']'' # r)" "delimited (CHR ''}'' # r)"
  by (simp_all add: delimited_def)

lemma delimited_no_digit: "delimited r \<Longrightarrow> r = [] \<or> \<not> is_digit (hd r)"
  by (auto simp: delimited_def is_digit_def)

lemma digit_head: "list_all is_digit (dec_digits n)" "is_digit (hd (dec_digits n))"
  using dec_digits_all by (simp add: list_all_iff) (metis dec_digits_all dec_digits_nonempty list.set_sel(1))

lemma json_digits_dec: "delimited r \<Longrightarrow> json_digits (dec_digits n @ r) = (dec_digits n, r)"
proof (cases "hd (dec_digits n) = CHR ''0''")
  case True
  then have n: "n = 0" by (rule dec_digits_zero)
  have "dec_digits 0 = [CHR ''0'']" by code_simp
  then show ?thesis by (simp add: json_digits_def n)
next
  case False
  assume r: "delimited r"
  obtain c t where ct: "dec_digits n = c # t" by (cases "dec_digits n") simp_all
  note run = takeWhile_digits [OF digit_head(1) delimited_no_digit [OF r], of n]
  show ?thesis using run False by (simp add: json_digits_def ct)
qed

lemma delimited_number: "delimited r \<Longrightarrow> json_fraction r = Some ([], r) \<and> json_exponent r = Some (0, r)"
  by (cases r) (auto simp: delimited_def json_fraction_def json_exponent_def)

lemma number_int:
  assumes "- MAX_SAFE_INTEGER \<le> i" "i \<le> MAX_SAFE_INTEGER" and "delimited r"
  shows "json_number (int_to_string i @ r) = Some (JInt i, r)"
proof -
  have nat: "decimal_value neg (dec_digits n) [] 0 = signed neg (int n)" if "int n \<le> MAX_SAFE_INTEGER" for neg n
    using that decimal_value_nat [OF digit_head(1), of 0 n]
    by (simp add: decimal_value_def nearest_double_def dec_value_digits)
  have plain: "hd (dec_digits n @ r) \<noteq> CHR ''-''" for n
    using digit_head(2) [of n] by (auto simp: is_digit_def)
  show ?thesis
  proof (cases "i < 0")
    case True
    with assms nat [of "nat (- i)" True] show ?thesis
      by (simp add: json_number_def int_to_string_def json_digits_dec delimited_number signed_def)
  next
    case False
    with assms nat [of "nat i" False] plain show ?thesis
      by (auto simp: json_number_def int_to_string_def json_digits_dec delimited_number signed_def)
  qed
qed

lemma reads_token:
  assumes "\<And>r. delimited r \<Longrightarrow> json_token (t @ r) = Some (x, r)" and "t \<noteq> []"
    and "hd t \<notin> {CHR '']'', CHR ''}'', CHR ''['', CHR ''{'', CHR 0x22}" and "\<not> json_space (hd t)"
  shows "reads t x"
  unfolding reads_def
proof (intro conjI allI impI)
  fix n :: nat and r
  assume "2 * length t < n" and r: "delimited r"
  then obtain m where m: "n = Suc m" by (cases n) auto
  obtain c t' where t: "t = c # t'" using assms(2) by (cases t) auto
  show "json_value n (t @ r) = Some (x, r)" using assms(1) [OF r] assms(3,4) by (simp add: m t)
qed (use assms in auto)

lemma reads_int:
  assumes "- MAX_SAFE_INTEGER \<le> i" "i \<le> MAX_SAFE_INTEGER"
  shows "reads (int_to_string i) (JInt i)"
proof -
  obtain c t where ct: "int_to_string i = c # t"
    by (cases "int_to_string i") (auto simp: int_to_string_def split: if_splits)
  then have c: "c = CHR ''-'' \<or> is_digit c"
    using digit_head(2) [of "nat i"] by (auto simp: int_to_string_def split: if_splits)
  have ne: "c \<noteq> CHR ''n''" "c \<noteq> CHR ''t''" "c \<noteq> CHR ''f''" "c \<noteq> CHR 0x22"
      "c \<noteq> CHR ''[''" "c \<noteq> CHR ''{''" "c \<noteq> CHR '']''" "c \<noteq> CHR ''}''" "\<not> json_space c"
    using c by (auto simp: is_digit_def json_space_def)
  have "json_token (int_to_string i @ r) = Some (JInt i, r)" if "delimited r" for r
    using number_int [OF assms that] ne by (simp add: json_token_def ct)
  then show ?thesis using ne by (intro reads_token) (simp_all add: ct)
qed

lemma reads_quote: "reads (json_quote s) (JStr s)"
  unfolding reads_def
proof (intro conjI allI impI)
  fix n :: nat and r
  assume n: "2 * length (json_quote s) < n"
  then obtain m where m: "n = Suc m" by (cases n) auto
  show "json_value n (json_quote s @ r) = Some (JStr s, r)"
    using body_escaped [of s r] by (simp add: json_quote_def m)
qed (auto simp: json_quote_def)

lemma reads_literals: "reads ''null'' JNull" "reads ''true'' (JBool True)" "reads ''false'' (JBool False)"
  by (rule reads_token; simp add: json_token_def json_space_def)+

lemma reads_nonempty: "reads t x \<Longrightarrow> 1 \<le> length t"
  by (cases t) (auto simp: reads_def)

lemma read_items_join:
  "list_all2 reads ts xs \<Longrightarrow> ts \<noteq> [] \<Longrightarrow> 2 * length (join_with '','' ts) + 1 < n \<Longrightarrow>
     json_items n (join_with '','' ts @ CHR '']'' # r) = Some (xs, r)"
proof (induction ts xs arbitrary: n rule: list_all2_induct)
  case (Cons t ts x xs)
  obtain m where n: "n = Suc m" using Cons.prems by (cases n) auto
  show ?case
  proof (cases ts)
    case Nil
    with Cons n have "json_value m (t @ CHR '']'' # r) = Some (x, CHR '']'' # r)"
      by (simp add: reads_def)
    with Nil Cons n show ?thesis by simp
  next
    case (Cons t' ts')
    have "json_value m (t @ CHR '','' # join_with '','' ts @ CHR '']'' # r)
        = Some (x, CHR '','' # join_with '','' ts @ CHR '']'' # r)"
      using Cons.prems Cons.hyps Cons n by (simp add: reads_def)
    moreover have "json_items m (join_with '','' ts @ CHR '']'' # r) = Some (xs, r)"
      using Cons.IH [of m] Cons.prems Cons.hyps Cons n by (simp add: reads_nonempty)
    ultimately show ?thesis using Cons n by (simp add: join_Cons)
  qed
qed simp

lemma read_members_join:
  "list_all2 (\<lambda>t (k, x). \<exists>u. t = json_quote k @ '':'' @ u \<and> reads u x) ts kvs \<Longrightarrow> ts \<noteq> [] \<Longrightarrow>
     2 * length (join_with '','' ts) + 1 < n \<Longrightarrow>
     json_members n (join_with '','' ts @ CHR ''}'' # r) = Some (kvs, r)"
proof (induction ts kvs arbitrary: n rule: list_all2_induct)
  case (Cons t ts kx kvs)
  obtain k x where kx: "kx = (k, x)" by (cases kx)
  with Cons obtain u where u: "t = json_quote k @ '':'' @ u" "reads u x" by auto
  obtain m where n: "n = Suc m" using Cons.prems by (cases n) auto
  show ?case
  proof (cases ts)
    case Nil
    with Cons u n have "json_value m (u @ CHR ''}'' # r) = Some (x, CHR ''}'' # r)"
      by (simp add: reads_def json_quote_def)
    with Nil Cons n u show ?thesis by (simp add: kx json_quote_def body_escaped)
  next
    case (Cons t' ts')
    have "json_value m (u @ CHR '','' # join_with '','' ts @ CHR ''}'' # r)
        = Some (x, CHR '','' # join_with '','' ts @ CHR ''}'' # r)"
      using Cons.prems Cons.hyps Cons n u by (simp add: reads_def json_quote_def)
    moreover have "json_members m (join_with '','' ts @ CHR ''}'' # r) = Some (kvs, r)"
      using Cons.IH [of m] Cons.prems Cons.hyps Cons n u by (simp add: json_quote_def)
    ultimately show ?thesis
      using Cons n u by (simp add: kx json_quote_def join_Cons body_escaped)
  qed
qed simp

lemma join_hd:
  assumes "ts \<noteq> []" and "hd ts \<noteq> []"
  shows "join_with d ts \<noteq> [] \<and> hd (join_with d ts) = hd (hd ts)"
  using assms by (cases "(d, ts)" rule: join_with.cases) auto

lemma skip_head: "t \<noteq> [] \<Longrightarrow> \<not> json_space (hd t) \<Longrightarrow> skip_space (t @ r) = hd t # tl t @ r"
  by (cases t) simp_all

lemma reads_array:
  assumes "list_all2 reads ts xs"
  shows "reads (''['' @ join_with '','' ts @ '']'') (JArr xs)"
  unfolding reads_def
proof (intro conjI allI impI)
  fix n :: nat and r
  assume n: "2 * length (''['' @ join_with '','' ts @ '']'') < n"
  then obtain m where m: "n = Suc m" by (cases n) auto
  show "json_value n ((''['' @ join_with '','' ts @ '']'') @ r) = Some (JArr xs, r)"
  proof (cases "ts = []")
    case False
    with assms have "reads (hd ts) (hd xs)" by (cases ts; cases xs) auto
    then have "hd (join_with '','' ts) \<noteq> CHR '']''" "join_with '','' ts \<noteq> []" "\<not> json_space (hd (join_with '','' ts))"
      using join_hd [OF False, of "'',''"] by (auto simp: reads_def)
    with read_items_join [OF assms False, of m r] n show ?thesis
      by (simp add: m skip_head)
  qed (use assms m in auto)
qed auto

lemma reads_object:
  assumes "list_all2 (\<lambda>t (k, x). \<exists>u. t = json_quote k @ '':'' @ u \<and> reads u x) ts kvs"
  shows "reads (''{'' @ join_with '','' ts @ ''}'') (JObj kvs)"
  unfolding reads_def
proof (intro conjI allI impI)
  fix n :: nat and r
  assume n: "2 * length (''{'' @ join_with '','' ts @ ''}'') < n"
  then obtain m where m: "n = Suc m" by (cases n) auto
  show "json_value n ((''{'' @ join_with '','' ts @ ''}'') @ r) = Some (JObj kvs, r)"
  proof (cases "ts = []")
    case False
    with assms have "hd ts \<noteq> [] \<and> hd (hd ts) = CHR 0x22"
      by (cases ts; cases kvs) (auto simp: json_quote_def)
    then have "hd (join_with '','' ts) = CHR 0x22" "join_with '','' ts \<noteq> []"
      using join_hd [OF False, of "'',''"] by auto
    with read_members_join [OF assms False, of m r] n show ?thesis
      by (simp add: m skip_head)
  qed (use assms m in auto)
qed auto

lemma insort_map_value:
  "insort_key (\<lambda>(k, x). g k) (k, f x) (map (\<lambda>(k, x). (k, f x)) kvs) = map (\<lambda>(k, x). (k, f x)) (insort_key (\<lambda>(k, x). g k) (k, x) kvs)"
  by (induction kvs) auto

lemma sort_map_value:
  "sort_key (\<lambda>(k, x). g k) (map (\<lambda>(k, x). (k, f x)) kvs) = map (\<lambda>(k, x). (k, f x)) (sort_key (\<lambda>(k, x). g k) kvs)"
proof (induction kvs)
  case (Cons p kvs)
  then show ?case by (cases p) (simp add: insort_map_value)
qed simp

lemma filter_map_value:
  "filter (\<lambda>(k, x). P k) (map (\<lambda>(k, x). (k, f x)) kvs) = map (\<lambda>(k, x). (k, f x)) (filter (\<lambda>(k, x). P k) kvs)"
  by (induction kvs) auto

lemma insort_map_snd:
  "insort_key fst (k, f x) (map (\<lambda>(k, x). (k, f x)) kvs) = map (\<lambda>(k, x). (k, f x)) (insort_key fst (k, x) kvs)"
  by (induction kvs) auto

lemma canonical_fields_map:
  "canonical_fields E (map (\<lambda>(k, x). (k, f x)) kvs) = map (\<lambda>(k, x). (k, f x)) (canonical_fields E kvs)"
  by (induction kvs) (auto simp: canonical_fields_def insort_map_snd)

lemma canonicalize_reads: "canonicalize E d v = Inr t \<Longrightarrow> reads t (normal_value E v)"
proof (induction E d v arbitrary: t rule: canonicalize.induct)
  case (1 E d v)
  have d: "\<not> d > 32" using 1(3) by (auto simp: canonicalize.simps [of E d])
  show ?case
  proof (cases v)
    case (JArr xs)
    with 1(3) d obtain ts where ts: "mapE (canonicalize E (d + 1)) xs = Inr ts"
      and t: "t = ''['' @ join_with '','' ts @ '']''"
      by (auto simp: canonicalize.simps [of E d] bindE_Inr_iff)
    from ts have "list_all2 (\<lambda>x u. canonicalize E (d + 1) x = Inr u) xs ts"
      by (simp add: mapE_Inr_iff)
    then have "list_all2 reads ts (map (normal_value E) xs)"
      using 1(1) [OF d JArr] by (fastforce simp: list_all2_conv_all_nth in_set_conv_nth)
    then show ?thesis using t JArr by (simp add: reads_array del: append_Cons append_Nil)
  next
    case (JObj kvs)
    let ?fs = "canonical_fields E kvs"
    from JObj 1(3) d obtain ts where
      ts: "mapE (\<lambda>(k, x). bindE (canonicalize E (d + 1) x) (\<lambda>u. Inr (json_quote k @ '':'' @ u))) ?fs = Inr ts"
      and key: "distinct_adj (map fst ?fs)" and t: "t = ''{'' @ join_with '','' ts @ ''}''"
      by (auto simp: canonicalize.simps [of E d] bindE_Inr_iff Let_def split: if_splits)
    have "list_all2 (\<lambda>t (k, x). \<exists>u. t = json_quote k @ '':'' @ u \<and> reads u x) ts
        (map (\<lambda>(k, x). (k, normal_value E x)) ?fs)"
      unfolding list_all2_conv_all_nth
    proof (intro conjI allI impI)
      from ts show len: "length ts = length (map (\<lambda>(k, x). (k, normal_value E x)) ?fs)"
        by (auto simp: mapE_Inr_iff dest: list_all2_lengthD)
      fix i assume i: "i < length ts"
      obtain k x where kx: "?fs ! i = (k, x)" by (cases "?fs ! i")
      with ts i len have "bindE (canonicalize E (d + 1) x) (\<lambda>u. Inr (json_quote k @ '':'' @ u)) = Inr (ts ! i)"
        by (auto simp: mapE_Inr_iff list_all2_conv_all_nth dest!: spec [of _ i])
      then obtain u where u: "canonicalize E (d + 1) x = Inr u" "ts ! i = json_quote k @ '':'' @ u"
        by (auto simp: bindE_Inr_iff)
      have "(k, x) \<in> set ?fs" using kx i len by (metis length_map nth_mem)
      from 1(2) [OF d JObj refl _ this refl u(1)] key have "reads u (normal_value E x)" by simp
      with u kx i len show "case map (\<lambda>(k, x). (k, normal_value E x)) ?fs ! i of
          (k, x) \<Rightarrow> \<exists>u. ts ! i = json_quote k @ '':'' @ u \<and> reads u x" by auto
    qed
    then show ?thesis using t JObj by (simp add: reads_object canonical_fields_map del: append_Cons append_Nil)
  qed (use 1(3) d reads_int reads_quote reads_literals in
      \<open>auto simp: canonicalize.simps [of E d] canonical_number_def split: if_splits\<close>)
qed

lemma canonicalize_normal_cong:
  "normal_value E v = normal_value E w \<Longrightarrow> canonicalize E d v = canonicalize E d w"
proof (induction E d v arbitrary: w rule: canonicalize.induct)
  case (1 E d v)
  show ?case
  proof (cases "d > 32")
    case d: False
    show ?thesis
    proof (cases v)
      case (JArr xs)
      with 1(3) obtain ys where w: "w = JArr ys" and xy: "map (normal_value E) xs = map (normal_value E) ys"
        by (cases w) auto
      have len: "length xs = length ys" using map_eq_imp_length_eq [OF xy] .
      have step: "canonicalize E (d + 1) (xs ! i) = canonicalize E (d + 1) (ys ! i)" if "i < length xs" for i
      proof (rule 1(1) [OF d JArr nth_mem [OF that]])
        show "normal_value E (xs ! i) = normal_value E (ys ! i)"
          using xy that len by (metis nth_map)
      qed
      have "map (canonicalize E (d + 1)) xs = map (canonicalize E (d + 1)) ys"
        using len step by (auto intro: nth_equalityI)
      then have "mapE (canonicalize E (d + 1)) xs = mapE (canonicalize E (d + 1)) ys"
        by (rule mapE_map_cong)
      then show ?thesis by (simp add: canonicalize.simps [of E d] JArr w)
    next
      case (JObj kvs)
      let ?g = "\<lambda>(k, x). bindE (canonicalize E (d + 1) x) (\<lambda>t. Inr (json_quote k @ '':'' @ t))"
      let ?n = "\<lambda>(k, x). (k, normal_value E x)"
      from JObj 1(3) obtain kvs' where w: "w = JObj kvs'"
        and eq: "map ?n (canonical_fields E kvs) = map ?n (canonical_fields E kvs')"
        by (cases w) (auto simp: canonical_fields_map)
      let ?f = "canonical_fields E kvs" and ?f' = "canonical_fields E kvs'"
      have len: "length ?f = length ?f'" using map_eq_imp_length_eq [OF eq] .
      have "map fst (map ?n ?f) = map fst (map ?n ?f')" using eq by simp
      then have keys: "map fst ?f = map fst ?f'" by (simp add: case_prod_unfold comp_def)
      have step: "?g (?f ! i) = ?g (?f' ! i)" if i: "i < length ?f" and key: "distinct_adj (map fst ?f)" for i
      proof -
        obtain k x k' x' where kx: "?f ! i = (k, x)" "?f' ! i = (k', x')" by fastforce
        have "map ?n ?f ! i = map ?n ?f' ! i" using eq by simp
        then have "k = k'" "normal_value E x = normal_value E x'" using kx i len by auto
        moreover have "(k, x) \<in> set ?f" using kx i by (metis nth_mem)
        ultimately show ?thesis using 1(2) [OF d JObj refl _ _ refl] key kx by fastforce
      qed
      have "mapE ?g ?f = mapE ?g ?f'" if "distinct_adj (map fst ?f)"
        using len step [OF _ that] by (intro mapE_map_cong) (auto intro: nth_equalityI)
      then show ?thesis by (simp add: canonicalize.simps [of E d] JObj w keys)
    qed (use 1(3) in \<open>cases w; simp add: canonicalize.simps [of E d]\<close>)+
  qed (simp add: canonicalize.simps [of E d])
qed

section \<open>What the canonical text promises\<close>

lemma canonicalize_inj:
  assumes "canonicalize E d v = Inr t" and "canonicalize E d' w = Inr t"
  shows "normal_value E v = normal_value E w"
  using canonicalize_reads [OF assms(1)] canonicalize_reads [OF assms(2)]
  by (auto simp: reads_def dest!: spec [of _ "Suc (2 * length t)"] spec [of _ "[]"])

lemma canonical_fields_idem:
  assumes "\<And>s. nfc E (nfc E s) = nfc E s"
  shows "canonical_fields E (canonical_fields E kvs) = canonical_fields E kvs"
proof -
  let ?fs = "canonical_fields E kvs"
  have "map (\<lambda>(k, x). (nfc E k, x)) ?fs = ?fs"
    using assms by (intro map_idI) (auto simp: canonical_fields_def)
  moreover have "sorted (map fst ?fs)" by (simp add: canonical_fields_def)
  ultimately show ?thesis by (simp add: canonical_fields_def [of E ?fs] sort_key_sorted)
qed

lemma snd_canonical_fields: "snd ` set (canonical_fields E kvs) = snd ` set kvs"
  by (force simp: canonical_fields_def)

lemma normal_value_idem:
  assumes "\<And>s. nfc E (nfc E s) = nfc E s"
  shows "normal_value E (normal_value E v) = normal_value E v"
proof (induction v)
  case (JObj kvs)
  let ?n = "\<lambda>(k, x). (k, normal_value E x)"
  have "normal_value E (normal_value E x) = normal_value E x"
    if "(k, x) \<in> set (canonical_fields E kvs)" for k x
    using that snd_canonical_fields [of E kvs] JObj by (force simp: image_iff)
  then have "map ?n (map ?n (canonical_fields E kvs)) = map ?n (canonical_fields E kvs)"
    by auto
  then show ?case
    by (simp add: canonical_fields_map canonical_fields_idem [OF assms] del: map_map)
qed (simp_all add: assms)



section \<open>The text parsed again\<close>

definition normalizeM2ExecutionValue :: "js_env \<Rightarrow> jsval \<Rightarrow> jsval js" where
  "normalizeM2ExecutionValue E v =
     bindE (canonicalizeM2ExecutionValue E v) (\<lambda>t. case JSON_parse t of None \<Rightarrow> Inl (Err ''SyntaxError'') | Some w \<Rightarrow> Inr w)"

lemma canonical_parsed: "canonicalize E d v = Inr t \<Longrightarrow> JSON_parse t = Some (json_build (normal_value E v))"
  using canonicalize_reads [of E d v t] by (auto simp: reads_def JSON_parse_def dest!: spec [of _ "2 * length t + 1"] spec [of _ "[]"])

lemma update_new: "k \<notin> fst ` set kvs \<Longrightarrow> AList.update k x kvs = kvs @ [(k, x)]"
  by (induction kvs) auto

lemma update_all: "distinct (map fst (acc @ kvs)) \<Longrightarrow> foldl (\<lambda>acc (k, x). AList.update k x acc) acc kvs = acc @ kvs"
proof (induction kvs arbitrary: acc)
  case (Cons p kvs)
  obtain k x where p: "p = (k, x)" by (cases p)
  with Cons.prems have "k \<notin> fst ` set acc" by auto
  then show ?case using Cons.IH [of "acc @ [(k, x)]"] Cons.prems by (simp add: p update_new)
qed simp

lemma json_object_distinct: "distinct (map fst kvs) \<Longrightarrow> json_object kvs = JObj (property_order kvs)"
  using update_all [of "[]" kvs] by (simp add: json_object_def)

lemma property_order_mset: "mset (property_order kvs) = mset kvs"
  by (simp add: property_order_def case_prod_unfold union_filter_mset_complement)

lemma set_property_order: "set (property_order kvs) = set kvs"
  using property_order_mset by (metis set_mset_mset)

lemma property_order_map: "property_order (map (\<lambda>(k, x). (k, f x)) kvs) = map (\<lambda>(k, x). (k, f x)) (property_order kvs)"
  unfolding property_order_def filter_map_value sort_map_value map_append by (rule refl)

text \<open>Sorting undoes the order of properties on a sorted list of distinct names.\<close>

lemma sort_property_order:
  assumes "sorted (map fst kvs)" and "distinct (map fst kvs)"
  shows "sort_key fst (property_order kvs) = kvs"
proof (rule properties_for_sort_key)
  show "mset kvs = mset (property_order kvs)" by (simp add: property_order_mset)
  fix k :: "string \<times> 'a"
  assume "k \<in> set kvs"
  have one: "filter (\<lambda>p. fst p = fst k) xs = [k]" if "mset xs = mset kvs" for xs
  proof -
    have k: "k \<in> set xs" using that \<open>k \<in> set kvs\<close> by (metis set_mset_mset)
    have "distinct (map fst xs)" using that assms(2) by (metis mset_map mset_eq_imp_distinct_iff)
    then show ?thesis using k by (induction xs) (force simp: filter_empty_conv)+
  qed
  have flip: "(\<lambda>x. fst k = fst x) = (\<lambda>p. fst p = fst k)" by auto
  show "filter (\<lambda>x. fst k = fst x) kvs = filter (\<lambda>x. fst k = fst x) (property_order kvs)"
    unfolding flip using one [of kvs] one [of "property_order kvs"] by (simp add: property_order_mset)
qed (use assms in auto)

lemma sorted_distinct_adj: "sorted xs \<Longrightarrow> distinct_adj xs \<Longrightarrow> distinct (xs :: 'a :: linorder list)"
proof (induction xs)
  case (Cons x xs)
  show ?case
  proof (cases xs)
    case (Cons y ys)
    with Cons.prems have "x < y" "\<forall>z \<in> set xs. y \<le> z" by auto
    then have "x \<notin> set xs" by auto
    with Cons.IH Cons.prems Cons show ?thesis by auto
  qed simp
qed simp

lemma distinct_fields:
  assumes "distinct_adj (map fst (canonical_fields E kvs))"
  shows "distinct (map fst (canonical_fields E kvs))"
  using assms by (rule sorted_distinct_adj [rotated]) (simp add: canonical_fields_def)

lemma fields_property_order:
  assumes "\<And>s. nfc E (nfc E s) = nfc E s" and "distinct_adj (map fst (canonical_fields E kvs))"
  shows "canonical_fields E (property_order (canonical_fields E kvs)) = canonical_fields E kvs"
proof -
  let ?fs = "canonical_fields E kvs"
  have "nfc E k = k" if "(k, x) \<in> set (property_order ?fs)" for k x
    using that assms(1) by (auto simp: set_property_order) (auto simp: canonical_fields_def)
  then have "map (\<lambda>(k, x). (nfc E k, x)) (property_order ?fs) = property_order ?fs" by (intro map_idI) auto
  moreover have "sort_key fst (property_order ?fs) = ?fs"
    by (rule sort_property_order [OF _ distinct_fields [OF assms(2)]]) (simp add: canonical_fields_def)
  ultimately show ?thesis by (simp add: canonical_fields_def [of E "property_order ?fs"])
qed

lemma build_normal:
  assumes nfc: "\<And>s. nfc E (nfc E s) = nfc E s"
  shows "canonicalize E d v = Inr t \<Longrightarrow> normal_value E (json_build (normal_value E v)) = normal_value E v"
proof (induction v arbitrary: d t)
  case (JArr xs)
  then obtain ts where "mapE (canonicalize E (d + 1)) xs = Inr ts"
    by (auto simp: canonicalize.simps [of E d] bindE_Inr_iff split: if_splits)
  then have "\<forall>x \<in> set xs. \<exists>u. canonicalize E (d + 1) x = Inr u"
    by (auto simp: mapE_Inr_iff list_all2_conv_all_nth in_set_conv_nth)
  with JArr.IH show ?case by fastforce
next
  case (JObj kvs)
  let ?fs = "canonical_fields E kvs" and ?n = "normal_value E"
  from JObj.prems obtain ts where
    ts: "mapE (\<lambda>(k, x). bindE (canonicalize E (d + 1) x) (\<lambda>u. Inr (json_quote k @ '':'' @ u))) ?fs = Inr ts"
    and key: "distinct_adj (map fst ?fs)"
    by (auto simp: canonicalize.simps [of E d] bindE_Inr_iff Let_def split: if_splits)
  have again: "?n (json_build (?n x)) = ?n x" if kx: "(k, x) \<in> set ?fs" for k x
  proof -
    obtain u where "canonicalize E (d + 1) x = Inr u"
      using ts kx by (auto simp: mapE_Inr_iff list_all2_conv_all_nth in_set_conv_nth bindE_Inr_iff split: prod.splits) blast
    moreover obtain k' where "(k', x) \<in> set kvs" using kx snd_canonical_fields [of E kvs] by (force simp: image_iff)
    ultimately show ?thesis using JObj.IH by fastforce
  qed
  have composed: "json_build (?n (JObj kvs)) = JObj (map (\<lambda>(k, x). (k, json_build (?n x))) (property_order ?fs))"
  proof -
    have "?n (JObj kvs) = JObj (map (\<lambda>(k, x). (k, ?n x)) ?fs)" by (simp add: canonical_fields_map)
    then have "json_build (?n (JObj kvs)) = json_object (map (\<lambda>(k, x). (k, json_build (?n x))) ?fs)"
      by (simp add: comp_def case_prod_unfold)
    also have "\<dots> = JObj (property_order (map (\<lambda>(k, x). (k, json_build (?n x))) ?fs))"
      using distinct_fields [OF key] by (intro json_object_distinct) (simp add: comp_def case_prod_unfold)
    finally show ?thesis by (simp only: property_order_map [of "\<lambda>x. json_build (?n x)"])
  qed
  have "?n (json_build (?n (JObj kvs))) = JObj (map (\<lambda>(k, x). (k, ?n (json_build (?n x)))) ?fs)"
    unfolding composed using fields_property_order [OF nfc key]
    by (simp add: canonical_fields_map comp_def case_prod_unfold canonical_fields_map [of E "\<lambda>x. ?n (json_build (?n x))", unfolded case_prod_unfold])
  also have "\<dots> = ?n (JObj kvs)" using again by (auto simp: canonical_fields_map)
  finally show ?case .
qed (simp_all add: nfc)



text \<open>
  A digest binds the document. Two documents with the same digest are equal up to property
  order and normalisation, or their canonical texts are two different texts with the same SHA-256.
\<close>

theorem digest_binds_document:
  assumes "computeM2ExecutionValueDigest E v = Inr h" and "computeM2ExecutionValueDigest E w = Inr h"
  shows "normal_value E v = normal_value E w
    \<or> (\<exists>s t. canonicalizeM2ExecutionValue E v = Inr s \<and> canonicalizeM2ExecutionValue E w = Inr t
          \<and> s \<noteq> t \<and> sha256 E s = sha256 E t)"
proof -
  from assms obtain s t where st: "canonicalize E 0 v = Inr s" "canonicalize E 0 w = Inr t"
      "sha256 E s = sha256 E t"
    by (auto simp: computeM2ExecutionValueDigest_def canonicalizeM2ExecutionValue_def bindE_Inr_iff)
  show ?thesis
  proof (cases "s = t")
    case True
    with st show ?thesis using canonicalize_inj [of E 0 v s 0 w] by simp
  next
    case False
    with st show ?thesis by (auto simp: canonicalizeM2ExecutionValue_def)
  qed
qed

theorem digest_binds_document_witness:
  "normal_value ascii_env (JObj [(''b'', JBool True), (''a'', JNull)])
     = normal_value ascii_env (JObj [(''a'', JNull), (''b'', JBool True)])
    \<or> (\<exists>s t. s \<noteq> t \<and> sha256 ascii_env s = sha256 ascii_env t)"
proof -
  let ?t = "''{'' @ json_quote ''a'' @ '':null,'' @ json_quote ''b'' @ '':true}''"
  have h1: "computeM2ExecutionValueDigest ascii_env (JObj [(''b'', JBool True), (''a'', JNull)])
      = Inr (''sha256:'' @ sha256 ascii_env ?t)"
    by code_simp
  have h2: "computeM2ExecutionValueDigest ascii_env (JObj [(''a'', JNull), (''b'', JBool True)])
      = Inr (''sha256:'' @ sha256 ascii_env ?t)"
    by code_simp
  show ?thesis using digest_binds_document [OF h1 h2] by blast
qed

end
