(* ===== verification/M2Execution.thy ===== *)
theory M2Execution
  imports M2Canonical
begin

text \<open>
  \<open>contracts/m2/execution-v1.js\<close>: the request to change a project, the authority it needs
  and the result it ends with. Each validator returns the messages of the source in its order;
  a validator that can throw returns an exception or the messages. The lemmas characterise
  what an accepted part looks like; the properties state what an accepted request, and an
  accepted result for a request, guarantee.
\<close>

section \<open>Limits and texts\<close>

definition MAX_CHANGES :: int where "MAX_CHANGES = 32"
definition MAX_FILE_BYTES :: int where "MAX_FILE_BYTES = 1048576"
definition MAX_TOTAL_AFTER_BYTES :: int where "MAX_TOTAL_AFTER_BYTES = 8388608"
definition MAX_WIRE_BYTES :: nat where "MAX_WIRE_BYTES = 8388608"

definition M2_TERMINAL_STATUSES :: "string list" where
  "M2_TERMINAL_STATUSES = [''succeeded'', ''failed'', ''cancelled'', ''timed_out'', ''orphaned'']"

definition CHILD_TERMINAL_STATUSES :: "string list" where
  "CHILD_TERMINAL_STATUSES =
     [''not_started'', ''succeeded'', ''failed'', ''cancelled'', ''timed_out'', ''killed'', ''orphaned'']"

definition GIT_STATUSES :: "string list" where
  "GIT_STATUSES = [''not_requested'', ''committed'', ''failed'', ''reverted'', ''in_doubt'']"

definition ROLLBACK_STATUSES :: "string list" where
  "ROLLBACK_STATUSES = [''not_required'', ''pending'', ''succeeded'', ''failed'']"

definition branch_text :: "string \<Rightarrow> bool" where
  "branch_text s =
     (take 11 s = ''refs/heads/''
      \<and> (case drop 11 s of [] \<Rightarrow> False
         | c # r \<Rightarrow> alnum c \<and> length r \<le> 247
             \<and> list_all (\<lambda>x. alnum x \<or> x \<in> {CHR ''.'', CHR ''_'', CHR ''/'', CHR ''-''}) r))"

definition signal_text :: "string \<Rightarrow> bool" where
  "signal_text s =
     (take 3 s = ''SIG'' \<and> 1 \<le> length (drop 3 s) \<and> length (drop 3 s) \<le> 31
      \<and> list_all (\<lambda>x. upper x \<or> is_digit x) (drop 3 s))"

definition isNfcString :: "js_env \<Rightarrow> jsval \<Rightarrow> bool" where
  "isNfcString E v = str_sat (\<lambda>s. s = nfc E s) v"

definition isNonEmptyNfcString :: "js_env \<Rightarrow> nat \<Rightarrow> jsval \<Rightarrow> bool" where
  "isNonEmptyNfcString E maximum v =
     str_sat (\<lambda>s. s = nfc E s \<and> trim_nonempty s \<and> length s \<le> maximum) v"

definition isDigest :: "jsval \<Rightarrow> bool" where
  "isDigest v = str_sat (hex_tail ''sha256:'' 64) v"

definition isWorkspaceRevision :: "jsval \<Rightarrow> bool" where
  "isWorkspaceRevision v = str_sat (hex_tail ''wsr1:'' 64) v"

definition isGitObject :: "jsval \<Rightarrow> bool" where
  "isGitObject v = str_sat (\<lambda>s. hex_tail [] 40 s \<or> hex_tail [] 64 s) v"

definition isCanonicalAbsolute :: "js_env \<Rightarrow> jsval \<Rightarrow> bool" where
  "isCanonicalAbsolute E v =
     str_sat (\<lambda>s. isNonEmptyNfcString E 4096 v \<and> CHR 0x5C \<notin> set s \<and> CHR 0x00 \<notin> set s
       \<and> posix_isAbsolute s \<and> posix_normalize s = s \<and> (s = ''/'' \<or> \<not> ends_with_slash s)) v"

definition isM2ExecutionProjectRelativePath :: "js_env \<Rightarrow> jsval \<Rightarrow> bool" where
  "isM2ExecutionProjectRelativePath E v =
     str_sat (\<lambda>s. isNonEmptyNfcString E 4096 v \<and> CHR 0x5C \<notin> set s \<and> CHR 0x00 \<notin> set s
       \<and> \<not> posix_isAbsolute s \<and> \<not> ends_with_slash s \<and> posix_normalize s = s
       \<and> list_all (\<lambda>w. w \<noteq> [] \<and> w \<noteq> ''.'' \<and> w \<noteq> ''..'') (split_at (CHR ''/'') s)) v"

text \<open>The loop over adjacent pairs: a pair of strings out of order ends it with one message.\<close>

fun strings_increasing :: "jsval list \<Rightarrow> bool" where
  "strings_increasing (a # b # xs) =
     (\<not> (is_string a \<and> is_string b \<and> \<not> str_of a < str_of b) \<and> strings_increasing (b # xs))"
| "strings_increasing _ = True"

definition validateSortedUniqueStrings :: "jsval \<Rightarrow> string \<Rightarrow> (jsval \<Rightarrow> bool) \<Rightarrow> string list" where
  "validateSortedUniqueStrings v context validator =
     (case v of
        JArr xs \<Rightarrow>
          each_indexed (\<lambda>i x. chk (\<not> validator x) (context @ ''['' @ int_to_string (int i) @ '']:invalid'')) xs
          @ chk (\<not> strings_increasing xs) (context @ '':not-bytewise-sorted-unique'')
      | _ \<Rightarrow> [context @ '':not-array''])"

section \<open>Parts of a request\<close>

definition validateActor :: "jsval \<Rightarrow> string list" where
  "validateActor v =
     (let context = ''project-change-request.actor'';
          errors = validateExactKeys v [''type'', ''id''] [] context
      in if \<not> isPlainRecord v then errors
         else errors
           @ chk (opt_prop v ''type'' \<noteq> JStr ''user'') (context @ '':user-required'')
           @ chk (\<not> isIdentifier (opt_prop v ''id'')) (context @ '':invalid-id''))"

definition null_or :: "(jsval \<Rightarrow> bool) \<Rightarrow> jsval \<Rightarrow> bool" where
  "null_or p v \<longleftrightarrow> v = JNull \<or> p v"

definition validateOrigin :: "jsval \<Rightarrow> string list" where
  "validateOrigin v =
     (let context = ''project-change-request.origin'';
          errors = validateExactKeys v [''surface'', ''sessionId'', ''conversationId'', ''projectId''] [] context
      in if \<not> isPlainRecord v then errors
         else errors
           @ chk (\<not> str_in (opt_prop v ''surface'') [''http'', ''ws'', ''studio'', ''skill'', ''lifecycle''])
               (context @ '':invalid-surface'')
           @ concat (map (\<lambda>k. chk (\<not> null_or isIdentifier (opt_prop v k)) (context @ '':invalid-'' @ k))
               [''sessionId'', ''conversationId''])
           @ chk (\<not> int_ge (opt_prop v ''projectId'') 1) (context @ '':invalid-projectId''))"

definition validateProject :: "js_env \<Rightarrow> jsval \<Rightarrow> jsval \<Rightarrow> string list" where
  "validateProject E v origin =
     (let context = ''project-change-request.project'';
          errors = validateExactKeys v [''projectId'', ''canonicalRoot'', ''workspaceRevision'',
                     ''gitHead'', ''gitBranchRef'', ''foreignDirtDigest''] [] context
      in if \<not> isPlainRecord v then errors
         else errors
           @ chk (\<not> int_ge (opt_prop v ''projectId'') 1) (context @ '':invalid-projectId'')
           @ chk (\<not> strict_eq (opt_prop v ''projectId'') (opt_prop origin ''projectId''))
               (context @ '':projectId-origin-mismatch'')
           @ chk (\<not> isCanonicalAbsolute E (opt_prop v ''canonicalRoot'')) (context @ '':invalid-canonicalRoot'')
           @ chk (\<not> isWorkspaceRevision (opt_prop v ''workspaceRevision'')) (context @ '':invalid-workspaceRevision'')
           @ chk (\<not> isGitObject (opt_prop v ''gitHead'')) (context @ '':invalid-gitHead'')
           @ chk (\<not> str_sat branch_text (opt_prop v ''gitBranchRef'')) (context @ '':invalid-gitBranchRef'')
           @ chk (\<not> isDigest (opt_prop v ''foreignDirtDigest'')) (context @ '':invalid-foreignDirtDigest''))"

definition validateFileImage :: "jsval \<Rightarrow> string \<Rightarrow> bool \<Rightarrow> string list" where
  "validateFileImage v context pre =
     (let required = (if pre then [''exists'', ''digest'', ''bytes'', ''mode''] else [''digest'', ''bytes'', ''mode'']);
          errors = validateExactKeys v required [] context
      in if \<not> isPlainRecord v then errors
         else errors
           @ chk (pre \<and> \<not> is_bool (opt_prop v ''exists'')) (context @ '':invalid-exists'')
           @ (if (if pre then truthy (opt_prop v ''exists'') else True)
              then chk (\<not> isDigest (opt_prop v ''digest'')) (context @ '':invalid-digest'')
                @ chk (\<not> int_in (opt_prop v ''bytes'') 0 MAX_FILE_BYTES) (context @ '':invalid-bytes'')
                @ chk (\<not> int_in (opt_prop v ''mode'') 0 511) (context @ '':invalid-mode'')
              else chk (opt_prop v ''digest'' \<noteq> JNull) (context @ '':digest-on-absent'')
                @ chk (\<not> strict_eq (opt_prop v ''bytes'') (JInt 0)) (context @ '':bytes-on-absent'')
                @ chk (opt_prop v ''mode'' \<noteq> JNull) (context @ '':mode-on-absent'')))"

definition validateAuthorityBinding :: "jsval \<Rightarrow> string \<Rightarrow> string list" where
  "validateAuthorityBinding v context =
     (let errors = validateExactKeys v [''effectId'', ''requestDigest''] [] context
      in if \<not> isPlainRecord v then errors
         else errors
           @ chk (\<not> isIdentifier (opt_prop v ''effectId'')) (context @ '':invalid-effectId'')
           @ chk (\<not> isDigest (opt_prop v ''requestDigest'')) (context @ '':invalid-requestDigest''))"

definition validateChange :: "js_env \<Rightarrow> nat \<Rightarrow> jsval \<Rightarrow> string list" where
  "validateChange E index v =
     (let context = ''project-change-request.changes['' @ int_to_string (int index) @ '']'';
          errors = validateExactKeys v [''path'', ''before'', ''after'', ''forwardAuthority'', ''rollbackAuthority''] [] context;
          pre = opt_prop v ''before''; after = opt_prop v ''after'';
          fwd = opt_prop v ''forwardAuthority''; rb = opt_prop v ''rollbackAuthority''
      in if \<not> isPlainRecord v then errors
         else errors
           @ chk (\<not> isM2ExecutionProjectRelativePath E (opt_prop v ''path'')) (context @ '':invalid-path'')
           @ validateFileImage pre (context @ ''.before'') True
           @ validateFileImage after (context @ ''.after'') False
           @ validateAuthorityBinding fwd (context @ ''.forwardAuthority'')
           @ validateAuthorityBinding rb (context @ ''.rollbackAuthority'')
           @ chk (strict_eq (opt_prop fwd ''effectId'') (opt_prop rb ''effectId'')) (context @ '':authority-reused'')
           @ chk (opt_prop pre ''exists'' = JBool True
                  \<and> \<not> strict_eq (opt_prop pre ''mode'') (opt_prop after ''mode'')) (context @ '':mode-not-preserved'')
           @ chk (opt_prop pre ''exists'' = JBool True
                  \<and> strict_eq (opt_prop pre ''digest'') (opt_prop after ''digest'')
                  \<and> strict_eq (opt_prop pre ''bytes'') (opt_prop after ''bytes'')) (context @ '':no-op-change''))"

text \<open>
  \<open>validateFocusedTest\<close>. The first use of the canonical form is reached only with an array of
  normalised strings, which always has one. The second, for the digest, is reached with any
  array, and an element without a canonical form makes it throw.
\<close>

definition argv_ok :: "js_env \<Rightarrow> jsval \<Rightarrow> bool" where
  "argv_ok E v =
     (is_array v \<and> length (elements v) \<le> 128
      \<and> list_all (\<lambda>a. isNfcString E a \<and> length (str_of a) \<le> 4096) (elements v)
      \<and> (case canonicalizeM2ExecutionValue E v of Inl _ \<Rightarrow> False | Inr t \<Rightarrow> length t \<le> 65536))"

definition validateFocusedTest :: "js_env \<Rightarrow> jsval \<Rightarrow> jsval \<Rightarrow> string list js" where
  "validateFocusedTest E v canonicalRoot =
     (let context = ''project-change-request.focusedTest'';
          errors = validateExactKeys v [''authority'', ''binary'', ''argv'', ''argvDigest'', ''canonicalCwd'',
                     ''environmentDigest'', ''timeoutMs'', ''expectedExitCode'', ''sandboxProfile''] [] context;
          argv = opt_prop v ''argv''
      in if \<not> isPlainRecord v then Inr errors
         else bindE
           (if \<not> isDigest (opt_prop v ''argvDigest'') then Inr [context @ '':invalid-argvDigest'']
            else if is_array argv then
              bindE (computeM2ExecutionValueDigest E argv)
                (\<lambda>d. Inr (chk (JStr d \<noteq> opt_prop v ''argvDigest'') (context @ '':argvDigest-mismatch'')))
            else Inr [])
           (\<lambda>digest_errors. Inr (errors
              @ validateAuthorityBinding (opt_prop v ''authority'') (context @ ''.authority'')
              @ chk (\<not> isCanonicalAbsolute E (opt_prop v ''binary'')) (context @ '':invalid-binary'')
              @ chk (\<not> argv_ok E argv) (context @ '':invalid-argv'')
              @ digest_errors
              @ chk (\<not> isCanonicalAbsolute E (opt_prop v ''canonicalCwd'')) (context @ '':invalid-canonicalCwd'')
              @ chk (\<not> strict_eq (opt_prop v ''canonicalCwd'') canonicalRoot) (context @ '':cwd-root-mismatch'')
              @ chk (\<not> isDigest (opt_prop v ''environmentDigest'')) (context @ '':invalid-environmentDigest'')
              @ chk (\<not> int_in (opt_prop v ''timeoutMs'') 1 3600000) (context @ '':invalid-timeoutMs'')
              @ chk (\<not> strict_eq (opt_prop v ''expectedExitCode'') (JInt 0)) (context @ '':zero-exit-required'')
              @ chk (opt_prop v ''sandboxProfile'' \<noteq> JStr ''linux-bwrap-ro-v2'') (context @ '':invalid-sandboxProfile''))))"

definition validateGitCommit :: "js_env \<Rightarrow> jsval \<Rightarrow> jsval \<Rightarrow> string list" where
  "validateGitCommit E v project =
     (let context = ''project-change-request.gitCommit'';
          errors = validateExactKeys v [''authority'', ''expectedHead'', ''branchRef'', ''paths'',
                     ''messageDigest'', ''identityDigest''] [] context
      in if v = JNull then []
         else if \<not> isPlainRecord v then errors
         else errors
           @ validateAuthorityBinding (opt_prop v ''authority'') (context @ ''.authority'')
           @ chk (\<not> isGitObject (opt_prop v ''expectedHead'')) (context @ '':invalid-expectedHead'')
           @ chk (\<not> strict_eq (opt_prop v ''expectedHead'') (opt_prop project ''gitHead'')) (context @ '':head-mismatch'')
           @ chk (\<not> str_sat branch_text (opt_prop v ''branchRef'')) (context @ '':invalid-branchRef'')
           @ chk (\<not> strict_eq (opt_prop v ''branchRef'') (opt_prop project ''gitBranchRef'')) (context @ '':branch-mismatch'')
           @ validateSortedUniqueStrings (opt_prop v ''paths'') (context @ ''.paths'') (isM2ExecutionProjectRelativePath E)
           @ chk (length_sat (\<lambda>n. n = 0) (opt_prop v ''paths'')) (context @ ''.paths:empty'')
           @ chk (\<not> isDigest (opt_prop v ''messageDigest'')) (context @ '':invalid-messageDigest'')
           @ chk (\<not> isDigest (opt_prop v ''identityDigest'')) (context @ '':invalid-identityDigest''))"

section \<open>Patch set and authority set\<close>

definition patchSetProjection :: "jsval list \<Rightarrow> jsval js" where
  "patchSetProjection changes =
     bindE (mapE (\<lambda>c. bindE (js_prop c ''path'') (\<lambda>p. Inr (JObj
              [(''path'', p), (''before'', opt_prop c ''before''), (''after'', opt_prop c ''after'')]))) changes)
       (\<lambda>xs. Inr (JArr xs))"

definition computeM2ProjectChangePatchSetDigest :: "js_env \<Rightarrow> jsval \<Rightarrow> string js" where
  "computeM2ProjectChangePatchSetDigest E changes =
     (if \<not> is_array changes then Inl (TypeErr ''m2-execution-patch-set:invalid-changes'')
      else bindE (patchSetProjection (elements changes)) (computeM2ExecutionValueDigest E))"

definition authority :: "string \<Rightarrow> jsval \<Rightarrow> string \<Rightarrow> jsval \<Rightarrow> jsval" where
  "authority role path kind binding =
     JObj [(''role'', JStr role), (''path'', path), (''kind'', JStr kind),
           (''effectId'', opt_prop binding ''effectId''), (''requestDigest'', opt_prop binding ''requestDigest'')]"

definition change_authorities :: "jsval \<Rightarrow> jsval list js" where
  "change_authorities c =
     bindE (js_prop c ''path'') (\<lambda>p. Inr
       [authority ''change.forward'' p ''fs.write'' (opt_prop c ''forwardAuthority''),
        authority ''change.rollback'' p
          (if opt_prop (opt_prop c ''before'') ''exists'' = JBool True then ''fs.write'' else ''fs.delete'')
          (opt_prop c ''rollbackAuthority'')])"

definition deriveM2ProjectChangeAuthoritySet :: "jsval \<Rightarrow> jsval list js" where
  "deriveM2ProjectChangeAuthoritySet request =
     (if \<not> isPlainRecord request \<or> \<not> is_array (opt_prop request ''changes'')
      then Inl (TypeErr ''m2-execution-authority-set:invalid-request'')
      else bindE (mapE change_authorities (elements (opt_prop request ''changes'')))
        (\<lambda>per_change. Inr (concat per_change
           @ [authority ''focused-test'' JNull ''process.exec''
                (opt_prop (opt_prop request ''focusedTest'') ''authority'')]
           @ (if opt_prop request ''gitCommit'' \<noteq> JNull then
                [authority ''git-commit'' JNull ''git.commit''
                   (opt_prop (opt_prop request ''gitCommit'') ''authority'')]
              else []))))"

definition computeM2ProjectChangeAuthoritySetDigest :: "js_env \<Rightarrow> jsval \<Rightarrow> string js" where
  "computeM2ProjectChangeAuthoritySetDigest E request =
     bindE (deriveM2ProjectChangeAuthoritySet request) (\<lambda>xs. computeM2ExecutionValueDigest E (JArr xs))"

section \<open>\<open>validateM2ProjectChangeRequest\<close>\<close>

definition after_bytes :: "jsval \<Rightarrow> int" where
  "after_bytes c =
     (case safe_int (opt_prop (opt_prop c ''after'') ''bytes'') of None \<Rightarrow> 0 | Some n \<Rightarrow> n)"

definition request_change_errors :: "js_env \<Rightarrow> jsval \<Rightarrow> string list" where
  "request_change_errors E v =
     (let context = ''project-change-request''; changes = opt_prop v ''changes'';
          cs = elements changes; paths = map (\<lambda>c. opt_prop c ''path'') cs
      in if \<not> is_array changes \<or> length cs < 1 \<or> int (length cs) > MAX_CHANGES
         then [context @ '':invalid-change-count'']
         else each_indexed (validateChange E) cs
           @ validateSortedUniqueStrings (JArr paths) (context @ ''.changes.paths'') (isM2ExecutionProjectRelativePath E)
           @ chk (sum_list (map after_bytes cs) > MAX_TOTAL_AFTER_BYTES) (context @ '':after-bytes-exceed-total-limit'')
           @ (if \<not> isDigest (opt_prop v ''patchSetDigest'') then [context @ '':invalid-patchSetDigest'']
              else (case computeM2ProjectChangePatchSetDigest E changes of
                      Inl _ \<Rightarrow> [context @ '':invalid-patch-set-canonical-form'']
                    | Inr d \<Rightarrow> chk (JStr d \<noteq> opt_prop v ''patchSetDigest'') (context @ '':patchSetDigest-mismatch'')))
           @ (let gitPaths = opt_prop (opt_prop v ''gitCommit'') ''paths''
              in chk (opt_prop v ''gitCommit'' \<noteq> JNull \<and> is_array gitPaths
                      \<and> \<not> list_all2 strict_eq (elements gitPaths) paths) (context @ '':git-paths-incomplete'')))"

text \<open>\<open>new Set(ids).size !== ids.length\<close> on values; two objects are never the same member.\<close>

definition same_value_zero :: "jsval \<Rightarrow> jsval \<Rightarrow> bool" where
  "same_value_zero a b \<longleftrightarrow> strict_eq a b \<or> (a = JNaN \<and> b = JNaN)"

fun all_different :: "jsval list \<Rightarrow> bool" where
  "all_different [] = True"
| "all_different (x # xs) = (list_all (\<lambda>y. \<not> same_value_zero x y) xs \<and> all_different xs)"

definition request_authority_errors :: "js_env \<Rightarrow> jsval \<Rightarrow> string list" where
  "request_authority_errors E v =
     (let context = ''project-change-request''
      in if \<not> isDigest (opt_prop v ''authoritySetDigest'') then [context @ '':invalid-authoritySetDigest'']
         else (case deriveM2ProjectChangeAuthoritySet v of
                 Inl _ \<Rightarrow> [context @ '':invalid-authority-set-canonical-form'']
               | Inr xs \<Rightarrow>
                   chk (\<not> all_different (map (\<lambda>x. opt_prop x ''effectId'') xs)) (context @ '':authority-effect-reused'')
                   @ chk (\<not> list_all (\<lambda>x. isIdentifier (opt_prop x ''effectId'') \<and> isDigest (opt_prop x ''requestDigest'')) xs)
                       (context @ '':authority-set-incomplete'')
                   @ (case computeM2ProjectChangeAuthoritySetDigest E v of
                        Inl _ \<Rightarrow> [context @ '':invalid-authority-set-canonical-form'']
                      | Inr d \<Rightarrow> chk (JStr d \<noteq> opt_prop v ''authoritySetDigest'') (context @ '':authoritySetDigest-mismatch''))))"

definition validateM2ProjectChangeRequest :: "js_env \<Rightarrow> jsval \<Rightarrow> validation js" where
  "validateM2ProjectChangeRequest E v =
     (let context = ''project-change-request'';
          errors = validateExactKeys v [''contract'', ''version'', ''executionId'', ''runId'', ''actor'', ''origin'',
            ''project'', ''patchSetDigest'', ''changes'', ''focusedTest'', ''gitCommit'', ''authoritySetDigest'',
            ''createdAt''] [] context
      in if \<not> isPlainRecord v then Inr (validationResult errors v)
         else bindE (validateFocusedTest E (opt_prop v ''focusedTest'') (opt_prop (opt_prop v ''project'') ''canonicalRoot''))
           (\<lambda>test_errors. Inr (validationResult (errors
              @ chk (opt_prop v ''contract'' \<noteq> JStr ''ProjectChangeRequest'') (context @ '':invalid-contract'')
              @ chk (opt_prop v ''version'' \<noteq> JInt 1) (context @ '':invalid-version'')
              @ concat (map (\<lambda>k. chk (\<not> isIdentifier (opt_prop v k)) (context @ '':invalid-'' @ k)) [''executionId'', ''runId''])
              @ validateActor (opt_prop v ''actor'')
              @ validateOrigin (opt_prop v ''origin'')
              @ validateProject E (opt_prop v ''project'') (opt_prop v ''origin'')
              @ request_change_errors E v
              @ test_errors
              @ validateGitCommit E (opt_prop v ''gitCommit'') (opt_prop v ''project'')
              @ request_authority_errors E v
              @ chk (\<not> isCanonicalTimestamp (opt_prop v ''createdAt'')) (context @ '':invalid-createdAt'')) v)))"

section \<open>Parts of a result\<close>

definition validateChangesResult :: "js_env \<Rightarrow> jsval \<Rightarrow> string list" where
  "validateChangesResult E v =
     (let context = ''project-change-result.changes'';
          errors = validateExactKeys v [''paths'', ''beforeRevision'', ''afterRevision'', ''diffDigest''] [] context
      in if \<not> isPlainRecord v then errors
         else errors
           @ validateSortedUniqueStrings (opt_prop v ''paths'') (context @ ''.paths'') (isM2ExecutionProjectRelativePath E)
           @ chk (\<not> isWorkspaceRevision (opt_prop v ''beforeRevision'')) (context @ '':invalid-beforeRevision'')
           @ chk (\<not> null_or isWorkspaceRevision (opt_prop v ''afterRevision'')) (context @ '':invalid-afterRevision'')
           @ chk (\<not> null_or isDigest (opt_prop v ''diffDigest'')) (context @ '':invalid-diffDigest''))"

definition validateFocusedTestResult :: "jsval \<Rightarrow> string list" where
  "validateFocusedTestResult v =
     (let context = ''project-change-result.focusedTest'';
          errors = validateExactKeys v [''effectId'', ''terminalStatus'', ''exitCode'', ''signal'',
                     ''stdoutDigest'', ''stderrDigest'', ''outputTruncated''] [] context
      in if \<not> isPlainRecord v then errors
         else errors
           @ chk (\<not> isIdentifier (opt_prop v ''effectId'')) (context @ '':invalid-effectId'')
           @ chk (\<not> str_in (opt_prop v ''terminalStatus'') CHILD_TERMINAL_STATUSES) (context @ '':invalid-terminalStatus'')
           @ chk (\<not> null_or (\<lambda>x. int_in x 0 255) (opt_prop v ''exitCode'')) (context @ '':invalid-exitCode'')
           @ chk (\<not> null_or (str_sat signal_text) (opt_prop v ''signal'')) (context @ '':invalid-signal'')
           @ concat (map (\<lambda>k. chk (\<not> null_or isDigest (opt_prop v k)) (context @ '':invalid-'' @ k))
               [''stdoutDigest'', ''stderrDigest''])
           @ chk (\<not> is_bool (opt_prop v ''outputTruncated'')) (context @ '':invalid-outputTruncated'')
           @ chk (opt_prop v ''terminalStatus'' = JStr ''not_started''
                  \<and> (opt_prop v ''exitCode'' \<noteq> JNull \<or> opt_prop v ''signal'' \<noteq> JNull
                     \<or> opt_prop v ''stdoutDigest'' \<noteq> JNull \<or> opt_prop v ''stderrDigest'' \<noteq> JNull
                     \<or> opt_prop v ''outputTruncated'' \<noteq> JBool False)) (context @ '':evidence-on-not-started'')
           @ chk (opt_prop v ''terminalStatus'' = JStr ''succeeded''
                  \<and> (\<not> strict_eq (opt_prop v ''exitCode'') (JInt 0) \<or> opt_prop v ''signal'' \<noteq> JNull
                     \<or> \<not> isDigest (opt_prop v ''stdoutDigest'') \<or> \<not> isDigest (opt_prop v ''stderrDigest'')))
               (context @ '':invalid-success-evidence''))"

definition validateGitResult :: "jsval \<Rightarrow> string list" where
  "validateGitResult v =
     (let context = ''project-change-result.git'';
          errors = validateExactKeys v [''status'', ''beforeHead'', ''afterHead'', ''commitId'', ''foreignDirtPreserved''] [] context;
          pre = opt_prop v ''beforeHead''; after = opt_prop v ''afterHead''; commit = opt_prop v ''commitId''
      in if \<not> isPlainRecord v then errors
         else errors
           @ chk (\<not> str_in (opt_prop v ''status'') GIT_STATUSES) (context @ '':invalid-status'')
           @ concat (map (\<lambda>k. chk (\<not> null_or isGitObject (opt_prop v k)) (context @ '':invalid-'' @ k))
               [''beforeHead'', ''afterHead'', ''commitId''])
           @ chk (\<not> is_bool (opt_prop v ''foreignDirtPreserved'')) (context @ '':invalid-foreignDirtPreserved'')
           @ chk (opt_prop v ''status'' = JStr ''not_requested''
                  \<and> (\<not> isGitObject pre \<or> \<not> strict_eq after pre \<or> commit \<noteq> JNull))
               (context @ '':invalid-not-requested-evidence'')
           @ chk (opt_prop v ''status'' = JStr ''committed''
                  \<and> (\<not> isGitObject pre \<or> \<not> isGitObject after \<or> \<not> strict_eq commit after \<or> strict_eq pre after))
               (context @ '':invalid-commit-evidence''))"

definition validateRollbackResult :: "js_env \<Rightarrow> jsval \<Rightarrow> string list" where
  "validateRollbackResult E v =
     (let context = ''project-change-result.rollback'';
          errors = validateExactKeys v [''required'', ''status'', ''paths'', ''evidenceRef''] [] context;
          status = opt_prop v ''status''; paths = opt_prop v ''paths''; ref = opt_prop v ''evidenceRef''
      in if \<not> isPlainRecord v then errors
         else errors
           @ chk (\<not> is_bool (opt_prop v ''required'')) (context @ '':invalid-required'')
           @ chk (\<not> str_in status ROLLBACK_STATUSES) (context @ '':invalid-status'')
           @ validateSortedUniqueStrings paths (context @ ''.paths'') (isM2ExecutionProjectRelativePath E)
           @ chk (\<not> null_or (isNonEmptyNfcString E 4096) ref) (context @ '':invalid-evidenceRef'')
           @ chk (opt_prop v ''required'' = JBool False
                  \<and> (status \<noteq> JStr ''not_required'' \<or> \<not> length_sat (\<lambda>n. n = 0) paths \<or> ref \<noteq> JNull))
               (context @ '':unexpected-rollback'')
           @ chk (opt_prop v ''required'' = JBool True
                  \<and> (\<not> str_in status [''succeeded'', ''failed''] \<or> length_sat (\<lambda>n. n = 0) paths
                     \<or> \<not> isNonEmptyNfcString E 4096 ref)) (context @ '':incomplete-rollback'')
           @ chk (status = JStr ''pending'') (context @ '':pending-on-terminal-result''))"

definition success_errors :: "jsval \<Rightarrow> string list" where
  "success_errors v =
     (let context = ''project-change-result''; changes = opt_prop v ''changes'';
          test = opt_prop v ''focusedTest''; git = opt_prop v ''git''; rollback = opt_prop v ''rollback''
      in if opt_prop v ''terminalStatus'' = JStr ''succeeded'' then
           chk (opt_prop v ''errorCode'' \<noteq> JNull) (context @ '':error-on-success'')
           @ chk (length_sat (\<lambda>n. n < 1) (opt_prop changes ''paths'')
                  \<or> \<not> isWorkspaceRevision (opt_prop changes ''afterRevision'')
                  \<or> \<not> isDigest (opt_prop changes ''diffDigest'')) (context @ '':incomplete-success-change-evidence'')
           @ chk (opt_prop test ''terminalStatus'' \<noteq> JStr ''succeeded'' \<or> \<not> strict_eq (opt_prop test ''exitCode'') (JInt 0))
               (context @ '':focused-test-not-successful'')
           @ chk (\<not> str_in (opt_prop git ''status'') [''not_requested'', ''committed'']
                  \<or> opt_prop git ''foreignDirtPreserved'' \<noteq> JBool True) (context @ '':git-not-successful'')
           @ chk (opt_prop rollback ''required'' \<noteq> JBool False \<or> opt_prop rollback ''status'' \<noteq> JStr ''not_required'')
               (context @ '':rollback-on-success'')
           @ chk (opt_prop v ''lateCompletionRejected'' \<noteq> JBool False) (context @ '':late-completion-on-success'')
         else chk (opt_prop v ''errorCode'' = JNull) (context @ '':missing-errorCode''))"

definition validateM2ProjectChangeResult :: "js_env \<Rightarrow> jsval \<Rightarrow> validation" where
  "validateM2ProjectChangeResult E v =
     (let context = ''project-change-result'';
          errors = validateExactKeys v [''contract'', ''version'', ''executionId'', ''requestDigest'', ''runId'',
            ''projectId'', ''terminalStatus'', ''fencingGeneration'', ''startedAt'', ''completedAt'', ''changes'',
            ''focusedTest'', ''git'', ''rollback'', ''errorCode'', ''evidenceRefs'', ''lateCompletionRejected''] [] context;
          started = opt_prop v ''startedAt''; completed = opt_prop v ''completedAt''
      in if \<not> isPlainRecord v then validationResult errors v
         else validationResult (errors
           @ chk (opt_prop v ''contract'' \<noteq> JStr ''ProjectChangeResult'') (context @ '':invalid-contract'')
           @ chk (opt_prop v ''version'' \<noteq> JInt 1) (context @ '':invalid-version'')
           @ concat (map (\<lambda>k. chk (\<not> isIdentifier (opt_prop v k)) (context @ '':invalid-'' @ k)) [''executionId'', ''runId''])
           @ chk (\<not> isDigest (opt_prop v ''requestDigest'')) (context @ '':invalid-requestDigest'')
           @ chk (\<not> int_ge (opt_prop v ''projectId'') 1) (context @ '':invalid-projectId'')
           @ chk (\<not> str_in (opt_prop v ''terminalStatus'') M2_TERMINAL_STATUSES) (context @ '':invalid-terminalStatus'')
           @ chk (\<not> int_ge (opt_prop v ''fencingGeneration'') 1) (context @ '':invalid-fencingGeneration'')
           @ chk (\<not> isCanonicalTimestamp started) (context @ '':invalid-startedAt'')
           @ chk (\<not> isCanonicalTimestamp completed) (context @ '':invalid-completedAt'')
           @ chk (isCanonicalTimestamp started \<and> isCanonicalTimestamp completed \<and> time_of completed < time_of started)
               (context @ '':time-order'')
           @ validateChangesResult E (opt_prop v ''changes'')
           @ validateFocusedTestResult (opt_prop v ''focusedTest'')
           @ validateGitResult (opt_prop v ''git'')
           @ validateRollbackResult E (opt_prop v ''rollback'')
           @ chk (\<not> null_or (str_sat (code_text 63)) (opt_prop v ''errorCode'')) (context @ '':invalid-errorCode'')
           @ validateSortedUniqueStrings (opt_prop v ''evidenceRefs'') (context @ ''.evidenceRefs'') (isNonEmptyNfcString E 4096)
           @ chk (length_sat (\<lambda>n. n > 64) (opt_prop v ''evidenceRefs'')) (context @ '':too-many-evidenceRefs'')
           @ chk (\<not> is_bool (opt_prop v ''lateCompletionRejected'')) (context @ '':invalid-lateCompletionRejected'')
           @ success_errors v) v)"

section \<open>A result for a request, and the wire form\<close>

definition computeM2ProjectChangeRequestDigest :: "js_env \<Rightarrow> jsval \<Rightarrow> string js" where
  "computeM2ProjectChangeRequestDigest E v =
     bindE (validateM2ProjectChangeRequest E v) (\<lambda>r.
       if \<not> valid r then Inl (TypeErr (join_with '','' (errors r)))
       else computeM2ExecutionValueDigest E v)"

definition arraysEqual :: "jsval \<Rightarrow> jsval \<Rightarrow> bool" where
  "arraysEqual a b = (is_array a \<and> is_array b \<and> list_all2 strict_eq (elements a) (elements b))"

definition array_includes :: "jsval list \<Rightarrow> jsval \<Rightarrow> bool" where
  "array_includes xs x = list_ex (\<lambda>y. same_value_zero y x) xs"

text \<open>The digest of the request is computed only when the three identities agree.\<close>

definition identity_mismatch :: "js_env \<Rightarrow> jsval \<Rightarrow> jsval \<Rightarrow> bool js" where
  "identity_mismatch E request result =
     (if \<not> strict_eq (opt_prop result ''executionId'') (opt_prop request ''executionId'')
         \<or> \<not> strict_eq (opt_prop result ''runId'') (opt_prop request ''runId'')
         \<or> \<not> strict_eq (opt_prop result ''projectId'') (opt_prop (opt_prop request ''project'') ''projectId'')
      then Inr True
      else bindE (computeM2ProjectChangeRequestDigest E request)
             (\<lambda>d. Inr (opt_prop result ''requestDigest'' \<noteq> JStr d)))"

definition binding_errors :: "jsval \<Rightarrow> jsval \<Rightarrow> bool \<Rightarrow> string list" where
  "binding_errors request result mismatch =
     (let context = ''project-change-result'';
          project = opt_prop request ''project''; requestedPaths = map (\<lambda>c. opt_prop c ''path'') (elements (opt_prop request ''changes''));
          changes = opt_prop result ''changes''; rollback = opt_prop result ''rollback'';
          test = opt_prop result ''focusedTest''; git = opt_prop result ''git'';
          commit = opt_prop request ''gitCommit'';
          succeeded = (opt_prop result ''terminalStatus'' = JStr ''succeeded'')
      in chk mismatch (context @ '':request-identity-mismatch'')
         @ chk (\<not> strict_eq (opt_prop changes ''beforeRevision'') (opt_prop project ''workspaceRevision''))
             (context @ '':before-revision-mismatch'')
         @ chk (list_ex (\<lambda>p. \<not> array_includes requestedPaths p) (elements (opt_prop changes ''paths'')))
             (context @ '':foreign-change-path'')
         @ chk (list_ex (\<lambda>p. \<not> array_includes requestedPaths p) (elements (opt_prop rollback ''paths'')))
             (context @ '':foreign-rollback-path'')
         @ chk (\<not> strict_eq (opt_prop test ''effectId'') (opt_prop (opt_prop (opt_prop request ''focusedTest'') ''authority'') ''effectId''))
             (context @ '':focused-test-effect-mismatch'')
         @ chk (opt_prop test ''terminalStatus'' = JStr ''succeeded''
                \<and> \<not> strict_eq (opt_prop test ''exitCode'') (opt_prop (opt_prop request ''focusedTest'') ''expectedExitCode''))
             (context @ '':focused-test-exit-mismatch'')
         @ chk (\<not> strict_eq (opt_prop git ''beforeHead'') (opt_prop project ''gitHead''))
             (context @ '':git-before-head-mismatch'')
         @ (if commit = JNull then
              chk (opt_prop git ''status'' \<noteq> JStr ''not_requested'' \<or> opt_prop git ''commitId'' \<noteq> JNull)
                (context @ '':unexpected-git-commit'')
            else chk (succeeded \<and> opt_prop git ''status'' \<noteq> JStr ''committed'') (context @ '':required-git-commit-missing''))
         @ (if succeeded then
              chk (\<not> arraysEqual (opt_prop changes ''paths'') (JArr requestedPaths)) (context @ '':success-paths-incomplete'')
              @ chk (commit = JNull \<and> \<not> strict_eq (opt_prop git ''afterHead'') (opt_prop project ''gitHead''))
                  (context @ '':head-changed-without-commit'')
              @ chk (commit \<noteq> JNull
                     \<and> (\<not> strict_eq (opt_prop git ''commitId'') (opt_prop git ''afterHead'')
                        \<or> strict_eq (opt_prop git ''afterHead'') (opt_prop commit ''expectedHead'')))
                  (context @ '':invalid-required-commit-evidence'')
            else []))"

definition validateM2ProjectChangeResultForRequest :: "js_env \<Rightarrow> jsval \<Rightarrow> jsval \<Rightarrow> validation js" where
  "validateM2ProjectChangeResultForRequest E request result =
     bindE (validateM2ProjectChangeRequest E request) (\<lambda>rq.
       let rs = validateM2ProjectChangeResult E result; errs = errors rq @ errors rs
       in if \<not> valid rq \<or> \<not> valid rs then Inr (validationResult errs result)
          else bindE (identity_mismatch E request result) (\<lambda>m.
            Inr (validationResult (errs @ binding_errors request result m) result)))"

definition validateM2ExecutionContract :: "js_env \<Rightarrow> jsval \<Rightarrow> jsval \<Rightarrow> validation js" where
  "validateM2ExecutionContract E v expected =
     (if \<not> isPlainRecord v then Inr (validationResult [''m2-execution:not-object''] v)
      else if expected \<noteq> JNull \<and> \<not> strict_eq (opt_prop v ''contract'') expected
        then Inr (validationResult [''m2-execution:unexpected-contract''] v)
      else if opt_prop v ''contract'' = JStr ''ProjectChangeRequest'' then validateM2ProjectChangeRequest E v
      else if opt_prop v ''contract'' = JStr ''ProjectChangeResult'' then Inr (validateM2ProjectChangeResult E v)
      else Inr (validationResult [''m2-execution:unknown-contract''] v))"

text \<open>The bytes of the wire form are the bytes of the canonical text.\<close>

definition encodeM2ExecutionContract :: "js_env \<Rightarrow> jsval \<Rightarrow> jsval \<Rightarrow> string js" where
  "encodeM2ExecutionContract E v expected =
     bindE (validateM2ExecutionContract E v expected) (\<lambda>r.
       if \<not> valid r then Inl (TypeErr (join_with '','' (errors r)))
       else canonicalizeM2ExecutionValue E v)"

section \<open>Accepted parts\<close>

lemma isDigest_string: "isDigest v \<Longrightarrow> is_string v"
  by (auto simp: isDigest_def str_sat_iff is_string_def)

lemma relative_path_string: "isM2ExecutionProjectRelativePath E v \<Longrightarrow> is_string v"
  by (auto simp: isM2ExecutionProjectRelativePath_def str_sat_iff is_string_def)

lemma nfc_text_string: "isNonEmptyNfcString E n v \<Longrightarrow> is_string v"
  by (auto simp: isNonEmptyNfcString_def str_sat_iff is_string_def)

lemma strings_increasing_iff:
  "strings_increasing (map JStr ss) \<longleftrightarrow> sorted_wrt (<) ss"
proof (induction ss rule: induct_list012)
  case (3 a b ss)
  then show ?case
    by (simp add: is_string_def sorted_wrt2 [OF transp_on_less] del: sorted_wrt.simps(2))
qed simp_all

lemma map_JStr_exists: "\<forall>x \<in> set xs. is_string x \<Longrightarrow> \<exists>ss. xs = map JStr ss"
proof (induction xs)
  case (Cons x xs)
  then obtain ss where "xs = map JStr ss" by auto
  moreover from Cons obtain s where "x = JStr s" by (cases x) (auto simp: is_string_def)
  ultimately show ?case by (metis list.simps(9))
qed simp

text \<open>An accepted list of texts is an array of strings in strictly increasing byte order.\<close>

lemma validateSortedUniqueStrings_Nil:
  assumes "validateSortedUniqueStrings v context p = []" and "\<And>x. p x \<Longrightarrow> is_string x"
  obtains ss where "v = JArr (map JStr ss)" and "sorted_wrt (<) ss" and "\<forall>s \<in> set ss. p (JStr s)"
proof -
  from assms(1) obtain xs where v: "v = JArr xs" and inc: "strings_increasing xs"
    and p: "\<forall>i < length xs. p (xs ! i)"
    by (auto simp: validateSortedUniqueStrings_def each_indexed_Nil_iff split: jsval.splits)
  from p have all: "\<forall>x \<in> set xs. p x" by (auto simp: in_set_conv_nth)
  then obtain ss where "xs = map JStr ss" using map_JStr_exists assms(2) by blast
  with v inc all that show ?thesis by (auto simp: strings_increasing_iff)
qed

text \<open>An accepted request, part by part.\<close>

lemma request_accepted:
  assumes "validateM2ProjectChangeRequest E v = Inr r" and "valid r"
  shows "isPlainRecord v" and "validateOrigin (opt_prop v ''origin'') = []"
    and "validateProject E (opt_prop v ''project'') (opt_prop v ''origin'') = []"
    and "request_change_errors E v = []"
    and "validateFocusedTest E (opt_prop v ''focusedTest'') (opt_prop (opt_prop v ''project'') ''canonicalRoot'') = Inr []"
    and "validateGitCommit E (opt_prop v ''gitCommit'') (opt_prop v ''project'') = []"
    and "request_authority_errors E v = []" and "validateActor (opt_prop v ''actor'') = []"
    and "opt_prop v ''contract'' = JStr ''ProjectChangeRequest''"
    and "isIdentifier (opt_prop v ''executionId'')" and "isIdentifier (opt_prop v ''runId'')"
    and "isCanonicalTimestamp (opt_prop v ''createdAt'')" and "errors r = []" and "value_of r = v"
  using assms
  by (auto simp: validateM2ProjectChangeRequest_def Let_def bindE_Inr_iff validateExactKeys_Nil_iff
      split: if_splits)

lemma request_changes_accepted:
  assumes "request_change_errors E v = []"
  obtains cs ps where "opt_prop v ''changes'' = JArr cs" and "1 \<le> length cs" and "int (length cs) \<le> MAX_CHANGES"
    and "map (\<lambda>c. opt_prop c ''path'') cs = map JStr ps" and "sorted_wrt (<) ps"
    and "\<forall>p \<in> set ps. isM2ExecutionProjectRelativePath E (JStr p)"
    and "\<forall>i < length cs. validateChange E i (cs ! i) = []"
    and "sum_list (map after_bytes cs) \<le> MAX_TOTAL_AFTER_BYTES"
    and "\<exists>d. computeM2ProjectChangePatchSetDigest E (JArr cs) = Inr d \<and> opt_prop v ''patchSetDigest'' = JStr d"
    and "opt_prop v ''gitCommit'' \<noteq> JNull \<and> is_array (opt_prop (opt_prop v ''gitCommit'') ''paths'')
         \<Longrightarrow> list_all2 strict_eq (elements (opt_prop (opt_prop v ''gitCommit'') ''paths'')) (map JStr ps)"
proof -
  from assms obtain cs where cs: "opt_prop v ''changes'' = JArr cs"
    by (auto simp: request_change_errors_def Let_def is_array_iff split: if_splits)
  let ?paths = "map (\<lambda>c. opt_prop c ''path'') cs"
  have sorted: "validateSortedUniqueStrings (JArr ?paths) (''project-change-request'' @ ''.changes.paths'')
      (isM2ExecutionProjectRelativePath E) = []"
    using assms cs by (auto simp: request_change_errors_def Let_def split: if_splits)
  obtain ps where ps: "JArr ?paths = JArr (map JStr ps)" "sorted_wrt (<) ps"
      "\<forall>s \<in> set ps. isM2ExecutionProjectRelativePath E (JStr s)"
    by (rule validateSortedUniqueStrings_Nil [OF sorted relative_path_string])
  have dig: "\<exists>d. computeM2ProjectChangePatchSetDigest E (JArr cs) = Inr d \<and> opt_prop v ''patchSetDigest'' = JStr d"
    using assms cs
    by (cases "computeM2ProjectChangePatchSetDigest E (JArr cs)")
      (auto simp: request_change_errors_def Let_def split: if_splits)
  show thesis
    by (rule that [OF cs]) (use assms cs ps dig in
        \<open>auto simp: request_change_errors_def Let_def each_indexed_Nil_iff is_array_def Suc_le_eq split: if_splits\<close>)
qed

lemma change_accepted:
  assumes "validateChange E i c = []"
  shows "isPlainRecord c" and "isM2ExecutionProjectRelativePath E (opt_prop c ''path'')"
    and "validateFileImage (opt_prop c ''before'')
          (''project-change-request.changes['' @ int_to_string (int i) @ '']'' @ ''.before'') True = []"
    and "validateFileImage (opt_prop c ''after'')
          (''project-change-request.changes['' @ int_to_string (int i) @ '']'' @ ''.after'') False = []"
    and "opt_prop (opt_prop c ''before'') ''exists'' = JBool True \<longrightarrow>
          strict_eq (opt_prop (opt_prop c ''before'') ''mode'') (opt_prop (opt_prop c ''after'') ''mode'')"
  using assms
  by (auto simp: validateChange_def Let_def validateExactKeys_Nil_iff split: if_splits)

lemma file_image_accepted:
  assumes "validateFileImage v context pre = []"
    and "pre \<longrightarrow> opt_prop v ''exists'' = JBool True"
  shows "isDigest (opt_prop v ''digest'')" and "int_in (opt_prop v ''bytes'') 0 MAX_FILE_BYTES"
    and "int_in (opt_prop v ''mode'') 0 511"
  using assms
  by (auto simp: validateFileImage_def Let_def validateExactKeys_Nil_iff truthy_def split: if_splits)

lemma file_image_absent:
  assumes "validateFileImage v context True = []" and "opt_prop v ''exists'' \<noteq> JBool True"
  shows "opt_prop v ''exists'' = JBool False \<and> opt_prop v ''digest'' = JNull
    \<and> strict_eq (opt_prop v ''bytes'') (JInt 0) \<and> opt_prop v ''mode'' = JNull"
  using assms
  by (auto simp: validateFileImage_def Let_def validateExactKeys_Nil_iff truthy_def is_bool_def
      split: if_splits jsval.splits)

section \<open>What an accepted request guarantees\<close>

text \<open>
  C17. No accepted change leaves the project. For every change of an accepted request, the path is a
  list of proper segments (never empty, \<open>.\<close> or \<open>..\<close>), and the path appended to the canonical
  root, when the root is not the file system root itself, is already in normal form: resolving it
  cannot climb out of the root.
\<close>

theorem request_paths_confined:
  assumes "validateM2ProjectChangeRequest E v = Inr r" and "valid r"
    and "opt_prop (opt_prop v ''project'') ''canonicalRoot'' = JStr root" and "root \<noteq> ''/''"
    and "c \<in> set (elements (opt_prop v ''changes''))"
  shows "\<exists>p. opt_prop c ''path'' = JStr p
    \<and> list_all proper_segment (split_at (CHR ''/'') p)
    \<and> posix_normalize (root @ ''/'' @ p) = root @ ''/'' @ p"
proof -
  note acc = request_accepted [OF assms(1,2)]
  obtain cs where cs: "opt_prop v ''changes'' = JArr cs"
      "\<forall>i < length cs. validateChange E i (cs ! i) = []"
    by (rule request_changes_accepted [OF acc(4)]) blast
  with assms(5) obtain i where "i < length cs" "c = cs ! i" by (auto simp: in_set_conv_nth)
  with cs(2) have "isM2ExecutionProjectRelativePath E (opt_prop c ''path'')"
    using change_accepted(2) by blast
  then obtain p where p: "opt_prop c ''path'' = JStr p" "\<not> ends_with_slash p"
      "list_all proper_segment (split_at (CHR ''/'') p)"
    by (auto simp: isM2ExecutionProjectRelativePath_def str_sat_iff list_all_iff proper_segment_def)
  have "isCanonicalAbsolute E (JStr root)"
    using acc(3) assms(3)
    by (auto simp: validateProject_def Let_def validateExactKeys_Nil_iff split: if_splits)
  then have "posix_isAbsolute root" "posix_normalize root = root" "\<not> ends_with_slash root"
    using assms(4) by (auto simp: isCanonicalAbsolute_def str_sat_iff)
  with p assms(4) normalize_below [of root p] show ?thesis by blast
qed

text \<open>
  The change set of an accepted request is well formed: between 1 and 32 changes, in strictly
  increasing byte order of their paths (so no path twice); every resulting file has a digest and at
  most 1 MiB, all together at most 8 MiB; a file that existed keeps its mode, and one that did not
  claims no content; the patch-set digest is that of the changes; and when a commit is requested it
  starts at the project's head, on its branch, and names exactly the changed paths.
\<close>

theorem request_change_set_sound:
  assumes "validateM2ProjectChangeRequest E v = Inr r" and "valid r"
  shows "\<exists>cs ps. opt_prop v ''changes'' = JArr cs \<and> 1 \<le> length cs \<and> length cs \<le> 32
    \<and> map (\<lambda>c. opt_prop c ''path'') cs = map JStr ps \<and> sorted_wrt (<) ps \<and> distinct ps
    \<and> (\<forall>c \<in> set cs. isDigest (opt_prop (opt_prop c ''after'') ''digest'')
          \<and> 0 \<le> after_bytes c \<and> after_bytes c \<le> 1048576
          \<and> (if opt_prop (opt_prop c ''before'') ''exists'' = JBool True
             then strict_eq (opt_prop (opt_prop c ''before'') ''mode'') (opt_prop (opt_prop c ''after'') ''mode'')
             else opt_prop (opt_prop c ''before'') ''digest'' = JNull))
    \<and> sum_list (map after_bytes cs) \<le> 8388608
    \<and> (\<exists>d. computeM2ProjectChangePatchSetDigest E (JArr cs) = Inr d \<and> opt_prop v ''patchSetDigest'' = JStr d)
    \<and> (opt_prop v ''gitCommit'' \<noteq> JNull \<longrightarrow>
          opt_prop (opt_prop v ''gitCommit'') ''paths'' = JArr (map JStr ps)
          \<and> strict_eq (opt_prop (opt_prop v ''gitCommit'') ''expectedHead'') (opt_prop (opt_prop v ''project'') ''gitHead'')
          \<and> strict_eq (opt_prop (opt_prop v ''gitCommit'') ''branchRef'') (opt_prop (opt_prop v ''project'') ''gitBranchRef''))"
proof -
  note acc = request_accepted [OF assms(1,2)]
  obtain cs ps where cs: "opt_prop v ''changes'' = JArr cs" "1 \<le> length cs" "int (length cs) \<le> MAX_CHANGES"
      "map (\<lambda>c. opt_prop c ''path'') cs = map JStr ps" "sorted_wrt (<) ps"
      "\<forall>i < length cs. validateChange E i (cs ! i) = []"
      "sum_list (map after_bytes cs) \<le> MAX_TOTAL_AFTER_BYTES"
      "\<exists>d. computeM2ProjectChangePatchSetDigest E (JArr cs) = Inr d \<and> opt_prop v ''patchSetDigest'' = JStr d"
      "opt_prop v ''gitCommit'' \<noteq> JNull \<and> is_array (opt_prop (opt_prop v ''gitCommit'') ''paths'')
         \<Longrightarrow> list_all2 strict_eq (elements (opt_prop (opt_prop v ''gitCommit'') ''paths'')) (map JStr ps)"
    by (rule request_changes_accepted [OF acc(4)]) blast
  have each: "isDigest (opt_prop (opt_prop c ''after'') ''digest'')
      \<and> 0 \<le> after_bytes c \<and> after_bytes c \<le> 1048576
      \<and> (if opt_prop (opt_prop c ''before'') ''exists'' = JBool True
         then strict_eq (opt_prop (opt_prop c ''before'') ''mode'') (opt_prop (opt_prop c ''after'') ''mode'')
         else opt_prop (opt_prop c ''before'') ''digest'' = JNull)" if c: "c \<in> set cs" for c
  proof -
    from c cs(6) obtain i where i: "validateChange E i c = []" by (auto simp: in_set_conv_nth)
    note after = file_image_accepted [OF change_accepted(4) [OF i]]
    show ?thesis
      using after change_accepted(5) [OF i] file_image_absent [OF change_accepted(3) [OF i]]
      by (auto simp: after_bytes_def int_in_iff MAX_FILE_BYTES_def)
  qed
  have git: "opt_prop (opt_prop v ''gitCommit'') ''paths'' = JArr (map JStr ps)
      \<and> strict_eq (opt_prop (opt_prop v ''gitCommit'') ''expectedHead'') (opt_prop (opt_prop v ''project'') ''gitHead'')
      \<and> strict_eq (opt_prop (opt_prop v ''gitCommit'') ''branchRef'') (opt_prop (opt_prop v ''project'') ''gitBranchRef'')"
    if g: "opt_prop v ''gitCommit'' \<noteq> JNull"
  proof -
    let ?g = "opt_prop v ''gitCommit''"
    have sorted: "validateSortedUniqueStrings (opt_prop ?g ''paths'') (''project-change-request.gitCommit'' @ ''.paths'')
        (isM2ExecutionProjectRelativePath E) = []"
      and eq: "strict_eq (opt_prop ?g ''expectedHead'') (opt_prop (opt_prop v ''project'') ''gitHead'')"
        "strict_eq (opt_prop ?g ''branchRef'') (opt_prop (opt_prop v ''project'') ''gitBranchRef'')"
      using acc(6) g
      by (auto simp: validateGitCommit_def Let_def validateExactKeys_Nil_iff split: if_splits)
    obtain qs where qs: "opt_prop ?g ''paths'' = JArr (map JStr qs)"
      by (rule validateSortedUniqueStrings_Nil [OF sorted relative_path_string])
    with cs(9) g have "list_all2 strict_eq (map JStr qs) (map JStr ps)" by (simp add: is_array_def)
    then have "qs = ps" by (simp add: list_all2_map1 list_all2_map2 list.rel_eq)
    with qs eq show ?thesis by simp
  qed
  have "length cs \<le> 32" using cs(3) by (simp add: MAX_CHANGES_def)
  moreover have "sum_list (map after_bytes cs) \<le> 8388608" using cs(7) by (simp add: MAX_TOTAL_AFTER_BYTES_def)
  ultimately show ?thesis
    using cs(1,2,4,5,8) each git strict_sorted_distinct [OF cs(5)]
    by (intro exI [of _ cs] exI [of _ ps]) blast
qed

lemma all_different_ids:
  "\<forall>x \<in> set xs. isIdentifier x \<Longrightarrow> all_different xs \<Longrightarrow> distinct xs"
  by (induction xs) (auto simp: list_all_iff same_value_zero_def isIdentifier_iff)

lemma derived_set:
  assumes "deriveM2ProjectChangeAuthoritySet v = Inr xs" and "opt_prop v ''changes'' = JArr cs"
  obtains per where "list_all2 (\<lambda>c ys. change_authorities c = Inr ys) cs per"
    and "xs = concat per
      @ [authority ''focused-test'' JNull ''process.exec'' (opt_prop (opt_prop v ''focusedTest'') ''authority'')]
      @ (if opt_prop v ''gitCommit'' \<noteq> JNull
         then [authority ''git-commit'' JNull ''git.commit'' (opt_prop (opt_prop v ''gitCommit'') ''authority'')]
         else [])"
  using assms
  by (auto simp: deriveM2ProjectChangeAuthoritySet_def bindE_Inr_iff mapE_Inr_iff split: if_splits)

lemma change_authorities_cases:
  assumes "change_authorities c = Inr ys"
  shows "ys = [authority ''change.forward'' (opt_prop c ''path'') ''fs.write'' (opt_prop c ''forwardAuthority''),
    authority ''change.rollback'' (opt_prop c ''path'')
      (if opt_prop (opt_prop c ''before'') ''exists'' = JBool True then ''fs.write'' else ''fs.delete'')
      (opt_prop c ''rollbackAuthority'')]"
  using assms by (auto simp: change_authorities_def bindE_Inr_iff js_prop_def split: if_splits)

text \<open>
  C29. The authority set of an accepted request is complete and unambiguous. It grants, for every
  change, one forward write and one rollback of the same path (a write when the file existed, a
  deletion when it did not), one focused test and, exactly when a commit is requested, one commit;
  nothing else. Every grant names an effect and a request digest, no effect is used twice, and the
  digest in the request is that of the set.
\<close>

theorem request_authority_complete:
  assumes "validateM2ProjectChangeRequest E v = Inr r" and "valid r"
    and "opt_prop v ''changes'' = JArr cs"
  shows "\<exists>xs. deriveM2ProjectChangeAuthoritySet v = Inr xs
    \<and> xs = concat (map (\<lambda>c.
        [authority ''change.forward'' (opt_prop c ''path'') ''fs.write'' (opt_prop c ''forwardAuthority''),
         authority ''change.rollback'' (opt_prop c ''path'')
           (if opt_prop (opt_prop c ''before'') ''exists'' = JBool True then ''fs.write'' else ''fs.delete'')
           (opt_prop c ''rollbackAuthority'')]) cs)
      @ [authority ''focused-test'' JNull ''process.exec'' (opt_prop (opt_prop v ''focusedTest'') ''authority'')]
      @ (if opt_prop v ''gitCommit'' = JNull then []
         else [authority ''git-commit'' JNull ''git.commit'' (opt_prop (opt_prop v ''gitCommit'') ''authority'')])
    \<and> distinct (map (\<lambda>x. opt_prop x ''effectId'') xs)
    \<and> (\<forall>x \<in> set xs. isIdentifier (opt_prop x ''effectId'') \<and> isDigest (opt_prop x ''requestDigest''))
    \<and> (\<exists>d. computeM2ExecutionValueDigest E (JArr xs) = Inr d \<and> opt_prop v ''authoritySetDigest'' = JStr d)"
proof -
  from request_accepted(7) [OF assms(1,2)] obtain xs d where
    xs: "deriveM2ProjectChangeAuthoritySet v = Inr xs"
    and diff: "all_different (map (\<lambda>x. opt_prop x ''effectId'') xs)"
    and ids: "\<forall>x \<in> set xs. isIdentifier (opt_prop x ''effectId'') \<and> isDigest (opt_prop x ''requestDigest'')"
    and d: "computeM2ExecutionValueDigest E (JArr xs) = Inr d" "opt_prop v ''authoritySetDigest'' = JStr d"
    by (auto simp: request_authority_errors_def Let_def computeM2ProjectChangeAuthoritySetDigest_def
        list_all_iff split: if_splits sum.splits)
  obtain per where per: "list_all2 (\<lambda>c ys. change_authorities c = Inr ys) cs per"
    and eq: "xs = concat per
      @ [authority ''focused-test'' JNull ''process.exec'' (opt_prop (opt_prop v ''focusedTest'') ''authority'')]
      @ (if opt_prop v ''gitCommit'' \<noteq> JNull
         then [authority ''git-commit'' JNull ''git.commit'' (opt_prop (opt_prop v ''gitCommit'') ''authority'')]
         else [])"
    using derived_set [OF xs assms(3)] by blast
  have "per = map (\<lambda>c.
        [authority ''change.forward'' (opt_prop c ''path'') ''fs.write'' (opt_prop c ''forwardAuthority''),
         authority ''change.rollback'' (opt_prop c ''path'')
           (if opt_prop (opt_prop c ''before'') ''exists'' = JBool True then ''fs.write'' else ''fs.delete'')
           (opt_prop c ''rollbackAuthority'')]) cs"
    using per by (induction rule: list_all2_induct) (auto dest!: change_authorities_cases)
  moreover have "distinct (map (\<lambda>x. opt_prop x ''effectId'') xs)"
    using diff ids by (intro all_different_ids) auto
  ultimately show ?thesis using xs eq ids d by (intro exI [of _ xs]) auto
qed

section \<open>What an accepted result guarantees\<close>

lemma result_accepted:
  assumes "valid (validateM2ProjectChangeResult E v)"
  shows "isPlainRecord v"
    and "validateChangesResult E (opt_prop v ''changes'') = []"
    and "validateFocusedTestResult (opt_prop v ''focusedTest'') = []"
    and "validateGitResult (opt_prop v ''git'') = []"
    and "validateRollbackResult E (opt_prop v ''rollback'') = []"
    and "success_errors v = []"
    and "time_of (opt_prop v ''startedAt'') \<le> time_of (opt_prop v ''completedAt'')"
    and "str_in (opt_prop v ''terminalStatus'') M2_TERMINAL_STATUSES"
    and "isIdentifier (opt_prop v ''executionId'')" and "isIdentifier (opt_prop v ''runId'')"
proof -
  have rec: "isPlainRecord v"
    using assms by (auto simp: validateM2ProjectChangeResult_def Let_def validateExactKeys_Nil_iff split: if_splits)
  with assms show "isPlainRecord v" and "validateChangesResult E (opt_prop v ''changes'') = []"
    and "validateFocusedTestResult (opt_prop v ''focusedTest'') = []"
    and "validateGitResult (opt_prop v ''git'') = []"
    and "validateRollbackResult E (opt_prop v ''rollback'') = []"
    and "success_errors v = []"
    and "time_of (opt_prop v ''startedAt'') \<le> time_of (opt_prop v ''completedAt'')"
    and "str_in (opt_prop v ''terminalStatus'') M2_TERMINAL_STATUSES"
    and "isIdentifier (opt_prop v ''executionId'')" and "isIdentifier (opt_prop v ''runId'')"
    by (auto simp: validateM2ProjectChangeResult_def Let_def)
qed

lemma request_result_form:
  "validateM2ProjectChangeRequest E v = Inr r \<Longrightarrow> \<exists>es. r = validationResult es v"
  unfolding validateM2ProjectChangeRequest_def Let_def
  by (cases "isPlainRecord v") (auto simp only: bindE_Inr_iff if_True if_False not_True_eq_False
      not_False_eq_True sum.inject)

lemma result_result_form: "\<exists>es. validateM2ProjectChangeResult E v = validationResult es v"
  unfolding validateM2ProjectChangeResult_def Let_def
  by (cases "isPlainRecord v") (auto simp only: if_True if_False not_True_eq_False not_False_eq_True)

lemma result_for_request_eq:
  assumes "validateM2ProjectChangeRequest E request = Inr (validationResult es request)"
    and "validateM2ProjectChangeResult E result = validationResult es' result"
  shows "validateM2ProjectChangeResultForRequest E request result =
    (if es \<noteq> [] \<or> es' \<noteq> [] then Inr (validationResult (es @ es') result)
     else bindE (identity_mismatch E request result)
            (\<lambda>m. Inr (validationResult (binding_errors request result m) result)))"
  unfolding validateM2ProjectChangeResultForRequest_def assms by (simp add: Let_def)

lemma binding_accepted:
  assumes "validateM2ProjectChangeResultForRequest E request result = Inr r" and "valid r"
  obtains rq where "validateM2ProjectChangeRequest E request = Inr rq" and "valid rq"
    and "valid (validateM2ProjectChangeResult E result)"
    and "identity_mismatch E request result = Inr False"
    and "binding_errors request result False = []"
proof -
  from assms(1) obtain rq where rq: "validateM2ProjectChangeRequest E request = Inr rq"
    by (auto simp: validateM2ProjectChangeResultForRequest_def bindE_Inr_iff)
  obtain es es' where forms: "rq = validationResult es request"
      "validateM2ProjectChangeResult E result = validationResult es' result"
    using request_result_form [OF rq] result_result_form by blast
  note eq = result_for_request_eq [OF rq [unfolded forms(1)] forms(2)]
  have v: "es = [] \<and> es' = []"
  proof (rule ccontr)
    assume "\<not> ?thesis"
    with eq assms(1) have "r = validationResult (es @ es') result" by simp
    with assms(2) \<open>\<not> ?thesis\<close> show False by simp
  qed
  with eq assms(1) obtain m where "identity_mismatch E request result = Inr m"
      "r = validationResult (binding_errors request result m) result"
    by (cases "identity_mismatch E request result") auto
  with assms(2) have m: "identity_mismatch E request result = Inr m" "binding_errors request result m = []"
    by simp_all
  have "m \<Longrightarrow> binding_errors request result m \<noteq> []"
    unfolding binding_errors_def Let_def by simp
  with m have "\<not> m" by blast
  with that rq v m forms show thesis by simp
qed

lemma includes_strings: "array_includes (map JStr ps) (JStr s) \<longleftrightarrow> s \<in> set ps"
  by (induction ps) (auto simp: array_includes_def same_value_zero_def)

lemma foreign_free:
  assumes "\<not> list_ex (\<lambda>p. \<not> array_includes (map JStr ps) p) (map JStr qs)"
  shows "set qs \<subseteq> set ps"
  using assms by (auto simp: list_ex_iff includes_strings)

lemma strict_eq_identifier: "isIdentifier w \<Longrightarrow> strict_eq v w \<longleftrightarrow> v = w"
  by (auto simp: isIdentifier_iff)

text \<open>
  A result accepted for a request is about that request and nothing else: it carries the
  request's execution, run and canonical digest, it ends no earlier than it starts, it starts from
  the workspace revision and the git head the request was made for, and every path it reports as
  changed or as rolled back is one of the requested paths.
\<close>

theorem result_binds_request:
  assumes "validateM2ProjectChangeResultForRequest E request result = Inr r" and "valid r"
  shows "\<exists>d ps qs rs. computeM2ProjectChangeRequestDigest E request = Inr d
    \<and> opt_prop result ''requestDigest'' = JStr d
    \<and> opt_prop result ''executionId'' = opt_prop request ''executionId''
    \<and> opt_prop result ''runId'' = opt_prop request ''runId''
    \<and> time_of (opt_prop result ''startedAt'') \<le> time_of (opt_prop result ''completedAt'')
    \<and> strict_eq (opt_prop (opt_prop result ''changes'') ''beforeRevision'') (opt_prop (opt_prop request ''project'') ''workspaceRevision'')
    \<and> strict_eq (opt_prop (opt_prop result ''git'') ''beforeHead'') (opt_prop (opt_prop request ''project'') ''gitHead'')
    \<and> map (\<lambda>c. opt_prop c ''path'') (elements (opt_prop request ''changes'')) = map JStr ps
    \<and> opt_prop (opt_prop result ''changes'') ''paths'' = JArr (map JStr qs) \<and> set qs \<subseteq> set ps
    \<and> opt_prop (opt_prop result ''rollback'') ''paths'' = JArr (map JStr rs) \<and> set rs \<subseteq> set ps"
proof -
  obtain rq where rq: "validateM2ProjectChangeRequest E request = Inr rq" "valid rq"
    and rs: "valid (validateM2ProjectChangeResult E result)"
    and same: "identity_mismatch E request result = Inr False"
    and bind: "binding_errors request result False = []"
    using binding_accepted [OF assms] by blast
  note req = request_accepted [OF rq] and res = result_accepted [OF rs]
  from same obtain d where d: "computeM2ProjectChangeRequestDigest E request = Inr d"
      "opt_prop result ''requestDigest'' = JStr d"
      "opt_prop result ''executionId'' = opt_prop request ''executionId''"
      "opt_prop result ''runId'' = opt_prop request ''runId''"
    using req(10,11) by (auto simp: identity_mismatch_def bindE_Inr_iff strict_eq_identifier split: if_splits)
  obtain cs ps where cs: "opt_prop request ''changes'' = JArr cs"
      and ps: "map (\<lambda>c. opt_prop c ''path'') cs = map JStr ps"
    by (rule request_changes_accepted [OF req(4)]) blast
  have "validateSortedUniqueStrings (opt_prop (opt_prop result ''changes'') ''paths'')
      (''project-change-result.changes'' @ ''.paths'') (isM2ExecutionProjectRelativePath E) = []"
    using res(2) by (auto simp: validateChangesResult_def Let_def validateExactKeys_Nil_iff split: if_splits)
  then obtain qs where qs: "opt_prop (opt_prop result ''changes'') ''paths'' = JArr (map JStr qs)"
    by (rule validateSortedUniqueStrings_Nil [OF _ relative_path_string])
  have "validateSortedUniqueStrings (opt_prop (opt_prop result ''rollback'') ''paths'')
      (''project-change-result.rollback'' @ ''.paths'') (isM2ExecutionProjectRelativePath E) = []"
    using res(5) by (auto simp: validateRollbackResult_def Let_def validateExactKeys_Nil_iff split: if_splits)
  then obtain ts where ts: "opt_prop (opt_prop result ''rollback'') ''paths'' = JArr (map JStr ts)"
    by (rule validateSortedUniqueStrings_Nil [OF _ relative_path_string])
  have "set qs \<subseteq> set ps" "set ts \<subseteq> set ps"
    using bind qs ts foreign_free [of ps qs] foreign_free [of ps ts]
    by (simp_all add: binding_errors_def Let_def cs ps)
  moreover have "strict_eq (opt_prop (opt_prop result ''changes'') ''beforeRevision'') (opt_prop (opt_prop request ''project'') ''workspaceRevision'')"
      "strict_eq (opt_prop (opt_prop result ''git'') ''beforeHead'') (opt_prop (opt_prop request ''project'') ''gitHead'')"
    using bind by (simp_all add: binding_errors_def Let_def)
  ultimately show ?thesis using d res(7) qs ts ps
    by (intro exI [of _ d] exI [of _ ps] exI [of _ qs] exI [of _ ts]) (simp add: cs)
qed

text \<open>
  C14. Success means the requested change happened, was tested and left nothing behind. A result
  accepted as succeeded reports exactly the requested paths with a new revision and a diff, a
  focused test that succeeded with exit code 0, the user's other uncommitted work preserved, no
  rollback, no error and no late completion. Without a requested commit the head did not move; with
  one there is a new commit, which is the new head and not the expected one. Any other outcome
  carries an error code.
\<close>

theorem result_success_sound:
  assumes "validateM2ProjectChangeResultForRequest E request result = Inr r" and "valid r"
  shows "if opt_prop result ''terminalStatus'' = JStr ''succeeded'' then
      arraysEqual (opt_prop (opt_prop result ''changes'') ''paths'')
        (JArr (map (\<lambda>c. opt_prop c ''path'') (elements (opt_prop request ''changes''))))
      \<and> isWorkspaceRevision (opt_prop (opt_prop result ''changes'') ''afterRevision'')
      \<and> isDigest (opt_prop (opt_prop result ''changes'') ''diffDigest'')
      \<and> opt_prop (opt_prop result ''focusedTest'') ''terminalStatus'' = JStr ''succeeded''
      \<and> strict_eq (opt_prop (opt_prop result ''focusedTest'') ''exitCode'') (JInt 0)
      \<and> opt_prop (opt_prop result ''git'') ''foreignDirtPreserved'' = JBool True
      \<and> opt_prop (opt_prop result ''rollback'') ''paths'' = JArr []
      \<and> opt_prop result ''errorCode'' = JNull
      \<and> opt_prop result ''lateCompletionRejected'' = JBool False
      \<and> (if opt_prop request ''gitCommit'' = JNull then
            opt_prop (opt_prop result ''git'') ''status'' = JStr ''not_requested''
            \<and> strict_eq (opt_prop (opt_prop result ''git'') ''afterHead'') (opt_prop (opt_prop request ''project'') ''gitHead'')
          else opt_prop (opt_prop result ''git'') ''status'' = JStr ''committed''
            \<and> isGitObject (opt_prop (opt_prop result ''git'') ''afterHead'')
            \<and> strict_eq (opt_prop (opt_prop result ''git'') ''commitId'') (opt_prop (opt_prop result ''git'') ''afterHead'')
            \<and> \<not> strict_eq (opt_prop (opt_prop result ''git'') ''afterHead'') (opt_prop (opt_prop request ''gitCommit'') ''expectedHead''))
    else opt_prop result ''errorCode'' \<noteq> JNull"
proof -
  obtain rq where rs: "valid (validateM2ProjectChangeResult E result)"
    and bind: "binding_errors request result False = []"
    using binding_accepted [OF assms] by blast
  note res = result_accepted [OF rs]
  show ?thesis
  proof (cases "opt_prop result ''terminalStatus'' = JStr ''succeeded''")
    case True
    have ok: "opt_prop result ''errorCode'' = JNull"
        "isWorkspaceRevision (opt_prop (opt_prop result ''changes'') ''afterRevision'')"
        "isDigest (opt_prop (opt_prop result ''changes'') ''diffDigest'')"
        "opt_prop (opt_prop result ''focusedTest'') ''terminalStatus'' = JStr ''succeeded''"
        "strict_eq (opt_prop (opt_prop result ''focusedTest'') ''exitCode'') (JInt 0)"
        "opt_prop (opt_prop result ''git'') ''foreignDirtPreserved'' = JBool True"
        "opt_prop (opt_prop result ''rollback'') ''required'' = JBool False"
        "opt_prop result ''lateCompletionRejected'' = JBool False"
      using res(6) True by (simp_all add: success_errors_def Let_def)
    have rb: "isPlainRecord (opt_prop result ''rollback'')"
      using res(5) by (auto simp: validateRollbackResult_def Let_def validateExactKeys_Nil_iff split: if_splits)
    have sorted: "validateSortedUniqueStrings (opt_prop (opt_prop result ''rollback'') ''paths'')
        (''project-change-result.rollback'' @ ''.paths'') (isM2ExecutionProjectRelativePath E) = []"
      and empty: "length_sat (\<lambda>n. n = 0) (opt_prop (opt_prop result ''rollback'') ''paths'')"
      using res(5) rb ok(7) by (simp_all add: validateRollbackResult_def Let_def)
    obtain ts where "opt_prop (opt_prop result ''rollback'') ''paths'' = JArr (map JStr ts)"
      by (rule validateSortedUniqueStrings_Nil [OF sorted relative_path_string])
    with empty have none: "opt_prop (opt_prop result ''rollback'') ''paths'' = JArr []"
      by (simp add: length_sat_def)
    have gitrec: "isPlainRecord (opt_prop result ''git'')"
      using res(4) by (auto simp: validateGitResult_def Let_def validateExactKeys_Nil_iff split: if_splits)
    then have head: "opt_prop (opt_prop result ''git'') ''status'' = JStr ''committed''
        \<Longrightarrow> isGitObject (opt_prop (opt_prop result ''git'') ''afterHead'')"
      using res(4) by (simp add: validateGitResult_def Let_def)
    show ?thesis
      using bind True ok none head by (simp add: binding_errors_def Let_def split: if_splits)
  next
    case False
    then show ?thesis using res(6) by (simp add: success_errors_def Let_def)
  qed
qed

end
