(* ===== verification/M2Samples.thy ===== *)
theory M2Samples
  imports M2Execution
begin

text \<open>
  A complete project-change request with one new file and a commit, and the result of its
  successful execution, evaluated by the kernel on the ASCII host. They show that the hypotheses
  of the properties of the execution contract can be met by a document that passes every check.
\<close>

section \<open>A request and its result, for evaluation\<close>

definition zeros :: "nat \<Rightarrow> string \<Rightarrow> string" where
  "zeros n s = replicate (n - length s) CHR ''0'' @ s"

lemma zeros_code [code]:
  "zeros n s =
     (if n = 64 \<and> length s = 1
      then ''000000000000000000000000000000000000000000000000000000000000000'' @ s
      else replicate (n - length s) CHR ''0'' @ s)"
  by (auto simp: zeros_def zeros63)

definition sha :: "string \<Rightarrow> jsval" where
  "sha s = JStr (''sha256:'' @ zeros 64 s)"

definition sample_binding :: "string \<Rightarrow> jsval" where
  "sample_binding s =
     JObj [(''effectId'', JStr s), (''requestDigest'', sha ''1'')]"

definition sample_argv :: jsval where
  "sample_argv = JArr [JStr ''test'']"

definition sample_changes :: jsval where
  "sample_changes =
     JArr [JObj [(''after'', JObj [(''bytes'', JInt 12), (''digest'', sha ''2''), (''mode'', JInt 420)]),
     (''before'', JObj [(''bytes'', JInt 0), (''digest'', JNull), (''exists'', JBool False), (''mode'', JNull)]),
     (''forwardAuthority'', sample_binding ''e1''), (''path'', JStr ''src/a.js''),
     (''rollbackAuthority'', sample_binding ''e2'')]]"

definition sample_project :: jsval where
  "sample_project =
     JObj [(''canonicalRoot'', JStr ''/w/p''), (''foreignDirtDigest'', sha ''5''),
     (''gitBranchRef'', JStr ''refs/heads/main''), (''gitHead'', JStr (zeros 40 ''4'')), (''projectId'', JInt 7),
     (''workspaceRevision'', JStr (''wsr1:'' @ zeros 64 ''3''))]"

definition sample_request :: "string \<Rightarrow> string \<Rightarrow> string \<Rightarrow> jsval" where
  "sample_request argv_sum patch_sum set_sum =
     JObj [(''actor'', JObj [(''id'', JStr ''u1''), (''type'', JStr ''user'')]),
     (''authoritySetDigest'', sha set_sum), (''changes'', sample_changes),
     (''contract'', JStr ''ProjectChangeRequest''), (''createdAt'', JStr ''2026-01-02T03:04:05.006Z''),
     (''executionId'', JStr ''x1''), (''focusedTest'', JObj [(''argv'', sample_argv), (''argvDigest'', sha argv_sum),
     (''authority'', sample_binding ''e3''), (''binary'', JStr ''/bin/node''), (''canonicalCwd'', JStr ''/w/p''),
     (''environmentDigest'', sha ''6''), (''expectedExitCode'', JInt 0),
     (''sandboxProfile'', JStr ''linux-bwrap-ro-v2''), (''timeoutMs'', JInt 60000)]),
     (''gitCommit'', JObj [(''authority'', sample_binding ''e4''), (''branchRef'', JStr ''refs/heads/main''),
     (''expectedHead'', JStr (zeros 40 ''4'')), (''identityDigest'', sha ''8''), (''messageDigest'', sha ''7''),
     (''paths'', JArr [JStr ''src/a.js''])]), (''origin'', JObj [(''conversationId'', JStr ''c1''),
     (''projectId'', JInt 7), (''sessionId'', JNull), (''surface'', JStr ''ws'')]),
     (''patchSetDigest'', sha patch_sum), (''project'', sample_project), (''runId'', JStr ''r1''),
     (''version'', JInt 1)]"

definition good_request :: jsval where
  "good_request = sample_request ''8'' ''6'' ''7''"

lemma good_focusedTest:
  "validateFocusedTest ascii_env (opt_prop good_request ''focusedTest'')
     (opt_prop (opt_prop good_request ''project'') ''canonicalRoot'') = Inr []"
  by code_simp

lemma good_changes: "request_change_errors ascii_env good_request = []"
  by code_simp

lemma good_authorities: "request_authority_errors ascii_env good_request = []"
  by code_simp

lemma good_commit:
  "validateGitCommit ascii_env (opt_prop good_request ''gitCommit'') (opt_prop good_request ''project'') = []"
  by code_simp

lemma good_project:
  "validateProject ascii_env (opt_prop good_request ''project'') (opt_prop good_request ''origin'') = []"
  by code_simp

lemma good_head:
  "validateActor (opt_prop good_request ''actor'') = []" "validateOrigin (opt_prop good_request ''origin'') = []"
  "isCanonicalTimestamp (opt_prop good_request ''createdAt'')"
  "isIdentifier (opt_prop good_request ''executionId'')" "isIdentifier (opt_prop good_request ''runId'')"
  by code_simp+

lemma good_request_accepted:
  "validateM2ProjectChangeRequest ascii_env good_request = Inr (validationResult [] good_request)"
proof -
  have keys: "validateExactKeys good_request [''contract'', ''version'', ''executionId'', ''runId'', ''actor'',
      ''origin'', ''project'', ''patchSetDigest'', ''changes'', ''focusedTest'', ''gitCommit'',
      ''authoritySetDigest'', ''createdAt''] [] ''project-change-request'' = []"
    by code_simp
  have tag: "isPlainRecord good_request" "opt_prop good_request ''contract'' = JStr ''ProjectChangeRequest''"
      "opt_prop good_request ''version'' = JInt 1"
    by (simp_all add: good_request_def sample_request_def isPlainRecord_def)
  show ?thesis
    unfolding validateM2ProjectChangeRequest_def Let_def good_focusedTest keys
    by (simp add: tag good_changes good_authorities good_commit good_project good_head)
qed

section \<open>The properties at these documents\<close>

theorem request_paths_confined_witness:
  "\<exists>p. opt_prop (hd (elements sample_changes)) ''path'' = JStr p
    \<and> list_all proper_segment (split_at (CHR ''/'') p)
    \<and> posix_normalize (''/w/p'' @ ''/'' @ p) = ''/w/p'' @ ''/'' @ p"
  by (rule request_paths_confined [OF good_request_accepted])
    (simp_all add: good_request_def sample_request_def sample_project_def sample_changes_def)

theorem request_change_set_sound_witness:
  "\<exists>cs ps. opt_prop good_request ''changes'' = JArr cs \<and> 1 \<le> length cs
    \<and> map (\<lambda>c. opt_prop c ''path'') cs = map JStr ps \<and> distinct ps"
  using request_change_set_sound [OF good_request_accepted] by (auto simp del: map_eq_conv)

theorem request_authority_complete_witness:
  "\<exists>xs. deriveM2ProjectChangeAuthoritySet good_request = Inr xs \<and> length xs = 4
    \<and> distinct (map (\<lambda>x. opt_prop x ''effectId'') xs)"
proof -
  have cs: "opt_prop good_request ''changes'' = JArr (elements sample_changes)"
    by (simp add: good_request_def sample_request_def sample_changes_def)
  have g: "opt_prop good_request ''gitCommit'' \<noteq> JNull"
    by (simp add: good_request_def sample_request_def)
  show ?thesis
    using request_authority_complete [OF good_request_accepted _ cs] g
    by (auto simp: sample_changes_def)
qed

definition good_result :: jsval where
  "good_result =
     JObj [(''changes'', JObj [(''afterRevision'', JStr (''wsr1:'' @ zeros 64 ''9'')),
     (''beforeRevision'', JStr (''wsr1:'' @ zeros 64 ''3'')), (''diffDigest'', sha ''a''),
     (''paths'', JArr [JStr ''src/a.js''])]), (''completedAt'', JStr ''2026-01-02T03:05:09.500Z''),
     (''contract'', JStr ''ProjectChangeResult''), (''errorCode'', JNull), (''evidenceRefs'', JArr [JStr ''log:1'']),
     (''executionId'', JStr ''x1''), (''fencingGeneration'', JInt 1),
     (''focusedTest'', JObj [(''effectId'', JStr ''e3''), (''exitCode'', JInt 0), (''outputTruncated'', JBool False),
     (''signal'', JNull), (''stderrDigest'', sha ''c''), (''stdoutDigest'', sha ''b''),
     (''terminalStatus'', JStr ''succeeded'')]), (''git'', JObj [(''afterHead'', JStr (zeros 40 ''5'')),
     (''beforeHead'', JStr (zeros 40 ''4'')), (''commitId'', JStr (zeros 40 ''5'')),
     (''foreignDirtPreserved'', JBool True), (''status'', JStr ''committed'')]),
     (''lateCompletionRejected'', JBool False), (''projectId'', JInt 7), (''requestDigest'', sha ''e''),
     (''rollback'', JObj [(''evidenceRef'', JNull), (''paths'', JArr []), (''required'', JBool False),
     (''status'', JStr ''not_required'')]), (''runId'', JStr ''r1''),
     (''startedAt'', JStr ''2026-01-02T03:05:00.000Z''), (''terminalStatus'', JStr ''succeeded''),
     (''version'', JInt 1)]"

lemma good_request_digest:
  "computeM2ExecutionValueDigest ascii_env good_request = Inr (''sha256:'' @ zeros 64 ''e'')"
  by code_simp

lemma good_result_accepted: "validateM2ProjectChangeResult ascii_env good_result = validationResult [] good_result"
  by code_simp

lemma good_identity: "identity_mismatch ascii_env good_request good_result = Inr False"
proof -
  have "computeM2ProjectChangeRequestDigest ascii_env good_request = Inr (''sha256:'' @ zeros 64 ''e'')"
    by (simp add: computeM2ProjectChangeRequestDigest_def good_request_accepted good_request_digest)
  then show ?thesis
    by (simp add: identity_mismatch_def good_result_def good_request_def sample_request_def
        sample_project_def sha_def strict_eq_def)
qed

lemma good_binding: "binding_errors good_request good_result False = []"
  by code_simp

lemma good_result_for_request:
  "validateM2ProjectChangeResultForRequest ascii_env good_request good_result
     = Inr (validationResult [] good_result)"
  using result_for_request_eq [OF good_request_accepted good_result_accepted]
  by (simp add: good_identity good_binding)

theorem result_binds_request_witness:
  "\<exists>d. computeM2ProjectChangeRequestDigest ascii_env good_request = Inr d
    \<and> opt_prop good_result ''requestDigest'' = JStr d"
  using result_binds_request [OF good_result_for_request] by auto

theorem result_success_sound_witness:
  "arraysEqual (opt_prop (opt_prop good_result ''changes'') ''paths'')
     (JArr (map (\<lambda>c. opt_prop c ''path'') (elements (opt_prop good_request ''changes''))))
   \<and> opt_prop (opt_prop good_result ''git'') ''status'' = JStr ''committed''"
proof -
  have done_: "opt_prop good_result ''terminalStatus'' = JStr ''succeeded''"
    by (simp add: good_result_def)
  have commit: "opt_prop good_request ''gitCommit'' \<noteq> JNull"
    by (simp add: good_request_def sample_request_def)
  show ?thesis
    using result_success_sound [OF good_result_for_request] done_ commit by simp
qed

end
