(* ===== verification/Base64.thy ===== *)
theory Base64
  imports JsValue
begin

text \<open>
  Base64 of \<open>node:buffer\<close>: \<open>toString('base64')\<close> and \<open>Buffer.from(s, 'base64')\<close> on texts of
  full groups. Decoding what was encoded gives the bytes back, so the canonicality test of the
  governance baseline (decode, encode, compare) accepts exactly the encodings.
\<close>

definition b64_char :: "nat \<Rightarrow> char" where
  "b64_char n =
     char_of (if n < 26 then 65 + n else if n < 52 then 71 + n else if n < 62 then n - 4
              else if n = 62 then 43 else 47)"

definition b64_value :: "char \<Rightarrow> nat option" where
  "b64_value c =
     (let b = (of_char c :: nat)
      in if 65 \<le> b \<and> b \<le> 90 then Some (b - 65)
         else if 97 \<le> b \<and> b \<le> 122 then Some (b - 71)
         else if 48 \<le> b \<and> b \<le> 57 then Some (b + 4)
         else if b = 43 then Some 62 else if b = 47 then Some 63 else None)"

fun b64_encode :: "string \<Rightarrow> string" where
  "b64_encode [] = []"
| "b64_encode [a] =
     (let x = of_char a in [b64_char (x div 4), b64_char (x mod 4 * 16), CHR ''='', CHR ''=''])"
| "b64_encode [a, b] =
     (let x = of_char a; y = of_char b
      in [b64_char (x div 4), b64_char (x mod 4 * 16 + y div 16), b64_char (y mod 16 * 4), CHR ''=''])"
| "b64_encode (a # b # c # s) =
     (let x = of_char a; y = of_char b; z = of_char c
      in b64_char (x div 4) # b64_char (x mod 4 * 16 + y div 16) # b64_char (y mod 16 * 4 + z div 64)
           # b64_char (z mod 64) # b64_encode s)"

fun b64_decode :: "string \<Rightarrow> string option" where
  "b64_decode [] = Some []"
| "b64_decode (p # q # r # s # t) =
     (case (b64_value p, b64_value q) of
        (Some a, Some b) \<Rightarrow>
          (if r = CHR ''='' \<and> s = CHR ''='' \<and> t = [] then Some [char_of (a * 4 + b div 16)]
           else (case b64_value r of
                   None \<Rightarrow> None
                 | Some c \<Rightarrow>
                     if s = CHR ''='' \<and> t = [] then Some [char_of (a * 4 + b div 16), char_of (b mod 16 * 16 + c div 4)]
                     else (case (b64_value s, b64_decode t) of
                             (Some d, Some u) \<Rightarrow>
                               Some (char_of (a * 4 + b div 16) # char_of (b mod 16 * 16 + c div 4)
                                     # char_of (c mod 4 * 64 + d) # u)
                           | _ \<Rightarrow> None)))
      | _ \<Rightarrow> None)"
| "b64_decode _ = None"

lemma b64_value_char: "n < 64 \<Longrightarrow> b64_value (b64_char n) = Some n"
  by (auto simp: b64_value_def b64_char_def Let_def)

lemma b64_char_not_pad: "n < 64 \<Longrightarrow> b64_char n \<noteq> CHR ''=''"
proof
  assume "n < 64" and "b64_char n = CHR ''=''"
  then have "b64_value CHR ''='' = Some n" using b64_value_char by metis
  then show False by (simp add: b64_value_def)
qed

lemma unpack:
  "(r :: nat) < n \<Longrightarrow> (q * n + r) div n = q" "r < n \<Longrightarrow> (q * n + r) mod n = r"
  by simp_all

lemma byte_div:
  "(of_char (c :: char) :: nat) div 4 < 64" "(of_char c :: nat) div 16 < 16" "(of_char c :: nat) div 64 < 4"
  using nat_of_char_less_256 [of c] by (simp_all add: less_mult_imp_div_less)

lemma sextet:
  "p < 4 \<Longrightarrow> q < 16 \<Longrightarrow> p * 16 + q < (64 :: nat)" "p < 16 \<Longrightarrow> q < 4 \<Longrightarrow> p * 4 + q < (64 :: nat)"
  "p < 4 \<Longrightarrow> p * 16 < (64 :: nat)" "p < 16 \<Longrightarrow> p * 4 < (64 :: nat)"
  by simp_all

lemma b64_round: "b64_decode (b64_encode s) = Some s"
  by (induction s rule: b64_encode.induct)
    (simp_all add: Let_def b64_value_char b64_char_not_pad sextet byte_div unpack)

end
