(* ===== verification/M2Governance.thy ===== *)
theory M2Governance
  imports M2Execution Base64 "HOL-Library.Multiset"
begin

text \<open>
  \<open>contracts/m2/governance-v1.js\<close>: the baseline a change is judged against, the policy
  snapshot (layers and import rules), the decision with its checks and findings, and the receipt
  of an executed decision. Identifiers of findings, decisions and receipts are digests of their
  content. Names that the file shares with the execution contract carry the prefix \<open>gov_\<close>.
\<close>

definition REQUIRED_CHECKS :: "string list" where
  "REQUIRED_CHECKS = [''imports.allowed'', ''inventory.complete'', ''layers.mapped'']"

definition DECISION_CHECKS :: "string list" where
  "DECISION_CHECKS = [''imports.allowed'', ''input.bindings'', ''inventory.complete'', ''layers.mapped'']"

definition CHECK_STATUSES :: "string list" where
  "CHECK_STATUSES = [''pass'', ''fail'', ''unavailable'']"

definition VERDICTS :: "string list" where
  "VERDICTS = [''allow'', ''deny'', ''unavailable'']"

definition extension_text :: "string \<Rightarrow> bool" where
  "extension_text s =
     (let low = (\<lambda>c. let b = (of_char c :: nat) in 97 \<le> b \<and> b \<le> 122)
      in case s of
           d # c # r \<Rightarrow> d = CHR ''.'' \<and> (low c \<or> is_digit c) \<and> length r \<le> 31
             \<and> list_all (\<lambda>x. low x \<or> is_digit x \<or> x = CHR ''_'' \<or> x = CHR ''-'') r
         | _ \<Rightarrow> False)"

text \<open>A text of the extension pattern has no upper-case letter, so it is its own lower case.\<close>

definition isCanonicalSourceExtension :: "js_env \<Rightarrow> jsval \<Rightarrow> bool" where
  "isCanonicalSourceExtension E v = str_sat (\<lambda>s. extension_text s \<and> s = nfc E s) v"

definition gov_isNfcString :: "js_env \<Rightarrow> jsval \<Rightarrow> bool" where
  "gov_isNfcString E v = str_sat (\<lambda>s. s = nfc E s \<and> length s \<le> 4096) v"

definition gov_sorted :: "jsval \<Rightarrow> string \<Rightarrow> (jsval \<Rightarrow> bool) \<Rightarrow> string list" where
  "gov_sorted v context validator =
     validateSortedUniqueStrings v context (\<lambda>x. validator x \<and> str_of x \<noteq> [])"

definition identifierFromDigest :: "string \<Rightarrow> string \<Rightarrow> string" where
  "identifierFromDigest prefix digest = prefix @ '':'' @ drop 7 digest"

definition withoutKey :: "jsval \<Rightarrow> string \<Rightarrow> jsval" where
  "withoutKey v key = (case v of JObj kvs \<Rightarrow> JObj (filter (\<lambda>(k, x). k \<noteq> key) kvs) | _ \<Rightarrow> v)"

text \<open>\<open>identifierFromDigest(prefix, computeM2GovernanceValueDigest(value))\<close>\<close>

definition content_id :: "js_env \<Rightarrow> string \<Rightarrow> jsval \<Rightarrow> string js" where
  "content_id E prefix v =
     bindE (computeM2ExecutionValueDigest E v) (\<lambda>d. Inr (identifierFromDigest prefix d))"

text \<open>The test at the end of each validator: the stored identifier is that of the content.\<close>

definition content_id_errors :: "js_env \<Rightarrow> string \<Rightarrow> jsval \<Rightarrow> jsval \<Rightarrow> string \<Rightarrow> string \<Rightarrow> string list" where
  "content_id_errors E prefix projection stored context mismatch =
     (case content_id E prefix projection of
        Inl _ \<Rightarrow> [context @ '':invalid-canonical-form'']
      | Inr expected \<Rightarrow> chk (stored \<noteq> JStr expected) (context @ mismatch))"

section \<open>The baseline\<close>

definition decodeCanonicalBase64 :: "jsval \<Rightarrow> string option" where
  "decodeCanonicalBase64 v =
     (case v of
        JStr s \<Rightarrow> (case b64_decode s of None \<Rightarrow> None
                    | Some bytes \<Rightarrow> if b64_encode bytes = s then Some bytes else None)
      | _ \<Rightarrow> None)"

definition validateBaselineFile :: "js_env \<Rightarrow> nat \<Rightarrow> jsval \<Rightarrow> string list" where
  "validateBaselineFile E index v =
     (let context = ''governance-baseline.files['' @ int_to_string (int index) @ '']'';
          errors = validateExactKeys v [''path'', ''contentBase64'', ''digest'', ''bytes''] [] context;
          content = decodeCanonicalBase64 (opt_prop v ''contentBase64'')
      in if \<not> isPlainRecord v then errors
         else errors
           @ chk (\<not> isM2ExecutionProjectRelativePath E (opt_prop v ''path'')) (context @ '':invalid-path'')
           @ chk (content = None) (context @ '':invalid-contentBase64'')
           @ chk (\<not> isDigest (opt_prop v ''digest'')) (context @ '':invalid-digest'')
           @ chk (\<not> int_ge (opt_prop v ''bytes'') 0) (context @ '':invalid-bytes'')
           @ (case content of
                None \<Rightarrow> []
              | Some bytes \<Rightarrow>
                  chk (\<not> strict_eq (opt_prop v ''bytes'') (JInt (int (length bytes)))) (context @ '':byte-count-mismatch'')
                  @ chk (opt_prop v ''digest'' \<noteq> JStr (''sha256:'' @ sha256 E bytes)) (context @ '':digest-mismatch'')))"

text \<open>The paths of adjacent files: the same scan as for lists of texts.\<close>

definition validateSortedFilePaths :: "jsval list \<Rightarrow> string \<Rightarrow> string list" where
  "validateSortedFilePaths files context =
     chk (\<not> strings_increasing (map (\<lambda>f. opt_prop f ''path'') files)) (context @ '':not-bytewise-sorted-unique'')"

definition validateM2GovernanceBaselineSnapshot :: "js_env \<Rightarrow> jsval \<Rightarrow> validation" where
  "validateM2GovernanceBaselineSnapshot E v =
     (let context = ''governance-baseline'';
          errors = validateExactKeys v [''projectId'', ''workspaceRevision'', ''complete'', ''files''] [] context;
          files = opt_prop v ''files''
      in if \<not> isPlainRecord v then validationResult errors v
         else validationResult (errors
           @ chk (\<not> int_ge (opt_prop v ''projectId'') 1) (context @ '':invalid-projectId'')
           @ chk (\<not> isWorkspaceRevision (opt_prop v ''workspaceRevision'')) (context @ '':invalid-workspaceRevision'')
           @ chk (\<not> is_bool (opt_prop v ''complete'')) (context @ '':invalid-complete'')
           @ (if \<not> is_array files then [context @ ''.files:not-array'']
              else each_indexed (validateBaselineFile E) (elements files)
                @ validateSortedFilePaths (elements files) (context @ ''.files''))) v)"

text \<open>The digests that refuse an invalid document.\<close>

definition digest_if_valid :: "js_env \<Rightarrow> validation \<Rightarrow> jsval \<Rightarrow> string js" where
  "digest_if_valid E r v =
     (if \<not> valid r then Inl (TypeErr (join_with '','' (errors r))) else computeM2ExecutionValueDigest E v)"

definition computeM2GovernanceBaselineDigest :: "js_env \<Rightarrow> jsval \<Rightarrow> string js" where
  "computeM2GovernanceBaselineDigest E v = digest_if_valid E (validateM2GovernanceBaselineSnapshot E v) v"

section \<open>The policy\<close>

definition validateLayer :: "js_env \<Rightarrow> nat \<Rightarrow> jsval \<Rightarrow> string list" where
  "validateLayer E index v =
     (let context = ''governance-policy-snapshot.layers['' @ int_to_string (int index) @ '']'';
          errors = validateExactKeys v [''name'', ''roots''] [] context
      in if \<not> isPlainRecord v then errors
         else errors
           @ chk (\<not> isIdentifier (opt_prop v ''name'')) (context @ '':invalid-name'')
           @ gov_sorted (opt_prop v ''roots'') (context @ ''.roots'') (isM2ExecutionProjectRelativePath E)
           @ chk (length_sat (\<lambda>n. n = 0) (opt_prop v ''roots'')) (context @ ''.roots:empty''))"

definition validateRule :: "string list \<Rightarrow> nat \<Rightarrow> jsval \<Rightarrow> string list" where
  "validateRule layerNames index v =
     (let context = ''governance-policy-snapshot.rules['' @ int_to_string (int index) @ '']'';
          errors = validateExactKeys v [''from'', ''canImport''] [] context;
          targets = opt_prop v ''canImport''
      in if \<not> isPlainRecord v then errors
         else errors
           @ chk (\<not> isIdentifier (opt_prop v ''from'') \<or> \<not> str_in (opt_prop v ''from'') layerNames) (context @ '':invalid-from'')
           @ gov_sorted targets (context @ ''.canImport'') isIdentifier
           @ each_indexed (\<lambda>i t. chk (\<not> str_in t layerNames)
                 (context @ ''.canImport['' @ int_to_string (int i) @ '']:unknown-layer'')) (elements targets))"

definition layer_names :: "jsval \<Rightarrow> string list" where
  "layer_names v =
     js_set (map str_of (filter isIdentifier (map (\<lambda>l. opt_prop l ''name'') (elements (opt_prop v ''layers'')))))"

definition policy_layer_errors :: "js_env \<Rightarrow> jsval \<Rightarrow> string list" where
  "policy_layer_errors E v =
     (let context = ''governance-policy-snapshot''; layers = opt_prop v ''layers''; ls = elements layers
      in if \<not> is_array layers \<or> length ls < 1 \<or> length ls > 64 then [context @ '':invalid-layers'']
         else each_indexed (validateLayer E) ls
           @ gov_sorted (JArr (map (\<lambda>l. opt_prop l ''name'') ls)) (context @ ''.layerNames'') isIdentifier
           @ chk (\<not> all_different (concat (map (\<lambda>l. elements (opt_prop l ''roots'')) ls))) (context @ '':duplicate-root''))"

definition policy_rule_errors :: "jsval \<Rightarrow> string list" where
  "policy_rule_errors v =
     (let context = ''governance-policy-snapshot''; rules = opt_prop v ''rules''; rs = elements rules;
          names = layer_names v; from = map (\<lambda>r. opt_prop r ''from'') rs
      in if \<not> is_array rules \<or> length rs \<noteq> length names then [context @ '':one-rule-per-layer-required'']
         else each_indexed (validateRule names) rs
           @ gov_sorted (JArr from) (context @ ''.ruleFrom'') isIdentifier
           @ chk (\<not> arraysEqual (JArr from) (JArr (map JStr (sort names)))) (context @ '':rule-layer-set-mismatch''))"

definition validateM2GovernancePolicySnapshot :: "js_env \<Rightarrow> jsval \<Rightarrow> validation" where
  "validateM2GovernancePolicySnapshot E v =
     (let context = ''governance-policy-snapshot'';
          errors = validateExactKeys v [''contract'', ''version'', ''policyId'', ''projectId'', ''workspaceRevision'',
            ''policyPath'', ''layers'', ''rules'', ''externalImports'', ''sourceExtensions'', ''requiredChecks'',
            ''unmappedFilePolicy''] [] context
      in if \<not> isPlainRecord v then validationResult errors v
         else validationResult (errors
           @ chk (opt_prop v ''contract'' \<noteq> JStr ''GovernancePolicySnapshot'') (context @ '':invalid-contract'')
           @ chk (opt_prop v ''version'' \<noteq> JInt 1) (context @ '':invalid-version'')
           @ chk (\<not> isIdentifier (opt_prop v ''policyId'')) (context @ '':invalid-policyId'')
           @ chk (\<not> int_ge (opt_prop v ''projectId'') 1) (context @ '':invalid-projectId'')
           @ chk (\<not> isWorkspaceRevision (opt_prop v ''workspaceRevision'')) (context @ '':invalid-workspaceRevision'')
           @ chk (\<not> isM2ExecutionProjectRelativePath E (opt_prop v ''policyPath'')) (context @ '':invalid-policyPath'')
           @ gov_sorted (opt_prop v ''externalImports'') (context @ ''.externalImports'') (gov_isNfcString E)
           @ gov_sorted (opt_prop v ''sourceExtensions'') (context @ ''.sourceExtensions'') (isCanonicalSourceExtension E)
           @ chk (length_sat (\<lambda>n. n = 0) (opt_prop v ''sourceExtensions'')) (context @ ''.sourceExtensions:empty'')
           @ policy_layer_errors E v
           @ policy_rule_errors v
           @ gov_sorted (opt_prop v ''requiredChecks'') (context @ ''.requiredChecks'') (gov_isNfcString E)
           @ chk (\<not> arraysEqual (opt_prop v ''requiredChecks'') (JArr (map JStr REQUIRED_CHECKS))) (context @ '':required-check-set-mismatch'')
           @ chk (opt_prop v ''unmappedFilePolicy'' \<noteq> JStr ''unavailable'') (context @ '':unmapped-policy-must-fail-closed'')) v)"

definition computeM2GovernancePolicySnapshotDigest :: "js_env \<Rightarrow> jsval \<Rightarrow> string js" where
  "computeM2GovernancePolicySnapshotDigest E v = digest_if_valid E (validateM2GovernancePolicySnapshot E v) v"

section \<open>Findings\<close>

definition findingProjection :: "jsval \<Rightarrow> jsval" where
  "findingProjection v = JObj (map (\<lambda>k. (k, opt_prop v k)) [''checkId'', ''code'', ''path'', ''evidenceDigest''])"

definition createM2GovernanceFinding :: "js_env \<Rightarrow> jsval \<Rightarrow> jsval \<Rightarrow> jsval \<Rightarrow> jsval \<Rightarrow> jsval js" where
  "createM2GovernanceFinding E checkId code path evidence =
     bindE (computeM2ExecutionValueDigest E evidence) (\<lambda>d.
       let projection = [(''checkId'', checkId), (''code'', code),
             (''path'', if path = JUndef then JNull else path), (''evidenceDigest'', JStr d)]
       in bindE (content_id E ''govfind1'' (JObj projection)) (\<lambda>i.
            Inr (JObj ((''findingId'', JStr i) # projection))))"

definition validateFinding :: "js_env \<Rightarrow> nat \<Rightarrow> jsval \<Rightarrow> string list" where
  "validateFinding E index v =
     (let context = ''governance-decision.findings['' @ int_to_string (int index) @ '']'';
          errors = validateExactKeys v [''findingId'', ''checkId'', ''code'', ''path'', ''evidenceDigest''] [] context
      in if \<not> isPlainRecord v then errors
         else errors
           @ chk (\<not> str_sat (hex_tail ''govfind1:'' 64) (opt_prop v ''findingId'')) (context @ '':invalid-findingId'')
           @ chk (\<not> str_in (opt_prop v ''checkId'') DECISION_CHECKS) (context @ '':invalid-checkId'')
           @ chk (\<not> str_sat (code_text 95) (opt_prop v ''code'')) (context @ '':invalid-code'')
           @ chk (\<not> null_or (isM2ExecutionProjectRelativePath E) (opt_prop v ''path'')) (context @ '':invalid-path'')
           @ chk (\<not> isDigest (opt_prop v ''evidenceDigest'')) (context @ '':invalid-evidenceDigest'')
           @ content_id_errors E ''govfind1'' (findingProjection v) (opt_prop v ''findingId'') context '':findingId-mismatch'')"

text \<open>\<open>.filter(id => typeof id === 'string').sort(compareUtf8)\<close>\<close>

definition sorted_strings :: "jsval list \<Rightarrow> jsval" where
  "sorted_strings xs = JArr (map JStr (sort (map str_of (filter is_string xs))))"

section \<open>Decisions\<close>

text \<open>A null finding passes the filter of a check only on the way to the exception of
  \<open>validateM2GovernanceDecision\<close>, which reads \<open>findingId\<close> of every finding.\<close>

definition validateDecisionCheck :: "js_env \<Rightarrow> jsval list \<Rightarrow> nat \<Rightarrow> jsval \<Rightarrow> string list" where
  "validateDecisionCheck E findings index v =
     (let context = ''governance-decision.checks['' @ int_to_string (int index) @ '']'';
          errors = validateExactKeys v [''checkId'', ''required'', ''status'', ''findingIds''] [] context;
          ids = opt_prop v ''findingIds''; status = opt_prop v ''status'';
          expectedIds = sorted_strings (map (\<lambda>f. opt_prop f ''findingId'')
            (filter (\<lambda>f. strict_eq (opt_prop f ''checkId'') (opt_prop v ''checkId'')) findings))
      in if \<not> isPlainRecord v then errors
         else errors
           @ chk (\<not> str_in (opt_prop v ''checkId'') DECISION_CHECKS) (context @ '':invalid-checkId'')
           @ chk (opt_prop v ''required'' \<noteq> JBool True) (context @ '':required-check-must-be-true'')
           @ chk (\<not> str_in status CHECK_STATUSES) (context @ '':invalid-status'')
           @ gov_sorted ids (context @ ''.findingIds'') (gov_isNfcString E)
           @ chk (\<not> arraysEqual ids expectedIds) (context @ '':finding-set-mismatch'')
           @ chk (status = JStr ''pass'' \<and> \<not> length_sat (\<lambda>n. n = 0) ids) (context @ '':findings-on-pass'')
           @ chk (status \<noteq> JStr ''pass'' \<and> length_sat (\<lambda>n. n = 0) ids) (context @ '':missing-finding''))"

definition decision_head_errors :: "jsval \<Rightarrow> string list" where
  "decision_head_errors v =
     (let context = ''governance-decision''
      in chk (opt_prop v ''contract'' \<noteq> JStr ''GovernanceDecision'') (context @ '':invalid-contract'')
         @ chk (opt_prop v ''version'' \<noteq> JInt 1) (context @ '':invalid-version'')
         @ chk (\<not> str_sat (hex_tail ''govdec1:'' 64) (opt_prop v ''decisionId'')) (context @ '':invalid-decisionId'')
         @ concat (map (\<lambda>k. chk (\<not> isIdentifier (opt_prop v k)) (context @ '':invalid-'' @ k))
             [''lifecycleId'', ''milestoneId'', ''executionId'', ''runId''])
         @ chk (\<not> int_ge (opt_prop v ''projectId'') 1) (context @ '':invalid-projectId'')
         @ concat (map (\<lambda>k. chk (\<not> isDigest (opt_prop v k)) (context @ '':invalid-'' @ k))
             [''requestDigest'', ''policyDigest'', ''baselineDigest''])
         @ chk (\<not> null_or isWorkspaceRevision (opt_prop v ''expectedAfterRevision'')) (context @ '':invalid-expectedAfterRevision'')
         @ chk (\<not> str_in (opt_prop v ''verdict'') VERDICTS) (context @ '':invalid-verdict''))"

definition decision_check_errors :: "js_env \<Rightarrow> jsval \<Rightarrow> string list" where
  "decision_check_errors E v =
     (let context = ''governance-decision''; findings = opt_prop v ''findings''; fs = elements findings;
          checks = opt_prop v ''checks''; cs = elements checks
      in (if \<not> is_array findings then [context @ ''.findings:not-array'']
          else each_indexed (validateFinding E) fs
            @ gov_sorted (JArr (map (\<lambda>f. opt_prop f ''findingId'') fs)) (context @ ''.findingIds'') (gov_isNfcString E))
         @ (if \<not> is_array checks \<or> length cs \<noteq> length DECISION_CHECKS then [context @ '':complete-check-set-required'']
            else each_indexed (validateDecisionCheck E fs) cs
              @ chk (\<not> arraysEqual (JArr (map (\<lambda>c. opt_prop c ''checkId'') cs)) (JArr (map JStr DECISION_CHECKS)))
                  (context @ '':check-order-mismatch'')))"

definition decision_verdict_errors :: "js_env \<Rightarrow> jsval \<Rightarrow> jsval list \<Rightarrow> string list" where
  "decision_verdict_errors E v allFindingIds =
     (let context = ''governance-decision''; verdict = opt_prop v ''verdict''; fs = elements (opt_prop v ''findings'');
          blocking = opt_prop v ''blockingFindingIds'';
          statuses = map (\<lambda>c. opt_prop c ''status'') (elements (opt_prop v ''checks''));
          expected = (if verdict = JStr ''allow'' then JArr []
                      else sorted_strings (map (\<lambda>f. opt_prop f ''findingId'') fs))
      in gov_sorted blocking (context @ ''.blockingFindingIds'') (gov_isNfcString E)
         @ each_indexed (\<lambda>i x. chk (\<not> array_includes allFindingIds x)
               (context @ ''.blockingFindingIds['' @ int_to_string (int i) @ '']:unknown-finding'')) (elements blocking)
         @ chk (\<not> arraysEqual blocking expected) (context @ '':blocking-finding-set-mismatch'')
         @ chk (verdict = JStr ''allow''
                \<and> (opt_prop v ''expectedAfterRevision'' = JNull \<or> list_ex (\<lambda>s. s \<noteq> JStr ''pass'') statuses
                   \<or> fs \<noteq> [] \<or> \<not> length_sat (\<lambda>n. n = 0) blocking)) (context @ '':false-allow'')
         @ chk (verdict = JStr ''deny''
                \<and> (JStr ''fail'' \<notin> set statuses \<or> JStr ''unavailable'' \<in> set statuses)) (context @ '':invalid-deny'')
         @ chk (verdict = JStr ''unavailable'' \<and> JStr ''unavailable'' \<notin> set statuses) (context @ '':invalid-unavailable''))"

definition validateM2GovernanceDecision :: "js_env \<Rightarrow> jsval \<Rightarrow> validation js" where
  "validateM2GovernanceDecision E v =
     (let context = ''governance-decision'';
          errors = validateExactKeys v [''contract'', ''version'', ''decisionId'', ''lifecycleId'', ''milestoneId'',
            ''executionId'', ''runId'', ''projectId'', ''requestDigest'', ''policyDigest'', ''baselineDigest'',
            ''expectedAfterRevision'', ''verdict'', ''checks'', ''findings'', ''blockingFindingIds''] [] context
      in if \<not> isPlainRecord v then Inr (validationResult errors v)
         else bindE (mapE (\<lambda>f. js_prop f ''findingId'') (elements (opt_prop v ''findings''))) (\<lambda>ids.
           Inr (validationResult (errors @ decision_head_errors v @ decision_check_errors E v
              @ decision_verdict_errors E v ids
              @ content_id_errors E ''govdec1'' (withoutKey v ''decisionId'') (opt_prop v ''decisionId'')
                  context '':decisionId-mismatch'') v)))"

text \<open>\<open>{ a, ...fields }\<close>: a later property replaces an earlier one in its place.\<close>

definition spread :: "(string \<times> jsval) list \<Rightarrow> (string \<times> jsval) list \<Rightarrow> (string \<times> jsval) list" where
  "spread base props = fold (\<lambda>(k, x). AList.update k x) props base"

lemma map_of_spread: "map_of (spread base props) = map_of base ++ map_of (rev props)"
proof (induction props arbitrary: base)
  case (Cons kx props)
  obtain k x where "kx = (k, x)" by fastforce
  moreover have "(map_of base)(k \<mapsto> x) ++ map_of (rev props) = map_of base ++ map_of (rev props @ [(k, x)])"
    by (auto simp: map_add_def fun_eq_iff split: option.splits)
  ultimately show ?case using Cons [of "AList.update k x base"] by (simp add: spread_def update_conv' fun_upd_def)
qed (simp add: spread_def)

lemma map_of_rev_same: "distinct (map fst kvs) \<Longrightarrow> map_of (rev kvs) = map_of kvs"
  by (rule map_of_inject_set [THEN iffD2]) (simp_all add: rev_map [symmetric])

lemma spread_prop:
  "map_of (rev props) k = None \<Longrightarrow> opt_prop (JObj (spread base props)) k = opt_prop (JObj base) k"
  "opt_prop (JObj props) k \<noteq> JUndef \<Longrightarrow> distinct (map fst props) \<Longrightarrow>
     opt_prop (JObj (spread base props)) k = opt_prop (JObj props) k"
  by (simp_all add: map_of_spread map_add_def map_of_rev_same split: option.splits)

lemma distinct_spread: "distinct (map fst base) \<Longrightarrow> distinct (map fst (spread base props))"
  by (induction props arbitrary: base) (auto simp: spread_def distinct_update)

definition createM2GovernanceDecision :: "js_env \<Rightarrow> (string \<times> jsval) list \<Rightarrow> jsval js" where
  "createM2GovernanceDecision E props =
     (let projection = spread [(''contract'', JStr ''GovernanceDecision''), (''version'', JInt 1)] props
      in bindE (content_id E ''govdec1'' (JObj projection)) (\<lambda>i.
           let v = JObj (spread [(''decisionId'', JStr i)] projection)
           in bindE (validateM2GovernanceDecision E v) (\<lambda>r.
                if \<not> valid r then Inl (TypeErr (join_with '','' (errors r))) else Inr v)))"

definition computeM2GovernanceDecisionDigest :: "js_env \<Rightarrow> jsval \<Rightarrow> string js" where
  "computeM2GovernanceDecisionDigest E v =
     bindE (validateM2GovernanceDecision E v) (\<lambda>r. digest_if_valid E r v)"

section \<open>Receipts\<close>

definition validateM2GovernanceReceipt :: "js_env \<Rightarrow> jsval \<Rightarrow> validation" where
  "validateM2GovernanceReceipt E v =
     (let context = ''governance-receipt'';
          errors = validateExactKeys v [''contract'', ''version'', ''receiptId'', ''decisionDigest'', ''lifecycleId'',
            ''milestoneId'', ''executionId'', ''runId'', ''projectId'', ''requestDigest'', ''policyDigest'',
            ''baselineDigest'', ''expectedAfterRevision'', ''resultDigest'', ''actualAfterRevision'',
            ''fencingGeneration'', ''status'', ''recordedAt'', ''evidenceRefs''] [] context
      in if \<not> isPlainRecord v then validationResult errors v
         else validationResult (errors
           @ chk (opt_prop v ''contract'' \<noteq> JStr ''GovernanceReceipt'') (context @ '':invalid-contract'')
           @ chk (opt_prop v ''version'' \<noteq> JInt 1) (context @ '':invalid-version'')
           @ chk (\<not> str_sat (hex_tail ''govreceipt1:'' 64) (opt_prop v ''receiptId'')) (context @ '':invalid-receiptId'')
           @ chk (\<not> isDigest (opt_prop v ''decisionDigest'')) (context @ '':invalid-decisionDigest'')
           @ concat (map (\<lambda>k. chk (\<not> isIdentifier (opt_prop v k)) (context @ '':invalid-'' @ k))
               [''lifecycleId'', ''milestoneId'', ''executionId'', ''runId''])
           @ chk (\<not> int_ge (opt_prop v ''projectId'') 1) (context @ '':invalid-projectId'')
           @ concat (map (\<lambda>k. chk (\<not> isDigest (opt_prop v k)) (context @ '':invalid-'' @ k))
               [''requestDigest'', ''policyDigest'', ''baselineDigest'', ''resultDigest''])
           @ concat (map (\<lambda>k. chk (\<not> isWorkspaceRevision (opt_prop v k)) (context @ '':invalid-'' @ k))
               [''expectedAfterRevision'', ''actualAfterRevision''])
           @ chk (\<not> strict_eq (opt_prop v ''actualAfterRevision'') (opt_prop v ''expectedAfterRevision''))
               (context @ '':after-revision-mismatch'')
           @ chk (\<not> int_ge (opt_prop v ''fencingGeneration'') 1) (context @ '':invalid-fencingGeneration'')
           @ chk (opt_prop v ''status'' \<noteq> JStr ''accepted'') (context @ '':accepted-required'')
           @ chk (\<not> isCanonicalTimestamp (opt_prop v ''recordedAt'')) (context @ '':invalid-recordedAt'')
           @ gov_sorted (opt_prop v ''evidenceRefs'') (context @ ''.evidenceRefs'') (gov_isNfcString E)
           @ chk (length_sat (\<lambda>n. n < 2) (opt_prop v ''evidenceRefs'') \<or> length_sat (\<lambda>n. n > 66) (opt_prop v ''evidenceRefs''))
               (context @ '':invalid-evidence-count'')
           @ content_id_errors E ''govreceipt1'' (withoutKey v ''receiptId'') (opt_prop v ''receiptId'') context
               '':receiptId-mismatch'') v)"

definition same_props :: "jsval \<Rightarrow> jsval \<Rightarrow> string list \<Rightarrow> bool" where
  "same_props a b ks = list_all (\<lambda>k. strict_eq (opt_prop a k) (opt_prop b k)) ks"

definition receipt_binding_errors :: "jsval \<Rightarrow> jsval \<Rightarrow> jsval \<Rightarrow> jsval \<Rightarrow> string \<Rightarrow> string \<Rightarrow> string \<Rightarrow> string list" where
  "receipt_binding_errors request result decision receipt requestDigest resultDigest decisionDigest =
     (let context = ''governance-receipt'';
          after = opt_prop (opt_prop result ''changes'') ''afterRevision'';
          requiredEvidence = sort (map str_of (elements (opt_prop result ''evidenceRefs''))
            @ [''governance-decision:'' @ str_of (opt_prop decision ''decisionId''),
               ''project-change-result:'' @ str_of (opt_prop result ''executionId'')])
      in chk (opt_prop decision ''verdict'' \<noteq> JStr ''allow'') (context @ '':decision-not-allow'')
         @ chk (opt_prop result ''terminalStatus'' \<noteq> JStr ''succeeded'') (context @ '':result-not-succeeded'')
         @ chk (\<not> same_props decision request [''executionId'', ''runId'']
                \<or> \<not> strict_eq (opt_prop decision ''projectId'') (opt_prop (opt_prop request ''project'') ''projectId'')
                \<or> opt_prop decision ''requestDigest'' \<noteq> JStr requestDigest)
             (context @ '':decision-request-identity-mismatch'')
         @ chk (\<not> same_props receipt decision [''lifecycleId'', ''milestoneId'', ''executionId'', ''runId'', ''projectId'',
                  ''requestDigest'', ''policyDigest'', ''baselineDigest'', ''expectedAfterRevision'']
                \<or> opt_prop receipt ''decisionDigest'' \<noteq> JStr decisionDigest)
             (context @ '':decision-identity-mismatch'')
         @ chk (opt_prop receipt ''resultDigest'' \<noteq> JStr resultDigest
                \<or> \<not> strict_eq (opt_prop receipt ''actualAfterRevision'') after
                \<or> \<not> strict_eq (opt_prop receipt ''fencingGeneration'') (opt_prop result ''fencingGeneration''))
             (context @ '':result-identity-mismatch'')
         @ chk (\<not> strict_eq after (opt_prop decision ''expectedAfterRevision'')) (context @ '':unexpected-after-revision'')
         @ chk (time_of (opt_prop receipt ''recordedAt'') < time_of (opt_prop result ''completedAt''))
             (context @ '':recorded-before-result'')
         @ chk (\<not> arraysEqual (opt_prop receipt ''evidenceRefs'') (JArr (map JStr requiredEvidence)))
             (context @ '':evidence-set-mismatch''))"

definition validateM2GovernanceReceiptForDecision :: "js_env \<Rightarrow> jsval \<Rightarrow> jsval \<Rightarrow> jsval \<Rightarrow> jsval \<Rightarrow> validation js" where
  "validateM2GovernanceReceiptForDecision E request result decision receipt =
     bindE (validateM2ProjectChangeRequest E request) (\<lambda>rq.
     bindE (validateM2ProjectChangeResultForRequest E request result) (\<lambda>rs.
     bindE (validateM2GovernanceDecision E decision) (\<lambda>dc.
       let rc = validateM2GovernanceReceipt E receipt;
           errs = errors rq @ errors rs @ errors dc @ errors rc
       in if \<not> valid rq \<or> \<not> valid rs \<or> \<not> valid dc \<or> \<not> valid rc then Inr (validationResult errs receipt)
          else bindE (computeM2ProjectChangeRequestDigest E request) (\<lambda>d1.
               bindE (computeM2ExecutionValueDigest E result) (\<lambda>d2.
               bindE (computeM2GovernanceDecisionDigest E decision) (\<lambda>d3.
                 Inr (validationResult (errs @ receipt_binding_errors request result decision receipt d1 d2 d3) receipt)))))))"

definition computeM2GovernanceReceiptDigest :: "js_env \<Rightarrow> jsval \<Rightarrow> string js" where
  "computeM2GovernanceReceiptDigest E v = digest_if_valid E (validateM2GovernanceReceipt E v) v"

definition validateM2GovernanceContract :: "js_env \<Rightarrow> jsval \<Rightarrow> jsval \<Rightarrow> validation js" where
  "validateM2GovernanceContract E v expected =
     (let contract = opt_prop v ''contract''
      in if \<not> isPlainRecord v then Inr (validationResult [''m2-governance:not-object''] v)
         else if expected \<noteq> JNull \<and> \<not> strict_eq contract expected
           then Inr (validationResult [''m2-governance:unexpected-contract''] v)
         else if contract = JStr ''GovernancePolicySnapshot'' then Inr (validateM2GovernancePolicySnapshot E v)
         else if contract = JStr ''GovernanceDecision'' then validateM2GovernanceDecision E v
         else if contract = JStr ''GovernanceReceipt'' then Inr (validateM2GovernanceReceipt E v)
         else Inr (validationResult [''m2-governance:unknown-contract''] v))"

definition encodeM2GovernanceContract :: "js_env \<Rightarrow> jsval \<Rightarrow> jsval \<Rightarrow> string js" where
  "encodeM2GovernanceContract E v expected =
     bindE (validateM2GovernanceContract E v expected) (\<lambda>r.
       if \<not> valid r then Inl (TypeErr (join_with '','' (errors r)))
       else canonicalizeM2ExecutionValue E v)"

section \<open>What an accepted decision says\<close>

lemma arraysEqual_strings: "arraysEqual a (JArr (map JStr ss)) \<longleftrightarrow> a = JArr (map JStr ss)"
proof
  assume "arraysEqual a (JArr (map JStr ss))"
  then obtain xs where "a = JArr xs" "list_all2 strict_eq xs (map JStr ss)"
    by (auto simp: arraysEqual_def is_array_iff)
  moreover then have "xs = map JStr ss"
    by (auto simp: list_all2_conv_all_nth list_eq_iff_nth_eq)
  ultimately show "a = JArr (map JStr ss)" by simp
qed (simp add: arraysEqual_def is_array_def list_all2_conv_all_nth)

lemma decision_accepted:
  assumes "validateM2GovernanceDecision E v = Inr r" and "valid r"
  obtains ids where "isPlainRecord v" and "decision_head_errors v = []"
    and "decision_check_errors E v = []" and "decision_verdict_errors E v ids = []"
    and "content_id_errors E ''govdec1'' (withoutKey v ''decisionId'') (opt_prop v ''decisionId'')
           ''governance-decision'' '':decisionId-mismatch'' = []"
proof (cases "isPlainRecord v")
  case True
  with assms(1) obtain ids where "r = validationResult (validateExactKeys v [''contract'', ''version'', ''decisionId'',
        ''lifecycleId'', ''milestoneId'', ''executionId'', ''runId'', ''projectId'', ''requestDigest'',
        ''policyDigest'', ''baselineDigest'', ''expectedAfterRevision'', ''verdict'', ''checks'', ''findings'',
        ''blockingFindingIds''] [] ''governance-decision''
      @ decision_head_errors v @ decision_check_errors E v @ decision_verdict_errors E v ids
      @ content_id_errors E ''govdec1'' (withoutKey v ''decisionId'') (opt_prop v ''decisionId'')
                  ''governance-decision'' '':decisionId-mismatch'') v"
    by (auto simp: validateM2GovernanceDecision_def Let_def bindE_Inr_iff)
  with assms(2) True show thesis by (auto intro: that)
next
  case False
  with assms show thesis
    by (auto simp: validateM2GovernanceDecision_def Let_def validateExactKeys_Nil_iff)
qed

lemma decision_checks_accepted:
  assumes "decision_check_errors E v = []"
  obtains fs cs where "opt_prop v ''findings'' = JArr fs" and "opt_prop v ''checks'' = JArr cs"
    and "map (\<lambda>c. opt_prop c ''checkId'') cs = map JStr DECISION_CHECKS"
    and "\<And>i. i < length cs \<Longrightarrow> validateDecisionCheck E fs i (cs ! i) = []"
    and "\<And>i. i < length fs \<Longrightarrow> validateFinding E i (fs ! i) = []"
proof -
  obtain fs cs where fc: "opt_prop v ''findings'' = JArr fs" "opt_prop v ''checks'' = JArr cs"
    using assms by (auto simp: decision_check_errors_def Let_def is_array_iff split: if_splits)
  with assms have "arraysEqual (JArr (map (\<lambda>c. opt_prop c ''checkId'') cs)) (JArr (map JStr DECISION_CHECKS))"
    by (auto simp: decision_check_errors_def Let_def split: if_splits)
  with fc assms that [OF fc] show thesis
    by (auto simp: decision_check_errors_def Let_def each_indexed_Nil_iff arraysEqual_strings split: if_splits)
qed

lemma sorted_strings_empty:
  "length_sat (\<lambda>n. n = 0) (sorted_strings xs) \<longleftrightarrow> sorted_strings xs = JArr []"
  unfolding sorted_strings_def length_sat_def
  by (cases "sort (map str_of (filter is_string xs))") auto

lemma check_accepted:
  assumes "validateDecisionCheck E fs i c = []"
  shows "opt_prop c ''required'' = JBool True" and "str_in (opt_prop c ''status'') CHECK_STATUSES"
    and "opt_prop c ''findingIds'' = sorted_strings (map (\<lambda>f. opt_prop f ''findingId'')
          (filter (\<lambda>f. strict_eq (opt_prop f ''checkId'') (opt_prop c ''checkId'')) fs))"
    and "opt_prop c ''status'' = JStr ''pass'' \<longleftrightarrow> opt_prop c ''findingIds'' = JArr []"
proof -
  have rec: "isPlainRecord c"
    using assms by (auto simp: validateDecisionCheck_def Let_def validateExactKeys_Nil_iff split: if_splits)
  show "opt_prop c ''required'' = JBool True" and "str_in (opt_prop c ''status'') CHECK_STATUSES"
    and ids: "opt_prop c ''findingIds'' = sorted_strings (map (\<lambda>f. opt_prop f ''findingId'')
          (filter (\<lambda>f. strict_eq (opt_prop f ''checkId'') (opt_prop c ''checkId'')) fs))"
    using assms rec
    by (simp_all add: validateDecisionCheck_def Let_def sorted_strings_def arraysEqual_strings)
  have "opt_prop c ''status'' = JStr ''pass'' \<longleftrightarrow> length_sat (\<lambda>n. n = 0) (opt_prop c ''findingIds'')"
    using assms rec by (auto simp: validateDecisionCheck_def Let_def)
  then show "opt_prop c ''status'' = JStr ''pass'' \<longleftrightarrow> opt_prop c ''findingIds'' = JArr []"
    unfolding ids sorted_strings_empty .
qed

text \<open>
  C15. The verdict is a function of the checks. In an accepted decision the four checks appear once
  each, in the pinned order, each with one of the three statuses; the verdict is \<open>unavailable\<close> when
  a check is unavailable, otherwise \<open>deny\<close> when a check failed, otherwise \<open>allow\<close>. No decision can
  carry a verdict its checks do not support.
\<close>

theorem decision_verdict_determined:
  assumes "validateM2GovernanceDecision E v = Inr r" and "valid r"
  shows "\<exists>cs. opt_prop v ''checks'' = JArr cs
    \<and> map (\<lambda>c. opt_prop c ''checkId'') cs = map JStr DECISION_CHECKS
    \<and> (\<forall>c \<in> set cs. str_in (opt_prop c ''status'') CHECK_STATUSES)
    \<and> opt_prop v ''verdict'' = JStr
        (if JStr ''unavailable'' \<in> set (map (\<lambda>c. opt_prop c ''status'') cs) then ''unavailable''
         else if JStr ''fail'' \<in> set (map (\<lambda>c. opt_prop c ''status'') cs) then ''deny'' else ''allow'')"
proof -
  obtain ids where head: "decision_head_errors v = []" and check: "decision_check_errors E v = []"
    and verdict: "decision_verdict_errors E v ids = []"
    using decision_accepted [OF assms] by blast
  obtain fs cs where cs: "opt_prop v ''checks'' = JArr cs"
      "map (\<lambda>c. opt_prop c ''checkId'') cs = map JStr DECISION_CHECKS"
      "\<And>i. i < length cs \<Longrightarrow> validateDecisionCheck E fs i (cs ! i) = []"
    using decision_checks_accepted [OF check] by metis
  have status: "str_in (opt_prop c ''status'') CHECK_STATUSES" if "c \<in> set cs" for c
  proof -
    from that obtain i where "i < length cs" "c = cs ! i" by (auto simp: in_set_conv_nth)
    with cs(3) show ?thesis using check_accepted(2) by blast
  qed
  let ?ss = "set (map (\<lambda>c. opt_prop c ''status'') cs)"
  have sub: "?ss \<subseteq> {JStr ''pass'', JStr ''fail'', JStr ''unavailable''}"
    using status by (fastforce simp: str_in_def str_sat_iff CHECK_STATUSES_def)
  have "str_in (opt_prop v ''verdict'') VERDICTS"
    using head by (simp add: decision_head_errors_def Let_def)
  then consider "opt_prop v ''verdict'' = JStr ''allow''" | "opt_prop v ''verdict'' = JStr ''deny''"
    | "opt_prop v ''verdict'' = JStr ''unavailable''"
    by (auto simp: str_in_def str_sat_iff VERDICTS_def)
  then have "opt_prop v ''verdict'' = JStr (if JStr ''unavailable'' \<in> ?ss then ''unavailable''
         else if JStr ''fail'' \<in> ?ss then ''deny'' else ''allow'')"
  proof cases
    case 1
    with verdict cs(1) have "\<forall>s \<in> ?ss. s = JStr ''pass''"
      by (simp add: decision_verdict_errors_def Let_def list_ex_iff)
    then have "JStr ''unavailable'' \<notin> ?ss" "JStr ''fail'' \<notin> ?ss" by fastforce+
    with 1 show ?thesis by simp
  next
    case 2
    with verdict cs(1) show ?thesis by (simp add: decision_verdict_errors_def Let_def)
  next
    case 3
    with verdict cs(1) show ?thesis by (simp add: decision_verdict_errors_def Let_def)
  qed
  with cs status show ?thesis by (intro exI [of _ cs]) simp
qed

text \<open>
  An accepted allow decision has nothing against the change. All four required checks pass with
  no finding, the decision holds no finding at all and blocks on none, and it commits to the
  workspace revision the change must produce.
\<close>

theorem allow_decision_sound:
  assumes "validateM2GovernanceDecision E v = Inr r" and "valid r"
    and "opt_prop v ''verdict'' = JStr ''allow''"
  shows "\<exists>cs. opt_prop v ''checks'' = JArr cs \<and> length cs = 4
    \<and> (\<forall>c \<in> set cs. opt_prop c ''status'' = JStr ''pass'' \<and> opt_prop c ''required'' = JBool True
          \<and> opt_prop c ''findingIds'' = JArr [])
    \<and> opt_prop v ''findings'' = JArr [] \<and> opt_prop v ''blockingFindingIds'' = JArr []
    \<and> isWorkspaceRevision (opt_prop v ''expectedAfterRevision'')"
proof -
  obtain ids where head: "decision_head_errors v = []" and check: "decision_check_errors E v = []"
    and verdict: "decision_verdict_errors E v ids = []"
    using decision_accepted [OF assms(1,2)] by blast
  obtain fs cs where cs: "opt_prop v ''findings'' = JArr fs" "opt_prop v ''checks'' = JArr cs"
      "map (\<lambda>c. opt_prop c ''checkId'') cs = map JStr DECISION_CHECKS"
      "\<And>i. i < length cs \<Longrightarrow> validateDecisionCheck E fs i (cs ! i) = []"
    using decision_checks_accepted [OF check] by metis
  have len: "length cs = 4"
    using arg_cong [OF cs(3), of length] by (simp add: DECISION_CHECKS_def)
  from verdict assms(3) cs have facts: "\<forall>c \<in> set cs. opt_prop c ''status'' = JStr ''pass''" "fs = []"
      "opt_prop v ''expectedAfterRevision'' \<noteq> JNull"
    and block: "arraysEqual (opt_prop v ''blockingFindingIds'') (JArr (map JStr []))"
    by (simp_all add: decision_verdict_errors_def Let_def list_ex_iff)
  have each: "opt_prop c ''status'' = JStr ''pass'' \<and> opt_prop c ''required'' = JBool True
      \<and> opt_prop c ''findingIds'' = JArr []" if "c \<in> set cs" for c
  proof -
    from that obtain i where "i < length cs" "c = cs ! i" by (auto simp: in_set_conv_nth)
    with cs(4) have c: "validateDecisionCheck E fs i c = []" by blast
    from that facts(1) have "opt_prop c ''status'' = JStr ''pass''" by blast
    with check_accepted(1,4) [OF c] show ?thesis by simp
  qed
  have "isWorkspaceRevision (opt_prop v ''expectedAfterRevision'')"
    using head facts(3) by (simp add: decision_head_errors_def Let_def null_or_def)
  with len each cs(1,2) facts(2) block arraysEqual_strings [of _ "[]"] show ?thesis
    by (intro exI [of _ cs]) auto
qed

lemma sorted_strings_members:
  "x \<in> set (elements (sorted_strings xs)) \<longleftrightarrow> x \<in> set xs \<and> is_string x"
proof -
  have "JStr (str_of y) = y" if "is_string y" for y
    using that by (cases y) (auto simp: is_string_def)
  then show ?thesis
    by (auto simp: sorted_strings_def image_iff is_string_def split: jsval.splits)
qed

text \<open>
  A refusal is justified. In an accepted decision, every check that did not pass lists at least
  one finding; each of its findings is a finding of the decision, made for that check, and, when the
  verdict is not \<open>allow\<close>, one of the findings the decision blocks on.
\<close>

theorem refusal_justified:
  assumes "validateM2GovernanceDecision E v = Inr r" and "valid r"
    and "opt_prop v ''verdict'' \<noteq> JStr ''allow''"
    and "c \<in> set (elements (opt_prop v ''checks''))" and "opt_prop c ''status'' \<noteq> JStr ''pass''"
  shows "elements (opt_prop c ''findingIds'') \<noteq> []
    \<and> (\<forall>x \<in> set (elements (opt_prop c ''findingIds'')).
        x \<in> set (elements (opt_prop v ''blockingFindingIds''))
        \<and> (\<exists>f \<in> set (elements (opt_prop v ''findings'')).
              opt_prop f ''findingId'' = x \<and> strict_eq (opt_prop f ''checkId'') (opt_prop c ''checkId'')))"
proof -
  obtain ids where check: "decision_check_errors E v = []" and verdict: "decision_verdict_errors E v ids = []"
    using decision_accepted [OF assms(1,2)] by blast
  obtain fs cs where cs: "opt_prop v ''findings'' = JArr fs" "opt_prop v ''checks'' = JArr cs"
      "\<And>i. i < length cs \<Longrightarrow> validateDecisionCheck E fs i (cs ! i) = []"
    using decision_checks_accepted [OF check] by metis
  from assms(4) cs(2) obtain i where "i < length cs" "c = cs ! i" by (auto simp: in_set_conv_nth)
  with cs(3) have c: "validateDecisionCheck E fs i c = []" by blast
  have block: "opt_prop v ''blockingFindingIds'' = sorted_strings (map (\<lambda>f. opt_prop f ''findingId'') fs)"
    using verdict assms(3) cs(1)
    by (simp add: decision_verdict_errors_def Let_def sorted_strings_def arraysEqual_strings)
  have ne: "opt_prop c ''findingIds'' \<noteq> JArr []" using check_accepted(4) [OF c] assms(5) by simp
  then have "elements (opt_prop c ''findingIds'') \<noteq> []"
    unfolding check_accepted(3) [OF c] sorted_strings_def by auto
  moreover have "x \<in> set (elements (opt_prop v ''blockingFindingIds''))
        \<and> (\<exists>f \<in> set (elements (opt_prop v ''findings'')).
              opt_prop f ''findingId'' = x \<and> strict_eq (opt_prop f ''checkId'') (opt_prop c ''checkId''))"
    if "x \<in> set (elements (opt_prop c ''findingIds''))" for x
    using that unfolding check_accepted(3) [OF c] block sorted_strings_members cs(1) by auto
  ultimately show ?thesis by blast
qed

section \<open>What an accepted policy says\<close>

lemma gov_sorted_Nil:
  assumes "gov_sorted v context p = []" and "\<And>x. p x \<Longrightarrow> is_string x"
  obtains ss where "v = JArr (map JStr ss)" and "sorted_wrt (<) ss" and "\<forall>s \<in> set ss. p (JStr s) \<and> s \<noteq> []"
  using validateSortedUniqueStrings_Nil [OF assms(1) [unfolded gov_sorted_def]] assms(2)
  by (metis str_of_JStr)

lemma identifier_string: "isIdentifier v \<Longrightarrow> is_string v"
  by (auto simp: isIdentifier_iff is_string_def)

lemma all_different_strings: "all_different (map JStr ss) \<longleftrightarrow> distinct ss"
  by (induction ss) (auto simp: list_all_iff same_value_zero_def)

lemma policy_accepted:
  assumes "valid (validateM2GovernancePolicySnapshot E v)"
  shows "policy_layer_errors E v = []" and "policy_rule_errors v = []"
    and "opt_prop v ''requiredChecks'' = JArr (map JStr REQUIRED_CHECKS)"
    and "opt_prop v ''unmappedFilePolicy'' = JStr ''unavailable''"
proof -
  have rec: "isPlainRecord v"
    using assms
    by (auto simp: validateM2GovernancePolicySnapshot_def Let_def validateExactKeys_Nil_iff split: if_splits)
  with assms show "policy_layer_errors E v = []" and "policy_rule_errors v = []"
    and "opt_prop v ''requiredChecks'' = JArr (map JStr REQUIRED_CHECKS)"
    and "opt_prop v ''unmappedFilePolicy'' = JStr ''unavailable''"
    by (simp_all add: validateM2GovernancePolicySnapshot_def Let_def arraysEqual_strings)
qed

text \<open>
  An accepted policy partitions the code. Its layers have strictly increasing names and each has
  at least one root; no root belongs to two layers or twice to one; there is exactly one rule for
  each layer, in the order of the layers, and every import a rule permits is a layer of the policy.
  The required checks are the pinned three and a file outside every layer makes the policy
  unavailable instead of allowed.
\<close>

theorem policy_partitions_layers:
  assumes "valid (validateM2GovernancePolicySnapshot E v)"
  shows "\<exists>ls rs names. opt_prop v ''layers'' = JArr ls \<and> opt_prop v ''rules'' = JArr rs
    \<and> map (\<lambda>l. opt_prop l ''name'') ls = map JStr names \<and> sorted_wrt (<) names
    \<and> map (\<lambda>r. opt_prop r ''from'') rs = map JStr names
    \<and> (\<forall>l \<in> set ls. elements (opt_prop l ''roots'') \<noteq> [])
    \<and> (\<exists>roots. concat (map (\<lambda>l. elements (opt_prop l ''roots'')) ls) = map JStr roots \<and> distinct roots)
    \<and> (\<forall>r \<in> set rs. \<forall>t \<in> set (elements (opt_prop r ''canImport'')). t \<in> JStr ` set names)
    \<and> opt_prop v ''requiredChecks'' = JArr (map JStr REQUIRED_CHECKS)
    \<and> opt_prop v ''unmappedFilePolicy'' = JStr ''unavailable''"
proof -
  note acc = policy_accepted [OF assms]
  obtain ls where ls: "opt_prop v ''layers'' = JArr ls"
    using acc(1) by (auto simp: policy_layer_errors_def Let_def is_array_iff split: if_splits)
  have lay: "\<forall>i < length ls. validateLayer E i (ls ! i) = []"
    and sorted: "gov_sorted (JArr (map (\<lambda>l. opt_prop l ''name'') ls)) (''governance-policy-snapshot'' @ ''.layerNames'') isIdentifier = []"
    and diff: "all_different (concat (map (\<lambda>l. elements (opt_prop l ''roots'')) ls))"
    using acc(1) ls by (auto simp: policy_layer_errors_def Let_def each_indexed_Nil_iff split: if_splits)
  obtain names where names: "map (\<lambda>l. opt_prop l ''name'') ls = map JStr names" "sorted_wrt (<) names"
      "\<forall>s \<in> set names. isIdentifier (JStr s) \<and> s \<noteq> []"
    by (rule gov_sorted_Nil [OF sorted identifier_string]) auto
  have "filter isIdentifier (map JStr names) = map JStr names"
    using names(3) by (auto simp: filter_id_conv)
  then have lnames: "layer_names v = names"
    using names strict_sorted_distinct [OF names(2)]
    by (simp add: layer_names_def ls comp_def js_set_distinct)
  obtain rs where rs: "opt_prop v ''rules'' = JArr rs"
    using acc(2) by (auto simp: policy_rule_errors_def Let_def is_array_iff split: if_splits)
  have rul: "\<forall>i < length rs. validateRule names i (rs ! i) = []"
    and "arraysEqual (JArr (map (\<lambda>r. opt_prop r ''from'') rs)) (JArr (map JStr (sort names)))"
    using acc(2) rs lnames by (auto simp: policy_rule_errors_def Let_def each_indexed_Nil_iff split: if_splits)
  then have from_names: "map (\<lambda>r. opt_prop r ''from'') rs = map JStr names"
    using strict_sorted_sort_id [OF names(2)] by (simp add: arraysEqual_strings)
  have layer: "elements (opt_prop l ''roots'') \<noteq> [] \<and> (\<forall>x \<in> set (elements (opt_prop l ''roots'')). is_string x)"
    if l: "l \<in> set ls" for l
  proof -
    from l lay obtain i where i: "validateLayer E i l = []" by (auto simp: in_set_conv_nth)
    have rec: "isPlainRecord l"
      by (rule ccontr) (use i in \<open>simp add: validateLayer_def Let_def\<close>)
    let ?c = "''governance-policy-snapshot.layers['' @ int_to_string (int i) @ '']'' @ ''.roots''"
    have gs: "gov_sorted (opt_prop l ''roots'') ?c (isM2ExecutionProjectRelativePath E) = []"
      and ne: "\<not> length_sat (\<lambda>n. n = 0) (opt_prop l ''roots'')"
      using i rec by (simp_all add: validateLayer_def Let_def)
    obtain ss where "opt_prop l ''roots'' = JArr (map JStr ss)"
      by (rule gov_sorted_Nil [OF gs relative_path_string])
    with ne show ?thesis by (auto simp: length_sat_def is_string_def)
  qed
  have "\<forall>x \<in> set (concat (map (\<lambda>l. elements (opt_prop l ''roots'')) ls)). is_string x"
    using layer by auto
  then obtain roots where roots: "concat (map (\<lambda>l. elements (opt_prop l ''roots'')) ls) = map JStr roots"
    using map_JStr_exists by blast
  have rule: "t \<in> JStr ` set names" if "r \<in> set rs" and t: "t \<in> set (elements (opt_prop r ''canImport''))" for r t
  proof -
    from that(1) rul obtain i where i: "validateRule names i r = []" by (auto simp: in_set_conv_nth)
    have "isPlainRecord r"
      by (rule ccontr) (use i in \<open>simp add: validateRule_def Let_def\<close>)
    with i have "\<forall>j < length (elements (opt_prop r ''canImport'')). str_in (elements (opt_prop r ''canImport'') ! j) names"
      by (simp add: validateRule_def Let_def each_indexed_Nil_iff)
    with t have "str_in t names" by (auto simp: in_set_conv_nth)
    then show ?thesis by (auto simp: str_in_def str_sat_iff)
  qed
  from diff roots have "distinct roots" by (simp add: all_different_strings)
  with ls rs names(1,2) from_names layer roots rule acc(3,4) show ?thesis
    by (intro exI [of _ ls] exI [of _ rs] exI [of _ names]) blast
qed

section \<open>Baselines, receipts and content identifiers\<close>

text \<open>
  An accepted baseline is an inventory. Its files are in strictly increasing byte order of their
  paths (no path twice), every content is the Base64 text of exactly the stated number of bytes, and
  the stated digest is the SHA-256 of those bytes.
\<close>

theorem baseline_inventory:
  assumes "valid (validateM2GovernanceBaselineSnapshot E v)"
  shows "\<exists>fs ps. opt_prop v ''files'' = JArr fs \<and> map (\<lambda>f. opt_prop f ''path'') fs = map JStr ps
    \<and> sorted_wrt (<) ps
    \<and> (\<forall>f \<in> set fs. \<exists>bytes. opt_prop f ''contentBase64'' = JStr (b64_encode bytes)
          \<and> safe_int (opt_prop f ''bytes'') = Some (int (length bytes))
          \<and> opt_prop f ''digest'' = JStr (''sha256:'' @ sha256 E bytes))"
proof -
  have rec: "isPlainRecord v"
    by (rule ccontr) (use assms in \<open>simp add: validateM2GovernanceBaselineSnapshot_def Let_def\<close>)
  obtain fs where fs: "opt_prop v ''files'' = JArr fs"
    using assms rec
    by (cases "is_array (opt_prop v ''files'')")
      (auto simp: validateM2GovernanceBaselineSnapshot_def Let_def is_array_iff)
  have files: "\<forall>i < length fs. validateBaselineFile E i (fs ! i) = []"
    and inc: "strings_increasing (map (\<lambda>f. opt_prop f ''path'') fs)"
    using assms rec fs
    by (simp_all add: validateM2GovernanceBaselineSnapshot_def Let_def is_array_def each_indexed_Nil_iff
        validateSortedFilePaths_def)
  have each: "is_string (opt_prop f ''path'')
      \<and> (\<exists>bytes. opt_prop f ''contentBase64'' = JStr (b64_encode bytes)
          \<and> safe_int (opt_prop f ''bytes'') = Some (int (length bytes))
          \<and> opt_prop f ''digest'' = JStr (''sha256:'' @ sha256 E bytes))" if f: "f \<in> set fs" for f
  proof -
    from f files obtain i where i: "validateBaselineFile E i f = []" by (auto simp: in_set_conv_nth)
    have r: "isPlainRecord f"
      by (rule ccontr) (use i in \<open>simp add: validateBaselineFile_def Let_def\<close>)
    with i obtain bytes where b: "decodeCanonicalBase64 (opt_prop f ''contentBase64'') = Some bytes"
      by (cases "decodeCanonicalBase64 (opt_prop f ''contentBase64'')")
        (simp_all add: validateBaselineFile_def Let_def)
    with i r have "strict_eq (opt_prop f ''bytes'') (JInt (int (length bytes)))"
        "int_ge (opt_prop f ''bytes'') 0" "opt_prop f ''digest'' = JStr (''sha256:'' @ sha256 E bytes)"
        "isM2ExecutionProjectRelativePath E (opt_prop f ''path'')"
      by (simp_all add: validateBaselineFile_def Let_def)
    moreover have "opt_prop f ''contentBase64'' = JStr (b64_encode bytes)"
      using b by (auto simp: decodeCanonicalBase64_def split: jsval.splits option.splits if_splits)
    moreover have "safe_int (opt_prop f ''bytes'') = Some (int (length bytes))"
      using calculation(1,2) by (auto simp: strict_eq_def int_ge_iff safe_int_def split: jsval.splits if_splits)
    ultimately show ?thesis using relative_path_string by blast
  qed
  then obtain ps where ps: "map (\<lambda>f. opt_prop f ''path'') fs = map JStr ps"
    using map_JStr_exists [of "map (\<lambda>f. opt_prop f ''path'') fs"] by auto
  with inc have "sorted_wrt (<) ps" by (simp add: strings_increasing_iff)
  with fs ps each show ?thesis by (intro exI [of _ fs] exI [of _ ps]) blast
qed

lemma decision_result_form:
  "validateM2GovernanceDecision E v = Inr r \<Longrightarrow> \<exists>es. r = validationResult es v"
  unfolding validateM2GovernanceDecision_def Let_def
  by (cases "isPlainRecord v") (auto simp only: bindE_Inr_iff if_True if_False not_True_eq_False
      not_False_eq_True sum.inject)

lemma receipt_result_form: "\<exists>es. validateM2GovernanceReceipt E v = validationResult es v"
  unfolding validateM2GovernanceReceipt_def Let_def
  by (cases "isPlainRecord v") (auto simp only: if_True if_False not_True_eq_False not_False_eq_True)

lemma binding_result_form:
  "validateM2ProjectChangeResultForRequest E request result = Inr r \<Longrightarrow> \<exists>es. r = validationResult es result"
  unfolding validateM2ProjectChangeResultForRequest_def Let_def
  by (cases "validateM2ProjectChangeRequest E request")
    (auto simp only: bindE_simps bindE_Inr_iff sum.inject sum.distinct split: if_splits)

lemma receipt_for_decision_eq:
  assumes "validateM2ProjectChangeRequest E request = Inr (validationResult e1 request)"
    and "validateM2ProjectChangeResultForRequest E request result = Inr (validationResult e2 result)"
    and "validateM2GovernanceDecision E decision = Inr (validationResult e3 decision)"
    and "validateM2GovernanceReceipt E receipt = validationResult e4 receipt"
  shows "validateM2GovernanceReceiptForDecision E request result decision receipt =
    (if e1 \<noteq> [] \<or> e2 \<noteq> [] \<or> e3 \<noteq> [] \<or> e4 \<noteq> []
     then Inr (validationResult (e1 @ e2 @ e3 @ e4) receipt)
     else bindE (computeM2ProjectChangeRequestDigest E request) (\<lambda>d1.
          bindE (computeM2ExecutionValueDigest E result) (\<lambda>d2.
          bindE (computeM2GovernanceDecisionDigest E decision) (\<lambda>d3.
            Inr (validationResult (receipt_binding_errors request result decision receipt d1 d2 d3) receipt)))))"
  unfolding validateM2GovernanceReceiptForDecision_def assms by (simp add: Let_def)

lemma receipt_chain_accepted:
  assumes "validateM2GovernanceReceiptForDecision E request result decision receipt = Inr r" and "valid r"
  obtains d1 d2 d3 where
    "validateM2ProjectChangeResultForRequest E request result = Inr (validationResult [] result)"
    and "validateM2GovernanceDecision E decision = Inr (validationResult [] decision)"
    and "valid (validateM2GovernanceReceipt E receipt)"
    and "computeM2ProjectChangeRequestDigest E request = Inr d1"
    and "computeM2ExecutionValueDigest E result = Inr d2"
    and "computeM2GovernanceDecisionDigest E decision = Inr d3"
    and "receipt_binding_errors request result decision receipt d1 d2 d3 = []"
proof -
  from assms(1) obtain r1 r2 r3 where r:
    "validateM2ProjectChangeRequest E request = Inr r1"
    "validateM2ProjectChangeResultForRequest E request result = Inr r2"
    "validateM2GovernanceDecision E decision = Inr r3"
    unfolding validateM2GovernanceReceiptForDecision_def bindE_Inr_iff by blast
  obtain e1 e2 e3 e4 where e: "r1 = validationResult e1 request" "r2 = validationResult e2 result"
    "r3 = validationResult e3 decision" "validateM2GovernanceReceipt E receipt = validationResult e4 receipt"
    using request_result_form [OF r(1)] binding_result_form [OF r(2)] decision_result_form [OF r(3)]
      receipt_result_form by metis
  note eq = receipt_for_decision_eq [OF r(1) [unfolded e(1)] r(2) [unfolded e(2)] r(3) [unfolded e(3)] e(4)]
  have z: "e1 = [] \<and> e2 = [] \<and> e3 = [] \<and> e4 = []"
  proof (rule ccontr)
    assume n: "\<not> ?thesis"
    with eq assms(1) have "r = validationResult (e1 @ e2 @ e3 @ e4) receipt" by auto
    with assms(2) n show False by simp
  qed
  then have "bindE (computeM2ProjectChangeRequestDigest E request) (\<lambda>d1.
          bindE (computeM2ExecutionValueDigest E result) (\<lambda>d2.
          bindE (computeM2GovernanceDecisionDigest E decision) (\<lambda>d3.
            Inr (validationResult (receipt_binding_errors request result decision receipt d1 d2 d3) receipt)))) = Inr r"
    using eq assms(1) by simp
  then obtain d1 d2 d3 where "computeM2ProjectChangeRequestDigest E request = Inr d1"
    "computeM2ExecutionValueDigest E result = Inr d2" "computeM2GovernanceDecisionDigest E decision = Inr d3"
    "r = validationResult (receipt_binding_errors request result decision receipt d1 d2 d3) receipt"
    unfolding bindE_Inr_iff by blast
  with assms(2) z r e that show thesis by simp
qed

text \<open>
  C36. A receipt certifies one execution of one allow decision. When a receipt is accepted for a
  request, a result and a decision, the decision is an allow decision for that very request, the
  result succeeded and produced exactly the workspace revision the decision committed to, the
  receipt carries the digests of the decision and of the result and the fencing generation of the
  execution, it was recorded no earlier than the result ended, and its evidence is the evidence of
  the result together with the decision and the execution, in order.
\<close>

theorem receipt_certifies_execution:
  assumes "validateM2GovernanceReceiptForDecision E request result decision receipt = Inr r" and "valid r"
  shows "opt_prop decision ''verdict'' = JStr ''allow''
    \<and> opt_prop result ''terminalStatus'' = JStr ''succeeded''
    \<and> computeM2ProjectChangeRequestDigest E request = Inr (str_of (opt_prop decision ''requestDigest''))
    \<and> computeM2GovernanceDecisionDigest E decision = Inr (str_of (opt_prop receipt ''decisionDigest''))
    \<and> computeM2ExecutionValueDigest E result = Inr (str_of (opt_prop receipt ''resultDigest''))
    \<and> strict_eq (opt_prop (opt_prop result ''changes'') ''afterRevision'') (opt_prop decision ''expectedAfterRevision'')
    \<and> strict_eq (opt_prop receipt ''fencingGeneration'') (opt_prop result ''fencingGeneration'')
    \<and> time_of (opt_prop result ''completedAt'') \<le> time_of (opt_prop receipt ''recordedAt'')
    \<and> (\<exists>refs. opt_prop receipt ''evidenceRefs'' = JArr (map JStr refs) \<and> sorted refs
          \<and> mset refs = mset (map str_of (elements (opt_prop result ''evidenceRefs'')))
              + {# ''governance-decision:'' @ str_of (opt_prop decision ''decisionId''),
                   ''project-change-result:'' @ str_of (opt_prop result ''executionId'') #})"
proof -
  obtain d1 d2 d3 where d: "computeM2ProjectChangeRequestDigest E request = Inr d1"
      "computeM2ExecutionValueDigest E result = Inr d2" "computeM2GovernanceDecisionDigest E decision = Inr d3"
    and bind: "receipt_binding_errors request result decision receipt d1 d2 d3 = []"
    using receipt_chain_accepted [OF assms] by metis
  let ?refs = "sort (map str_of (elements (opt_prop result ''evidenceRefs''))
            @ [''governance-decision:'' @ str_of (opt_prop decision ''decisionId''),
               ''project-change-result:'' @ str_of (opt_prop result ''executionId'')])"
  from bind have b: "opt_prop decision ''verdict'' = JStr ''allow''"
      "opt_prop result ''terminalStatus'' = JStr ''succeeded''"
      "opt_prop decision ''requestDigest'' = JStr d1" "opt_prop receipt ''decisionDigest'' = JStr d3"
      "opt_prop receipt ''resultDigest'' = JStr d2"
      "strict_eq (opt_prop receipt ''fencingGeneration'') (opt_prop result ''fencingGeneration'')"
      "strict_eq (opt_prop (opt_prop result ''changes'') ''afterRevision'') (opt_prop decision ''expectedAfterRevision'')"
      "\<not> time_of (opt_prop receipt ''recordedAt'') < time_of (opt_prop result ''completedAt'')"
      "arraysEqual (opt_prop receipt ''evidenceRefs'') (JArr (map JStr ?refs))"
    unfolding receipt_binding_errors_def Let_def by simp_all
  have "mset ?refs = mset (map str_of (elements (opt_prop result ''evidenceRefs'')))
              + {# ''governance-decision:'' @ str_of (opt_prop decision ''decisionId''),
                   ''project-change-result:'' @ str_of (opt_prop result ''executionId'') #}"
    by simp
  moreover have "sorted ?refs" by (rule sorted_sort)
  ultimately show ?thesis
    using b d by (simp only: arraysEqual_strings str_of_JStr not_less) blast
qed

lemma digest_shape:
  assumes "host_ok E" and "computeM2ExecutionValueDigest E v = Inr d"
  shows "isDigest (JStr d)" and "str_sat (hex_tail (prefix @ '':'') 64) (JStr (identifierFromDigest prefix d))"
proof -
  from assms(2) obtain t where d: "d = ''sha256:'' @ sha256 E t"
    by (auto simp: computeM2ExecutionValueDigest_def bindE_Inr_iff)
  have h: "length (sha256 E t) = 64 \<and> list_all is_hex (sha256 E t)"
    using assms(1) by (simp add: host_ok_def)
  then show "isDigest (JStr d)" by (simp add: isDigest_def str_sat_def d hex_tail_def)
  show "str_sat (hex_tail (prefix @ '':'') 64) (JStr (identifierFromDigest prefix d))"
    using h by (simp add: str_sat_def identifierFromDigest_def d hex_tail_def)
qed

lemma canonical_leaf: "d \<le> 32 \<Longrightarrow> canonicalize E d (JStr s) = Inr (json_quote (nfc E s))"
  "d \<le> 32 \<Longrightarrow> canonicalize E d JNull = Inr ''null''"
  by (simp_all add: canonicalize.simps [of E d])

lemma finding_digest:
  assumes "host_ok E" and "p = JNull \<or> is_string p"
  shows "\<exists>d. computeM2ExecutionValueDigest E (JObj
    [(''checkId'', JStr c), (''code'', JStr k), (''path'', p), (''evidenceDigest'', JStr e)]) = Inr d"
proof -
  let ?proj = "[(''checkId'', JStr c), (''code'', JStr k), (''path'', p), (''evidenceDigest'', JStr e)]"
  have asc: "is_ascii ''checkId''" "is_ascii ''code''" "is_ascii ''path''" "is_ascii ''evidenceDigest''"
    by code_simp+
  have le: "''checkId'' \<le> ''code''" "''code'' \<le> ''path''" "''checkId'' \<le> ''path''"
      "\<not> ''path'' \<le> ''evidenceDigest''" "''code'' \<le> ''evidenceDigest''" "''checkId'' \<le> ''evidenceDigest''"
    by code_simp+
  have "canonical_fields E ?proj = [(''checkId'', JStr c), (''code'', JStr k), (''evidenceDigest'', JStr e), (''path'', p)]"
    using assms(1) asc le by (simp add: canonical_fields_def host_ok_def)
  moreover have "\<exists>t. canonicalize E (Suc 0) p = Inr t"
    using assms(2) canonical_leaf [of "Suc 0" E] by (cases p) (auto simp: is_string_def)
  ultimately show ?thesis
    by (auto simp: computeM2ExecutionValueDigest_def canonicalizeM2ExecutionValue_def
        canonicalize.simps [of E 0] canonical_leaf)
qed

text \<open>
  Findings made by the constructor are accepted by the validator. For a known check, a code of
  the pattern, no path or a project-relative one, and evidence that has a canonical form,
  \<open>createM2GovernanceFinding\<close> succeeds and its finding, with its content-derived identifier, passes
  \<open>validateFinding\<close> at every position.
\<close>

theorem created_finding_accepted:
  assumes "host_ok E" and "checkId \<in> set DECISION_CHECKS" and "code_text 95 code"
    and "path = JUndef \<or> path = JNull \<or> isM2ExecutionProjectRelativePath E path"
    and "computeM2ExecutionValueDigest E evidence = Inr d"
  shows "\<exists>f. createM2GovernanceFinding E (JStr checkId) (JStr code) path evidence = Inr f
    \<and> validateFinding E i f = []"
proof -
  define p where "p = (if path = JUndef then JNull else path)"
  have p: "null_or (isM2ExecutionProjectRelativePath E) p" "p = JNull \<or> is_string p"
    using assms(4) relative_path_string by (auto simp: p_def null_or_def)
  let ?proj = "[(''checkId'', JStr checkId), (''code'', JStr code), (''path'', p), (''evidenceDigest'', JStr d)]"
  obtain h where h: "computeM2ExecutionValueDigest E (JObj ?proj) = Inr h"
    using finding_digest [OF assms(1) p(2)] by blast
  let ?i = "identifierFromDigest ''govfind1'' h"
  have cid: "content_id E ''govfind1'' (JObj ?proj) = Inr ?i"
    by (simp add: content_id_def h)
  let ?f = "JObj ((''findingId'', JStr ?i) # ?proj)"
  have make: "createM2GovernanceFinding E (JStr checkId) (JStr code) path evidence = Inr ?f"
    using cid by (simp add: createM2GovernanceFinding_def assms(5) Let_def p_def)
  have "findingProjection ?f = JObj ?proj" by (simp add: findingProjection_def)
  then have "validateFinding E i ?f = []"
    using assms(2,3) p(1) cid digest_shape(1) [OF assms(1,5)] digest_shape(2) [OF assms(1) h, of "''govfind1''"]
    by (simp add: validateFinding_def Let_def content_id_errors_def validateExactKeys_def isPlainRecord_def
        hasOwn_def str_in_def str_sat_def)
  with make show ?thesis by blast
qed

theorem created_finding_accepted_witness:
  "\<exists>f. createM2GovernanceFinding ascii_env (JStr ''layers.mapped'') (JStr ''UNMAPPED'') JUndef (JArr []) = Inr f
    \<and> validateFinding ascii_env 0 f = []"
proof -
  have "computeM2ExecutionValueDigest ascii_env (JArr []) = Inr (''sha256:'' @ sha256 ascii_env ''[]'')"
    by code_simp
  moreover have "''layers.mapped'' \<in> set DECISION_CHECKS" "code_text 95 ''UNMAPPED''" by code_simp+
  ultimately show ?thesis using created_finding_accepted [OF host_ok_ascii_env] by blast
qed

end
