(* ===== verification/M2GovSamples.thy ===== *)
theory M2GovSamples
  imports M2Samples M2Governance
begin

text \<open>
  Governance documents that pass every check, on the ASCII host: a policy with two layers, a
  baseline with one file, an allow decision for the sample request, a deny decision with one
  finding, and the receipt of the sample result. Each property of the governance contract is
  applied to them.
\<close>

definition wsr :: "string \<Rightarrow> jsval" where
  "wsr s = JStr (''wsr1:'' @ zeros 64 s)"

definition sample_policy :: jsval where
  "sample_policy =
     JObj [(''contract'', JStr ''GovernancePolicySnapshot''), (''externalImports'', JArr [JStr ''fs'']),
     (''layers'', JArr [JObj [(''name'', JStr ''core''),
     (''roots'', JArr [JStr ''src/core''])], JObj [(''name'', JStr ''ui''),
     (''roots'', JArr [JStr ''src/ui'', JStr ''src/web''])]]), (''policyId'', JStr ''p1''),
     (''policyPath'', JStr ''policy.json''), (''projectId'', JInt 7),
     (''requiredChecks'', JArr (map JStr REQUIRED_CHECKS)), (''rules'', JArr [JObj [(''canImport'', JArr []),
     (''from'', JStr ''core'')], JObj [(''canImport'', JArr [JStr ''core'']), (''from'', JStr ''ui'')]]),
     (''sourceExtensions'', JArr [JStr ''.js'']), (''unmappedFilePolicy'', JStr ''unavailable''),
     (''version'', JInt 1), (''workspaceRevision'', wsr ''3'')]"

definition sample_baseline :: jsval where
  "sample_baseline =
     JObj [(''complete'', JBool True), (''files'', JArr [JObj [(''bytes'', JInt 3),
     (''contentBase64'', JStr ''YWJj''), (''digest'', sha ''3''), (''path'', JStr ''src/core/a.js'')]]),
     (''projectId'', JInt 7), (''workspaceRevision'', wsr ''3'')]"

definition sample_check :: "string \<Rightarrow> string \<Rightarrow> string list \<Rightarrow> jsval" where
  "sample_check c s ids =
     JObj [(''checkId'', JStr c), (''findingIds'', JArr (map JStr ids)), (''required'', JBool True),
     (''status'', JStr s)]"

definition sample_decision :: "string \<Rightarrow> string \<Rightarrow> jsval list \<Rightarrow> jsval list \<Rightarrow> string list \<Rightarrow> jsval" where
  "sample_decision i verdict checks findings blocking =
     JObj [(''baselineDigest'', sha ''2''), (''blockingFindingIds'', JArr (map JStr blocking)),
     (''checks'', JArr checks), (''contract'', JStr ''GovernanceDecision''),
     (''decisionId'', JStr (''govdec1:'' @ zeros 64 i)), (''executionId'', JStr ''x1''),
     (''expectedAfterRevision'', wsr ''9''), (''findings'', JArr findings), (''lifecycleId'', JStr ''l1''),
     (''milestoneId'', JStr ''m1''), (''policyDigest'', sha ''0''), (''projectId'', JInt 7),
     (''requestDigest'', sha ''e''), (''runId'', JStr ''r1''), (''verdict'', JStr verdict), (''version'', JInt 1)]"

definition finding_id :: string where
  "finding_id = ''govfind1:'' @ zeros 64 ''9''"

definition sample_finding :: "string \<Rightarrow> jsval" where
  "sample_finding i =
     JObj [(''checkId'', JStr ''imports.allowed''), (''code'', JStr ''IMPORT_FORBIDDEN''),
     (''evidenceDigest'', sha ''4''), (''findingId'', JStr i), (''path'', JStr ''src/core/a.js'')]"

definition allow_decision :: "string \<Rightarrow> jsval" where
  "allow_decision i = sample_decision i ''allow'' (map (\<lambda>c. sample_check c ''pass'' []) DECISION_CHECKS) [] []"

definition deny_decision :: "string \<Rightarrow> string \<Rightarrow> jsval" where
  "deny_decision i f = sample_decision i ''deny''
     (sample_check ''imports.allowed'' ''fail'' [f]
       # map (\<lambda>c. sample_check c ''pass'' []) [''input.bindings'', ''inventory.complete'', ''layers.mapped''])
     [sample_finding f] [f]"

definition sample_receipt :: "string \<Rightarrow> string \<Rightarrow> string \<Rightarrow> jsval" where
  "sample_receipt i dec_sum res_sum =
     JObj [(''actualAfterRevision'', wsr ''9''), (''baselineDigest'', sha ''2''),
     (''contract'', JStr ''GovernanceReceipt''), (''decisionDigest'', sha dec_sum),
     (''evidenceRefs'', JArr [JStr (''governance-decision:govdec1:'' @ zeros 64 ''a''), JStr ''log:1'', JStr ''project-change-result:x1'']),
     (''executionId'', JStr ''x1''), (''expectedAfterRevision'', wsr ''9''), (''fencingGeneration'', JInt 1),
     (''lifecycleId'', JStr ''l1''), (''milestoneId'', JStr ''m1''), (''policyDigest'', sha ''0''),
     (''projectId'', JInt 7), (''receiptId'', JStr (''govreceipt1:'' @ zeros 64 i)),
     (''recordedAt'', JStr ''2026-01-02T03:05:10.000Z''), (''requestDigest'', sha ''e''),
     (''resultDigest'', sha res_sum), (''runId'', JStr ''r1''), (''status'', JStr ''accepted''),
     (''version'', JInt 1)]"

definition good_allow :: jsval where "good_allow = allow_decision ''a''"
definition good_deny :: jsval where "good_deny = deny_decision ''0'' finding_id"
definition good_receipt :: jsval where "good_receipt = sample_receipt ''5'' ''2'' ''f''"

lemma good_policy_accepted: "valid (validateM2GovernancePolicySnapshot ascii_env sample_policy)"
  by code_simp

lemma good_baseline_accepted: "valid (validateM2GovernanceBaselineSnapshot ascii_env sample_baseline)"
  by code_simp

lemma good_allow_accepted:
  "validateM2GovernanceDecision ascii_env good_allow = Inr (validationResult [] good_allow)"
  by code_simp

lemma good_deny_accepted:
  "validateM2GovernanceDecision ascii_env good_deny = Inr (validationResult [] good_deny)"
  by code_simp

lemma good_receipt_accepted:
  "validateM2GovernanceReceipt ascii_env good_receipt = validationResult [] good_receipt"
  by code_simp

lemma good_digests:
  "computeM2ExecutionValueDigest ascii_env good_allow = Inr (''sha256:'' @ zeros 64 ''2'')"
  "computeM2ExecutionValueDigest ascii_env good_result = Inr (''sha256:'' @ zeros 64 ''f'')"
  by code_simp+

lemma good_receipt_binding:
  "receipt_binding_errors good_request good_result good_allow good_receipt
     (''sha256:'' @ zeros 64 ''e'') (''sha256:'' @ zeros 64 ''f'') (''sha256:'' @ zeros 64 ''2'') = []"
  by code_simp

lemma good_receipt_chain:
  "validateM2GovernanceReceiptForDecision ascii_env good_request good_result good_allow good_receipt
     = Inr (validationResult [] good_receipt)"
proof -
  have q: "computeM2ProjectChangeRequestDigest ascii_env good_request = Inr (''sha256:'' @ zeros 64 ''e'')"
    by (simp add: computeM2ProjectChangeRequestDigest_def good_request_accepted good_request_digest)
  have d: "computeM2GovernanceDecisionDigest ascii_env good_allow = Inr (''sha256:'' @ zeros 64 ''2'')"
    by (simp add: computeM2GovernanceDecisionDigest_def good_allow_accepted digest_if_valid_def good_digests)
  show ?thesis
    unfolding receipt_for_decision_eq [OF good_request_accepted good_result_for_request
        good_allow_accepted good_receipt_accepted] q d good_digests
    by (simp only: good_receipt_binding bindE_simps not_True_eq_False if_False simp_thms)
qed

section \<open>The properties at these documents\<close>

theorem decision_verdict_determined_witness:
  "\<exists>cs. opt_prop good_deny ''checks'' = JArr cs \<and> map (\<lambda>c. opt_prop c ''checkId'') cs = map JStr DECISION_CHECKS"
  using decision_verdict_determined [OF good_deny_accepted] by auto

theorem allow_decision_sound_witness:
  "opt_prop good_allow ''findings'' = JArr [] \<and> isWorkspaceRevision (opt_prop good_allow ''expectedAfterRevision'')"
  using allow_decision_sound [OF good_allow_accepted]
  by (auto simp: good_allow_def allow_decision_def sample_decision_def)

theorem refusal_justified_witness:
  "elements (opt_prop (hd (elements (opt_prop good_deny ''checks''))) ''findingIds'') \<noteq> []"
proof -
  have "opt_prop good_deny ''verdict'' \<noteq> JStr ''allow''"
    and "hd (elements (opt_prop good_deny ''checks'')) \<in> set (elements (opt_prop good_deny ''checks''))"
    and "opt_prop (hd (elements (opt_prop good_deny ''checks''))) ''status'' \<noteq> JStr ''pass''"
    by (simp_all add: good_deny_def deny_decision_def sample_decision_def sample_check_def)
  then show ?thesis using refusal_justified [OF good_deny_accepted] by simp
qed

theorem policy_partitions_layers_witness:
  "\<exists>names. map (\<lambda>l. opt_prop l ''name'') (elements (opt_prop sample_policy ''layers'')) = map JStr names
    \<and> sorted_wrt (<) names"
  using policy_partitions_layers [OF good_policy_accepted] by auto

theorem baseline_inventory_witness:
  "\<exists>bytes. opt_prop (hd (elements (opt_prop sample_baseline ''files''))) ''contentBase64'' = JStr (b64_encode bytes)"
proof -
  have "hd (elements (opt_prop sample_baseline ''files'')) \<in> set (elements (opt_prop sample_baseline ''files''))"
    by (simp add: sample_baseline_def)
  then show ?thesis using baseline_inventory [OF good_baseline_accepted] by auto
qed

theorem receipt_certifies_execution_witness:
  "opt_prop good_allow ''verdict'' = JStr ''allow''
   \<and> computeM2ExecutionValueDigest ascii_env good_result = Inr (str_of (opt_prop good_receipt ''resultDigest''))"
  using receipt_certifies_execution [OF good_receipt_chain] by simp

end
