(* ===== verification/JsText.thy ===== *)
theory JsText
  imports JsValue
begin

text \<open>
  The characters of a UTF-8 text, which bytes are UTF-8, and \<open>String.prototype.trim\<close>.
\<close>

text \<open>The characters of a UTF-8 text: a continuation byte belongs to the byte before it.\<close>

definition is_cont :: "char \<Rightarrow> bool" where
  "is_cont c = (let b = (of_char c :: nat) in 128 \<le> b \<and> b < 192)"

fun utf8_chars :: "string \<Rightarrow> string list" where
  "utf8_chars [] = []"
| "utf8_chars (c # s) =
     (case utf8_chars s of
        [] \<Rightarrow> [[c]]
      | w # ws \<Rightarrow> if s \<noteq> [] \<and> is_cont (hd s) then (c # w) # ws else [c] # w # ws)"

text \<open>The bytes a text encodes to: the well-formed UTF-8 sequences.\<close>

definition byte_in :: "nat \<Rightarrow> nat \<Rightarrow> char \<Rightarrow> bool" where
  "byte_in lo hi c \<longleftrightarrow> lo \<le> (of_char c :: nat) \<and> (of_char c :: nat) \<le> hi"

fun utf8_valid :: "string \<Rightarrow> bool" where
  "utf8_valid [] = True"
| "utf8_valid (a # s) =
     (if byte_in 0 127 a then utf8_valid s
      else if byte_in 194 223 a then (case s of b # t \<Rightarrow> byte_in 128 191 b \<and> utf8_valid t | _ \<Rightarrow> False)
      else if byte_in 224 239 a then
        (case s of
           b # c # t \<Rightarrow> byte_in (if a = byte 224 then 160 else 128) (if a = byte 237 then 159 else 191) b
             \<and> byte_in 128 191 c \<and> utf8_valid t
         | _ \<Rightarrow> False)
      else if byte_in 240 244 a then
        (case s of
           b # c # d # t \<Rightarrow> byte_in (if a = byte 240 then 144 else 128) (if a = byte 244 then 143 else 191) b
             \<and> byte_in 128 191 c \<and> byte_in 128 191 d \<and> utf8_valid t
         | _ \<Rightarrow> False)
      else False)"

definition space_separator :: "string \<Rightarrow> bool" where
  "space_separator w =
     (case w of
        [a] \<Rightarrow> ascii_ws a
      | [a, b] \<Rightarrow> ws2 a b
      | [a, b, c] \<Rightarrow> ws3 a b c \<and> a \<noteq> byte 239
      | _ \<Rightarrow> False)"

text \<open>\<open>\p{White_Space}\<close> has the next-line character; \<open>trim\<close> has the byte order mark instead.\<close>

definition white_space :: "string \<Rightarrow> bool" where
  "white_space w \<longleftrightarrow> space_separator w \<or> w = [byte 194, byte 133]"

definition trim_space :: "string \<Rightarrow> bool" where
  "trim_space w \<longleftrightarrow> space_separator w \<or> w = [byte 239, byte 187, byte 191]"

definition trim :: "string list \<Rightarrow> string list" where
  "trim ws = rev (dropWhile trim_space (rev (dropWhile trim_space ws)))"

definition js_trim :: "string \<Rightarrow> string" where
  "js_trim s = concat (trim (utf8_chars s))"

lemma concat_utf8_chars: "concat (utf8_chars s) = s"
proof (induction s)
  case (Cons c s)
  then show ?case by (cases "utf8_chars s") (auto split: list.splits)
qed simp

lemma utf8_chars_Nil_iff [simp]: "utf8_chars s = [] \<longleftrightarrow> s = []"
  by (cases s) (auto split: list.splits)

lemma hd_utf8_chars: "\<exists>w ws. utf8_chars (c # s) = (c # w) # ws"
  by (cases "utf8_chars s") auto

lemma utf8_chars_snoc: "\<not> is_cont d \<Longrightarrow> utf8_chars (s @ [d]) = utf8_chars s @ [[d]]"
proof (induction s)
  case (Cons c s)
  show ?case
  proof (cases "s = []")
    case True
    then show ?thesis using Cons.prems by simp
  next
    case False
    then obtain w ws where "utf8_chars s = w # ws" by (metis neq_Nil_conv utf8_chars_Nil_iff)
    with Cons False show ?thesis by simp
  qed
qed simp

definition visible_ascii :: "char \<Rightarrow> bool" where
  "visible_ascii c \<longleftrightarrow> (of_char c :: nat) < 128 \<and> \<not> ascii_ws c"

lemma trim_space_hd: "trim_space (c # w) \<Longrightarrow> \<not> visible_ascii c"
  by (auto simp: trim_space_def space_separator_def visible_ascii_def ws2_def ws3_def byte_def Let_def split: list.splits)

lemma js_trim_plain:
  assumes "s \<noteq> []" and "visible_ascii (hd s)" and "visible_ascii (last s)"
  shows "js_trim s = s"
proof -
  obtain c r where s: "s = c # r" using assms(1) by (cases s) auto
  obtain w ws where cs: "utf8_chars s = (c # w) # ws" using hd_utf8_chars s by blast
  have front: "dropWhile trim_space (utf8_chars s) = utf8_chars s"
    using assms(2) trim_space_hd s cs by auto
  obtain u d where u: "s = u @ [d]" using assms(1) by (metis append_butlast_last_id)
  have "\<not> is_cont d" using assms(3) u by (simp add: visible_ascii_def is_cont_def Let_def)
  then have "utf8_chars s = utf8_chars u @ [[d]]" using u utf8_chars_snoc by simp
  then have "dropWhile trim_space (rev (utf8_chars s)) = rev (utf8_chars s)"
    using assms(3) trim_space_hd u by auto
  with front show ?thesis by (simp add: js_trim_def trim_def concat_utf8_chars)
qed

end
