(* ===== verification/M2Context.thy ===== *)
theory M2Context
  imports M2Execution JsText "HOL-Library.Product_Lexorder"
begin

text \<open>
  \<open>contracts/m2/project-context-v1.js\<close>: the query for project context and the snapshot that
  answers it. A successful snapshot carries its items in a pinned order, the budget they used and
  a digest over all of it. Where the source compares values that are not numbers or prints them into
  a key, the document has already been reported as invalid; such comparisons are taken as false and
  the key is kept as the triple it is printed from.
\<close>

section \<open>Query normalisation\<close>

fun squeeze :: "string list \<Rightarrow> string list" where
  "squeeze [] = []"
| "squeeze (w # ws) =
     (if white_space w then
        (case ws of
           [] \<Rightarrow> ['' '']
         | v # _ \<Rightarrow> if white_space v then squeeze ws else '' '' # squeeze ws)
      else w # squeeze ws)"

record context_query =
  normalizedQuery :: string
  terms :: "string list"

definition normalizeProjectContextQuery :: "js_env \<Rightarrow> string \<Rightarrow> context_query" where
  "normalizeProjectContextQuery E queryText =
     (let q = to_lower E (concat (trim (squeeze (utf8_chars (nfc E queryText)))))
      in \<lparr>normalizedQuery = q, terms = js_set (word_runs E q)\<rparr>)"

section \<open>Canonical text\<close>

function ctx_canonicalize :: "nat \<Rightarrow> jsval \<Rightarrow> string js" where
  "ctx_canonicalize depth v =
     (if depth > 64 then Inl (TypeErr ''project-context-canonical:too-deep'')
      else (case v of
              JNull \<Rightarrow> Inr ''null''
            | JStr s \<Rightarrow> Inr (json_quote s)
            | JBool b \<Rightarrow> Inr (if b then ''true'' else ''false'')
            | JInt i \<Rightarrow> (if - MAX_SAFE_INTEGER \<le> i \<and> i \<le> MAX_SAFE_INTEGER then Inr (int_to_string i)
                         else Inl (TypeErr ''project-context-canonical:non-integer-number''))
            | JArr xs \<Rightarrow>
                bindE (mapE (ctx_canonicalize (depth + 1)) xs)
                  (\<lambda>ts. Inr (''['' @ join_with '','' ts @ '']''))
            | JObj kvs \<Rightarrow>
                bindE (mapE (\<lambda>(k, x). bindE (ctx_canonicalize (depth + 1) x)
                               (\<lambda>t. Inr (json_quote k @ '':'' @ t))) (sort_key fst kvs))
                  (\<lambda>ts. Inr (''{'' @ join_with '','' ts @ ''}''))
            | JUndef \<Rightarrow> Inl (TypeErr ''project-context-canonical:unsupported-value'')
            | _ \<Rightarrow> Inl (TypeErr ''project-context-canonical:non-integer-number'')))"
  by pat_completeness auto

termination by (relation "measure (\<lambda>(d, v). 65 - d)") auto

declare ctx_canonicalize.simps [simp del]

section \<open>Queries\<close>

definition isCanonicalRoot :: "jsval \<Rightarrow> bool" where
  "isCanonicalRoot v =
     str_sat (\<lambda>s. s \<noteq> [] \<and> CHR 0x00 \<notin> set s \<and> posix_isAbsolute s
       \<and> (s = ''/'' \<or> \<not> ends_with_slash s) \<and> posix_normalize s = s) v"

definition estimateProjectContextTokens :: "int \<Rightarrow> int js" where
  "estimateProjectContextTokens n =
     (if n < 0 \<or> n > MAX_SAFE_INTEGER then Inl (TypeErr ''project-context-tokens:invalid-byte-count'')
      else Inr ((n + 3) div 4))"

definition isProjectRelativePath :: "jsval \<Rightarrow> bool" where
  "isProjectRelativePath v =
     str_sat (\<lambda>s. s \<noteq> [] \<and> CHR 0x00 \<notin> set s \<and> CHR 0x5C \<notin> set s \<and> \<not> posix_isAbsolute s
       \<and> list_all proper_segment (split_at (CHR ''/'') s) \<and> posix_normalize s = s) v"

definition budget_errors :: "jsval \<Rightarrow> string \<Rightarrow> string list" where
  "budget_errors v context =
     concat (map (\<lambda>k. chk (\<not> int_ge (opt_prop v k) 1) (context @ '':invalid-'' @ k)) [''maxFiles'', ''maxBytes'', ''maxTokens''])"

definition validateProjectContextQuery :: "js_env \<Rightarrow> jsval \<Rightarrow> validation" where
  "validateProjectContextQuery E v =
     (let context = ''project-context-query'';
          errors = validateExactKeys v [''contract'', ''version'', ''requestId'', ''projectId'', ''canonicalRoot'',
            ''workspaceRevision'', ''queryText'', ''maxFiles'', ''maxBytes'', ''maxTokens''] [] context;
          text = opt_prop v ''queryText''
      in if \<not> isPlainRecord v then validationResult errors v
         else validationResult (errors
           @ chk (opt_prop v ''contract'' \<noteq> JStr ''ProjectContextQuery'') (context @ '':invalid-contract'')
           @ chk (opt_prop v ''version'' \<noteq> JInt 1) (context @ '':invalid-version'')
           @ chk (\<not> isIdentifier (opt_prop v ''requestId'')) (context @ '':invalid-requestId'')
           @ chk (\<not> int_ge (opt_prop v ''projectId'') 1) (context @ '':invalid-projectId'')
           @ chk (\<not> isCanonicalRoot (opt_prop v ''canonicalRoot'')) (context @ '':invalid-canonicalRoot'')
           @ chk (\<not> isWorkspaceRevision (opt_prop v ''workspaceRevision'')) (context @ '':invalid-workspaceRevision'')
           @ (if \<not> isNonEmptyString text then [context @ '':invalid-queryText'']
              else chk (terms (normalizeProjectContextQuery E (str_of text)) = []) (context @ '':empty-terms''))
           @ budget_errors v context) v)"

section \<open>Snapshots\<close>

definition CONTEXT_ERROR_CODES :: "string list" where
  "CONTEXT_ERROR_CODES =
     [''PROJECT_CONTEXT_STALE'', ''PROJECT_CONTEXT_INVALID_SCOPE'', ''PROJECT_CONTEXT_NOT_READY'',
      ''PROJECT_CONTEXT_BUDGET_EXHAUSTED'', ''PROJECT_CONTEXT_SCAN_LIMIT'', ''PROJECT_CONTEXT_INTERNAL'',
      ''PROJECT_CONTEXT_TIMEOUT'', ''PROJECT_CONTEXT_CANCELLED'']"

text \<open>\<open>a > b\<close> and \<open>a < b\<close> on safe integers.\<close>

definition num_less :: "jsval \<Rightarrow> jsval \<Rightarrow> bool" where
  "num_less a b = (case (safe_int a, safe_int b) of (Some i, Some j) \<Rightarrow> i < j | _ \<Rightarrow> False)"

definition validateBudget :: "jsval \<Rightarrow> string list" where
  "validateBudget v =
     (let context = ''project-context-snapshot.budget'';
          errors = validateExactKeys v [''maxFiles'', ''maxBytes'', ''maxTokens'', ''usedFiles'', ''usedBytes'', ''usedTokens''] [] context
      in if \<not> isPlainRecord v then errors
         else errors @ budget_errors v context
           @ concat (map (\<lambda>k. chk (\<not> int_ge (opt_prop v k) 0) (context @ '':invalid-'' @ k)) [''usedFiles'', ''usedBytes'', ''usedTokens''])
           @ concat (map (\<lambda>(used, maximum). chk (num_less (opt_prop v maximum) (opt_prop v used))
                 (context @ '':'' @ used @ ''-exceeds-'' @ maximum))
               [(''usedFiles'', ''maxFiles''), (''usedBytes'', ''maxBytes''), (''usedTokens'', ''maxTokens'')]))"

definition validateTruncation :: "jsval \<Rightarrow> jsval \<Rightarrow> string list" where
  "validateTruncation v outcome =
     (let context = ''project-context-snapshot.truncation''; truncated = opt_prop v ''truncated'';
          required = (if isPlainRecord v \<and> truncated = JBool True then [''truncated'', ''reason''] else [''truncated'']);
          errors = validateExactKeys v required [] context
      in if \<not> isPlainRecord v then errors
         else errors @ chk (\<not> is_bool truncated) (context @ '':invalid-truncated'')
           @ (if truncated = JBool True then
                chk (\<not> str_in (opt_prop v ''reason'') [''maxFiles'', ''maxBytes'', ''maxTokens'']) (context @ '':invalid-reason'')
                @ chk (outcome \<noteq> JStr ''found'') (context @ '':truncated-without-found'')
              else []))"

definition validateProvenance :: "jsval \<Rightarrow> jsval \<Rightarrow> jsval \<Rightarrow> nat \<Rightarrow> string list" where
  "validateProvenance v item snapshot index =
     (let context = ''project-context-snapshot.items['' @ int_to_string (int index) @ ''].provenance'';
          errors = validateExactKeys v [''sourceSet'', ''projectId'', ''workspaceRevision'', ''path'', ''contentDigest''] [] context
      in if \<not> isPlainRecord v then errors
         else errors
           @ chk (opt_prop v ''sourceSet'' \<noteq> JStr ''ContextSourceSet@1'') (context @ '':invalid-sourceSet'')
           @ chk (\<not> strict_eq (opt_prop v ''projectId'') (opt_prop snapshot ''projectId'')) (context @ '':foreign-projectId'')
           @ chk (\<not> strict_eq (opt_prop v ''workspaceRevision'') (opt_prop snapshot ''workspaceRevision'')) (context @ '':foreign-workspaceRevision'')
           @ chk (\<not> strict_eq (opt_prop v ''path'') (opt_prop item ''path'')) (context @ '':path-mismatch'')
           @ chk (\<not> strict_eq (opt_prop v ''contentDigest'') (opt_prop item ''contentDigest'')) (context @ '':contentDigest-mismatch''))"

definition validateItem :: "jsval \<Rightarrow> nat \<Rightarrow> jsval \<Rightarrow> string list" where
  "validateItem snapshot index v =
     (let context = ''project-context-snapshot.items['' @ int_to_string (int index) @ '']'';
          errors = validateExactKeys v [''path'', ''startLine'', ''endLine'', ''content'', ''contentDigest'', ''score'', ''provenance''] [] context;
          start = opt_prop v ''startLine''; last_line = opt_prop v ''endLine''
      in if \<not> isPlainRecord v then errors
         else errors
           @ chk (\<not> isProjectRelativePath (opt_prop v ''path'')) (context @ '':invalid-path'')
           @ chk (\<not> int_ge start 1) (context @ '':invalid-startLine'')
           @ chk (safe_int last_line = None \<or> num_less last_line start) (context @ '':invalid-endLine'')
           @ chk (\<not> isNonEmptyString (opt_prop v ''content'')) (context @ '':invalid-content'')
           @ chk (\<not> isDigest (opt_prop v ''contentDigest'')) (context @ '':invalid-contentDigest'')
           @ chk (\<not> int_ge (opt_prop v ''score'') 0) (context @ '':invalid-score'')
           @ validateProvenance (opt_prop v ''provenance'') v snapshot index)"

definition path_order :: "jsval \<Rightarrow> jsval \<Rightarrow> int" where
  "path_order a b =
     (case (a, b) of (JStr s, JStr t) \<Rightarrow> if s < t then - 1 else if s = t then 0 else 1 | _ \<Rightarrow> 0)"

definition items_out_of_order :: "jsval \<Rightarrow> jsval \<Rightarrow> bool" where
  "items_out_of_order previous item =
     (let order = path_order (opt_prop previous ''path'') (opt_prop item ''path'')
      in num_less (opt_prop previous ''score'') (opt_prop item ''score'')
         \<or> (strict_eq (opt_prop previous ''score'') (opt_prop item ''score'')
            \<and> (order > 0
               \<or> (order = 0 \<and> num_less (opt_prop item ''startLine'') (opt_prop previous ''startLine''))
               \<or> (order = 0 \<and> strict_eq (opt_prop previous ''startLine'') (opt_prop item ''startLine'')
                  \<and> num_less (opt_prop item ''endLine'') (opt_prop previous ''endLine'')))))"

definition item_identity :: "jsval \<Rightarrow> jsval \<times> jsval \<times> jsval" where
  "item_identity v = (opt_prop v ''path'', opt_prop v ''startLine'', opt_prop v ''endLine'')"

fun item_errors :: "jsval \<Rightarrow> (jsval \<times> jsval \<times> jsval) list \<Rightarrow> jsval option \<Rightarrow> nat \<Rightarrow> jsval list \<Rightarrow> string list" where
  "item_errors snapshot seen previous index [] = []"
| "item_errors snapshot seen previous index (v # vs) =
     validateItem snapshot index v
     @ (if \<not> isPlainRecord v then item_errors snapshot seen (Some v) (Suc index) vs
        else chk (item_identity v \<in> set seen) ''project-context-snapshot:duplicate-item''
          @ (case previous of
               None \<Rightarrow> []
             | Some p \<Rightarrow> chk (isPlainRecord p \<and> items_out_of_order p v)
                  ''project-context-snapshot:items-not-deterministically-ordered'')
          @ item_errors snapshot (item_identity v # seen) (Some v) (Suc index) vs)"

definition digest_input :: "jsval \<Rightarrow> jsval" where
  "digest_input v = JObj (map (\<lambda>k. (k, opt_prop v k))
     [''contract'', ''version'', ''normalizationVersion'', ''projectId'', ''status'', ''outcome'', ''workspaceRevision'',
      ''normalizedQuery'', ''terms'', ''budget'', ''truncation'', ''items''])"

definition computeProjectContextSnapshotDigest :: "js_env \<Rightarrow> jsval \<Rightarrow> string js" where
  "computeProjectContextSnapshotDigest E v =
     (if \<not> isPlainRecord v \<or> opt_prop v ''status'' \<noteq> JStr ''ok''
      then Inl (TypeErr ''project-context-snapshot-digest:success-required'')
      else bindE (ctx_canonicalize 0 (digest_input v)) (\<lambda>t. Inr (''pcs1:'' @ sha256 E t)))"

definition content_bytes :: "jsval list \<Rightarrow> int" where
  "content_bytes items = sum_list (map (\<lambda>v. case opt_prop v ''content'' of JStr s \<Rightarrow> int (length s) | _ \<Rightarrow> 0) items)"

definition usage_errors :: "jsval \<Rightarrow> string list" where
  "usage_errors v =
     (let context = ''project-context-snapshot''; items = opt_prop v ''items''; budget = opt_prop v ''budget'';
          used = content_bytes (elements items)
      in if is_array items \<and> isPlainRecord budget then
           chk (\<not> strict_eq (opt_prop budget ''usedFiles'') (JInt (int (length (elements items))))) (context @ '':usedFiles-mismatch'')
           @ chk (\<not> strict_eq (opt_prop budget ''usedBytes'') (JInt used)) (context @ '':usedBytes-mismatch'')
           @ chk (case estimateProjectContextTokens used of Inl _ \<Rightarrow> True | Inr n \<Rightarrow> \<not> strict_eq (opt_prop budget ''usedTokens'') (JInt n))
               (context @ '':usedTokens-mismatch'')
         else [])"

definition validateSuccessfulSnapshot :: "js_env \<Rightarrow> jsval \<Rightarrow> string list" where
  "validateSuccessfulSnapshot E v =
     (let context = ''project-context-snapshot''; outcome = opt_prop v ''outcome''; query = opt_prop v ''normalizedQuery'';
          items = opt_prop v ''items''; truncation = opt_prop v ''truncation'';
          derived = normalizeProjectContextQuery E (str_of query)
      in chk (\<not> str_in outcome [''found'', ''empty'']) (context @ '':invalid-outcome'')
         @ chk (\<not> isWorkspaceRevision (opt_prop v ''workspaceRevision'')) (context @ '':invalid-workspaceRevision'')
         @ chk (opt_prop v ''normalizationVersion'' \<noteq> JInt 1) (context @ '':invalid-normalizationVersion'')
         @ (if \<not> isNonEmptyString query then [context @ '':invalid-normalizedQuery'']
            else chk (normalizedQuery derived \<noteq> str_of query) (context @ '':noncanonical-normalizedQuery'')
              @ chk (\<not> arraysEqual (opt_prop v ''terms'') (JArr (map JStr (terms derived)))) (context @ '':invalid-terms''))
         @ (if \<not> is_array items then [context @ '':invalid-items'']
            else item_errors v [] None 0 (elements items)
              @ chk (outcome = JStr ''found'' \<and> elements items = []) (context @ '':found-without-items'')
              @ chk (outcome = JStr ''empty'' \<and> elements items \<noteq> []) (context @ '':empty-with-items''))
         @ validateBudget (opt_prop v ''budget'')
         @ validateTruncation truncation outcome
         @ usage_errors v
         @ chk (outcome = JStr ''empty'' \<and> isPlainRecord truncation \<and> opt_prop truncation ''truncated'' \<noteq> JBool False)
             (context @ '':empty-truncated'')
         @ (if \<not> str_sat (hex_tail ''pcs1:'' 64) (opt_prop v ''snapshotDigest'') then [context @ '':invalid-snapshotDigest'']
            else (case computeProjectContextSnapshotDigest E v of
                    Inl _ \<Rightarrow> [context @ '':snapshotDigest-uncomputable'']
                  | Inr d \<Rightarrow> chk (JStr d \<noteq> opt_prop v ''snapshotDigest'') (context @ '':snapshotDigest-mismatch''))))"

definition validateSnapshotError :: "jsval \<Rightarrow> jsval \<Rightarrow> string list" where
  "validateSnapshotError v status =
     (let context = ''project-context-snapshot.error''; code = opt_prop v ''code'';
          stale = (isPlainRecord v \<and> code = JStr ''PROJECT_CONTEXT_STALE'');
          errors = validateExactKeys v (if stale then [''code'', ''message'', ''expectedRevision'', ''observedRevision'']
                                      else [''code'', ''message'']) [] context
      in if \<not> isPlainRecord v then errors
         else errors
           @ chk (\<not> str_in code CONTEXT_ERROR_CODES) (context @ '':invalid-code'')
           @ chk (\<not> isNonEmptyString (opt_prop v ''message'')) (context @ '':invalid-message'')
           @ (if status = JStr ''timeout'' then
                chk (code \<noteq> JStr ''PROJECT_CONTEXT_TIMEOUT'') (context @ '':timeout-code-mismatch'')
              else if status = JStr ''cancelled'' then
                chk (code \<noteq> JStr ''PROJECT_CONTEXT_CANCELLED'') (context @ '':cancelled-code-mismatch'')
              else chk (str_in code [''PROJECT_CONTEXT_TIMEOUT'', ''PROJECT_CONTEXT_CANCELLED'']) (context @ '':transport-code-on-error''))
           @ (if stale then
                chk (\<not> isWorkspaceRevision (opt_prop v ''expectedRevision'')) (context @ '':invalid-expectedRevision'')
                @ chk (\<not> isWorkspaceRevision (opt_prop v ''observedRevision'')) (context @ '':invalid-observedRevision'')
                @ chk (strict_eq (opt_prop v ''expectedRevision'') (opt_prop v ''observedRevision'')) (context @ '':stale-revisions-equal'')
              else []))"

definition validateProjectContextSnapshot :: "js_env \<Rightarrow> jsval \<Rightarrow> validation" where
  "validateProjectContextSnapshot E v =
     (let context = ''project-context-snapshot''; status = opt_prop v ''status'';
          success = (isPlainRecord v \<and> status = JStr ''ok'');
          required = (if success then [''contract'', ''version'', ''requestId'', ''projectId'', ''status'', ''outcome'',
              ''workspaceRevision'', ''normalizationVersion'', ''normalizedQuery'', ''terms'', ''items'', ''budget'',
              ''truncation'', ''snapshotDigest'']
            else [''contract'', ''version'', ''requestId'', ''projectId'', ''status'', ''error'']);
          errors = validateExactKeys v required [] context
      in if \<not> isPlainRecord v then validationResult errors v
         else validationResult (errors
           @ chk (opt_prop v ''contract'' \<noteq> JStr ''ProjectContextSnapshot'') (context @ '':invalid-contract'')
           @ chk (opt_prop v ''version'' \<noteq> JInt 1) (context @ '':invalid-version'')
           @ chk (\<not> isIdentifier (opt_prop v ''requestId'')) (context @ '':invalid-requestId'')
           @ chk (\<not> int_ge (opt_prop v ''projectId'') 1) (context @ '':invalid-projectId'')
           @ (if success then validateSuccessfulSnapshot E v
              else if str_in status [''error'', ''timeout'', ''cancelled''] then validateSnapshotError (opt_prop v ''error'') status
              else [context @ '':invalid-status''])) v)"

definition validateProjectContextContract :: "js_env \<Rightarrow> jsval \<Rightarrow> validation" where
  "validateProjectContextContract E v =
     (if \<not> isPlainRecord v then validationResult [''project-context-contract:not-object''] v
      else if opt_prop v ''contract'' = JStr ''ProjectContextQuery'' then validateProjectContextQuery E v
      else if opt_prop v ''contract'' = JStr ''ProjectContextSnapshot'' then validateProjectContextSnapshot E v
      else validationResult [''project-context-contract:unknown-contract''] v)"

section \<open>What an accepted snapshot guarantees\<close>

lemma item_accepted:
  assumes "validateItem s i v = []"
  obtains p score start stop where "isPlainRecord v" and "opt_prop v ''path'' = JStr p"
    and "safe_int (opt_prop v ''score'') = Some score" and "0 \<le> score"
    and "safe_int (opt_prop v ''startLine'') = Some start" and "1 \<le> start"
    and "safe_int (opt_prop v ''endLine'') = Some stop" and "start \<le> stop"
    and "validateProvenance (opt_prop v ''provenance'') v s i = []"
proof -
  have rec: "isPlainRecord v"
    by (rule ccontr) (use assms in \<open>simp add: validateItem_def Let_def\<close>)
  with assms have "isProjectRelativePath (opt_prop v ''path'')" "int_ge (opt_prop v ''startLine'') 1"
      "safe_int (opt_prop v ''endLine'') \<noteq> None" "\<not> num_less (opt_prop v ''endLine'') (opt_prop v ''startLine'')"
      "int_ge (opt_prop v ''score'') 0" "validateProvenance (opt_prop v ''provenance'') v s i = []"
    by (simp_all add: validateItem_def Let_def)
  with rec that show thesis
    by (auto simp: isProjectRelativePath_def str_sat_iff int_ge_iff num_less_def)
qed

lemma item_errors_Nil:
  "item_errors s seen previous i vs = [] \<Longrightarrow>
     (\<forall>j < length vs. validateItem s (i + j) (vs ! j) = [])
     \<and> distinct (map item_identity vs) \<and> set (map item_identity vs) \<inter> set seen = {}
     \<and> (\<forall>p. previous = Some p \<longrightarrow> isPlainRecord p \<longrightarrow> vs \<noteq> [] \<longrightarrow> \<not> items_out_of_order p (hd vs))
     \<and> (\<forall>j. Suc j < length vs \<longrightarrow> \<not> items_out_of_order (vs ! j) (vs ! Suc j))"
proof (induction vs arbitrary: seen previous i)
  case (Cons v vs)
  then have v: "validateItem s i v = []" by simp
  then have rec: "isPlainRecord v" by (rule item_accepted)
  with Cons.prems have rest: "item_errors s (item_identity v # seen) (Some v) (Suc i) vs = []"
    and new: "item_identity v \<notin> set seen"
    and ord: "\<And>p. previous = Some p \<Longrightarrow> isPlainRecord p \<Longrightarrow> \<not> items_out_of_order p v"
    by (auto split: option.splits)
  note IH = Cons.IH [OF rest]
  have "validateItem s (i + j) ((v # vs) ! j) = []" if "j < length (v # vs)" for j
    using that v IH by (cases j) auto
  moreover have "\<not> items_out_of_order ((v # vs) ! j) ((v # vs) ! Suc j)" if "Suc j < length (v # vs)" for j
    using that IH rec by (cases j) (auto simp: hd_conv_nth)
  ultimately show ?case using IH new ord by auto
qed simp

text \<open>The order of the items as one key: falling score, then path, then lines.\<close>

definition item_key :: "jsval \<Rightarrow> int \<times> string \<times> int \<times> int" where
  "item_key v =
     (- the (safe_int (opt_prop v ''score'')), str_of (opt_prop v ''path''),
      the (safe_int (opt_prop v ''startLine'')), the (safe_int (opt_prop v ''endLine'')))"

lemma safe_int_pos: "safe_int v = Some n \<Longrightarrow> 1 \<le> n \<Longrightarrow> v = JInt n"
  by (auto simp: safe_int_def split: jsval.splits if_splits)

lemma strict_eq_safe:
  "safe_int v = Some m \<Longrightarrow> safe_int w = Some n \<Longrightarrow> strict_eq v w \<longleftrightarrow> m = n"
  by (auto simp: safe_int_def strict_eq_def split: jsval.splits if_splits)

lemma item_key_step:
  assumes a: "validateItem s i a = []" and b: "validateItem s j b = []"
    and "\<not> items_out_of_order a b" and "item_identity a \<noteq> item_identity b"
  shows "item_key a < item_key b"
proof -
  obtain p c m n where A: "opt_prop a ''path'' = JStr p" "safe_int (opt_prop a ''score'') = Some c"
      "safe_int (opt_prop a ''startLine'') = Some m" "1 \<le> m" "safe_int (opt_prop a ''endLine'') = Some n" "m \<le> n"
    by (rule item_accepted [OF a])
  obtain p' c' m' n' where B: "opt_prop b ''path'' = JStr p'" "safe_int (opt_prop b ''score'') = Some c'"
      "safe_int (opt_prop b ''startLine'') = Some m'" "1 \<le> m'" "safe_int (opt_prop b ''endLine'') = Some n'" "m' \<le> n'"
    by (rule item_accepted [OF b])
  have id: "(p, m, n) \<noteq> (p', m', n')"
    using assms(4) A B safe_int_pos [OF A(3,4)] safe_int_pos [OF B(3,4)]
      safe_int_pos [OF A(5)] safe_int_pos [OF B(5)] by (auto simp: item_identity_def)
  have "c' \<le> c \<and> (c = c' \<longrightarrow> p \<le> p' \<and> (p = p' \<longrightarrow> m \<le> m' \<and> (m = m' \<longrightarrow> n \<le> n')))"
    using assms(3) A B
    by (auto simp: items_out_of_order_def Let_def num_less_def path_order_def strict_eq_safe split: if_splits)
  with id show ?thesis by (auto simp: item_key_def A B less_prod_def)
qed

text \<open>
  C37. An accepted successful snapshot is deterministic, within budget and of one place. Its items
  are in strictly increasing order of the key (falling score, path, start line, end line), so none
  appears twice; the bytes of their contents are exactly the used bytes and, like the number of
  items and the token estimate, within the maximum; every item comes from the project and the
  workspace revision of the snapshot; and the snapshot digest is that of the canonical text of its
  fields.
\<close>

theorem snapshot_deterministic:
  assumes "valid (validateProjectContextSnapshot E v)" and "opt_prop v ''status'' = JStr ''ok''"
  shows "\<exists>items. opt_prop v ''items'' = JArr items \<and> sorted_wrt (<) (map item_key items)
    \<and> safe_int (opt_prop (opt_prop v ''budget'') ''usedBytes'') = Some (content_bytes items)
    \<and> safe_int (opt_prop (opt_prop v ''budget'') ''usedFiles'') = Some (int (length items))
    \<and> \<not> num_less (opt_prop (opt_prop v ''budget'') ''maxBytes'') (opt_prop (opt_prop v ''budget'') ''usedBytes'')
    \<and> \<not> num_less (opt_prop (opt_prop v ''budget'') ''maxFiles'') (opt_prop (opt_prop v ''budget'') ''usedFiles'')
    \<and> \<not> num_less (opt_prop (opt_prop v ''budget'') ''maxTokens'') (opt_prop (opt_prop v ''budget'') ''usedTokens'')
    \<and> (\<forall>x \<in> set items.
          strict_eq (opt_prop (opt_prop x ''provenance'') ''projectId'') (opt_prop v ''projectId'')
          \<and> strict_eq (opt_prop (opt_prop x ''provenance'') ''workspaceRevision'') (opt_prop v ''workspaceRevision''))
    \<and> (\<exists>d. computeProjectContextSnapshotDigest E v = Inr d \<and> opt_prop v ''snapshotDigest'' = JStr d)"
proof -
  have rec: "isPlainRecord v"
    by (rule ccontr) (use assms(1) in \<open>simp add: validateProjectContextSnapshot_def Let_def\<close>)
  with assms have good: "validateSuccessfulSnapshot E v = []"
    by (simp add: validateProjectContextSnapshot_def Let_def)
  then obtain items where items: "opt_prop v ''items'' = JArr items"
    by (cases "is_array (opt_prop v ''items'')") (auto simp: validateSuccessfulSnapshot_def Let_def is_array_iff)
  have arr: "is_array (opt_prop v ''items'')" by (simp add: items is_array_def)
  have errs: "item_errors v [] None 0 items = []" and bud: "validateBudget (opt_prop v ''budget'') = []"
    and use: "usage_errors v = []"
    using good arr items by (simp_all add: validateSuccessfulSnapshot_def Let_def)
  have dig: "\<exists>d. computeProjectContextSnapshotDigest E v = Inr d \<and> opt_prop v ''snapshotDigest'' = JStr d"
  proof (cases "str_sat (hex_tail ''pcs1:'' 64) (opt_prop v ''snapshotDigest'')")
    case True
    with good show ?thesis
      by (cases "computeProjectContextSnapshotDigest E v") (simp_all add: validateSuccessfulSnapshot_def Let_def)
  next
    case False
    with good show ?thesis by (simp add: validateSuccessfulSnapshot_def Let_def)
  qed
  note ok = item_errors_Nil [OF errs]
  have each: "validateItem v j (items ! j) = []" if "j < length items" for j
    using ok that by auto
  have "item_key (items ! j) < item_key (items ! Suc j)" if j: "Suc j < length items" for j
  proof (rule item_key_step [OF each each])
    show "item_identity (items ! j) \<noteq> item_identity (items ! Suc j)"
      using ok j nth_eq_iff_index_eq [of "map item_identity items" j "Suc j"] by auto
  qed (use ok j in auto)
  then have sorted: "sorted_wrt (<) (map item_key items)" by (simp add: strict_sorted_nth_iff)
  have brec: "isPlainRecord (opt_prop v ''budget'')"
    by (rule ccontr) (use bud in \<open>simp add: validateBudget_def Let_def\<close>)
  have b: "int_ge (opt_prop (opt_prop v ''budget'') ''usedFiles'') 0" "int_ge (opt_prop (opt_prop v ''budget'') ''usedBytes'') 0"
      "\<not> num_less (opt_prop (opt_prop v ''budget'') ''maxBytes'') (opt_prop (opt_prop v ''budget'') ''usedBytes'')"
      "\<not> num_less (opt_prop (opt_prop v ''budget'') ''maxFiles'') (opt_prop (opt_prop v ''budget'') ''usedFiles'')"
      "\<not> num_less (opt_prop (opt_prop v ''budget'') ''maxTokens'') (opt_prop (opt_prop v ''budget'') ''usedTokens'')"
    using bud brec by (simp_all add: validateBudget_def Let_def)
  have u: "strict_eq (opt_prop (opt_prop v ''budget'') ''usedFiles'') (JInt (int (length items)))"
      "strict_eq (opt_prop (opt_prop v ''budget'') ''usedBytes'') (JInt (content_bytes items))"
    using use brec arr items by (simp_all add: usage_errors_def Let_def)
  have exact: "safe_int x = Some n" if "strict_eq x (JInt n)" "int_ge x 0" for x n
    using that by (auto simp: strict_eq_def int_ge_iff safe_int_def split: jsval.splits if_splits)
  have prov: "strict_eq (opt_prop (opt_prop x ''provenance'') ''projectId'') (opt_prop v ''projectId'')
          \<and> strict_eq (opt_prop (opt_prop x ''provenance'') ''workspaceRevision'') (opt_prop v ''workspaceRevision'')"
    if x: "x \<in> set items" for x
  proof -
    from x each obtain j where j: "validateItem v j x = []" by (auto simp: in_set_conv_nth)
    then have p: "validateProvenance (opt_prop x ''provenance'') x v j = []" by (rule item_accepted)
    have "isPlainRecord (opt_prop x ''provenance'')"
      by (rule ccontr) (use p in \<open>simp add: validateProvenance_def Let_def\<close>)
    with p show ?thesis by (simp add: validateProvenance_def Let_def)
  qed
  show ?thesis
    using items sorted exact [OF u(2) b(2)] exact [OF u(1) b(1)] b(3-5) prov dig by blast
qed

definition sample_item :: "string \<Rightarrow> int \<Rightarrow> jsval" where
  "sample_item p score =
     JObj [(''content'', JStr ''x = 1''), (''contentDigest'', JStr (''sha256:'' @ replicate 64 CHR ''1'')),
     (''endLine'', JInt 3), (''path'', JStr p),
     (''provenance'', JObj [(''contentDigest'', JStr (''sha256:'' @ replicate 64 CHR ''1'')), (''path'', JStr p),
     (''projectId'', JInt 7), (''sourceSet'', JStr ''ContextSourceSet@1''),
     (''workspaceRevision'', JStr (''wsr1:'' @ replicate 63 CHR ''0'' @ ''3''))]), (''score'', JInt score),
     (''startLine'', JInt 1)]"

definition sample_snapshot :: "char \<Rightarrow> jsval" where
  "sample_snapshot h =
     JObj [(''budget'', JObj [(''maxBytes'', JInt 100), (''maxFiles'', JInt 5), (''maxTokens'', JInt 50),
     (''usedBytes'', JInt 10), (''usedFiles'', JInt 2), (''usedTokens'', JInt 3)]),
     (''contract'', JStr ''ProjectContextSnapshot''),
     (''items'', JArr [sample_item ''b.js'' 5, sample_item ''a.js'' 2]), (''normalizationVersion'', JInt 1),
     (''normalizedQuery'', JStr ''foo bar foo''), (''outcome'', JStr ''found''), (''projectId'', JInt 7),
     (''requestId'', JStr ''q1''), (''snapshotDigest'', JStr (''pcs1:'' @ replicate 63 CHR ''0'' @ [h])),
     (''status'', JStr ''ok''), (''terms'', JArr [JStr ''foo'', JStr ''bar'']),
     (''truncation'', JObj [(''truncated'', JBool False)]), (''version'', JInt 1),
     (''workspaceRevision'', JStr (''wsr1:'' @ replicate 63 CHR ''0'' @ ''3''))]"

lemma sample_snapshot_accepted: "valid (validateProjectContextSnapshot ascii_env (sample_snapshot CHR ''b''))"
  by code_simp

theorem snapshot_deterministic_witness:
  "sorted_wrt (<) (map item_key [sample_item ''b.js'' 5, sample_item ''a.js'' 2])"
proof -
  have "opt_prop (sample_snapshot CHR ''b'') ''status'' = JStr ''ok''"
    and "opt_prop (sample_snapshot CHR ''b'') ''items'' = JArr [sample_item ''b.js'' 5, sample_item ''a.js'' 2]"
    by (simp_all add: sample_snapshot_def)
  then show ?thesis using snapshot_deterministic [OF sample_snapshot_accepted] by auto
qed

end
