(* ===== verification/M2Lifecycle.thy ===== *)
theory M2Lifecycle
  imports M2Governance M2Context
begin

text \<open>
  \<open>contracts/m2/lifecycle-v1.js\<close>: the plan a user is asked to approve, the approval, and the
  terminal snapshot of the execution, each with the validators that bind it to the documents before
  it. Names the file shares with other contracts carry the prefix \<open>life_\<close>. The properties
  follow the chain: plan, approval, execution.
\<close>

definition PLAN_STATES :: "string list" where
  "PLAN_STATES = [''planning'', ''awaiting_approval'']"

definition TERMINAL_STATES :: "string list" where
  "TERMINAL_STATES = [''succeeded'', ''failed'', ''cancelled'', ''timed_out'', ''orphaned'', ''blocked'']"

definition life_isNfcString :: "js_env \<Rightarrow> nat \<Rightarrow> bool \<Rightarrow> jsval \<Rightarrow> bool" where
  "life_isNfcString E maximum may_be_empty v =
     str_sat (\<lambda>s. s = nfc E s \<and> CHR 0x00 \<notin> set s \<and> (may_be_empty \<or> trim_nonempty s) \<and> length s \<le> maximum) v"

definition life_isCanonicalAbsolute :: "js_env \<Rightarrow> jsval \<Rightarrow> bool" where
  "life_isCanonicalAbsolute E v =
     str_sat (\<lambda>s. life_isNfcString E 4096 False v \<and> CHR 0x5C \<notin> set s
       \<and> posix_isAbsolute s \<and> posix_normalize s = s \<and> (s = ''/'' \<or> \<not> ends_with_slash s)) v"

section \<open>Parts of a plan\<close>

definition validateIdentity :: "jsval \<Rightarrow> string \<Rightarrow> string list" where
  "validateIdentity v context =
     (let keys = [''lifecycleId'', ''milestoneId'', ''runId'', ''executionId'']; errors = validateExactKeys v keys [] context
      in if \<not> isPlainRecord v then errors
         else errors @ concat (map (\<lambda>k. chk (\<not> isIdentifier (opt_prop v k)) (context @ '':invalid-'' @ k)) keys))"

definition life_validateActor :: "jsval \<Rightarrow> string \<Rightarrow> string list" where
  "life_validateActor v context =
     (let errors = validateExactKeys v [''type'', ''id''] [] context
      in if \<not> isPlainRecord v then errors
         else errors
           @ chk (opt_prop v ''type'' \<noteq> JStr ''user'') (context @ '':user-required'')
           @ chk (\<not> isIdentifier (opt_prop v ''id'')) (context @ '':invalid-id''))"

definition life_validateOrigin :: "jsval \<Rightarrow> jsval \<Rightarrow> string \<Rightarrow> string list" where
  "life_validateOrigin v projectId context =
     (let errors = validateExactKeys v [''surface'', ''sessionId'', ''conversationId'', ''projectId''] [] context
      in if \<not> isPlainRecord v then errors
         else errors
           @ chk (\<not> str_in (opt_prop v ''surface'') [''http'', ''ws'', ''studio'', ''skill'', ''lifecycle'']) (context @ '':invalid-surface'')
           @ concat (map (\<lambda>k. chk (\<not> null_or isIdentifier (opt_prop v k)) (context @ '':invalid-'' @ k)) [''sessionId'', ''conversationId''])
           @ chk (\<not> int_ge (opt_prop v ''projectId'') 1) (context @ '':invalid-projectId'')
           @ chk (\<not> strict_eq (opt_prop v ''projectId'') projectId) (context @ '':projectId-mismatch''))"

definition life_validateProject :: "js_env \<Rightarrow> jsval \<Rightarrow> string \<Rightarrow> string list" where
  "life_validateProject E v context =
     (let errors = validateExactKeys v [''projectId'', ''canonicalRoot'', ''workspaceRevision'', ''gitHead'',
            ''gitBranchRef'', ''foreignDirtDigest''] [] context
      in if \<not> isPlainRecord v then errors
         else errors
           @ chk (\<not> int_ge (opt_prop v ''projectId'') 1) (context @ '':invalid-projectId'')
           @ chk (\<not> life_isCanonicalAbsolute E (opt_prop v ''canonicalRoot'')) (context @ '':invalid-canonicalRoot'')
           @ chk (\<not> isWorkspaceRevision (opt_prop v ''workspaceRevision'')) (context @ '':invalid-workspaceRevision'')
           @ chk (\<not> isGitObject (opt_prop v ''gitHead'')) (context @ '':invalid-gitHead'')
           @ chk (\<not> str_sat branch_text (opt_prop v ''gitBranchRef'')) (context @ '':invalid-gitBranchRef'')
           @ chk (\<not> isDigest (opt_prop v ''foreignDirtDigest'')) (context @ '':invalid-foreignDirtDigest''))"

definition validatePlanChange :: "js_env \<Rightarrow> nat \<Rightarrow> jsval \<Rightarrow> string list" where
  "validatePlanChange E index v =
     (let context = ''lifecycle-plan-snapshot.changes['' @ int_to_string (int index) @ '']'';
          errors = validateExactKeys v [''path'', ''afterDigest'', ''afterBytes''] [] context
      in if \<not> isPlainRecord v then errors
         else errors
           @ chk (\<not> isM2ExecutionProjectRelativePath E (opt_prop v ''path'')) (context @ '':invalid-path'')
           @ chk (\<not> isDigest (opt_prop v ''afterDigest'')) (context @ '':invalid-afterDigest'')
           @ chk (\<not> int_in (opt_prop v ''afterBytes'') 0 1048576) (context @ '':invalid-afterBytes''))"

definition life_validateFocusedTest :: "js_env \<Rightarrow> jsval \<Rightarrow> string \<Rightarrow> string list" where
  "life_validateFocusedTest E v context =
     (let errors = validateExactKeys v [''binary'', ''argv'', ''argvDigest'', ''environmentDigest'', ''timeoutMs''] [] context;
          argv = opt_prop v ''argv''
      in if \<not> isPlainRecord v then errors
         else errors
           @ chk (\<not> life_isCanonicalAbsolute E (opt_prop v ''binary'')) (context @ '':invalid-binary'')
           @ chk (\<not> is_array argv \<or> length (elements argv) > 128
                  \<or> list_ex (\<lambda>a. \<not> life_isNfcString E 4096 True a) (elements argv)) (context @ '':invalid-argv'')
           @ (if \<not> isDigest (opt_prop v ''argvDigest'') then [context @ '':invalid-argvDigest'']
              else if is_array argv then
                (case computeM2ExecutionValueDigest E argv of
                   Inl _ \<Rightarrow> [context @ '':invalid-argv-canonical-form'']
                 | Inr d \<Rightarrow> chk (JStr d \<noteq> opt_prop v ''argvDigest'') (context @ '':argvDigest-mismatch''))
              else [])
           @ chk (\<not> isDigest (opt_prop v ''environmentDigest'')) (context @ '':invalid-environmentDigest'')
           @ chk (\<not> int_in (opt_prop v ''timeoutMs'') 1 3600000) (context @ '':invalid-timeoutMs''))"

definition life_validateGitCommit :: "js_env \<Rightarrow> jsval \<Rightarrow> jsval \<Rightarrow> jsval list \<Rightarrow> string \<Rightarrow> string list" where
  "life_validateGitCommit E v project paths context =
     (let errors = validateExactKeys v [''expectedHead'', ''branchRef'', ''paths'', ''messageDigest'', ''identityDigest''] [] context
      in if v = JNull then []
         else if \<not> isPlainRecord v then errors
         else errors
           @ chk (\<not> isGitObject (opt_prop v ''expectedHead'')) (context @ '':invalid-expectedHead'')
           @ chk (\<not> strict_eq (opt_prop v ''expectedHead'') (opt_prop project ''gitHead'')) (context @ '':head-mismatch'')
           @ chk (\<not> str_sat branch_text (opt_prop v ''branchRef'')) (context @ '':invalid-branchRef'')
           @ chk (\<not> strict_eq (opt_prop v ''branchRef'') (opt_prop project ''gitBranchRef'')) (context @ '':branch-mismatch'')
           @ validateSortedUniqueStrings (opt_prop v ''paths'') (context @ ''.paths'') (isM2ExecutionProjectRelativePath E)
           @ chk (\<not> arraysEqual (opt_prop v ''paths'') (JArr paths)) (context @ '':paths-mismatch'')
           @ chk (\<not> isDigest (opt_prop v ''messageDigest'')) (context @ '':invalid-messageDigest'')
           @ chk (\<not> isDigest (opt_prop v ''identityDigest'')) (context @ '':invalid-identityDigest''))"

section \<open>Plan, approval and terminal snapshots\<close>

definition plan_change_errors :: "js_env \<Rightarrow> jsval \<Rightarrow> string list" where
  "plan_change_errors E v =
     (let context = ''lifecycle-plan-snapshot''; changes = opt_prop v ''changes''; cs = elements changes;
          paths = map (\<lambda>c. opt_prop c ''path'') cs
      in if \<not> is_array changes \<or> length cs < 1 \<or> length cs > 32 then [context @ '':invalid-changes'']
         else each_indexed (validatePlanChange E) cs
           @ validateSortedUniqueStrings (JArr paths) (context @ ''.changePaths'') (isM2ExecutionProjectRelativePath E)
           @ life_validateGitCommit E (opt_prop v ''gitCommit'') (opt_prop v ''project'') paths (context @ ''.gitCommit''))"

definition window_errors :: "jsval \<Rightarrow> jsval \<Rightarrow> string \<Rightarrow> string \<Rightarrow> string \<Rightarrow> string list" where
  "window_errors from until context bad_from bad_until =
     chk (\<not> isCanonicalTimestamp from) (context @ bad_from)
     @ chk (\<not> isCanonicalTimestamp until) (context @ bad_until)
     @ chk (isCanonicalTimestamp from \<and> isCanonicalTimestamp until \<and> time_of until \<le> time_of from)
         (context @ '':invalid-approval-window'')"

definition validateM2LifecyclePlanSnapshot :: "js_env \<Rightarrow> jsval \<Rightarrow> validation" where
  "validateM2LifecyclePlanSnapshot E v =
     (let context = ''lifecycle-plan-snapshot'';
          errors = validateExactKeys v [''contract'', ''version'', ''identity'', ''state'', ''planVersion'', ''actor'',
            ''origin'', ''project'', ''intent'', ''requestDigest'', ''patchSetDigest'', ''authoritySetDigest'',
            ''changes'', ''focusedTest'', ''gitCommit'', ''governancePolicyDigest'', ''governanceBaselineDigest'',
            ''contextSnapshotDigest'', ''governanceDecisionDigest'', ''expectedAfterRevision'', ''createdAt'',
            ''approvalExpiresAt''] [] context
      in if \<not> isPlainRecord v then validationResult errors v
         else validationResult (errors
           @ chk (opt_prop v ''contract'' \<noteq> JStr ''LifecyclePlanSnapshot'') (context @ '':invalid-contract'')
           @ chk (opt_prop v ''version'' \<noteq> JInt 1) (context @ '':invalid-version'')
           @ validateIdentity (opt_prop v ''identity'') (context @ ''.identity'')
           @ chk (\<not> str_in (opt_prop v ''state'') PLAN_STATES) (context @ '':invalid-state'')
           @ chk (\<not> int_ge (opt_prop v ''planVersion'') 1) (context @ '':invalid-planVersion'')
           @ life_validateActor (opt_prop v ''actor'') (context @ ''.actor'')
           @ life_validateProject E (opt_prop v ''project'') (context @ ''.project'')
           @ life_validateOrigin (opt_prop v ''origin'') (opt_prop (opt_prop v ''project'') ''projectId'') (context @ ''.origin'')
           @ chk (\<not> life_isNfcString E 16384 False (opt_prop v ''intent'')) (context @ '':invalid-intent'')
           @ concat (map (\<lambda>k. chk (\<not> isDigest (opt_prop v k)) (context @ '':invalid-'' @ k))
               [''requestDigest'', ''patchSetDigest'', ''authoritySetDigest'', ''governancePolicyDigest'',
                ''governanceBaselineDigest'', ''contextSnapshotDigest'', ''governanceDecisionDigest''])
           @ chk (\<not> isWorkspaceRevision (opt_prop v ''expectedAfterRevision'')) (context @ '':invalid-expectedAfterRevision'')
           @ plan_change_errors E v
           @ life_validateFocusedTest E (opt_prop v ''focusedTest'') (context @ ''.focusedTest'')
           @ window_errors (opt_prop v ''createdAt'') (opt_prop v ''approvalExpiresAt'') context
               '':invalid-createdAt'' '':invalid-approvalExpiresAt'') v)"

definition computeM2LifecyclePlanSnapshotDigest :: "js_env \<Rightarrow> jsval \<Rightarrow> string js" where
  "computeM2LifecyclePlanSnapshotDigest E v = digest_if_valid E (validateM2LifecyclePlanSnapshot E v) v"

definition validateM2LifecycleApprovalIntent :: "jsval \<Rightarrow> validation" where
  "validateM2LifecycleApprovalIntent v =
     (let context = ''lifecycle-approval-intent'';
          errors = validateExactKeys v [''contract'', ''version'', ''approvalId'', ''identity'', ''state'', ''decision'',
            ''planVersion'', ''planDigest'', ''requestDigest'', ''authoritySetDigest'', ''projectId'',
            ''workspaceRevision'', ''actor'', ''approvedAt'', ''expiresAt''] [] context
      in if \<not> isPlainRecord v then validationResult errors v
         else validationResult (errors
           @ chk (opt_prop v ''contract'' \<noteq> JStr ''LifecycleApprovalIntent'') (context @ '':invalid-contract'')
           @ chk (opt_prop v ''version'' \<noteq> JInt 1) (context @ '':invalid-version'')
           @ chk (\<not> isIdentifier (opt_prop v ''approvalId'')) (context @ '':invalid-approvalId'')
           @ validateIdentity (opt_prop v ''identity'') (context @ ''.identity'')
           @ chk (opt_prop v ''state'' \<noteq> JStr ''awaiting_approval'') (context @ '':invalid-state'')
           @ chk (opt_prop v ''decision'' \<noteq> JStr ''approve'') (context @ '':approve-required'')
           @ chk (\<not> int_ge (opt_prop v ''planVersion'') 1) (context @ '':invalid-planVersion'')
           @ concat (map (\<lambda>k. chk (\<not> isDigest (opt_prop v k)) (context @ '':invalid-'' @ k))
               [''planDigest'', ''requestDigest'', ''authoritySetDigest''])
           @ chk (\<not> int_ge (opt_prop v ''projectId'') 1) (context @ '':invalid-projectId'')
           @ chk (\<not> isWorkspaceRevision (opt_prop v ''workspaceRevision'')) (context @ '':invalid-workspaceRevision'')
           @ life_validateActor (opt_prop v ''actor'') (context @ ''.actor'')
           @ window_errors (opt_prop v ''approvedAt'') (opt_prop v ''expiresAt'') context
               '':invalid-approvedAt'' '':invalid-expiresAt'') v)"

definition computeM2LifecycleApprovalIntentDigest :: "js_env \<Rightarrow> jsval \<Rightarrow> string js" where
  "computeM2LifecycleApprovalIntentDigest E v = digest_if_valid E (validateM2LifecycleApprovalIntent v) v"

definition validateM2LifecycleTerminalSnapshot :: "js_env \<Rightarrow> jsval \<Rightarrow> validation" where
  "validateM2LifecycleTerminalSnapshot E v =
     (let context = ''lifecycle-terminal-snapshot'';
          errors = validateExactKeys v [''contract'', ''version'', ''identity'', ''state'', ''planVersion'', ''planDigest'',
            ''approvalIntentDigest'', ''requestDigest'', ''authoritySetDigest'', ''projectId'', ''workspaceRevision'',
            ''resultDigest'', ''governanceDecisionDigest'', ''governanceReceiptDigest'', ''errorCode'', ''completedAt'',
            ''evidenceRefs''] [] context;
          proofs = [''approvalIntentDigest'', ''resultDigest'', ''governanceDecisionDigest'', ''governanceReceiptDigest'']
      in if \<not> isPlainRecord v then validationResult errors v
         else validationResult (errors
           @ chk (opt_prop v ''contract'' \<noteq> JStr ''LifecycleTerminalSnapshot'') (context @ '':invalid-contract'')
           @ chk (opt_prop v ''version'' \<noteq> JInt 1) (context @ '':invalid-version'')
           @ validateIdentity (opt_prop v ''identity'') (context @ ''.identity'')
           @ chk (\<not> str_in (opt_prop v ''state'') TERMINAL_STATES) (context @ '':invalid-state'')
           @ chk (\<not> int_ge (opt_prop v ''planVersion'') 1) (context @ '':invalid-planVersion'')
           @ concat (map (\<lambda>k. chk (\<not> isDigest (opt_prop v k)) (context @ '':invalid-'' @ k))
               [''planDigest'', ''requestDigest'', ''authoritySetDigest''])
           @ concat (map (\<lambda>k. chk (\<not> null_or isDigest (opt_prop v k)) (context @ '':invalid-'' @ k)) proofs)
           @ chk (\<not> int_ge (opt_prop v ''projectId'') 1) (context @ '':invalid-projectId'')
           @ chk (\<not> isWorkspaceRevision (opt_prop v ''workspaceRevision'')) (context @ '':invalid-workspaceRevision'')
           @ chk (\<not> null_or (str_sat (code_text 95)) (opt_prop v ''errorCode'')) (context @ '':invalid-errorCode'')
           @ chk (\<not> isCanonicalTimestamp (opt_prop v ''completedAt'')) (context @ '':invalid-completedAt'')
           @ validateSortedUniqueStrings (opt_prop v ''evidenceRefs'') (context @ ''.evidenceRefs'') (life_isNfcString E 4096 False)
           @ chk (length_sat (\<lambda>n. n > 128) (opt_prop v ''evidenceRefs'')) (context @ '':too-many-evidenceRefs'')
           @ (if opt_prop v ''state'' = JStr ''succeeded'' then
                chk (opt_prop v ''errorCode'' \<noteq> JNull) (context @ '':error-on-success'')
                @ concat (map (\<lambda>k. chk (\<not> isDigest (opt_prop v k)) (context @ '':missing-'' @ k @ ''-on-success'')) proofs)
              else chk (opt_prop v ''errorCode'' = JNull) (context @ '':missing-errorCode''))) v)"

definition computeM2LifecycleTerminalSnapshotDigest :: "js_env \<Rightarrow> jsval \<Rightarrow> string js" where
  "computeM2LifecycleTerminalSnapshotDigest E v = digest_if_valid E (validateM2LifecycleTerminalSnapshot E v) v"

section \<open>Documents against each other\<close>

text \<open>
  The shape of every cross-document validator: the messages of the single validations, returned at
  once when one of them failed, and otherwise the messages of the comparison.
\<close>

definition when_valid :: "validation list \<Rightarrow> jsval \<Rightarrow> string list js \<Rightarrow> validation js" where
  "when_valid rs v checks =
     (let errs = concat (map errors rs)
      in if list_ex (\<lambda>r. \<not> valid r) rs then Inr (validationResult errs v)
         else bindE checks (\<lambda>es. Inr (validationResult (errs @ es) v)))"

definition digests_differ :: "js_env \<Rightarrow> jsval \<Rightarrow> jsval \<Rightarrow> bool js" where
  "digests_differ E a b =
     bindE (computeM2ExecutionValueDigest E a) (\<lambda>x. bindE (computeM2ExecutionValueDigest E b) (\<lambda>y. Inr (x \<noteq> y)))"

definition digest_is_not :: "jsval \<Rightarrow> string js \<Rightarrow> bool js" where
  "digest_is_not stored m = bindE m (\<lambda>d. Inr (stored \<noteq> JStr d))"

definition props_differ :: "jsval \<Rightarrow> string \<Rightarrow> jsval \<Rightarrow> string \<Rightarrow> bool js" where
  "props_differ a k b l = Inr (\<not> strict_eq (opt_prop a k) (opt_prop b l))"

definition expected_changes :: "jsval \<Rightarrow> jsval" where
  "expected_changes request = JArr (map (\<lambda>c. JObj
     [(''path'', opt_prop c ''path''), (''afterDigest'', opt_prop (opt_prop c ''after'') ''digest''),
      (''afterBytes'', opt_prop (opt_prop c ''after'') ''bytes'')]) (elements (opt_prop request ''changes'')))"

definition pick :: "jsval \<Rightarrow> string list \<Rightarrow> jsval" where
  "pick v ks = JObj (map (\<lambda>k. (k, opt_prop v k)) ks)"

definition plan_request_errors :: "js_env \<Rightarrow> jsval \<Rightarrow> jsval \<Rightarrow> string list js" where
  "plan_request_errors E request plan =
     (let context = ''lifecycle-plan-snapshot''; identity = opt_prop plan ''identity'';
          commit = opt_prop request ''gitCommit'';
          expectedGit = (if commit = JNull then JNull
            else pick commit [''expectedHead'', ''branchRef'', ''paths'', ''messageDigest'', ''identityDigest'']);
          expectedFocused = pick (opt_prop request ''focusedTest'')
            [''binary'', ''argv'', ''argvDigest'', ''environmentDigest'', ''timeoutMs'']
      in collectE
        [chkE (any_js
           [props_differ identity ''runId'' request ''runId'', props_differ identity ''executionId'' request ''executionId'',
            props_differ (opt_prop plan ''actor'') ''type'' (opt_prop request ''actor'') ''type'',
            props_differ (opt_prop plan ''actor'') ''id'' (opt_prop request ''actor'') ''id'',
            digests_differ E (opt_prop plan ''origin'') (opt_prop request ''origin''),
            digests_differ E (opt_prop plan ''project'') (opt_prop request ''project'')])
           (context @ '':request-identity-mismatch''),
         chkE (any_js
           [digest_is_not (opt_prop plan ''requestDigest'') (computeM2ProjectChangeRequestDigest E request),
            props_differ plan ''patchSetDigest'' request ''patchSetDigest'',
            props_differ plan ''authoritySetDigest'' request ''authoritySetDigest''])
           (context @ '':request-digest-mismatch''),
         chkE (digests_differ E (opt_prop plan ''changes'') (expected_changes request)) (context @ '':change-summary-mismatch''),
         chkE (digests_differ E (opt_prop plan ''focusedTest'') expectedFocused) (context @ '':focused-test-mismatch''),
         chkE (digests_differ E (opt_prop plan ''gitCommit'') expectedGit) (context @ '':git-commit-mismatch'')])"

definition validateM2LifecyclePlanSnapshotForRequest :: "js_env \<Rightarrow> jsval \<Rightarrow> jsval \<Rightarrow> validation js" where
  "validateM2LifecyclePlanSnapshotForRequest E request plan =
     bindE (validateM2ProjectChangeRequest E request) (\<lambda>rq.
       when_valid [rq, validateM2LifecyclePlanSnapshot E plan] plan (plan_request_errors E request plan))"

definition validateM2LifecyclePlanSnapshotForContext :: "js_env \<Rightarrow> jsval \<Rightarrow> jsval \<Rightarrow> validation js" where
  "validateM2LifecyclePlanSnapshotForContext E snapshot plan =
     when_valid [validateProjectContextSnapshot E snapshot, validateM2LifecyclePlanSnapshot E plan] plan
       (chkE (any_js
          [Inr (opt_prop snapshot ''status'' \<noteq> JStr ''ok''),
           props_differ snapshot ''projectId'' (opt_prop plan ''project'') ''projectId'',
           props_differ snapshot ''workspaceRevision'' (opt_prop plan ''project'') ''workspaceRevision'',
           digest_is_not (opt_prop plan ''contextSnapshotDigest'') (computeM2ExecutionValueDigest E snapshot)])
        ''lifecycle-plan-snapshot:context-identity-mismatch'')"

definition plan_decision_errors :: "js_env \<Rightarrow> jsval \<Rightarrow> jsval \<Rightarrow> string list js" where
  "plan_decision_errors E decision plan =
     (let context = ''lifecycle-plan-snapshot''; identity = opt_prop plan ''identity''
      in collectE
        [Inr (chk (opt_prop decision ''verdict'' \<noteq> JStr ''allow'') (context @ '':governance-not-allow'')),
         chkE (any_js
           [props_differ decision ''lifecycleId'' identity ''lifecycleId'', props_differ decision ''milestoneId'' identity ''milestoneId'',
            props_differ decision ''executionId'' identity ''executionId'', props_differ decision ''runId'' identity ''runId'',
            props_differ decision ''projectId'' (opt_prop plan ''project'') ''projectId'',
            props_differ decision ''requestDigest'' plan ''requestDigest'',
            props_differ decision ''policyDigest'' plan ''governancePolicyDigest'',
            props_differ decision ''baselineDigest'' plan ''governanceBaselineDigest'',
            props_differ decision ''expectedAfterRevision'' plan ''expectedAfterRevision'',
            digest_is_not (opt_prop plan ''governanceDecisionDigest'') (computeM2GovernanceDecisionDigest E decision)])
           (context @ '':governance-decision-mismatch'')])"

definition validateM2LifecyclePlanSnapshotForDecision :: "js_env \<Rightarrow> jsval \<Rightarrow> jsval \<Rightarrow> jsval \<Rightarrow> validation js" where
  "validateM2LifecyclePlanSnapshotForDecision E request decision plan =
     bindE (validateM2LifecyclePlanSnapshotForRequest E request plan) (\<lambda>rp.
     bindE (validateM2GovernanceDecision E decision) (\<lambda>dc.
       when_valid [rp, dc] plan (plan_decision_errors E decision plan)))"

definition approval_plan_errors :: "js_env \<Rightarrow> jsval \<Rightarrow> jsval \<Rightarrow> string list js" where
  "approval_plan_errors E plan approval =
     (let context = ''lifecycle-approval-intent''; project = opt_prop plan ''project''
      in collectE
        [Inr (chk (opt_prop plan ''state'' \<noteq> JStr ''awaiting_approval'') (context @ '':plan-not-awaiting-approval'')),
         chkE (any_js
           [digests_differ E (opt_prop approval ''identity'') (opt_prop plan ''identity''),
            props_differ approval ''planVersion'' plan ''planVersion'',
            digest_is_not (opt_prop approval ''planDigest'') (computeM2LifecyclePlanSnapshotDigest E plan),
            props_differ approval ''requestDigest'' plan ''requestDigest'',
            props_differ approval ''authoritySetDigest'' plan ''authoritySetDigest'',
            props_differ approval ''projectId'' project ''projectId'',
            props_differ approval ''workspaceRevision'' project ''workspaceRevision'',
            props_differ (opt_prop approval ''actor'') ''type'' (opt_prop plan ''actor'') ''type'',
            props_differ (opt_prop approval ''actor'') ''id'' (opt_prop plan ''actor'') ''id''])
           (context @ '':plan-identity-mismatch''),
         Inr (chk (time_of (opt_prop approval ''approvedAt'') > time_of (opt_prop plan ''approvalExpiresAt''))
           (context @ '':plan-expired'')),
         Inr (chk (time_of (opt_prop approval ''expiresAt'') > time_of (opt_prop plan ''approvalExpiresAt''))
           (context @ '':grant-window-exceeds-plan''))])"

definition validateM2LifecycleApprovalIntentForPlan :: "js_env \<Rightarrow> jsval \<Rightarrow> jsval \<Rightarrow> validation js" where
  "validateM2LifecycleApprovalIntentForPlan E plan approval =
     when_valid [validateM2LifecyclePlanSnapshot E plan, validateM2LifecycleApprovalIntent approval] approval
       (approval_plan_errors E plan approval)"

record execution_documents =
  contextSnapshot :: jsval
  plan :: jsval
  approval :: jsval
  request :: jsval
  result :: jsval
  governanceDecision :: jsval
  governanceReceipt :: jsval
  terminal :: jsval

definition terminal_binding_errors :: "js_env \<Rightarrow> execution_documents \<Rightarrow> string list js" where
  "terminal_binding_errors E d =
     (let context = ''lifecycle-terminal-snapshot''; t = terminal d
      in collectE
        [Inr (chk (opt_prop t ''state'' \<noteq> JStr ''succeeded'') (context @ '':execution-evidence-requires-succeeded-state'')),
         Inr (chk (opt_prop (result d) ''terminalStatus'' \<noteq> JStr ''succeeded'') (context @ '':project-change-not-succeeded'')),
         Inr (chk (opt_prop (governanceDecision d) ''verdict'' \<noteq> JStr ''allow'') (context @ '':governance-not-allow'')),
         chkE (any_js
           [digests_differ E (opt_prop t ''identity'') (opt_prop (plan d) ''identity''),
            props_differ t ''planVersion'' (plan d) ''planVersion'',
            digest_is_not (opt_prop t ''planDigest'') (computeM2LifecyclePlanSnapshotDigest E (plan d)),
            digest_is_not (opt_prop t ''approvalIntentDigest'') (computeM2LifecycleApprovalIntentDigest E (approval d)),
            digest_is_not (opt_prop t ''requestDigest'') (computeM2ProjectChangeRequestDigest E (request d)),
            props_differ t ''authoritySetDigest'' (request d) ''authoritySetDigest'',
            props_differ t ''projectId'' (opt_prop (request d) ''project'') ''projectId'',
            props_differ t ''workspaceRevision'' (opt_prop (result d) ''changes'') ''afterRevision'',
            digest_is_not (opt_prop t ''resultDigest'') (computeM2ExecutionValueDigest E (result d)),
            digest_is_not (opt_prop t ''governanceDecisionDigest'') (computeM2GovernanceDecisionDigest E (governanceDecision d)),
            digest_is_not (opt_prop t ''governanceReceiptDigest'') (computeM2GovernanceReceiptDigest E (governanceReceipt d))])
           (context @ '':execution-identity-mismatch''),
         chkE (any_js
           [props_differ (governanceDecision d) ''lifecycleId'' (opt_prop (plan d) ''identity'') ''lifecycleId'',
            props_differ (governanceDecision d) ''milestoneId'' (opt_prop (plan d) ''identity'') ''milestoneId''])
           (context @ '':governance-lifecycle-mismatch'')])"

definition validateM2LifecycleTerminalSnapshotForExecution :: "js_env \<Rightarrow> execution_documents \<Rightarrow> validation js" where
  "validateM2LifecycleTerminalSnapshotForExecution E d =
     bindE (validateM2LifecyclePlanSnapshotForContext E (contextSnapshot d) (plan d)) (\<lambda>pc.
     bindE (validateM2LifecyclePlanSnapshotForDecision E (request d) (governanceDecision d) (plan d)) (\<lambda>pd.
     bindE (validateM2LifecycleApprovalIntentForPlan E (plan d) (approval d)) (\<lambda>ap.
     bindE (validateM2ProjectChangeResultForRequest E (request d) (result d)) (\<lambda>rs.
     bindE (validateM2GovernanceDecision E (governanceDecision d)) (\<lambda>dc.
     let rc = validateM2GovernanceReceipt E (governanceReceipt d)
     in bindE (validateM2GovernanceReceiptForDecision E (request d) (result d) (governanceDecision d) (governanceReceipt d)) (\<lambda>gv.
        when_valid [pc, pd, ap, rs, dc, rc, gv, validateM2LifecycleTerminalSnapshot E (terminal d)] (terminal d)
          (terminal_binding_errors E d)))))))"

definition validateM2LifecycleContract :: "js_env \<Rightarrow> jsval \<Rightarrow> jsval \<Rightarrow> validation" where
  "validateM2LifecycleContract E v expected =
     (let contract = opt_prop v ''contract''
      in if \<not> isPlainRecord v then validationResult [''m2-lifecycle:not-object''] v
         else if expected \<noteq> JNull \<and> \<not> strict_eq contract expected
           then validationResult [''m2-lifecycle:unexpected-contract''] v
         else if contract = JStr ''LifecyclePlanSnapshot'' then validateM2LifecyclePlanSnapshot E v
         else if contract = JStr ''LifecycleApprovalIntent'' then validateM2LifecycleApprovalIntent v
         else if contract = JStr ''LifecycleTerminalSnapshot'' then validateM2LifecycleTerminalSnapshot E v
         else validationResult [''m2-lifecycle:unknown-contract''] v)"

definition encodeM2LifecycleContract :: "js_env \<Rightarrow> jsval \<Rightarrow> jsval \<Rightarrow> string js" where
  "encodeM2LifecycleContract E v expected =
     (let r = validateM2LifecycleContract E v expected
      in if \<not> valid r then Inl (TypeErr (join_with '','' (errors r))) else canonicalizeM2ExecutionValue E v)"

section \<open>Reading an accepted chain\<close>

definition consistent :: "validation \<Rightarrow> bool" where
  "consistent r \<longleftrightarrow> (valid r \<longleftrightarrow> errors r = [])"

lemma consistent_result [simp]: "consistent (validationResult es v)"
  by (simp add: consistent_def)

lemma when_valid_accepted:
  assumes "when_valid rs v checks = Inr r" and "valid r" and "\<forall>x \<in> set rs. consistent x"
  shows "(\<forall>x \<in> set rs. valid x) \<and> checks = Inr []"
proof -
  have all: "\<forall>x \<in> set rs. valid x"
  proof (rule ccontr)
    assume n: "\<not> ?thesis"
    then have "r = validationResult (concat (map errors rs)) v"
      using assms(1) by (auto simp: when_valid_def Let_def list_ex_iff)
    with assms(2) have "\<forall>x \<in> set rs. errors x = []" by simp
    with n assms(3) show False by (auto simp: consistent_def)
  qed
  moreover then have "concat (map errors rs) = []" "\<not> list_ex (\<lambda>r. \<not> valid r) rs"
    using assms(3) by (auto simp: consistent_def list_ex_iff)
  ultimately show ?thesis
    using assms(1,2) by (cases checks) (auto simp: when_valid_def Let_def)
qed

lemma when_valid_consistent:
  assumes "when_valid rs v checks = Inr r"
  shows "consistent r"
  using assms by (cases checks) (auto simp: when_valid_def Let_def split: if_splits)

lemma validations_consistent:
  "consistent (validateM2LifecyclePlanSnapshot E v)" "consistent (validateM2LifecycleApprovalIntent v)"
  "consistent (validateM2LifecycleTerminalSnapshot E v)" "consistent (validateProjectContextSnapshot E v)"
  unfolding validateM2LifecyclePlanSnapshot_def validateM2LifecycleApprovalIntent_def
    validateM2LifecycleTerminalSnapshot_def validateProjectContextSnapshot_def Let_def
  by (cases "isPlainRecord v"; simp only: if_True if_False consistent_result not_True_eq_False not_False_eq_True)+

lemma digest_is_not_False: "digest_is_not stored m = Inr False \<longleftrightarrow> (\<exists>d. m = Inr d \<and> stored = JStr d)"
  by (cases m) (auto simp: digest_is_not_def)

lemma props_differ_False: "props_differ a k b l = Inr False \<longleftrightarrow> strict_eq (opt_prop a k) (opt_prop b l)"
  by (simp add: props_differ_def)

lemma digests_differ_False:
  "digests_differ E a b = Inr False \<longleftrightarrow>
     (\<exists>d. computeM2ExecutionValueDigest E a = Inr d \<and> computeM2ExecutionValueDigest E b = Inr d)"
  by (cases "computeM2ExecutionValueDigest E a"; cases "computeM2ExecutionValueDigest E b")
    (auto simp: digests_differ_def)

lemmas binding_simps = collectE_Nil_iff chkE_Nil_iff any_js_False digest_is_not_False props_differ_False
  digests_differ_False

section \<open>What an accepted approval and an accepted terminal guarantee\<close>

lemma approval_accepted:
  assumes "valid (validateM2LifecycleApprovalIntent v)"
  shows "opt_prop v ''decision'' = JStr ''approve''"
    and "time_of (opt_prop v ''approvedAt'') < time_of (opt_prop v ''expiresAt'')"
proof -
  have rec: "isPlainRecord v"
    by (rule ccontr) (use assms in \<open>simp add: validateM2LifecycleApprovalIntent_def Let_def\<close>)
  with assms have "window_errors (opt_prop v ''approvedAt'') (opt_prop v ''expiresAt'') ''lifecycle-approval-intent''
      '':invalid-approvedAt'' '':invalid-expiresAt'' = []"
    and d: "opt_prop v ''decision'' = JStr ''approve''"
    by (simp_all add: validateM2LifecycleApprovalIntent_def Let_def)
  then show "opt_prop v ''decision'' = JStr ''approve''"
    and "time_of (opt_prop v ''approvedAt'') < time_of (opt_prop v ''expiresAt'')"
    by (auto simp: window_errors_def)
qed

text \<open>
  C18. An approval grants one plan, to its own user, for a limited time. An approval accepted for a
  plan is an explicit approve of a plan that awaits approval; it names the digest of that plan, its
  version, its request, its authority set, its project and its workspace revision, and it was given
  by the actor of the plan. It was given before the plan's approval window closed, and the grant
  lasts some time but not beyond that window.
\<close>

theorem approval_binds_plan:
  assumes "validateM2LifecycleApprovalIntentForPlan E pl ap = Inr r" and "valid r"
  shows "opt_prop ap ''decision'' = JStr ''approve'' \<and> opt_prop pl ''state'' = JStr ''awaiting_approval''
    \<and> computeM2LifecyclePlanSnapshotDigest E pl = Inr (str_of (opt_prop ap ''planDigest''))
    \<and> strict_eq (opt_prop ap ''planVersion'') (opt_prop pl ''planVersion'')
    \<and> strict_eq (opt_prop ap ''requestDigest'') (opt_prop pl ''requestDigest'')
    \<and> strict_eq (opt_prop ap ''authoritySetDigest'') (opt_prop pl ''authoritySetDigest'')
    \<and> strict_eq (opt_prop ap ''workspaceRevision'') (opt_prop (opt_prop pl ''project'') ''workspaceRevision'')
    \<and> strict_eq (opt_prop (opt_prop ap ''actor'') ''id'') (opt_prop (opt_prop pl ''actor'') ''id'')
    \<and> time_of (opt_prop ap ''approvedAt'') < time_of (opt_prop ap ''expiresAt'')
    \<and> time_of (opt_prop ap ''expiresAt'') \<le> time_of (opt_prop pl ''approvalExpiresAt'')"
proof -
  have acc: "valid (validateM2LifecycleApprovalIntent ap)" "approval_plan_errors E pl ap = Inr []"
    using when_valid_accepted [OF assms(1) [unfolded validateM2LifecycleApprovalIntentForPlan_def] assms(2)]
      validations_consistent by auto
  note a = approval_accepted [OF acc(1)]
  have "opt_prop pl ''state'' = JStr ''awaiting_approval''
    \<and> (\<exists>dg. computeM2LifecyclePlanSnapshotDigest E pl = Inr dg \<and> opt_prop ap ''planDigest'' = JStr dg)
    \<and> strict_eq (opt_prop ap ''planVersion'') (opt_prop pl ''planVersion'')
    \<and> strict_eq (opt_prop ap ''requestDigest'') (opt_prop pl ''requestDigest'')
    \<and> strict_eq (opt_prop ap ''authoritySetDigest'') (opt_prop pl ''authoritySetDigest'')
    \<and> strict_eq (opt_prop ap ''workspaceRevision'') (opt_prop (opt_prop pl ''project'') ''workspaceRevision'')
    \<and> strict_eq (opt_prop (opt_prop ap ''actor'') ''id'') (opt_prop (opt_prop pl ''actor'') ''id'')
    \<and> \<not> time_of (opt_prop ap ''expiresAt'') > time_of (opt_prop pl ''approvalExpiresAt'')"
    using acc(2) unfolding approval_plan_errors_def Let_def
    by (simp add: binding_simps)
  with a show ?thesis by auto
qed

lemma result_for_request_succeeds:
  "validateM2ProjectChangeResultForRequest E q w = Inr r \<Longrightarrow> consistent r"
  using binding_result_form consistent_result by blast

lemma execution_accepted:
  assumes "validateM2LifecycleTerminalSnapshotForExecution E d = Inr r" and "valid r"
  obtains pc pd ap rs gv where
    "validateM2LifecyclePlanSnapshotForContext E (contextSnapshot d) (plan d) = Inr pc" "valid pc"
    "validateM2LifecyclePlanSnapshotForDecision E (request d) (governanceDecision d) (plan d) = Inr pd" "valid pd"
    "validateM2LifecycleApprovalIntentForPlan E (plan d) (approval d) = Inr ap" "valid ap"
    "validateM2ProjectChangeResultForRequest E (request d) (result d) = Inr rs" "valid rs"
    "validateM2GovernanceReceiptForDecision E (request d) (result d) (governanceDecision d) (governanceReceipt d) = Inr gv"
    "valid gv" "terminal_binding_errors E d = Inr []"
proof -
  from assms(1) obtain pc pd ap rs dc gv where r:
    "validateM2LifecyclePlanSnapshotForContext E (contextSnapshot d) (plan d) = Inr pc"
    "validateM2LifecyclePlanSnapshotForDecision E (request d) (governanceDecision d) (plan d) = Inr pd"
    "validateM2LifecycleApprovalIntentForPlan E (plan d) (approval d) = Inr ap"
    "validateM2ProjectChangeResultForRequest E (request d) (result d) = Inr rs"
    "validateM2GovernanceDecision E (governanceDecision d) = Inr dc"
    "validateM2GovernanceReceiptForDecision E (request d) (result d) (governanceDecision d) (governanceReceipt d) = Inr gv"
    and w: "when_valid [pc, pd, ap, rs, dc, validateM2GovernanceReceipt E (governanceReceipt d), gv,
        validateM2LifecycleTerminalSnapshot E (terminal d)] (terminal d) (terminal_binding_errors E d) = Inr r"
    unfolding validateM2LifecycleTerminalSnapshotForExecution_def Let_def bindE_Inr_iff by blast
  have c: "consistent pc" "consistent ap"
    using r(1,3) when_valid_consistent
    unfolding validateM2LifecyclePlanSnapshotForContext_def validateM2LifecycleApprovalIntentForPlan_def by blast+
  have c2: "consistent pd"
    using r(2) when_valid_consistent
    unfolding validateM2LifecyclePlanSnapshotForDecision_def bindE_Inr_iff by blast
  have c3: "consistent rs" "consistent dc" "consistent (validateM2GovernanceReceipt E (governanceReceipt d))"
    using result_for_request_succeeds [OF r(4)] decision_result_form [OF r(5)] receipt_result_form consistent_result
    by metis+
  have c4: "consistent gv"
    using r(6) unfolding validateM2GovernanceReceiptForDecision_def Let_def bindE_Inr_iff
    by (auto simp: bindE_Inr_iff split: if_splits)
  have all: "\<forall>x \<in> set [pc, pd, ap, rs, dc, validateM2GovernanceReceipt E (governanceReceipt d), gv,
        validateM2LifecycleTerminalSnapshot E (terminal d)]. consistent x"
    using c c2 c3 c4 validations_consistent(3) [of E "terminal d"] by (simp only: list.set ball_simps)
  note got = when_valid_accepted [OF w assms(2) all]
  show thesis by (rule that) (use r got in auto)
qed

text \<open>
  A success recorded for an execution is backed by the whole chain of authority. When a terminal
  snapshot is accepted for its documents, it is a success of an allowed and succeeded change; it
  carries the digests of exactly the plan, the approval, the request, the result, the governance
  decision and the receipt that were presented; the plan was bound to that context snapshot, to that
  request and to that decision, the approval to that plan; and the workspace revision it reports is
  the one the result produced and the decision committed to.
\<close>

theorem success_backed_by_chain:
  assumes "validateM2LifecycleTerminalSnapshotForExecution E d = Inr r" and "valid r"
  shows "opt_prop (terminal d) ''state'' = JStr ''succeeded''
    \<and> opt_prop (result d) ''terminalStatus'' = JStr ''succeeded''
    \<and> opt_prop (governanceDecision d) ''verdict'' = JStr ''allow''
    \<and> opt_prop (approval d) ''decision'' = JStr ''approve''
    \<and> computeM2LifecyclePlanSnapshotDigest E (plan d) = Inr (str_of (opt_prop (terminal d) ''planDigest''))
    \<and> computeM2LifecyclePlanSnapshotDigest E (plan d) = Inr (str_of (opt_prop (approval d) ''planDigest''))
    \<and> computeM2LifecycleApprovalIntentDigest E (approval d) = Inr (str_of (opt_prop (terminal d) ''approvalIntentDigest''))
    \<and> computeM2ProjectChangeRequestDigest E (request d) = Inr (str_of (opt_prop (terminal d) ''requestDigest''))
    \<and> computeM2ProjectChangeRequestDigest E (request d) = Inr (str_of (opt_prop (plan d) ''requestDigest''))
    \<and> computeM2ExecutionValueDigest E (result d) = Inr (str_of (opt_prop (terminal d) ''resultDigest''))
    \<and> computeM2GovernanceDecisionDigest E (governanceDecision d) = Inr (str_of (opt_prop (plan d) ''governanceDecisionDigest''))
    \<and> computeM2GovernanceDecisionDigest E (governanceDecision d) = Inr (str_of (opt_prop (terminal d) ''governanceDecisionDigest''))
    \<and> computeM2GovernanceReceiptDigest E (governanceReceipt d) = Inr (str_of (opt_prop (terminal d) ''governanceReceiptDigest''))
    \<and> computeM2ExecutionValueDigest E (contextSnapshot d) = Inr (str_of (opt_prop (plan d) ''contextSnapshotDigest''))
    \<and> strict_eq (opt_prop (terminal d) ''workspaceRevision'') (opt_prop (opt_prop (result d) ''changes'') ''afterRevision'')
    \<and> strict_eq (opt_prop (opt_prop (result d) ''changes'') ''afterRevision'') (opt_prop (governanceDecision d) ''expectedAfterRevision'')"
proof -
  obtain pc pd ap rs gv where
    ctx: "validateM2LifecyclePlanSnapshotForContext E (contextSnapshot d) (plan d) = Inr pc" "valid pc" and
    dec: "validateM2LifecyclePlanSnapshotForDecision E (request d) (governanceDecision d) (plan d) = Inr pd" "valid pd" and
    app: "validateM2LifecycleApprovalIntentForPlan E (plan d) (approval d) = Inr ap" "valid ap" and
    gov: "validateM2GovernanceReceiptForDecision E (request d) (result d) (governanceDecision d) (governanceReceipt d) = Inr gv"
      "valid gv" and bind: "terminal_binding_errors E d = Inr []"
    using execution_accepted [OF assms] by metis
  have t: "opt_prop (terminal d) ''state'' = JStr ''succeeded''
    \<and> opt_prop (result d) ''terminalStatus'' = JStr ''succeeded''
    \<and> opt_prop (governanceDecision d) ''verdict'' = JStr ''allow''
    \<and> computeM2LifecyclePlanSnapshotDigest E (plan d) = Inr (str_of (opt_prop (terminal d) ''planDigest''))
    \<and> computeM2LifecycleApprovalIntentDigest E (approval d) = Inr (str_of (opt_prop (terminal d) ''approvalIntentDigest''))
    \<and> computeM2ProjectChangeRequestDigest E (request d) = Inr (str_of (opt_prop (terminal d) ''requestDigest''))
    \<and> computeM2ExecutionValueDigest E (result d) = Inr (str_of (opt_prop (terminal d) ''resultDigest''))
    \<and> computeM2GovernanceDecisionDigest E (governanceDecision d) = Inr (str_of (opt_prop (terminal d) ''governanceDecisionDigest''))
    \<and> computeM2GovernanceReceiptDigest E (governanceReceipt d) = Inr (str_of (opt_prop (terminal d) ''governanceReceiptDigest''))
    \<and> strict_eq (opt_prop (terminal d) ''workspaceRevision'') (opt_prop (opt_prop (result d) ''changes'') ''afterRevision'')"
    using bind unfolding terminal_binding_errors_def Let_def by (auto simp: binding_simps)
  have c: "computeM2ExecutionValueDigest E (contextSnapshot d) = Inr (str_of (opt_prop (plan d) ''contextSnapshotDigest''))"
    using when_valid_accepted [OF ctx(1) [unfolded validateM2LifecyclePlanSnapshotForContext_def] ctx(2)]
      validations_consistent by (auto simp: binding_simps)
  obtain rp dc where rp: "validateM2LifecyclePlanSnapshotForRequest E (request d) (plan d) = Inr rp"
      and dc: "validateM2GovernanceDecision E (governanceDecision d) = Inr dc"
      and w: "when_valid [rp, dc] (plan d) (plan_decision_errors E (governanceDecision d) (plan d)) = Inr pd"
    using dec(1) unfolding validateM2LifecyclePlanSnapshotForDecision_def bindE_Inr_iff by blast
  obtain rq where rq: "validateM2ProjectChangeRequest E (request d) = Inr rq"
      and w2: "when_valid [rq, validateM2LifecyclePlanSnapshot E (plan d)] (plan d) (plan_request_errors E (request d) (plan d)) = Inr rp"
    using rp unfolding validateM2LifecyclePlanSnapshotForRequest_def bindE_Inr_iff by blast
  have cons: "consistent rp" "consistent dc" "consistent rq"
    using when_valid_consistent [OF w2] decision_result_form [OF dc] request_result_form [OF rq] by auto
  have p1: "valid rp" "plan_decision_errors E (governanceDecision d) (plan d) = Inr []"
    using when_valid_accepted [OF w dec(2)] cons by simp_all
  have p2: "plan_request_errors E (request d) (plan d) = Inr []"
    using when_valid_accepted [OF w2 p1(1)] cons validations_consistent by simp
  have q1: "computeM2GovernanceDecisionDigest E (governanceDecision d) = Inr (str_of (opt_prop (plan d) ''governanceDecisionDigest''))"
    using p1(2) unfolding plan_decision_errors_def Let_def by (auto simp: binding_simps)
  have q2: "computeM2ProjectChangeRequestDigest E (request d) = Inr (str_of (opt_prop (plan d) ''requestDigest''))"
    using p2 unfolding plan_request_errors_def Let_def by (auto simp: binding_simps)
  have acc: "valid (validateM2LifecycleApprovalIntent (approval d))" "approval_plan_errors E (plan d) (approval d) = Inr []"
    using when_valid_accepted [OF app(1) [unfolded validateM2LifecycleApprovalIntentForPlan_def] app(2)]
      validations_consistent by auto
  have a1: "computeM2LifecyclePlanSnapshotDigest E (plan d) = Inr (str_of (opt_prop (approval d) ''planDigest''))"
    using acc(2) unfolding approval_plan_errors_def Let_def by (auto simp: binding_simps)
  obtain x y z where "receipt_binding_errors (request d) (result d) (governanceDecision d) (governanceReceipt d) x y z = []"
    using receipt_chain_accepted [OF gov] by metis
  then have "strict_eq (opt_prop (opt_prop (result d) ''changes'') ''afterRevision'') (opt_prop (governanceDecision d) ''expectedAfterRevision'')"
    unfolding receipt_binding_errors_def Let_def by simp
  with t c q1 q2 a1 approval_accepted(1) [OF acc(1)] show ?thesis by blast
qed

end
