(* ===== verification/M2Effect.thy ===== *)
theory M2Effect
  imports M2Execution
begin

text \<open>
  \<open>contracts/m2/effect-v1.js\<close>: the request for one effect on the outside world (a file, a process,
  the network, a repository), the approval grant a user gives for it, and the result it ends with.
  Each validator returns the messages of the source in its order; one that can throw returns an
  exception or the messages. \<open>path\<close> is the POSIX module. The copies this file has of checks in
  \<open>execution-v1.js\<close> and \<open>contracts/m1/shared.js\<close> (exact keys, identifiers, digests, timestamps, sorted
  arrays) are the definitions modelled there.
\<close>

section \<open>Host functions\<close>

text \<open>
  What this contract uses of the host beyond \<^typ>\<open>js_env\<close>: \<open>new URL(text)\<close>, none when it throws;
  \<open>isIP(text) !== 0\<close> of \<open>node:net\<close>; and the decimal text of a number that is not a safe integer.
\<close>

record url =
  protocol :: string
  href :: string
  origin :: string
  credentialed :: bool

record effect_env = js_env +
  parse_url :: "string \<Rightarrow> url option"
  is_ip :: "string \<Rightarrow> bool"
  num_text :: "jsval \<Rightarrow> string"

section \<open>Constants\<close>

definition EFFECT_KINDS :: "string list" where
  "EFFECT_KINDS = [''fs.read'', ''fs.write'', ''fs.delete'', ''process.exec'', ''network.request'', ''git.commit'', ''git.push'']"

definition EFFECT_TERMINAL_STATUSES :: "string list" where
  "EFFECT_TERMINAL_STATUSES = [''succeeded'', ''failed'', ''cancelled'', ''timed_out'', ''killed'', ''orphaned'']"

definition ACTOR_TYPES :: "string list" where
  "ACTOR_TYPES = [''user'', ''system'', ''model'', ''specialist'']"

definition ORIGIN_SURFACES :: "string list" where
  "ORIGIN_SURFACES = [''http'', ''ws'', ''studio'', ''skill'', ''lifecycle'']"

definition PRE_EXECUTION_CODES :: "string list" where
  "PRE_EXECUTION_CODES = [''APPROVAL_GRANT_EXPIRED'', ''APPROVAL_GRANT_REVOKED'']"

definition RISK_BY_KIND :: "(string \<times> string) list" where
  "RISK_BY_KIND = [(''fs.read'', ''read''), (''fs.write'', ''write''), (''fs.delete'', ''destructive''), (''process.exec'', ''exec''),
     (''network.request'', ''network''), (''git.commit'', ''write''), (''git.push'', ''network'')]"

text \<open>What every object inherits: a lookup of one of these names gives a function or an object.\<close>

definition inherited_names :: "string list" where
  "inherited_names = [''constructor'', ''__defineGetter__'', ''__defineSetter__'', ''hasOwnProperty'', ''__lookupGetter__'',
     ''__lookupSetter__'', ''isPrototypeOf'', ''propertyIsEnumerable'', ''toString'', ''valueOf'', ''__proto__'', ''toLocaleString'']"

section \<open>Texts and paths\<close>

definition eff_isNonEmptyString :: "int \<Rightarrow> jsval \<Rightarrow> bool" where
  "eff_isNonEmptyString maximum v = str_sat (\<lambda>s. trim_nonempty s \<and> utf16_length s \<le> maximum) v"

definition isProjectId :: "jsval \<Rightarrow> bool" where
  "isProjectId v = int_ge v 1"

definition eff_isCanonicalAbsolute :: "jsval \<Rightarrow> bool" where
  "eff_isCanonicalAbsolute v = str_sat (\<lambda>s. posix_isAbsolute s \<and> posix_normalize s = s) v"

definition isM2ProjectRelativePath :: "jsval \<Rightarrow> bool" where
  "isM2ProjectRelativePath v =
     (eff_isNonEmptyString 4096 v
      \<and> str_sat (\<lambda>s. \<not> posix_isAbsolute s \<and> CHR 0x5C \<notin> set s \<and> CHR 0x00 \<notin> set s \<and> \<not> ends_with_slash s
          \<and> posix_normalize s = s \<and> s \<noteq> ''.'' \<and> s \<noteq> ''..'' \<and> take 3 s \<noteq> ''../'') v)"

text \<open>\<open>path.resolve(root, p)\<close> of an absolute root, and \<open>path.relative\<close> of two absolute paths.\<close>

definition segments :: "string \<Rightarrow> string list" where
  "segments p = normalize_segments False [] (split_at (CHR ''/'') p)"

definition posix_resolve :: "string \<Rightarrow> string \<Rightarrow> string" where
  "posix_resolve root p = CHR ''/'' # join_with ''/'' (segments (if posix_isAbsolute p then p else root @ ''/'' @ p))"

fun drop_common :: "string list \<Rightarrow> string list \<Rightarrow> string list \<times> string list" where
  "drop_common (x # xs) (y # ys) = (if x = y then drop_common xs ys else (x # xs, y # ys))"
| "drop_common xs ys = (xs, ys)"

definition posix_relative :: "string \<Rightarrow> string \<Rightarrow> string" where
  "posix_relative a b =
     (let (up, down) = drop_common (segments a) (segments b)
      in join_with ''/'' (replicate (length up) ''..'' @ down))"

definition isInside :: "string \<Rightarrow> string \<Rightarrow> bool" where
  "isInside root candidate =
     (let relative = posix_relative root candidate
      in relative \<noteq> [] \<and> relative \<noteq> ''..'' \<and> take 3 relative \<noteq> ''../'' \<and> \<not> posix_isAbsolute relative)"

section \<open>Canonical text\<close>

text \<open>
  \<open>Object.keys(value).sort()\<close> compares UTF-16 units: a four-byte character is a pair of units below
  those of the private-use and compatibility characters.
\<close>

definition unit_rank :: "char \<Rightarrow> nat" where
  "unit_rank c = (let b = (of_char c :: nat) in if b < 238 then b else if 240 \<le> b then b - 2 else b + 16)"

text \<open>
  \<open>result[key] = x\<close> on a fresh object: array indices come first when it is printed, in numeric order,
  and \<open>__proto__\<close> is not a property of it.
\<close>

definition is_index :: "string \<Rightarrow> bool" where
  "is_index k \<longleftrightarrow> k \<noteq> [] \<and> list_all is_digit k \<and> (k = ''0'' \<or> hd k \<noteq> CHR ''0'') \<and> dec_value 0 k < 4294967295"

definition printed_order :: "(string \<times> 'a) list \<Rightarrow> (string \<times> 'a) list" where
  "printed_order kvs =
     sort_key (\<lambda>(k, x). dec_value 0 k) (filter (\<lambda>(k, x). is_index k) kvs)
     @ filter (\<lambda>(k, x). \<not> is_index k \<and> k \<noteq> ''__proto__'') kvs"

lemma object_value_size: "(k, x) \<in> set kvs \<Longrightarrow> size x < size (JObj kvs)"
  by (induction kvs) auto

lemma array_value_size: "x \<in> set xs \<Longrightarrow> size x < size (JArr xs)"
  by (induction xs) auto

function eff_text :: "effect_env \<Rightarrow> jsval \<Rightarrow> string js" where
  "eff_text E v =
     (case v of
        JNull \<Rightarrow> Inr ''null''
      | JStr s \<Rightarrow> Inr (json_quote s)
      | JBool b \<Rightarrow> Inr (if b then ''true'' else ''false'')
      | JInt i \<Rightarrow> Inr (if - MAX_SAFE_INTEGER \<le> i \<and> i \<le> MAX_SAFE_INTEGER then int_to_string i else num_text E v)
      | JNegZero \<Rightarrow> Inr ''0''
      | JFloat m k \<Rightarrow> Inr (num_text E v)
      | JNaN \<Rightarrow> Inl (TypeErr ''m2-effect:non-json-number'')
      | JInf b \<Rightarrow> Inl (TypeErr ''m2-effect:non-json-number'')
      | JArr xs \<Rightarrow> bindE (mapE (eff_text E) xs) (\<lambda>ts. Inr (''['' @ join_with '','' ts @ '']''))
      | JObj kvs \<Rightarrow>
          bindE (mapE (\<lambda>(k, x). bindE (eff_text E x) (\<lambda>t. Inr (k, t))) (sort_key (\<lambda>(k, x). map unit_rank k) kvs))
            (\<lambda>ts. Inr (''{'' @ join_with '','' (map (\<lambda>(k, t). json_quote k @ '':'' @ t) (printed_order ts)) @ ''}''))
      | JUndef \<Rightarrow> Inl (TypeErr ''m2-effect:non-json-value''))"
  by pat_completeness auto
termination
  by (relation "measure (\<lambda>(E, v). size v)") (auto dest: object_value_size array_value_size)

declare eff_text.simps [simp del]

definition canonicalStringify :: "effect_env \<Rightarrow> jsval \<Rightarrow> string js" where
  "canonicalStringify E v = eff_text E v"

definition computeEffectArgvDigest :: "effect_env \<Rightarrow> jsval \<Rightarrow> string js" where
  "computeEffectArgvDigest E argv =
     (if \<not> is_array argv \<or> \<not> list_all is_string (elements argv) then Inl (TypeErr ''m2-effect:invalid-argv'')
      else bindE (canonicalStringify E argv) (\<lambda>t. Inr (''sha256:'' @ sha256 E t)))"

section \<open>Targets\<close>

definition eff_validateActor :: "jsval \<Rightarrow> string list" where
  "eff_validateActor v =
     (let context = ''effect-request.actor''; errors = validateExactKeys v [''type'', ''id''] [] context
      in if \<not> isPlainRecord v then errors
         else errors
           @ chk (\<not> str_in (opt_prop v ''type'') ACTOR_TYPES) (context @ '':invalid-type'')
           @ chk (\<not> isIdentifier (opt_prop v ''id'')) (context @ '':invalid-id''))"

definition eff_validateOrigin :: "jsval \<Rightarrow> string list" where
  "eff_validateOrigin v =
     (let context = ''effect-request.origin'';
          errors = validateExactKeys v [''surface'', ''sessionId'', ''conversationId'', ''projectId''] [] context
      in if \<not> isPlainRecord v then errors
         else errors
           @ chk (\<not> str_in (opt_prop v ''surface'') ORIGIN_SURFACES) (context @ '':invalid-surface'')
           @ concat (map (\<lambda>k. chk (\<not> null_or isIdentifier (opt_prop v k)) (context @ '':invalid-'' @ k)) [''sessionId'', ''conversationId''])
           @ chk (\<not> isProjectId (opt_prop v ''projectId'')) (context @ '':invalid-projectId''))"

definition validateFilesystemTarget :: "jsval \<Rightarrow> string list" where
  "validateFilesystemTarget v =
     (let context = ''effect-request.target'';
          errors = validateExactKeys v [''type'', ''canonicalRoot'', ''relativePath'', ''resolvedRealpath''] [] context;
          root = opt_prop v ''canonicalRoot''; rel = opt_prop v ''relativePath''; real = opt_prop v ''resolvedRealpath''
      in if \<not> isPlainRecord v then errors
         else errors
           @ chk (opt_prop v ''type'' \<noteq> JStr ''filesystem'') (context @ '':invalid-type'')
           @ chk (\<not> eff_isCanonicalAbsolute root) (context @ '':invalid-canonicalRoot'')
           @ chk (\<not> isM2ProjectRelativePath rel) (context @ '':invalid-relativePath'')
           @ chk (\<not> eff_isCanonicalAbsolute real) (context @ '':invalid-resolvedRealpath'')
           @ chk (eff_isCanonicalAbsolute root \<and> eff_isCanonicalAbsolute real \<and> \<not> isInside (str_of root) (str_of real))
               (context @ '':outside-project'')
           @ chk (eff_isCanonicalAbsolute root \<and> isM2ProjectRelativePath rel \<and> eff_isCanonicalAbsolute real
                  \<and> posix_resolve (str_of root) (str_of rel) \<noteq> str_of real) (context @ '':canonical-target-mismatch''))"

definition validateProcessTarget :: "effect_env \<Rightarrow> jsval \<Rightarrow> string list js" where
  "validateProcessTarget E v =
     (let context = ''effect-request.target'';
          errors = validateExactKeys v [''type'', ''binary'', ''argv'', ''argvDigest'', ''canonicalCwd''] [] context;
          argv = opt_prop v ''argv''
      in if \<not> isPlainRecord v then Inr errors
         else bindE
           (if \<not> is_array argv \<or> \<not> list_all is_string (elements argv) then Inr [context @ '':invalid-argv'']
            else bindE (computeEffectArgvDigest E argv)
              (\<lambda>d. Inr (chk (opt_prop v ''argvDigest'' \<noteq> JStr d) (context @ '':argvDigest-mismatch''))))
           (\<lambda>argv_errors. Inr (errors
              @ chk (opt_prop v ''type'' \<noteq> JStr ''process'') (context @ '':invalid-type'')
              @ chk (\<not> eff_isCanonicalAbsolute (opt_prop v ''binary'')) (context @ '':invalid-binary'')
              @ argv_errors
              @ chk (\<not> isDigest (opt_prop v ''argvDigest'')) (context @ '':invalid-argvDigest'')
              @ chk (\<not> eff_isCanonicalAbsolute (opt_prop v ''canonicalCwd'')) (context @ '':invalid-canonicalCwd''))))"

text \<open>
  \<open>String(v)\<close>, as \<open>new URL\<close> converts its argument; an object whose own \<open>toString\<close> is not a function
  has no text.
\<close>

function js_string :: "effect_env \<Rightarrow> jsval \<Rightarrow> string js" where
  "js_string E v =
     (case v of
        JUndef \<Rightarrow> Inr ''undefined''
      | JNull \<Rightarrow> Inr ''null''
      | JBool b \<Rightarrow> Inr (if b then ''true'' else ''false'')
      | JInt i \<Rightarrow> Inr (if - MAX_SAFE_INTEGER \<le> i \<and> i \<le> MAX_SAFE_INTEGER then int_to_string i else num_text E v)
      | JNegZero \<Rightarrow> Inr ''0''
      | JFloat m k \<Rightarrow> Inr (num_text E v)
      | JNaN \<Rightarrow> Inr ''NaN''
      | JInf b \<Rightarrow> Inr (if b then ''Infinity'' else ''-Infinity'')
      | JStr s \<Rightarrow> Inr s
      | JArr xs \<Rightarrow> bindE (mapE (\<lambda>x. if x = JNull \<or> x = JUndef then Inr [] else js_string E x) xs) (\<lambda>ts. Inr (join_with '','' ts))
      | JObj kvs \<Rightarrow> if ''toString'' \<in> fst ` set kvs then Inl (TypeErr ''cannot convert object to primitive value'')
                    else Inr ''[object Object]'')"
  by pat_completeness auto
termination by (relation "measure (\<lambda>(E, v). size v)") (auto dest: array_value_size)

declare js_string.simps [simp del]

text \<open>\<open>new URL(v)\<close>\<close>

definition new_URL :: "effect_env \<Rightarrow> jsval \<Rightarrow> url option" where
  "new_URL E v = (case js_string E v of Inl _ \<Rightarrow> None | Inr s \<Rightarrow> parse_url E s)"

definition validateNormalizedHttpUrl :: "effect_env \<Rightarrow> jsval \<Rightarrow> string \<Rightarrow> string \<Rightarrow> string list" where
  "validateNormalizedHttpUrl E v context fld =
     (case new_URL E v of
        None \<Rightarrow> [context @ '':invalid-'' @ fld]
      | Some parsed \<Rightarrow>
          chk (protocol parsed \<notin> set [''http:'', ''https:'']) (context @ '':invalid-protocol'')
          @ chk (credentialed parsed) (context @ '':credentialed-'' @ fld)
          @ chk (v \<noteq> JStr (href parsed)) (context @ '':'' @ fld @ ''-not-normalized''))"

definition validateNetworkTarget :: "effect_env \<Rightarrow> jsval \<Rightarrow> string list" where
  "validateNetworkTarget E v =
     (let context = ''effect-request.target'';
          errors = validateExactKeys v [''type'', ''url'', ''origin'', ''method'', ''redirectPolicy'', ''dnsPolicy''] [] context
      in if \<not> isPlainRecord v then errors
         else errors
           @ chk (opt_prop v ''type'' \<noteq> JStr ''network'') (context @ '':invalid-type'')
           @ validateNormalizedHttpUrl E (opt_prop v ''url'') context ''url''
           @ (case new_URL E (opt_prop v ''url'') of None \<Rightarrow> []
              | Some u \<Rightarrow> chk (opt_prop v ''origin'' \<noteq> JStr (origin u)) (context @ '':origin-mismatch''))
           @ chk (\<not> eff_isNonEmptyString 4096 (opt_prop v ''origin'')) (context @ '':invalid-origin'')
           @ chk (\<not> str_in (opt_prop v ''method'') [''GET'', ''HEAD'', ''POST'', ''PUT'', ''PATCH'', ''DELETE'']) (context @ '':invalid-method'')
           @ chk (\<not> str_in (opt_prop v ''redirectPolicy'') [''deny'', ''same-origin'', ''revalidate'']) (context @ '':invalid-redirectPolicy'')
           @ chk (\<not> str_in (opt_prop v ''dnsPolicy'') [''public-only'', ''loopback-only'']) (context @ '':invalid-dnsPolicy''))"

definition validateGitTarget :: "jsval \<Rightarrow> string \<Rightarrow> jsval \<Rightarrow> string list" where
  "validateGitTarget v kind workspaceRevision =
     (let context = ''effect-request.target'';
          errors = validateExactKeys v [''type'', ''canonicalRepo'', ''paths'', ''expectedWorkspaceRevision'', ''remote''] [] context
      in if \<not> isPlainRecord v then errors
         else errors
           @ chk (opt_prop v ''type'' \<noteq> JStr ''git'') (context @ '':invalid-type'')
           @ chk (\<not> eff_isCanonicalAbsolute (opt_prop v ''canonicalRepo'')) (context @ '':invalid-canonicalRepo'')
           @ validateSortedUniqueStrings (opt_prop v ''paths'') (context @ ''.paths'') isM2ProjectRelativePath
           @ chk (length_sat (\<lambda>n. n = 0) (opt_prop v ''paths'')) (context @ ''.paths:empty'')
           @ chk (\<not> strict_eq (opt_prop v ''expectedWorkspaceRevision'') workspaceRevision) (context @ '':workspace-revision-mismatch'')
           @ chk (kind = ''git.commit'' \<and> opt_prop v ''remote'' \<noteq> JNull) (context @ '':remote-on-commit'')
           @ chk (kind = ''git.push'' \<and> \<not> eff_isNonEmptyString 256 (opt_prop v ''remote'')) (context @ '':missing-remote''))"

text \<open>\<open>kind?.startsWith\<close>: not there on null and undefined, not a function on a value that is not a string.\<close>

definition validateTarget :: "effect_env \<Rightarrow> jsval \<Rightarrow> jsval \<Rightarrow> jsval \<Rightarrow> string list js" where
  "validateTarget E v kind workspaceRevision =
     (case kind of
        JStr k \<Rightarrow>
          if take 3 k = ''fs.'' then Inr (validateFilesystemTarget v)
          else if k = ''process.exec'' then validateProcessTarget E v
          else if k = ''network.request'' then Inr (validateNetworkTarget E v)
          else if take 4 k = ''git.'' then Inr (validateGitTarget v k workspaceRevision)
          else Inr [''effect-request.target:unknown-kind'']
      | JNull \<Rightarrow> Inr [''effect-request.target:unknown-kind'']
      | JUndef \<Rightarrow> Inr [''effect-request.target:unknown-kind'']
      | _ \<Rightarrow> Inl (TypeErr ''kind.startsWith is not a function''))"

section \<open>\<open>validateEffectRequest\<close>\<close>

text \<open>\<open>RISK_BY_KIND[kind] !== riskClass\<close>, reached with a string, null or undefined.\<close>

definition risk_mismatch :: "jsval \<Rightarrow> jsval \<Rightarrow> bool" where
  "risk_mismatch kind risk =
     (case map_of RISK_BY_KIND (str_of kind) of
        Some r \<Rightarrow> risk \<noteq> JStr r
      | None \<Rightarrow> risk \<noteq> JUndef \<or> str_in kind inherited_names)"

definition validateEffectRequest :: "effect_env \<Rightarrow> jsval \<Rightarrow> validation js" where
  "validateEffectRequest E v =
     (let context = ''effect-request'';
          errors = validateExactKeys v [''contract'', ''version'', ''effectId'', ''runId'', ''parentEffectId'', ''actor'', ''origin'',
            ''kind'', ''target'', ''payloadDigest'', ''workspaceRevision'', ''requiredCapability'', ''payloadBytes'', ''riskClass'',
            ''timeoutMs'', ''idempotencyKey'', ''approvalGrantId'', ''createdAt''] [] context
      in if \<not> isPlainRecord v then Inr (validationResult errors v)
         else bindE (validateTarget E (opt_prop v ''target'') (opt_prop v ''kind'') (opt_prop v ''workspaceRevision''))
           (\<lambda>target_errors. Inr (validationResult (errors
              @ chk (opt_prop v ''contract'' \<noteq> JStr ''EffectRequest'') (context @ '':invalid-contract'')
              @ chk (opt_prop v ''version'' \<noteq> JInt 1) (context @ '':invalid-version'')
              @ concat (map (\<lambda>k. chk (\<not> isIdentifier (opt_prop v k)) (context @ '':invalid-'' @ k)) [''effectId'', ''runId'', ''idempotencyKey''])
              @ chk (\<not> null_or isIdentifier (opt_prop v ''parentEffectId'')) (context @ '':invalid-parentEffectId'')
              @ chk (strict_eq (opt_prop v ''parentEffectId'') (opt_prop v ''effectId'')) (context @ '':self-parent'')
              @ eff_validateActor (opt_prop v ''actor'')
              @ eff_validateOrigin (opt_prop v ''origin'')
              @ chk (\<not> str_in (opt_prop v ''kind'') EFFECT_KINDS) (context @ '':invalid-kind'')
              @ target_errors
              @ chk (\<not> isDigest (opt_prop v ''payloadDigest'')) (context @ '':invalid-payloadDigest'')
              @ chk (\<not> int_ge (opt_prop v ''payloadBytes'') 0) (context @ '':invalid-payloadBytes'')
              @ chk (\<not> eff_isNonEmptyString 256 (opt_prop v ''workspaceRevision'')) (context @ '':invalid-workspaceRevision'')
              @ chk (\<not> isIdentifier (opt_prop v ''requiredCapability'')) (context @ '':invalid-requiredCapability'')
              @ chk (risk_mismatch (opt_prop v ''kind'') (opt_prop v ''riskClass'')) (context @ '':risk-kind-mismatch'')
              @ chk (\<not> int_in (opt_prop v ''timeoutMs'') 1 86400000) (context @ '':invalid-timeoutMs'')
              @ chk (\<not> null_or isIdentifier (opt_prop v ''approvalGrantId'')) (context @ '':invalid-approvalGrantId'')
              @ chk (\<not> isCanonicalTimestamp (opt_prop v ''createdAt'')) (context @ '':invalid-createdAt'')) v)))"

text \<open>\<open>{ ...request, approvalGrantId: null }\<close>; of a string nothing is spread, it is no request either way.\<close>

definition without_grant :: "jsval \<Rightarrow> jsval" where
  "without_grant request =
     JObj (AList.update ''approvalGrantId'' JNull
       (case request of JObj kvs \<Rightarrow> kvs | JArr xs \<Rightarrow> map (\<lambda>(i, x). (dec_digits i, x)) (enumerate 0 xs) | _ \<Rightarrow> []))"

definition computeEffectRequestDigest :: "effect_env \<Rightarrow> jsval \<Rightarrow> string js" where
  "computeEffectRequestDigest E request =
     (let normalized = without_grant request
      in bindE (validateEffectRequest E normalized) (\<lambda>r.
           if \<not> valid r then Inl (TypeErr (''m2-effect:invalid-request-for-digest:'' @ join_with '','' (errors r)))
           else bindE (canonicalStringify E normalized) (\<lambda>t. Inr (''sha256:'' @ sha256 E t))))"

end
