(* ===== verification/M2ExecutionV2.thy ===== *)
theory M2ExecutionV2
  imports M2Governance M2Effect JsText
begin

text \<open>
  \<open>contracts/m2/execution-v2.js\<close>: the second version of the execution contract. A request may
  run its focused test against a private loopback server; the network policy it then carries pins
  the firewall rules, the system call filter and the five programs involved, each by path, bytes,
  digest, device and inode. A version 2 document is checked through its version 1 projection, and
  the process effect of the test is bound to the exact payload bytes. Names that the file shares with
  version 1 carry the prefix \<open>v2_\<close>.
\<close>

section \<open>The firewall rules\<close>

definition M2_PRIVATE_HTTP_PROFILE :: string where
  "M2_PRIVATE_HTTP_PROFILE = ''linux-bwrap-private-loopback-v1''"

definition M2_PRIVATE_HTTP_SECCOMP_DIGEST :: string where
  "M2_PRIVATE_HTTP_SECCOMP_DIGEST =
     ''sha256:fa6f3187520a32137dee66714b41ae11feeb162b7239e58adedb31e5a0ecc91a''"

text \<open>\<open>s.replaceAll(pattern, r)\<close> for a pattern of two characters.\<close>

fun replace_pair :: "char \<Rightarrow> char \<Rightarrow> string \<Rightarrow> string \<Rightarrow> string" where
  "replace_pair a b r (x # y # s) =
     (if x = a \<and> y = b then r @ replace_pair a b r s else x # replace_pair a b r (y # s))"
| "replace_pair a b r s = s"

text \<open>The lines of the template; the interface names stand between double quotes.\<close>

definition quoted_lo :: string where
  "quoted_lo = CHR 0x22 # ''lo'' @ [CHR 0x22]"

definition NFT_TEMPLATE :: string where
  "NFT_TEMPLATE = join_with [CHR 0x0A]
     [''table inet intentsmith_m2_probe {'',
      '' chain input { type filter hook input priority 0; policy drop;'',
      ''  iifname '' @ quoted_lo @ '' ip saddr 127.0.0.1 ip daddr 127.0.0.1 tcp dport %u ct state { new, established } accept'',
      ''  iifname '' @ quoted_lo @ '' ip saddr 127.0.0.1 ip daddr 127.0.0.1 tcp sport %u ct state established ct direction reply accept'',
      '' }'',
      '' chain output { type filter hook output priority 0; policy drop;'',
      ''  oifname '' @ quoted_lo @ '' ip saddr 127.0.0.1 ip daddr 127.0.0.1 tcp dport %u ct state { new, established } accept'',
      ''  oifname '' @ quoted_lo @ '' ip saddr 127.0.0.1 ip daddr 127.0.0.1 tcp sport %u ct state established ct direction reply accept'',
      '' }'',
      ''}'']"

definition formatM2PrivateHttpNftRules :: "jsval \<Rightarrow> string js" where
  "formatM2PrivateHttpNftRules port =
     (case safe_int port of
        None \<Rightarrow> Inl (TypeErr ''m2-private-http-policy:invalid-port'')
      | Some p \<Rightarrow>
          if p < 1024 \<or> p > 65535 then Inl (TypeErr ''m2-private-http-policy:invalid-port'')
          else Inr (replace_pair (CHR ''%'') (CHR ''u'') (int_to_string p) NFT_TEMPLATE))"

definition computeM2PrivateHttpNftRulesDigest :: "js_env \<Rightarrow> jsval \<Rightarrow> string js" where
  "computeM2PrivateHttpNftRulesDigest E port =
     bindE (formatM2PrivateHttpNftRules port) (\<lambda>t. Inr (''sha256:'' @ sha256 E t))"

section \<open>The network policy\<close>

definition ARTIFACTS :: "string list" where
  "ARTIFACTS = [''launcher'', ''ip'', ''nft'', ''runtimeExecutable'', ''oracle'']"

definition absolute_path :: "js_env \<Rightarrow> jsval \<Rightarrow> bool" where
  "absolute_path E v =
     str_sat (\<lambda>s. s = nfc E s \<and> length s \<le> 4096 \<and> CHR 0x00 \<notin> set s \<and> posix_isAbsolute s \<and> s \<noteq> ''/''
       \<and> posix_resolve [] s = s) v"

text \<open>\<open>/^(?:0|[1-9][0-9]{0,19})$/\<close> and the value below 2 ^ 64.\<close>

definition uint64_text :: "bool \<Rightarrow> string \<Rightarrow> bool" where
  "uint64_text pos s =
     (s \<noteq> [] \<and> list_all is_digit s \<and> (s = ''0'' \<or> (hd s \<noteq> CHR ''0'' \<and> length s \<le> 20))
      \<and> dec_value 0 s \<le> 2 ^ 64 - 1 \<and> (pos \<longrightarrow> 0 < dec_value 0 s))"

definition uint64 :: "bool \<Rightarrow> jsval \<Rightarrow> bool" where
  "uint64 pos v = str_sat (uint64_text pos) v"

definition artifactErrors :: "js_env \<Rightarrow> jsval \<Rightarrow> string \<Rightarrow> string list" where
  "artifactErrors E v context =
     (let errors = validateExactKeys v [''canonicalPath'', ''bytes'', ''digest'', ''device'', ''inode''] [] context
      in if \<not> isPlainRecord v then errors
         else errors
           @ chk (\<not> absolute_path E (opt_prop v ''canonicalPath'')) (context @ '':invalid-canonicalPath'')
           @ chk (\<not> int_in (opt_prop v ''bytes'') 1 1073741824) (context @ '':invalid-bytes'')
           @ chk (\<not> isDigest (opt_prop v ''digest'')) (context @ '':invalid-digest'')
           @ chk (\<not> uint64 False (opt_prop v ''device'')) (context @ '':invalid-device'')
           @ chk (\<not> uint64 True (opt_prop v ''inode'')) (context @ '':invalid-inode''))"

definition artifact_path :: "jsval \<Rightarrow> string \<Rightarrow> jsval" where
  "artifact_path artifacts key = opt_prop (opt_prop artifacts key) ''canonicalPath''"

definition endpoint_errors :: "js_env \<Rightarrow> jsval \<Rightarrow> string list" where
  "endpoint_errors E v =
     (let context = ''m2-private-http-policy''; endpoint = opt_prop v ''endpoint''; port = opt_prop endpoint ''port''
      in validateExactKeys endpoint [''family'', ''transport'', ''address'', ''port''] [] (context @ ''.endpoint'')
         @ (if isPlainRecord endpoint then
              chk (opt_prop endpoint ''family'' \<noteq> JStr ''ipv4'' \<or> opt_prop endpoint ''transport'' \<noteq> JStr ''tcp''
                   \<or> opt_prop endpoint ''address'' \<noteq> JStr ''127.0.0.1'') (context @ '':unsupported-endpoint'')
              @ chk (\<not> int_in port 1024 65535) (context @ '':invalid-port'')
            else [])
         @ concat (map (\<lambda>k. chk (\<not> isDigest (opt_prop v k)) (context @ '':invalid-'' @ k))
             [''nftRulesDigest'', ''seccompProgramDigest''])
         @ (if int_in port 1024 65535 then
              (case computeM2PrivateHttpNftRulesDigest E port of
                 Inl _ \<Rightarrow> []
               | Inr d \<Rightarrow> chk (opt_prop v ''nftRulesDigest'' \<noteq> JStr d) (context @ '':nft-rules-digest-mismatch''))
            else [])
         @ chk (opt_prop v ''seccompProgramDigest'' \<noteq> JStr M2_PRIVATE_HTTP_SECCOMP_DIGEST)
             (context @ '':seccomp-program-digest-mismatch''))"

definition policy_artifact_errors :: "js_env \<Rightarrow> jsval \<Rightarrow> string list" where
  "policy_artifact_errors E v =
     (let context = ''m2-private-http-policy''; artifacts = opt_prop v ''artifacts''
      in validateExactKeys artifacts ARTIFACTS [] (context @ ''.artifacts'')
         @ (if isPlainRecord artifacts then
              concat (map (\<lambda>k. artifactErrors E (opt_prop artifacts k) (context @ ''.artifacts.'' @ k)) ARTIFACTS)
              @ chk (artifact_path artifacts ''ip'' \<noteq> JStr ''/usr/bin/ip''
                     \<or> artifact_path artifacts ''nft'' \<noteq> JStr ''/usr/sbin/nft'') (context @ '':setup-tool-path-mismatch'')
              @ chk (\<not> all_different (map (artifact_path artifacts) ARTIFACTS)) (context @ '':artifact-path-reused'')
            else []))"

definition validateM2PrivateHttpNetworkPolicy :: "js_env \<Rightarrow> jsval \<Rightarrow> validation" where
  "validateM2PrivateHttpNetworkPolicy E v =
     (let context = ''m2-private-http-policy'';
          errors = validateExactKeys v [''contract'', ''version'', ''profile'', ''architecture'', ''endpoint'',
            ''minimumLandlockAbi'', ''nftRulesDigest'', ''seccompProgramDigest'', ''artifacts''] [] context
      in if \<not> isPlainRecord v then validationResult errors v
         else validationResult (errors
           @ chk (opt_prop v ''contract'' \<noteq> JStr ''M2PrivateHttpNetworkPolicy'') (context @ '':invalid-contract'')
           @ chk (opt_prop v ''version'' \<noteq> JInt 1) (context @ '':invalid-version'')
           @ chk (opt_prop v ''profile'' \<noteq> JStr M2_PRIVATE_HTTP_PROFILE) (context @ '':invalid-profile'')
           @ chk (opt_prop v ''architecture'' \<noteq> JStr ''x64'') (context @ '':unsupported-architecture'')
           @ chk (opt_prop v ''minimumLandlockAbi'' \<noteq> JInt 4) (context @ '':invalid-minimumLandlockAbi'')
           @ endpoint_errors E v
           @ policy_artifact_errors E v) v)"

definition computeM2PrivateHttpNetworkPolicyDigest :: "js_env \<Rightarrow> jsval \<Rightarrow> string js" where
  "computeM2PrivateHttpNetworkPolicyDigest E v = digest_if_valid E (validateM2PrivateHttpNetworkPolicy E v) v"

section \<open>The projection to version 1\<close>

text \<open>\<open>const { a, b, ...rest } = value\<close>\<close>

definition without_keys :: "string list \<Rightarrow> (string \<times> jsval) list \<Rightarrow> (string \<times> jsval) list" where
  "without_keys ks kvs = filter (\<lambda>(k, x). k \<notin> set ks) kvs"

definition object_fields :: "jsval \<Rightarrow> (string \<times> jsval) list" where
  "object_fields v = (case v of JObj kvs \<Rightarrow> kvs | _ \<Rightarrow> [])"

definition requestBase :: "jsval \<Rightarrow> jsval" where
  "requestBase v =
     (let focused = opt_prop v ''focusedTest''
      in if \<not> isPlainRecord v then v
         else if \<not> isPlainRecord focused then JObj (spread (object_fields v) [(''version'', JInt 1)])
         else JObj (spread (object_fields v)
           [(''version'', JInt 1),
            (''focusedTest'', JObj (spread (without_keys [''networkPolicy'', ''networkPolicyDigest''] (object_fields focused))
               [(''sandboxProfile'', JStr ''linux-bwrap-ro-v2'')]))]))"

definition resultBase :: "jsval \<Rightarrow> jsval" where
  "resultBase v =
     (let focused = opt_prop v ''focusedTest''
      in if \<not> isPlainRecord v then v
         else if \<not> isPlainRecord focused then JObj (spread (object_fields v) [(''version'', JInt 1)])
         else JObj (spread (object_fields v)
           [(''version'', JInt 1),
            (''focusedTest'', JObj (without_keys [''sandboxProfile'', ''networkPolicyDigest''] (object_fields focused)))]))"

text \<open>\<open>v?.[0]\<close>\<close>

definition first_item :: "jsval \<Rightarrow> jsval" where
  "first_item v =
     (case v of
        JArr (x # _) \<Rightarrow> x
      | JStr s \<Rightarrow> (case utf8_chars s of [] \<Rightarrow> JUndef | w # _ \<Rightarrow> JStr w)
      | JObj _ \<Rightarrow> opt_prop v ''0''
      | _ \<Rightarrow> JUndef)"

definition inside_root :: "string \<Rightarrow> string \<Rightarrow> bool" where
  "inside_root root p \<longleftrightarrow> p = root \<or> take (length root + 1) p = root @ ''/''"

definition focusedPolicyErrors :: "js_env \<Rightarrow> jsval \<Rightarrow> string \<Rightarrow> jsval \<Rightarrow> string list js" where
  "focusedPolicyErrors E v context root =
     (let network = opt_prop v ''networkPolicy''; policy = validateM2PrivateHttpNetworkPolicy E network;
          errs = errors policy
            @ chk (opt_prop v ''sandboxProfile'' \<noteq> JStr M2_PRIVATE_HTTP_PROFILE) (context @ '':invalid-sandboxProfile'')
            @ chk (\<not> isDigest (opt_prop v ''networkPolicyDigest'')) (context @ '':invalid-networkPolicyDigest'');
          artifacts = opt_prop network ''artifacts''
      in if \<not> isPlainRecord v then Inr []
         else if \<not> valid policy then Inr errs
         else bindE (computeM2PrivateHttpNetworkPolicyDigest E network) (\<lambda>d. Inr (errs
           @ chk (opt_prop v ''networkPolicyDigest'' \<noteq> JStr d) (context @ '':network-policy-digest-mismatch'')
           @ chk (\<not> strict_eq (opt_prop v ''binary'') (artifact_path artifacts ''runtimeExecutable'')
                  \<or> \<not> strict_eq (first_item (opt_prop v ''argv'')) (artifact_path artifacts ''oracle''))
               (context @ '':trusted-command-mismatch'')
           @ chk (str_sat (\<lambda>r. list_ex (\<lambda>k. inside_root r (str_of (artifact_path artifacts k))) ARTIFACTS) root)
               (context @ '':trusted-artifact-inside-project''))))"

section \<open>Requests and results\<close>

definition FOCUSED_KEYS :: "string list" where
  "FOCUSED_KEYS = [''authority'', ''binary'', ''argv'', ''argvDigest'', ''canonicalCwd'', ''environmentDigest'',
     ''timeoutMs'', ''expectedExitCode'', ''sandboxProfile'', ''networkPolicy'', ''networkPolicyDigest'']"

definition RESULT_FOCUSED_KEYS :: "string list" where
  "RESULT_FOCUSED_KEYS = [''effectId'', ''terminalStatus'', ''exitCode'', ''signal'', ''stdoutDigest'', ''stderrDigest'',
     ''outputTruncated'', ''sandboxProfile'', ''networkPolicyDigest'']"

definition versionError :: "jsval \<Rightarrow> string \<Rightarrow> validation" where
  "versionError v context = validationResult [context @ '':unsupported-version''] v"

definition v2_validateM2ProjectChangeRequest :: "js_env \<Rightarrow> jsval \<Rightarrow> validation js" where
  "v2_validateM2ProjectChangeRequest E v =
     (let context = ''project-change-request.focusedTest''; focused = opt_prop v ''focusedTest''
      in if opt_prop v ''version'' = JInt 1 then validateM2ProjectChangeRequest E v
         else if opt_prop v ''version'' \<noteq> JInt 2 then Inr (versionError v ''project-change-request'')
         else bindE (validateM2ProjectChangeRequest E (requestBase v)) (\<lambda>r.
              bindE (focusedPolicyErrors E focused context (opt_prop (opt_prop v ''project'') ''canonicalRoot'')) (\<lambda>es.
                Inr (validationResult (errors r @ validateExactKeys focused FOCUSED_KEYS [] context @ es) v))))"

definition v2_computeM2ProjectChangeRequestDigest :: "js_env \<Rightarrow> jsval \<Rightarrow> string js" where
  "v2_computeM2ProjectChangeRequestDigest E v =
     (if opt_prop v ''version'' = JInt 1 then computeM2ProjectChangeRequestDigest E v
      else bindE (v2_validateM2ProjectChangeRequest E v) (\<lambda>r. digest_if_valid E r v))"

definition v2_validateM2ProjectChangeResult :: "js_env \<Rightarrow> jsval \<Rightarrow> validation" where
  "v2_validateM2ProjectChangeResult E v =
     (let context = ''project-change-result''; focused = opt_prop v ''focusedTest''
      in if opt_prop v ''version'' = JInt 1 then validateM2ProjectChangeResult E v
         else if opt_prop v ''version'' \<noteq> JInt 2 then versionError v context
         else validationResult (errors (validateM2ProjectChangeResult E (resultBase v))
           @ validateExactKeys focused RESULT_FOCUSED_KEYS [] (context @ ''.focusedTest'')
           @ chk (opt_prop focused ''sandboxProfile'' \<noteq> JStr M2_PRIVATE_HTTP_PROFILE) (context @ '':invalid-sandboxProfile'')
           @ chk (\<not> isDigest (opt_prop focused ''networkPolicyDigest'')) (context @ '':invalid-networkPolicyDigest'')) v)"

definition network_binding_errors :: "jsval \<Rightarrow> jsval \<Rightarrow> string \<Rightarrow> string list" where
  "network_binding_errors request result requestDigest =
     (let context = ''project-change-result''; rf = opt_prop result ''focusedTest''; qf = opt_prop request ''focusedTest''
      in chk (opt_prop result ''requestDigest'' \<noteq> JStr requestDigest) (context @ '':request-identity-mismatch'')
         @ chk (\<not> same_props rf qf [''networkPolicyDigest'', ''sandboxProfile'']) (context @ '':network-policy-mismatch''))"

definition v2_validateM2ProjectChangeResultForRequest :: "js_env \<Rightarrow> jsval \<Rightarrow> jsval \<Rightarrow> validation js" where
  "v2_validateM2ProjectChangeResultForRequest E request result =
     (let qv = opt_prop request ''version''; rv = opt_prop result ''version''
      in if qv = JInt 1 \<and> rv = JInt 1 then validateM2ProjectChangeResultForRequest E request result
         else bindE (v2_validateM2ProjectChangeRequest E request) (\<lambda>rq.
           let errs = errors rq @ errors (v2_validateM2ProjectChangeResult E result)
                 @ chk (qv \<noteq> JInt 2 \<or> rv \<noteq> JInt 2) ''project-change-result:mixed-execution-versions'';
               base = requestBase request
           in if errs \<noteq> [] then Inr (validationResult errs result)
              else bindE (computeM2ProjectChangeRequestDigest E base) (\<lambda>bd.
                   bindE (validateM2ProjectChangeResultForRequest E base
                            (JObj (spread (object_fields (resultBase result)) [(''requestDigest'', JStr bd)]))) (\<lambda>r.
                   bindE (v2_computeM2ProjectChangeRequestDigest E request) (\<lambda>d.
                     Inr (validationResult (errors r @ network_binding_errors request result d) result))))))"

section \<open>The process effect of the test\<close>

definition env_name :: "string \<Rightarrow> bool" where
  "env_name s =
     (let ok = (\<lambda>c. alnum c \<or> c = CHR ''_'')
      in s \<noteq> [] \<and> list_all ok s \<and> \<not> is_digit (hd s))"

definition validEnvironment :: "js_env \<Rightarrow> jsval \<Rightarrow> bool" where
  "validEnvironment E v =
     (case v of
        JObj kvs \<Rightarrow> list_all (\<lambda>(k, x). env_name k
          \<and> str_sat (\<lambda>s. s = nfc E s \<and> CHR 0x00 \<notin> set s \<and> length s \<le> 32768) x) kvs
      | _ \<Rightarrow> False)"

definition encodeM2PrivateHttpProcessPayload :: "js_env \<Rightarrow> jsval \<Rightarrow> jsval \<Rightarrow> string js" where
  "encodeM2PrivateHttpProcessPayload E focusedTest environment =
     bindE (focusedPolicyErrors E focusedTest ''m2-private-http-process'' JNull) (\<lambda>policy_errors.
     bindE (if \<not> validEnvironment E environment then Inr [''m2-private-http-process:invalid-environment'']
            else bindE (computeM2ExecutionValueDigest E environment) (\<lambda>d.
              Inr (chk (opt_prop focusedTest ''environmentDigest'' \<noteq> JStr d)
                ''m2-private-http-process:environment-digest-mismatch''))) (\<lambda>env_errors.
       let errs = policy_errors @ env_errors
       in if errs \<noteq> [] then Inl (TypeErr (join_with '','' errs))
          else bindE (canonicalizeM2ExecutionValue E (JObj
                 ([(''binary'', opt_prop focusedTest ''binary''), (''argv'', opt_prop focusedTest ''argv''),
                   (''environment'', environment)]
                  @ map (\<lambda>k. (k, opt_prop focusedTest k)) [''sandboxProfile'', ''networkPolicy'', ''networkPolicyDigest'']))) (\<lambda>t.
               if length t > MAX_WIRE_BYTES then Inl (TypeErr ''m2-private-http-process:payload-too-large'')
               else Inr t)))"

definition exn_message :: "js_exn \<Rightarrow> string" where
  "exn_message e = (case e of TypeErr m \<Rightarrow> m | Err m \<Rightarrow> m | Coded c \<Rightarrow> c)"

text \<open>The texts of two digests, one of them thrown when the value has no canonical form.\<close>

definition digest_differs :: "js_env \<Rightarrow> jsval \<Rightarrow> jsval \<Rightarrow> bool js" where
  "digest_differs E a b =
     bindE (computeM2ExecutionValueDigest E a) (\<lambda>x. bindE (computeM2ExecutionValueDigest E b) (\<lambda>y. Inr (x \<noteq> y)))"

definition effect_authority_mismatch :: "effect_env \<Rightarrow> jsval \<Rightarrow> jsval \<Rightarrow> string \<Rightarrow> bool js" where
  "effect_authority_mismatch E request effect expected =
     (let J = js_env.truncate E; focused = opt_prop request ''focusedTest''; project = opt_prop request ''project'';
          authority = opt_prop focused ''authority'';
          target = JObj [(''type'', JStr ''process''), (''binary'', opt_prop focused ''binary''), (''argv'', opt_prop focused ''argv''),
                         (''argvDigest'', opt_prop focused ''argvDigest''), (''canonicalCwd'', opt_prop project ''canonicalRoot'')]
      in any_js
        [Inr (opt_prop effect ''kind'' \<noteq> JStr ''process.exec''
              \<or> opt_prop effect ''requiredCapability'' \<noteq> JStr ''project.process.exec''
              \<or> \<not> strict_eq (opt_prop effect ''effectId'') (opt_prop authority ''effectId'')),
         bindE (computeEffectRequestDigest E effect) (\<lambda>d. Inr (opt_prop authority ''requestDigest'' \<noteq> JStr d)),
         Inr (opt_prop effect ''payloadDigest'' \<noteq> JStr (''sha256:'' @ sha256 J expected)
              \<or> \<not> strict_eq (opt_prop effect ''payloadBytes'') (JInt (int (length expected)))
              \<or> \<not> strict_eq (opt_prop effect ''runId'') (opt_prop request ''runId'')
              \<or> \<not> strict_eq (opt_prop effect ''workspaceRevision'') (opt_prop project ''workspaceRevision'')
              \<or> \<not> strict_eq (opt_prop effect ''timeoutMs'') (opt_prop focused ''timeoutMs'')),
         digest_differs J (opt_prop effect ''target'') target,
         digest_differs J (opt_prop effect ''actor'') (opt_prop request ''actor''),
         digest_differs J (opt_prop effect ''origin'') (opt_prop request ''origin'')])"

text \<open>The payload is a buffer, whose bytes are compared, or some other value, which never matches.\<close>

definition validateM2PrivateHttpProcessEffectForRequest ::
    "effect_env \<Rightarrow> jsval \<Rightarrow> jsval \<Rightarrow> string option \<Rightarrow> jsval \<Rightarrow> validation js" where
  "validateM2PrivateHttpProcessEffectForRequest E request effect payloadBytes environment =
     (let J = js_env.truncate E
      in bindE (v2_validateM2ProjectChangeRequest J request) (\<lambda>rq.
         bindE (validateEffectRequest E effect) (\<lambda>ef.
           let errs = errors rq @ errors ef
                 @ chk (opt_prop request ''version'' \<noteq> JInt 2) ''m2-private-http-process:requires-request-v2''
           in if errs \<noteq> [] then Inr (validationResult errs effect)
              else (case encodeM2PrivateHttpProcessPayload J (opt_prop request ''focusedTest'') environment of
                      Inl e \<Rightarrow> Inr (validationResult [exn_message e] effect)
                    | Inr expected \<Rightarrow>
                        bindE (effect_authority_mismatch E request effect expected) (\<lambda>m.
                          Inr (validationResult
                            (chk (payloadBytes \<noteq> Some expected) ''m2-private-http-process:payload-bytes-mismatch''
                             @ chk m ''m2-private-http-process:effect-authority-mismatch'') effect))))))"

section \<open>Dispatch and wire form\<close>

definition v2_validateM2ExecutionContract :: "js_env \<Rightarrow> jsval \<Rightarrow> jsval \<Rightarrow> validation js" where
  "v2_validateM2ExecutionContract E v expected =
     (if opt_prop v ''version'' = JInt 1 then validateM2ExecutionContract E v expected
      else if \<not> isPlainRecord v then Inr (validationResult [''m2-execution:not-object''] v)
      else if expected \<noteq> JNull \<and> \<not> strict_eq (opt_prop v ''contract'') expected
        then Inr (validationResult [''m2-execution:unexpected-contract''] v)
      else if opt_prop v ''contract'' = JStr ''ProjectChangeRequest'' then v2_validateM2ProjectChangeRequest E v
      else if opt_prop v ''contract'' = JStr ''ProjectChangeResult'' then Inr (v2_validateM2ProjectChangeResult E v)
      else Inr (validationResult [''m2-execution:unknown-contract''] v))"

definition v2_encodeM2ExecutionContract :: "js_env \<Rightarrow> jsval \<Rightarrow> jsval \<Rightarrow> string js" where
  "v2_encodeM2ExecutionContract E v expected =
     (if opt_prop v ''version'' = JInt 1 then encodeM2ExecutionContract E v expected
      else bindE (v2_validateM2ExecutionContract E v expected) (\<lambda>r.
        if \<not> valid r then Inl (TypeErr (join_with '','' (errors r))) else canonicalizeM2ExecutionValue E v))"

end
