(* ===== verification/M2LifecycleV2.thy ===== *)
theory M2LifecycleV2
  imports M2Lifecycle M2ExecutionV2
begin

text \<open>
  \<open>contracts/m2/lifecycle-v2.js\<close>: plans of the private loopback profile and the cross-document
  validators for both versions. Documents of version 1 go to the validators of \<open>lifecycle-v1.js\<close>;
  a version 2 document is checked through its projection to version 1 and then for what the
  projection leaves out. The functions carry the prefix \<open>v2_\<close>.
\<close>

section \<open>Projections\<close>

definition PLAN_FOCUSED_KEYS :: "string list" where
  "PLAN_FOCUSED_KEYS = [''binary'', ''argv'', ''argvDigest'', ''environmentDigest'', ''timeoutMs'',
     ''sandboxProfile'', ''networkPolicy'', ''networkPolicyDigest'']"

definition planBase :: "jsval \<Rightarrow> jsval" where
  "planBase v =
     (let focused = opt_prop v ''focusedTest''
      in if \<not> isPlainRecord v then v
         else if \<not> isPlainRecord focused then JObj (spread (object_fields v) [(''version'', JInt 1)])
         else JObj (spread (object_fields v)
           [(''version'', JInt 1),
            (''focusedTest'', JObj (without_keys [''sandboxProfile'', ''networkPolicy'', ''networkPolicyDigest''] (object_fields focused)))]))"

definition life_requestBase :: "jsval \<Rightarrow> jsval" where
  "life_requestBase v =
     JObj (spread (object_fields v)
       [(''version'', JInt 1),
        (''focusedTest'', JObj (spread (without_keys [''networkPolicy'', ''networkPolicyDigest''] (object_fields (opt_prop v ''focusedTest'')))
           [(''sandboxProfile'', JStr ''linux-bwrap-ro-v2'')]))])"

definition focusedSummary :: "jsval \<Rightarrow> jsval" where
  "focusedSummary focused = pick focused PLAN_FOCUSED_KEYS"

text \<open>\<open>if (errors.length) return validationResult(errors, v); ... return validationResult(errors, v);\<close>\<close>

definition unless_errors :: "string list \<Rightarrow> jsval \<Rightarrow> string list js \<Rightarrow> validation js" where
  "unless_errors es v checks =
     (if es \<noteq> [] then Inr (validationResult es v) else bindE checks (\<lambda>cs. Inr (validationResult cs v)))"

section \<open>The plan\<close>

definition plan_artifact_inside :: "jsval \<Rightarrow> jsval \<Rightarrow> bool" where
  "plan_artifact_inside planDoc artifacts \<longleftrightarrow>
     str_sat (\<lambda>root. list_ex (\<lambda>(k, ref). inside_root root (str_of (opt_prop ref ''canonicalPath''))) (object_fields artifacts))
       (opt_prop (opt_prop planDoc ''project'') ''canonicalRoot'')"

definition plan_policy_errors :: "js_env \<Rightarrow> jsval \<Rightarrow> string list js" where
  "plan_policy_errors E planDoc =
     (let context = ''lifecycle-plan-snapshot''; focused = opt_prop planDoc ''focusedTest'';
          network = opt_prop focused ''networkPolicy''; artifacts = opt_prop network ''artifacts''
      in collectE
        [chkE (digest_is_not (opt_prop focused ''networkPolicyDigest'') (computeM2PrivateHttpNetworkPolicyDigest E network))
           (context @ '':network-policy-digest-mismatch''),
         Inr (chk (\<not> strict_eq (opt_prop focused ''binary'') (artifact_path artifacts ''runtimeExecutable'')
                   \<or> \<not> strict_eq (first_item (opt_prop focused ''argv'')) (artifact_path artifacts ''oracle''))
           (context @ '':trusted-command-mismatch'')),
         Inr (chk (plan_artifact_inside planDoc artifacts) (context @ '':trusted-artifact-inside-project''))])"

definition v2_validateM2LifecyclePlanSnapshot :: "js_env \<Rightarrow> jsval \<Rightarrow> validation js" where
  "v2_validateM2LifecyclePlanSnapshot E planDoc =
     (let context = ''lifecycle-plan-snapshot''; focused = opt_prop planDoc ''focusedTest'';
          policy = validateM2PrivateHttpNetworkPolicy E (opt_prop focused ''networkPolicy'');
          errs = errors (validateM2LifecyclePlanSnapshot E (planBase planDoc))
            @ validateExactKeys focused PLAN_FOCUSED_KEYS [] (context @ ''.focusedTest'') @ errors policy
            @ chk (opt_prop focused ''sandboxProfile'' \<noteq> JStr M2_PRIVATE_HTTP_PROFILE) (context @ '':invalid-sandboxProfile'')
      in if opt_prop planDoc ''version'' = JInt 1 then Inr (validateM2LifecyclePlanSnapshot E planDoc)
         else if opt_prop planDoc ''version'' \<noteq> JInt 2 then Inr (validationResult [context @ '':unsupported-version''] planDoc)
         else bindE (if valid policy then plan_policy_errors E planDoc else Inr [])
           (\<lambda>es. Inr (validationResult (errs @ es) planDoc)))"

definition v2_computeM2LifecyclePlanSnapshotDigest :: "js_env \<Rightarrow> jsval \<Rightarrow> string js" where
  "v2_computeM2LifecyclePlanSnapshotDigest E planDoc =
     (if opt_prop planDoc ''version'' = JInt 1 then computeM2LifecyclePlanSnapshotDigest E planDoc
      else bindE (v2_validateM2LifecyclePlanSnapshot E planDoc) (\<lambda>r. digest_if_valid E r planDoc))"

section \<open>The plan against its request, context and decision\<close>

definition v2_plan_request_errors :: "js_env \<Rightarrow> jsval \<Rightarrow> jsval \<Rightarrow> string list js" where
  "v2_plan_request_errors E requestDoc planDoc =
     (let context = ''lifecycle-plan-snapshot''; base = life_requestBase requestDoc
      in bindE (computeM2ExecutionValueDigest E base) (\<lambda>bd.
         bindE (validateM2LifecyclePlanSnapshotForRequest E base
                 (JObj (spread (object_fields (planBase planDoc)) [(''requestDigest'', JStr bd)]))) (\<lambda>r.
         bindE (collectE
           [chkE (digest_is_not (opt_prop planDoc ''requestDigest'') (v2_computeM2ProjectChangeRequestDigest E requestDoc))
              (context @ '':request-digest-mismatch''),
            chkE (digests_differ E (opt_prop planDoc ''focusedTest'') (focusedSummary (opt_prop requestDoc ''focusedTest'')))
              (context @ '':focused-test-mismatch'')]) (\<lambda>es. Inr (errors r @ es)))))"

definition v2_validateM2LifecyclePlanSnapshotForRequest :: "js_env \<Rightarrow> jsval \<Rightarrow> jsval \<Rightarrow> validation js" where
  "v2_validateM2LifecyclePlanSnapshotForRequest E requestDoc planDoc =
     (let qv = opt_prop requestDoc ''version''; pv = opt_prop planDoc ''version''
      in if qv = JInt 1 \<and> pv = JInt 1 then validateM2LifecyclePlanSnapshotForRequest E requestDoc planDoc
         else bindE (v2_validateM2ProjectChangeRequest E requestDoc) (\<lambda>rq.
              bindE (v2_validateM2LifecyclePlanSnapshot E planDoc) (\<lambda>rp.
                unless_errors (errors rq @ errors rp
                    @ chk (qv \<noteq> JInt 2 \<or> pv \<noteq> JInt 2) ''lifecycle-plan-snapshot:mixed-request-plan-versions'')
                  planDoc (v2_plan_request_errors E requestDoc planDoc))))"

definition v2_validateM2LifecyclePlanSnapshotForContext :: "js_env \<Rightarrow> jsval \<Rightarrow> jsval \<Rightarrow> validation js" where
  "v2_validateM2LifecyclePlanSnapshotForContext E snapshot planDoc =
     (if opt_prop planDoc ''version'' = JInt 1 then validateM2LifecyclePlanSnapshotForContext E snapshot planDoc
      else bindE (v2_validateM2LifecyclePlanSnapshot E planDoc) (\<lambda>rp.
        if \<not> valid rp then Inr rp
        else bindE (validateM2LifecyclePlanSnapshotForContext E snapshot (planBase planDoc))
          (\<lambda>r. Inr (validationResult (errors r) planDoc))))"

definition v2_plan_decision_errors :: "js_env \<Rightarrow> jsval \<Rightarrow> jsval \<Rightarrow> string list js" where
  "v2_plan_decision_errors E decision planDoc =
     (let context = ''lifecycle-plan-snapshot''; identity = opt_prop planDoc ''identity''
      in collectE
        [Inr (chk (opt_prop decision ''verdict'' \<noteq> JStr ''allow'') (context @ '':governance-not-allow'')),
         chkE (any_js
           [props_differ decision ''lifecycleId'' identity ''lifecycleId'', props_differ decision ''milestoneId'' identity ''milestoneId'',
            props_differ decision ''executionId'' identity ''executionId'', props_differ decision ''runId'' identity ''runId'',
            props_differ decision ''projectId'' (opt_prop planDoc ''project'') ''projectId'',
            props_differ decision ''requestDigest'' planDoc ''requestDigest'',
            props_differ decision ''policyDigest'' planDoc ''governancePolicyDigest'',
            props_differ decision ''baselineDigest'' planDoc ''governanceBaselineDigest'',
            props_differ decision ''expectedAfterRevision'' planDoc ''expectedAfterRevision'',
            digest_is_not (opt_prop planDoc ''governanceDecisionDigest'') (computeM2GovernanceDecisionDigest E decision)])
           (context @ '':governance-decision-mismatch'')])"

definition v2_validateM2LifecyclePlanSnapshotForDecision :: "js_env \<Rightarrow> jsval \<Rightarrow> jsval \<Rightarrow> jsval \<Rightarrow> validation js" where
  "v2_validateM2LifecyclePlanSnapshotForDecision E requestDoc decision planDoc =
     (if opt_prop requestDoc ''version'' = JInt 1 \<and> opt_prop planDoc ''version'' = JInt 1
      then validateM2LifecyclePlanSnapshotForDecision E requestDoc decision planDoc
      else bindE (v2_validateM2LifecyclePlanSnapshotForRequest E requestDoc planDoc) (\<lambda>rp.
           bindE (validateM2GovernanceDecision E decision) (\<lambda>dc.
             unless_errors (errors rp @ errors dc) planDoc (v2_plan_decision_errors E decision planDoc))))"

section \<open>The approval\<close>

definition v2_approval_plan_errors :: "js_env \<Rightarrow> jsval \<Rightarrow> jsval \<Rightarrow> string list js" where
  "v2_approval_plan_errors E planDoc approvalDoc =
     (let context = ''lifecycle-approval-intent''; project = opt_prop planDoc ''project''
      in collectE
        [Inr (chk (opt_prop planDoc ''state'' \<noteq> JStr ''awaiting_approval'') (context @ '':plan-not-awaiting-approval'')),
         chkE (any_js
           [digests_differ E (opt_prop approvalDoc ''identity'') (opt_prop planDoc ''identity''),
            props_differ approvalDoc ''planVersion'' planDoc ''planVersion'',
            digest_is_not (opt_prop approvalDoc ''planDigest'') (v2_computeM2LifecyclePlanSnapshotDigest E planDoc),
            props_differ approvalDoc ''requestDigest'' planDoc ''requestDigest'',
            props_differ approvalDoc ''authoritySetDigest'' planDoc ''authoritySetDigest'',
            props_differ approvalDoc ''projectId'' project ''projectId'',
            props_differ approvalDoc ''workspaceRevision'' project ''workspaceRevision'',
            props_differ (opt_prop approvalDoc ''actor'') ''type'' (opt_prop planDoc ''actor'') ''type'',
            props_differ (opt_prop approvalDoc ''actor'') ''id'' (opt_prop planDoc ''actor'') ''id''])
           (context @ '':plan-identity-mismatch''),
         Inr (chk (time_of (opt_prop approvalDoc ''approvedAt'') > time_of (opt_prop planDoc ''approvalExpiresAt''))
           (context @ '':plan-expired'')),
         Inr (chk (time_of (opt_prop approvalDoc ''expiresAt'') > time_of (opt_prop planDoc ''approvalExpiresAt''))
           (context @ '':grant-window-exceeds-plan''))])"

definition v2_validateM2LifecycleApprovalIntentForPlan :: "js_env \<Rightarrow> jsval \<Rightarrow> jsval \<Rightarrow> validation js" where
  "v2_validateM2LifecycleApprovalIntentForPlan E planDoc approvalDoc =
     (if opt_prop planDoc ''version'' = JInt 1 then validateM2LifecycleApprovalIntentForPlan E planDoc approvalDoc
      else bindE (v2_validateM2LifecyclePlanSnapshot E planDoc) (\<lambda>rp.
        unless_errors (errors rp @ errors (validateM2LifecycleApprovalIntent approvalDoc)) approvalDoc
          (v2_approval_plan_errors E planDoc approvalDoc)))"

section \<open>The receipt\<close>

definition v2_receipt_binding_errors :: "js_env \<Rightarrow> jsval \<Rightarrow> jsval \<Rightarrow> jsval \<Rightarrow> jsval \<Rightarrow> string list js" where
  "v2_receipt_binding_errors E requestDoc resultDoc decision receipt =
     (let context = ''governance-receipt''; after = opt_prop (opt_prop resultDoc ''changes'') ''afterRevision'';
          requiredEvidence = sort (map str_of (elements (opt_prop resultDoc ''evidenceRefs''))
            @ [''governance-decision:'' @ str_of (opt_prop decision ''decisionId''),
               ''project-change-result:'' @ str_of (opt_prop resultDoc ''executionId'')])
      in collectE
        [Inr (chk (opt_prop decision ''verdict'' \<noteq> JStr ''allow'') (context @ '':decision-not-allow'')),
         Inr (chk (opt_prop resultDoc ''terminalStatus'' \<noteq> JStr ''succeeded'') (context @ '':result-not-succeeded'')),
         chkE (any_js
           [Inr (\<not> same_props decision requestDoc [''executionId'', ''runId'']),
            props_differ decision ''projectId'' (opt_prop requestDoc ''project'') ''projectId'',
            digest_is_not (opt_prop decision ''requestDigest'') (v2_computeM2ProjectChangeRequestDigest E requestDoc)])
           (context @ '':decision-request-identity-mismatch''),
         chkE (any_js
           [Inr (\<not> same_props receipt decision [''lifecycleId'', ''milestoneId'', ''executionId'', ''runId'', ''projectId'',
                ''requestDigest'', ''policyDigest'', ''baselineDigest'', ''expectedAfterRevision'']),
            digest_is_not (opt_prop receipt ''decisionDigest'') (computeM2GovernanceDecisionDigest E decision)])
           (context @ '':decision-identity-mismatch''),
         chkE (any_js
           [digest_is_not (opt_prop receipt ''resultDigest'') (computeM2ExecutionValueDigest E resultDoc),
            Inr (\<not> strict_eq (opt_prop receipt ''actualAfterRevision'') after),
            props_differ receipt ''fencingGeneration'' resultDoc ''fencingGeneration''])
           (context @ '':result-identity-mismatch''),
         Inr (chk (\<not> strict_eq after (opt_prop decision ''expectedAfterRevision'')) (context @ '':unexpected-after-revision'')),
         Inr (chk (time_of (opt_prop receipt ''recordedAt'') < time_of (opt_prop resultDoc ''completedAt''))
           (context @ '':recorded-before-result'')),
         chkE (digests_differ E (opt_prop receipt ''evidenceRefs'') (JArr (map JStr requiredEvidence)))
           (context @ '':evidence-set-mismatch'')])"

definition v2_validateM2GovernanceReceiptForDecision :: "js_env \<Rightarrow> jsval \<Rightarrow> jsval \<Rightarrow> jsval \<Rightarrow> jsval \<Rightarrow> validation js" where
  "v2_validateM2GovernanceReceiptForDecision E requestDoc resultDoc decision receipt =
     (if opt_prop requestDoc ''version'' = JInt 1 \<and> opt_prop resultDoc ''version'' = JInt 1
      then validateM2GovernanceReceiptForDecision E requestDoc resultDoc decision receipt
      else bindE (v2_validateM2ProjectChangeResultForRequest E requestDoc resultDoc) (\<lambda>rs.
           bindE (validateM2GovernanceDecision E decision) (\<lambda>dc.
             unless_errors (errors rs @ errors dc @ errors (validateM2GovernanceReceipt E receipt)) receipt
               (v2_receipt_binding_errors E requestDoc resultDoc decision receipt))))"

section \<open>The terminal snapshot\<close>

definition v2_terminal_binding_errors :: "js_env \<Rightarrow> execution_documents \<Rightarrow> string list js" where
  "v2_terminal_binding_errors E d =
     (let context = ''lifecycle-terminal-snapshot''; t = terminal d
      in collectE
        [Inr (chk (opt_prop t ''state'' \<noteq> JStr ''succeeded'') (context @ '':execution-evidence-requires-succeeded-state'')),
         Inr (chk (opt_prop (result d) ''terminalStatus'' \<noteq> JStr ''succeeded'') (context @ '':project-change-not-succeeded'')),
         Inr (chk (opt_prop (governanceDecision d) ''verdict'' \<noteq> JStr ''allow'') (context @ '':governance-not-allow'')),
         chkE (any_js
           [digests_differ E (opt_prop t ''identity'') (opt_prop (plan d) ''identity''),
            props_differ t ''planVersion'' (plan d) ''planVersion'',
            digest_is_not (opt_prop t ''planDigest'') (v2_computeM2LifecyclePlanSnapshotDigest E (plan d)),
            digest_is_not (opt_prop t ''approvalIntentDigest'') (computeM2LifecycleApprovalIntentDigest E (approval d)),
            digest_is_not (opt_prop t ''requestDigest'') (v2_computeM2ProjectChangeRequestDigest E (request d)),
            props_differ t ''authoritySetDigest'' (request d) ''authoritySetDigest'',
            props_differ t ''projectId'' (opt_prop (request d) ''project'') ''projectId'',
            props_differ t ''workspaceRevision'' (opt_prop (result d) ''changes'') ''afterRevision'',
            digest_is_not (opt_prop t ''resultDigest'') (computeM2ExecutionValueDigest E (result d)),
            digest_is_not (opt_prop t ''governanceDecisionDigest'') (computeM2GovernanceDecisionDigest E (governanceDecision d)),
            digest_is_not (opt_prop t ''governanceReceiptDigest'') (computeM2GovernanceReceiptDigest E (governanceReceipt d))])
           (context @ '':execution-identity-mismatch''),
         chkE (any_js
           [props_differ (governanceDecision d) ''lifecycleId'' (opt_prop (plan d) ''identity'') ''lifecycleId'',
            props_differ (governanceDecision d) ''milestoneId'' (opt_prop (plan d) ''identity'') ''milestoneId''])
           (context @ '':governance-lifecycle-mismatch'')])"

definition v2_validateM2LifecycleTerminalSnapshotForExecution :: "js_env \<Rightarrow> execution_documents \<Rightarrow> validation js" where
  "v2_validateM2LifecycleTerminalSnapshotForExecution E d =
     (if opt_prop (plan d) ''version'' = JInt 1 \<and> opt_prop (request d) ''version'' = JInt 1 \<and> opt_prop (result d) ''version'' = JInt 1
      then validateM2LifecycleTerminalSnapshotForExecution E d
      else bindE (v2_validateM2LifecyclePlanSnapshotForContext E (contextSnapshot d) (plan d)) (\<lambda>pc.
           bindE (v2_validateM2LifecyclePlanSnapshotForDecision E (request d) (governanceDecision d) (plan d)) (\<lambda>pd.
           bindE (v2_validateM2LifecycleApprovalIntentForPlan E (plan d) (approval d)) (\<lambda>ap.
           bindE (v2_validateM2GovernanceReceiptForDecision E (request d) (result d) (governanceDecision d) (governanceReceipt d)) (\<lambda>gv.
             unless_errors (errors pc @ errors pd @ errors ap @ errors gv @ errors (validateM2LifecycleTerminalSnapshot E (terminal d)))
               (terminal d) (v2_terminal_binding_errors E d))))))"

section \<open>Dispatch and encoder\<close>

definition v2_validateM2LifecycleContract :: "js_env \<Rightarrow> jsval \<Rightarrow> jsval \<Rightarrow> validation js" where
  "v2_validateM2LifecycleContract E v expected =
     (if opt_prop v ''contract'' \<noteq> JStr ''LifecyclePlanSnapshot'' \<or> opt_prop v ''version'' = JInt 1
      then Inr (validateM2LifecycleContract E v expected)
      else if expected \<noteq> JNull \<and> \<not> strict_eq (opt_prop v ''contract'') expected
        then Inr (validationResult [''m2-lifecycle:unexpected-contract''] v)
      else v2_validateM2LifecyclePlanSnapshot E v)"

definition v2_encodeM2LifecycleContract :: "js_env \<Rightarrow> jsval \<Rightarrow> jsval \<Rightarrow> string js" where
  "v2_encodeM2LifecycleContract E v expected =
     (if opt_prop v ''contract'' \<noteq> JStr ''LifecyclePlanSnapshot'' \<or> opt_prop v ''version'' = JInt 1
      then encodeM2LifecycleContract E v expected
      else bindE (v2_validateM2LifecycleContract E v expected) (\<lambda>r.
        if \<not> valid r then Inl (TypeErr (join_with '','' (errors r))) else canonicalizeM2ExecutionValue E v))"

end
