(* ===== verification/M2ChainV2.thy ===== *)
theory M2ChainV2
  imports M2LifecycleV2
begin

text \<open>
  What an accepted terminal snapshot guarantees, for documents of either version.
\<close>

section \<open>Reading accepted results\<close>

lemma unless_errors_valid:
  "unless_errors es v checks = Inr r \<Longrightarrow> valid r \<Longrightarrow> es = [] \<and> checks = Inr []"
  by (cases checks) (auto simp: unless_errors_def validationResult_def split: if_splits)

lemma unless_errors_consistent: "unless_errors es v checks = Inr r \<Longrightarrow> consistent r"
  by (cases checks) (auto simp: unless_errors_def split: if_splits)

lemma v2_consistent:
  "v2_validateM2ProjectChangeRequest E v = Inr r \<Longrightarrow> consistent r"
  "v2_validateM2LifecyclePlanSnapshot E v = Inr r \<Longrightarrow> consistent r"
  "v2_validateM2LifecyclePlanSnapshotForRequest E q v = Inr r \<Longrightarrow> consistent r"
  by (auto simp: v2_validateM2ProjectChangeRequest_def v2_validateM2LifecyclePlanSnapshot_def
      v2_validateM2LifecyclePlanSnapshotForRequest_def validateM2LifecyclePlanSnapshotForRequest_def
      versionError_def Let_def bindE_Inr_iff validations_consistent
      dest!: request_result_form unless_errors_consistent when_valid_consistent split: if_splits)

lemma valid_consistent: "consistent r \<Longrightarrow> errors r = [] \<Longrightarrow> valid r"
  by (simp add: consistent_def)

text \<open>A projection to version 1 changes only the version and the focused test.\<close>

lemma planBase_prop: "k \<noteq> ''version'' \<Longrightarrow> k \<noteq> ''focusedTest'' \<Longrightarrow> opt_prop (planBase v) k = opt_prop v k"
  by (cases v) (auto simp: planBase_def Let_def isPlainRecord_def object_fields_def spread_prop(1) simp del: opt_prop_simps)


text \<open>Accepted documents have one version: a plan, a request and a result of which one is not version 1 are all version 2.\<close>

lemma plan_versions:
  assumes "v2_validateM2LifecyclePlanSnapshotForDecision E q dec pl = Inr r" and "valid r"
    and "\<not> (opt_prop q ''version'' = JInt 1 \<and> opt_prop pl ''version'' = JInt 1)"
  shows "\<exists>rp. v2_validateM2LifecyclePlanSnapshotForRequest E q pl = Inr rp \<and> valid rp
    \<and> v2_plan_decision_errors E dec pl = Inr [] \<and> opt_prop q ''version'' = JInt 2 \<and> opt_prop pl ''version'' = JInt 2
    \<and> v2_plan_request_errors E q pl = Inr []"
proof -
  obtain rp dc where rp: "v2_validateM2LifecyclePlanSnapshotForRequest E q pl = Inr rp"
      and "validateM2GovernanceDecision E dec = Inr dc"
      and u: "unless_errors (errors rp @ errors dc) pl (v2_plan_decision_errors E dec pl) = Inr r"
    using assms(1) unfolding v2_validateM2LifecyclePlanSnapshotForDecision_def if_not_P [OF assms(3)] bindE_Inr_iff by blast
  have e: "errors rp = []" "v2_plan_decision_errors E dec pl = Inr []" using unless_errors_valid [OF u assms(2)] by auto
  have ok: "valid rp" by (rule valid_consistent [OF v2_consistent(3) [OF rp] e(1)])
  obtain a b where "v2_validateM2ProjectChangeRequest E q = Inr a" and "v2_validateM2LifecyclePlanSnapshot E pl = Inr b" and "unless_errors (errors a @ errors b
      @ chk (opt_prop q ''version'' \<noteq> JInt 2 \<or> opt_prop pl ''version'' \<noteq> JInt 2) ''lifecycle-plan-snapshot:mixed-request-plan-versions'')
      pl (v2_plan_request_errors E q pl) = Inr rp"
    using rp unfolding v2_validateM2LifecyclePlanSnapshotForRequest_def if_not_P [OF assms(3)] Let_def bindE_Inr_iff by blast
  from unless_errors_valid [OF this(3) ok] rp ok e show ?thesis by auto
qed

lemma receipt_versions:
  assumes "v2_validateM2GovernanceReceiptForDecision E q w dec rc = Inr r" and "valid r" and "opt_prop q ''version'' \<noteq> JInt 1"
  shows "opt_prop w ''version'' = JInt 2 \<and> v2_receipt_binding_errors E q w dec rc = Inr []"
proof -
  have n: "\<not> (opt_prop q ''version'' = JInt 1 \<and> opt_prop w ''version'' = JInt 1)" using assms(3) by simp
  obtain rs dc where rs: "v2_validateM2ProjectChangeResultForRequest E q w = Inr rs"
      and "validateM2GovernanceDecision E dec = Inr dc"
      and u: "unless_errors (errors rs @ errors dc @ errors (validateM2GovernanceReceipt E rc)) rc (v2_receipt_binding_errors E q w dec rc) = Inr r"
    using assms(1) unfolding v2_validateM2GovernanceReceiptForDecision_def if_not_P [OF n] bindE_Inr_iff by blast
  have e: "errors rs = []" "v2_receipt_binding_errors E q w dec rc = Inr []" using unless_errors_valid [OF u assms(2)] by auto
  then have "opt_prop w ''version'' = JInt 2"
    using rs assms(3) by (auto simp: v2_validateM2ProjectChangeResultForRequest_def Let_def bindE_Inr_iff validationResult_def split: if_splits)
  with e show ?thesis by simp
qed

section \<open>What stands behind a success\<close>

definition backed_by_chain :: "js_env \<Rightarrow> execution_documents \<Rightarrow> bool" where
  "backed_by_chain E d \<longleftrightarrow>
     opt_prop (result d) ''terminalStatus'' = JStr ''succeeded''
     \<and> opt_prop (governanceDecision d) ''verdict'' = JStr ''allow''
     \<and> opt_prop (approval d) ''decision'' = JStr ''approve''
     \<and> v2_computeM2LifecyclePlanSnapshotDigest E (plan d) = Inr (str_of (opt_prop (terminal d) ''planDigest''))
     \<and> v2_computeM2LifecyclePlanSnapshotDigest E (plan d) = Inr (str_of (opt_prop (approval d) ''planDigest''))
     \<and> computeM2LifecycleApprovalIntentDigest E (approval d) = Inr (str_of (opt_prop (terminal d) ''approvalIntentDigest''))
     \<and> v2_computeM2ProjectChangeRequestDigest E (request d) = Inr (str_of (opt_prop (terminal d) ''requestDigest''))
     \<and> v2_computeM2ProjectChangeRequestDigest E (request d) = Inr (str_of (opt_prop (plan d) ''requestDigest''))
     \<and> computeM2ExecutionValueDigest E (result d) = Inr (str_of (opt_prop (terminal d) ''resultDigest''))
     \<and> computeM2GovernanceDecisionDigest E (governanceDecision d) = Inr (str_of (opt_prop (plan d) ''governanceDecisionDigest''))
     \<and> computeM2GovernanceDecisionDigest E (governanceDecision d) = Inr (str_of (opt_prop (terminal d) ''governanceDecisionDigest''))
     \<and> computeM2GovernanceReceiptDigest E (governanceReceipt d) = Inr (str_of (opt_prop (terminal d) ''governanceReceiptDigest''))
     \<and> computeM2ExecutionValueDigest E (contextSnapshot d) = Inr (str_of (opt_prop (plan d) ''contextSnapshotDigest''))
     \<and> strict_eq (opt_prop (terminal d) ''workspaceRevision'') (opt_prop (opt_prop (result d) ''changes'') ''afterRevision'')
     \<and> strict_eq (opt_prop (opt_prop (result d) ''changes'') ''afterRevision'') (opt_prop (governanceDecision d) ''expectedAfterRevision'')"

lemma backed_v1:
  assumes "validateM2LifecycleTerminalSnapshotForExecution E d = Inr r" and "valid r"
    and "opt_prop (plan d) ''version'' = JInt 1" and "opt_prop (request d) ''version'' = JInt 1"
  shows "opt_prop (terminal d) ''state'' = JStr ''succeeded'' \<and> backed_by_chain E d"
  unfolding backed_by_chain_def v2_computeM2LifecyclePlanSnapshotDigest_def v2_computeM2ProjectChangeRequestDigest_def
    if_P [OF assms(3)] if_P [OF assms(4)]
  by (rule success_backed_by_chain [OF assms(1,2)])

lemma backed_v2:
  assumes "v2_validateM2LifecycleTerminalSnapshotForExecution E d = Inr r" and "valid r"
    and n: "\<not> (opt_prop (plan d) ''version'' = JInt 1 \<and> opt_prop (request d) ''version'' = JInt 1 \<and> opt_prop (result d) ''version'' = JInt 1)"
  shows "opt_prop (terminal d) ''state'' = JStr ''succeeded'' \<and> backed_by_chain E d"
proof -
  obtain pc pd ap gv where
    ctx: "v2_validateM2LifecyclePlanSnapshotForContext E (contextSnapshot d) (plan d) = Inr pc" and
    dec: "v2_validateM2LifecyclePlanSnapshotForDecision E (request d) (governanceDecision d) (plan d) = Inr pd" and
    app: "v2_validateM2LifecycleApprovalIntentForPlan E (plan d) (approval d) = Inr ap" and
    gov: "v2_validateM2GovernanceReceiptForDecision E (request d) (result d) (governanceDecision d) (governanceReceipt d) = Inr gv" and
    u: "unless_errors (errors pc @ errors pd @ errors ap @ errors gv @ errors (validateM2LifecycleTerminalSnapshot E (terminal d)))
          (terminal d) (v2_terminal_binding_errors E d) = Inr r"
    using assms(1) unfolding v2_validateM2LifecycleTerminalSnapshotForExecution_def if_not_P [OF n] bindE_Inr_iff by blast
  have e: "errors pc = []" "errors pd = []" "errors ap = []" "errors gv = []" and bind: "v2_terminal_binding_errors E d = Inr []"
    using unless_errors_valid [OF u assms(2)] by auto
  have pd: "consistent pd"
    using dec unfolding v2_validateM2LifecyclePlanSnapshotForDecision_def validateM2LifecyclePlanSnapshotForDecision_def
    by (auto simp: bindE_Inr_iff dest: unless_errors_consistent when_valid_consistent split: if_splits)
  have gc: "consistent gv"
    using gov unfolding v2_validateM2GovernanceReceiptForDecision_def validateM2GovernanceReceiptForDecision_def Let_def
    by (auto simp: bindE_Inr_iff dest: unless_errors_consistent split: if_splits)
  note pdv = valid_consistent [OF pd e(2)] and gvv = valid_consistent [OF gc e(4)]
  have mixed: "\<not> (opt_prop (request d) ''version'' = JInt 1 \<and> opt_prop (plan d) ''version'' = JInt 1)"
  proof
    assume one: "opt_prop (request d) ''version'' = JInt 1 \<and> opt_prop (plan d) ''version'' = JInt 1"
    with n have nr: "opt_prop (result d) ''version'' \<noteq> JInt 1" by simp
    then have nn: "\<not> (opt_prop (request d) ''version'' = JInt 1 \<and> opt_prop (result d) ''version'' = JInt 1)" by simp
    obtain rs dc where "v2_validateM2ProjectChangeResultForRequest E (request d) (result d) = Inr rs"
        and "validateM2GovernanceDecision E (governanceDecision d) = Inr dc"
        and "unless_errors (errors rs @ errors dc @ errors (validateM2GovernanceReceipt E (governanceReceipt d))) (governanceReceipt d)
              (v2_receipt_binding_errors E (request d) (result d) (governanceDecision d) (governanceReceipt d)) = Inr gv"
      using gov unfolding v2_validateM2GovernanceReceiptForDecision_def if_not_P [OF nn] bindE_Inr_iff by blast
    with gvv unless_errors_valid have "errors rs = []" "v2_validateM2ProjectChangeResultForRequest E (request d) (result d) = Inr rs" by auto
    then show False using one nr
      by (auto simp: v2_validateM2ProjectChangeResultForRequest_def Let_def bindE_Inr_iff validationResult_def split: if_splits)
  qed
  note pl = plan_versions [OF dec pdv mixed]
  have two: "opt_prop (plan d) ''version'' = JInt 2" "opt_prop (request d) ''version'' = JInt 2" using pl by auto
  have rec: "v2_receipt_binding_errors E (request d) (result d) (governanceDecision d) (governanceReceipt d) = Inr []"
    using receipt_versions [OF gov gvv] two by simp
  have t: "opt_prop (terminal d) ''state'' = JStr ''succeeded''
    \<and> opt_prop (result d) ''terminalStatus'' = JStr ''succeeded''
    \<and> opt_prop (governanceDecision d) ''verdict'' = JStr ''allow''
    \<and> v2_computeM2LifecyclePlanSnapshotDigest E (plan d) = Inr (str_of (opt_prop (terminal d) ''planDigest''))
    \<and> computeM2LifecycleApprovalIntentDigest E (approval d) = Inr (str_of (opt_prop (terminal d) ''approvalIntentDigest''))
    \<and> v2_computeM2ProjectChangeRequestDigest E (request d) = Inr (str_of (opt_prop (terminal d) ''requestDigest''))
    \<and> computeM2ExecutionValueDigest E (result d) = Inr (str_of (opt_prop (terminal d) ''resultDigest''))
    \<and> computeM2GovernanceDecisionDigest E (governanceDecision d) = Inr (str_of (opt_prop (terminal d) ''governanceDecisionDigest''))
    \<and> computeM2GovernanceReceiptDigest E (governanceReceipt d) = Inr (str_of (opt_prop (terminal d) ''governanceReceiptDigest''))
    \<and> strict_eq (opt_prop (terminal d) ''workspaceRevision'') (opt_prop (opt_prop (result d) ''changes'') ''afterRevision'')"
    using bind unfolding v2_terminal_binding_errors_def Let_def by (auto simp: binding_simps)
  obtain c where c: "validateM2LifecyclePlanSnapshotForContext E (contextSnapshot d) (planBase (plan d)) = Inr c" "errors c = []"
    using ctx e(1) two by (auto simp: v2_validateM2LifecyclePlanSnapshotForContext_def bindE_Inr_iff consistent_def
        dest: v2_consistent(2) split: if_splits)
  have cv: "valid c"
    using c when_valid_consistent valid_consistent unfolding validateM2LifecyclePlanSnapshotForContext_def by blast
  have snapshot: "computeM2ExecutionValueDigest E (contextSnapshot d) = Inr (str_of (opt_prop (plan d) ''contextSnapshotDigest''))"
    using when_valid_accepted [OF c(1) [unfolded validateM2LifecyclePlanSnapshotForContext_def] cv] validations_consistent
    by (auto simp: binding_simps planBase_prop)
  have req: "v2_computeM2ProjectChangeRequestDigest E (request d) = Inr (str_of (opt_prop (plan d) ''requestDigest''))"
    using pl unfolding v2_plan_request_errors_def Let_def by (auto simp: bindE_Inr_iff binding_simps)
  have decision: "computeM2GovernanceDecisionDigest E (governanceDecision d) = Inr (str_of (opt_prop (plan d) ''governanceDecisionDigest''))"
    using pl unfolding v2_plan_decision_errors_def Let_def by (auto simp: binding_simps)
  obtain rp where "v2_validateM2LifecyclePlanSnapshot E (plan d) = Inr rp"
      and au: "unless_errors (errors rp @ errors (validateM2LifecycleApprovalIntent (approval d))) (approval d)
      (v2_approval_plan_errors E (plan d) (approval d)) = Inr ap"
    using app two unfolding v2_validateM2LifecycleApprovalIntentForPlan_def by (auto simp: bindE_Inr_iff)
  have "valid ap" by (rule valid_consistent [OF unless_errors_consistent [OF au] e(3)])
  then have ae: "errors (validateM2LifecycleApprovalIntent (approval d)) = []" "v2_approval_plan_errors E (plan d) (approval d) = Inr []"
    using unless_errors_valid [OF au] by auto
  have approve: "opt_prop (approval d) ''decision'' = JStr ''approve''"
    using approval_accepted(1) valid_consistent [OF validations_consistent(2) ae(1)] by blast
  have apd: "v2_computeM2LifecyclePlanSnapshotDigest E (plan d) = Inr (str_of (opt_prop (approval d) ''planDigest''))"
    using ae(2) unfolding v2_approval_plan_errors_def Let_def by (auto simp: binding_simps)
  have after: "strict_eq (opt_prop (opt_prop (result d) ''changes'') ''afterRevision'') (opt_prop (governanceDecision d) ''expectedAfterRevision'')"
    using rec unfolding v2_receipt_binding_errors_def Let_def by (auto simp: binding_simps)
  from t snapshot req decision approve apd after show ?thesis unfolding backed_by_chain_def by blast
qed

lemma chain_backed:
  assumes "v2_validateM2LifecycleTerminalSnapshotForExecution E d = Inr r" and "valid r"
  shows "opt_prop (terminal d) ''state'' = JStr ''succeeded'' \<and> backed_by_chain E d"
proof (cases "opt_prop (plan d) ''version'' = JInt 1 \<and> opt_prop (request d) ''version'' = JInt 1 \<and> opt_prop (result d) ''version'' = JInt 1")
  case True
  then show ?thesis using assms backed_v1 unfolding v2_validateM2LifecycleTerminalSnapshotForExecution_def by simp
next
  case False
  then show ?thesis using assms backed_v2 by blast
qed

text \<open>
  C8. A success recorded for an execution is backed by the whole chain of authority, whichever
  version its documents have. When a terminal snapshot is accepted for its documents, it is a
  success of an allowed, approved and succeeded change; it carries the digests of exactly the plan, the
  approval, the request, the result, the governance decision and the receipt that were presented;
  the plan was bound to that context snapshot, to that request and to that decision, the approval to
  that plan; and the workspace revision it reports is the one the result produced and the decision
  committed to. The same holds when the plan, the request and the result are mixed versions, since
  such documents are never accepted.
\<close>

theorem success_backed_by_chain_v2:
  assumes "v2_validateM2LifecycleTerminalSnapshotForExecution E d = Inr r" and "valid r"
  shows "opt_prop (terminal d) ''state'' = JStr ''succeeded'' \<and> backed_by_chain E d"
  by (rule chain_backed [OF assms])

end
