(* ===== verification/M2LifeSamples.thy ===== *)
theory M2LifeSamples
  imports M2GovSamples M2ChainV2
begin

text \<open>
  The plan, approval and terminal snapshot of the sample execution, on the ASCII host, and the
  complete chain of documents they belong to. The properties of the lifecycle contract are applied
  to them.
\<close>

definition sample_identity :: jsval where
  "sample_identity =
     JObj [(''executionId'', JStr ''x1''), (''lifecycleId'', JStr ''l1''), (''milestoneId'', JStr ''m1''),
     (''runId'', JStr ''r1'')]"

definition good_plan :: jsval where
  "good_plan =
     JObj [(''actor'', JObj [(''id'', JStr ''u1''), (''type'', JStr ''user'')]),
     (''approvalExpiresAt'', JStr ''2026-01-02T04:00:00.000Z''), (''authoritySetDigest'', sha ''7''),
     (''changes'', JArr [JObj [(''afterBytes'', JInt 12), (''afterDigest'', sha ''2''),
     (''path'', JStr ''src/a.js'')]]), (''contextSnapshotDigest'', sha ''5''),
     (''contract'', JStr ''LifecyclePlanSnapshot''), (''createdAt'', JStr ''2026-01-02T03:04:05.006Z''),
     (''expectedAfterRevision'', wsr ''9''), (''focusedTest'', JObj [(''argv'', sample_argv),
     (''argvDigest'', sha ''8''), (''binary'', JStr ''/bin/node''), (''environmentDigest'', sha ''6''),
     (''timeoutMs'', JInt 60000)]), (''gitCommit'', JObj [(''branchRef'', JStr ''refs/heads/main''),
     (''expectedHead'', JStr (zeros 40 ''4'')), (''identityDigest'', sha ''8''), (''messageDigest'', sha ''7''),
     (''paths'', JArr [JStr ''src/a.js''])]), (''governanceBaselineDigest'', sha ''2''),
     (''governanceDecisionDigest'', sha ''2''), (''governancePolicyDigest'', sha ''0''),
     (''identity'', sample_identity), (''intent'', JStr ''add a.js''),
     (''origin'', JObj [(''conversationId'', JStr ''c1''), (''projectId'', JInt 7), (''sessionId'', JNull),
     (''surface'', JStr ''ws'')]), (''patchSetDigest'', sha ''6''), (''planVersion'', JInt 1),
     (''project'', sample_project), (''requestDigest'', sha ''e''), (''state'', JStr ''awaiting_approval''),
     (''version'', JInt 1)]"

definition good_approval :: jsval where
  "good_approval =
     JObj [(''actor'', JObj [(''id'', JStr ''u1''), (''type'', JStr ''user'')]), (''approvalId'', JStr ''a1''),
     (''approvedAt'', JStr ''2026-01-02T03:04:30.000Z''), (''authoritySetDigest'', sha ''7''),
     (''contract'', JStr ''LifecycleApprovalIntent''), (''decision'', JStr ''approve''),
     (''expiresAt'', JStr ''2026-01-02T03:30:00.000Z''), (''identity'', sample_identity), (''planDigest'', sha ''2''),
     (''planVersion'', JInt 1), (''projectId'', JInt 7), (''requestDigest'', sha ''e''),
     (''state'', JStr ''awaiting_approval''), (''version'', JInt 1), (''workspaceRevision'', wsr ''3'')]"

definition good_terminal :: jsval where
  "good_terminal =
     JObj [(''approvalIntentDigest'', sha ''3''), (''authoritySetDigest'', sha ''7''),
     (''completedAt'', JStr ''2026-01-02T03:05:11.000Z''), (''contract'', JStr ''LifecycleTerminalSnapshot''),
     (''errorCode'', JNull), (''evidenceRefs'', JArr []), (''governanceDecisionDigest'', sha ''2''),
     (''governanceReceiptDigest'', sha ''0''), (''identity'', sample_identity), (''planDigest'', sha ''2''),
     (''planVersion'', JInt 1), (''projectId'', JInt 7), (''requestDigest'', sha ''e''),
     (''resultDigest'', sha ''f''), (''state'', JStr ''succeeded''), (''version'', JInt 1),
     (''workspaceRevision'', wsr ''9'')]"

definition good_snapshot :: jsval where "good_snapshot = sample_snapshot CHR ''b''"

lemma good_plan_accepted: "validateM2LifecyclePlanSnapshot ascii_env good_plan = validationResult [] good_plan"
  by code_simp

lemma good_approval_accepted: "validateM2LifecycleApprovalIntent good_approval = validationResult [] good_approval"
  by code_simp

lemma good_terminal_accepted: "validateM2LifecycleTerminalSnapshot ascii_env good_terminal = validationResult [] good_terminal"
  by code_simp

lemma good_snapshot_accepted: "validateProjectContextSnapshot ascii_env good_snapshot = validationResult [] good_snapshot"
  by code_simp

lemma good_plan_digest: "computeM2ExecutionValueDigest ascii_env good_plan = Inr (''sha256:'' @ zeros 64 ''2'')"
  by code_simp

lemma good_approval_digest: "computeM2ExecutionValueDigest ascii_env good_approval = Inr (''sha256:'' @ zeros 64 ''3'')"
  by code_simp

lemma good_snapshot_digest: "computeM2ExecutionValueDigest ascii_env good_snapshot = Inr (''sha256:'' @ zeros 64 ''5'')"
  by code_simp

lemma good_receipt_digest: "computeM2ExecutionValueDigest ascii_env good_receipt = Inr (''sha256:'' @ zeros 64 ''0'')"
  by code_simp

lemmas chain_digests = good_plan_digest good_approval_digest good_snapshot_digest good_receipt_digest

lemma document_digests:
  "computeM2LifecyclePlanSnapshotDigest ascii_env good_plan = Inr (''sha256:'' @ zeros 64 ''2'')"
  "computeM2LifecycleApprovalIntentDigest ascii_env good_approval = Inr (''sha256:'' @ zeros 64 ''3'')"
  "computeM2ProjectChangeRequestDigest ascii_env good_request = Inr (''sha256:'' @ zeros 64 ''e'')"
  "computeM2GovernanceDecisionDigest ascii_env good_allow = Inr (''sha256:'' @ zeros 64 ''2'')"
  "computeM2GovernanceReceiptDigest ascii_env good_receipt = Inr (''sha256:'' @ zeros 64 ''0'')"
  by (simp_all only: computeM2LifecyclePlanSnapshotDigest_def computeM2LifecycleApprovalIntentDigest_def
      computeM2ProjectChangeRequestDigest_def computeM2GovernanceDecisionDigest_def
      computeM2GovernanceReceiptDigest_def digest_if_valid_def good_plan_accepted good_approval_accepted
      good_request_accepted good_allow_accepted good_receipt_accepted chain_digests good_request_digest good_digests
      bindE_simps validationResult_simps simp_thms if_False)

text \<open>The stored digests, and the parts that are compared by their digests.\<close>

lemma stored_digests:
  "opt_prop good_plan ''requestDigest'' = JStr (''sha256:'' @ zeros 64 ''e'')"
  "opt_prop good_plan ''governanceDecisionDigest'' = JStr (''sha256:'' @ zeros 64 ''2'')"
  "opt_prop good_plan ''contextSnapshotDigest'' = JStr (''sha256:'' @ zeros 64 ''5'')"
  "opt_prop good_approval ''planDigest'' = JStr (''sha256:'' @ zeros 64 ''2'')"
  "opt_prop good_terminal ''planDigest'' = JStr (''sha256:'' @ zeros 64 ''2'')"
  "opt_prop good_terminal ''approvalIntentDigest'' = JStr (''sha256:'' @ zeros 64 ''3'')"
  "opt_prop good_terminal ''requestDigest'' = JStr (''sha256:'' @ zeros 64 ''e'')"
  "opt_prop good_terminal ''resultDigest'' = JStr (''sha256:'' @ zeros 64 ''f'')"
  "opt_prop good_terminal ''governanceDecisionDigest'' = JStr (''sha256:'' @ zeros 64 ''2'')"
  "opt_prop good_terminal ''governanceReceiptDigest'' = JStr (''sha256:'' @ zeros 64 ''0'')"
  by (simp_all add: good_plan_def good_approval_def good_terminal_def sha_def)

lemma compared_1: "digests_differ ascii_env (opt_prop good_plan ''origin'') (opt_prop good_request ''origin'') = Inr False"
  by code_simp

lemma compared_2: "digests_differ ascii_env (opt_prop good_plan ''project'') (opt_prop good_request ''project'') = Inr False"
  by code_simp

lemma compared_3: "digests_differ ascii_env (opt_prop good_plan ''changes'') (expected_changes good_request) = Inr False"
  by code_simp

lemma compared_4: "digests_differ ascii_env (opt_prop good_plan ''focusedTest'') (pick (opt_prop good_request ''focusedTest'')
     [''binary'', ''argv'', ''argvDigest'', ''environmentDigest'', ''timeoutMs'']) = Inr False"
  by code_simp

lemma compared_5: "digests_differ ascii_env (opt_prop good_plan ''gitCommit'')
     (if opt_prop good_request ''gitCommit'' = JNull then JNull
      else pick (opt_prop good_request ''gitCommit'') [''expectedHead'', ''branchRef'', ''paths'', ''messageDigest'', ''identityDigest'']) = Inr False"
  by code_simp

lemma compared_6: "digests_differ ascii_env (opt_prop good_approval ''identity'') (opt_prop good_plan ''identity'') = Inr False"
  by code_simp

lemma compared_7: "digests_differ ascii_env (opt_prop good_terminal ''identity'') (opt_prop good_plan ''identity'') = Inr False"
  by code_simp

lemmas compared_parts = compared_1 compared_2 compared_3 compared_4 compared_5 compared_6 compared_7

lemmas sample_docs = good_plan_def good_approval_def good_terminal_def good_request_def sample_request_def
  sample_identity_def sample_project_def good_allow_def allow_decision_def sample_decision_def good_result_def
  good_receipt_def sample_receipt_def good_snapshot_def sample_snapshot_def sha_def wsr_def zeros_def

section \<open>The cross-document comparisons at the samples\<close>


lemma result_digest: "computeM2ExecutionValueDigest ascii_env good_result = Inr (''sha256:'' @ zeros 64 ''f'')"
  by (rule good_digests)

lemmas settle_digests = binding_simps list.set ball_simps ball_empty compared_parts
  document_digests chain_digests stored_digests result_digest sum.inject jsval.inject simp_thms

lemma plan_for_request: "plan_request_errors ascii_env good_request good_plan = Inr []"
  unfolding plan_request_errors_def Let_def by (simp only: settle_digests, code_simp)

lemma plan_for_decision: "plan_decision_errors ascii_env good_allow good_plan = Inr []"
  unfolding plan_decision_errors_def Let_def by (simp only: settle_digests, code_simp)

lemma approval_for_plan: "approval_plan_errors ascii_env good_plan good_approval = Inr []"
  unfolding approval_plan_errors_def Let_def by (simp only: settle_digests, code_simp)

lemma plan_for_context:
  "chkE (any_js
          [Inr (opt_prop good_snapshot ''status'' \<noteq> JStr ''ok''),
           props_differ good_snapshot ''projectId'' (opt_prop good_plan ''project'') ''projectId'',
           props_differ good_snapshot ''workspaceRevision'' (opt_prop good_plan ''project'') ''workspaceRevision'',
           digest_is_not (opt_prop good_plan ''contextSnapshotDigest'') (computeM2ExecutionValueDigest ascii_env good_snapshot)])
        ''lifecycle-plan-snapshot:context-identity-mismatch'' = Inr []"
  by (simp only: settle_digests, code_simp)

definition good_documents :: execution_documents where
  "good_documents = \<lparr>contextSnapshot = good_snapshot, plan = good_plan, approval = good_approval, request = good_request,
     result = good_result, governanceDecision = good_allow, governanceReceipt = good_receipt, terminal = good_terminal\<rparr>"

lemma good_documents_simps [simp]:
  "contextSnapshot good_documents = good_snapshot" "plan good_documents = good_plan"
  "approval good_documents = good_approval" "request good_documents = good_request" "result good_documents = good_result"
  "governanceDecision good_documents = good_allow" "governanceReceipt good_documents = good_receipt"
  "terminal good_documents = good_terminal"
  by (simp_all add: good_documents_def)

lemma terminal_for_documents: "terminal_binding_errors ascii_env good_documents = Inr []"
  unfolding terminal_binding_errors_def Let_def good_documents_simps by (simp only: settle_digests, code_simp)

lemma when_valid_all:
  "list_all (\<lambda>r. valid r \<and> errors r = []) rs \<Longrightarrow> checks = Inr [] \<Longrightarrow>
     when_valid rs v checks = Inr (validationResult [] v)"
  by (induction rs) (auto simp: when_valid_def Let_def)

lemma approval_stage:
  "validateM2LifecycleApprovalIntentForPlan ascii_env good_plan good_approval = Inr (validationResult [] good_approval)"
  unfolding validateM2LifecycleApprovalIntentForPlan_def
  by (rule when_valid_all) (simp_all add: good_plan_accepted good_approval_accepted approval_for_plan)

lemma request_stage:
  "validateM2LifecyclePlanSnapshotForRequest ascii_env good_request good_plan = Inr (validationResult [] good_plan)"
  unfolding validateM2LifecyclePlanSnapshotForRequest_def good_request_accepted bindE_simps
  by (rule when_valid_all) (simp_all add: good_plan_accepted plan_for_request)

lemma decision_stage:
  "validateM2LifecyclePlanSnapshotForDecision ascii_env good_request good_allow good_plan = Inr (validationResult [] good_plan)"
  unfolding validateM2LifecyclePlanSnapshotForDecision_def request_stage good_allow_accepted bindE_simps
  by (rule when_valid_all) (simp_all add: plan_for_decision)

lemma context_stage:
  "validateM2LifecyclePlanSnapshotForContext ascii_env good_snapshot good_plan = Inr (validationResult [] good_plan)"
  unfolding validateM2LifecyclePlanSnapshotForContext_def
  by (rule when_valid_all) (simp_all add: good_plan_accepted good_snapshot_accepted plan_for_context)

lemma terminal_stage:
  "validateM2LifecycleTerminalSnapshotForExecution ascii_env good_documents = Inr (validationResult [] good_terminal)"
  unfolding validateM2LifecycleTerminalSnapshotForExecution_def good_documents_simps context_stage decision_stage
    approval_stage good_result_for_request good_allow_accepted good_receipt_chain bindE_simps Let_def
  by (rule when_valid_all) (simp_all add: good_receipt_accepted good_terminal_accepted terminal_for_documents)

theorem approval_binds_plan_witness:
  "opt_prop good_approval ''decision'' = JStr ''approve'' \<and> opt_prop good_plan ''state'' = JStr ''awaiting_approval''"
  using approval_binds_plan [OF approval_stage] by simp

lemma terminal_stage_v2:
  "v2_validateM2LifecycleTerminalSnapshotForExecution ascii_env good_documents = Inr (validationResult [] good_terminal)"
proof -
  have "opt_prop good_plan ''version'' = JInt 1 \<and> opt_prop good_request ''version'' = JInt 1 \<and> opt_prop good_result ''version'' = JInt 1"
    by code_simp
  then show ?thesis
    unfolding v2_validateM2LifecycleTerminalSnapshotForExecution_def good_documents_simps terminal_stage
    by (rule if_P)
qed

theorem success_backed_by_chain_v2_witness:
  "opt_prop good_terminal ''state'' = JStr ''succeeded'' \<and> opt_prop good_result ''terminalStatus'' = JStr ''succeeded''"
  using success_backed_by_chain_v2 [OF terminal_stage_v2] by (simp add: backed_by_chain_def)

end
