(* ===== verification/M2EffectResult.thy ===== *)
theory M2EffectResult
  imports M2Effect
begin

text \<open>
  \<open>contracts/m2/effect-v1.js\<close>, second half: the result of an effect, what each kind of effect has to
  prove by its result, and the approval grant with the constraints derived from the request.
\<close>

section \<open>Parts of a result\<close>

definition validateProcessResult :: "jsval \<Rightarrow> string list" where
  "validateProcessResult v =
     (let context = ''effect-result.process'';
          errors = validateExactKeys v [''pid'', ''processGroupId'', ''startIdentity'', ''exitCode'', ''signal''] [] context
      in if \<not> isPlainRecord v then errors
         else errors
           @ concat (map (\<lambda>k. chk (\<not> null_or (\<lambda>x. safe_int x \<noteq> None) (opt_prop v k)) (context @ '':invalid-'' @ k))
               [''pid'', ''processGroupId'', ''exitCode''])
           @ concat (map (\<lambda>k. chk (\<not> null_or (eff_isNonEmptyString 256) (opt_prop v k)) (context @ '':invalid-'' @ k))
               [''startIdentity'', ''signal'']))"

definition eff_validateChangesResult :: "jsval \<Rightarrow> string list" where
  "eff_validateChangesResult v =
     (let context = ''effect-result.changes'';
          errors = validateExactKeys v [''paths'', ''beforeDigest'', ''afterDigest'', ''diffArtifact''] [] context
      in if \<not> isPlainRecord v then errors
         else errors
           @ validateSortedUniqueStrings (opt_prop v ''paths'') (context @ ''.paths'') isM2ProjectRelativePath
           @ concat (map (\<lambda>k. chk (\<not> null_or isDigest (opt_prop v k)) (context @ '':invalid-'' @ k)) [''beforeDigest'', ''afterDigest''])
           @ chk (\<not> null_or (eff_isNonEmptyString 4096) (opt_prop v ''diffArtifact'')) (context @ '':invalid-diffArtifact''))"

definition validateNetworkResult :: "effect_env \<Rightarrow> jsval \<Rightarrow> string list" where
  "validateNetworkResult E v =
     (let context = ''effect-result.network'';
          errors = validateExactKeys v [''resolvedAddresses'', ''finalUrl'', ''status'', ''bytes''] [] context
      in if \<not> isPlainRecord v then errors
         else errors
           @ validateSortedUniqueStrings (opt_prop v ''resolvedAddresses'') (context @ ''.resolvedAddresses'') (str_sat (is_ip E))
           @ (if opt_prop v ''finalUrl'' \<noteq> JNull then validateNormalizedHttpUrl E (opt_prop v ''finalUrl'') context ''finalUrl'' else [])
           @ chk (\<not> null_or (\<lambda>x. int_in x 100 599) (opt_prop v ''status'')) (context @ '':invalid-status'')
           @ chk (\<not> int_ge (opt_prop v ''bytes'') 0) (context @ '':invalid-bytes''))"

definition eff_validateRollbackResult :: "jsval \<Rightarrow> string list" where
  "eff_validateRollbackResult v =
     (let context = ''effect-result.rollback'';
          errors = validateExactKeys v [''required'', ''status'', ''evidenceRef''] [] context;
          required = opt_prop v ''required''; status = opt_prop v ''status''
      in if \<not> isPlainRecord v then errors
         else errors
           @ chk (\<not> is_bool required) (context @ '':invalid-required'')
           @ chk (\<not> str_in status ROLLBACK_STATUSES) (context @ '':invalid-status'')
           @ chk (required = JBool False \<and> status \<noteq> JStr ''not_required'') (context @ '':unexpected-status'')
           @ chk (required = JBool True \<and> status = JStr ''not_required'') (context @ '':missing-status'')
           @ chk (\<not> null_or (eff_isNonEmptyString 4096) (opt_prop v ''evidenceRef'')) (context @ '':invalid-evidenceRef''))"

definition validateEffectResult :: "effect_env \<Rightarrow> jsval \<Rightarrow> validation" where
  "validateEffectResult E v =
     (let context = ''effect-result'';
          errors = validateExactKeys v [''contract'', ''version'', ''effectId'', ''runId'', ''projectId'', ''requestDigest'',
            ''approvalGrantId'', ''terminalStatus'', ''startedAt'', ''completedAt'', ''process'', ''changes'', ''network'',
            ''rollback'', ''outputDigest'', ''errorCode'', ''evidenceRefs'', ''lateCompletionRejected''] [] context;
          succeeded = (opt_prop v ''terminalStatus'' = JStr ''succeeded'')
      in if \<not> isPlainRecord v then validationResult errors v
         else validationResult (errors
           @ chk (opt_prop v ''contract'' \<noteq> JStr ''EffectResult'') (context @ '':invalid-contract'')
           @ chk (opt_prop v ''version'' \<noteq> JInt 1) (context @ '':invalid-version'')
           @ chk (\<not> isIdentifier (opt_prop v ''effectId'')) (context @ '':invalid-effectId'')
           @ chk (\<not> isIdentifier (opt_prop v ''runId'')) (context @ '':invalid-runId'')
           @ chk (\<not> isProjectId (opt_prop v ''projectId'')) (context @ '':invalid-projectId'')
           @ chk (\<not> isDigest (opt_prop v ''requestDigest'')) (context @ '':invalid-requestDigest'')
           @ chk (\<not> isIdentifier (opt_prop v ''approvalGrantId'')) (context @ '':invalid-approvalGrantId'')
           @ chk (\<not> str_in (opt_prop v ''terminalStatus'') EFFECT_TERMINAL_STATUSES) (context @ '':invalid-terminalStatus'')
           @ chk (\<not> isCanonicalTimestamp (opt_prop v ''startedAt'')) (context @ '':invalid-startedAt'')
           @ chk (\<not> isCanonicalTimestamp (opt_prop v ''completedAt'')) (context @ '':invalid-completedAt'')
           @ chk (isCanonicalTimestamp (opt_prop v ''startedAt'') \<and> isCanonicalTimestamp (opt_prop v ''completedAt'')
                  \<and> time_of (opt_prop v ''completedAt'') < time_of (opt_prop v ''startedAt'')) (context @ '':time-order'')
           @ validateProcessResult (opt_prop v ''process'')
           @ eff_validateChangesResult (opt_prop v ''changes'')
           @ validateNetworkResult E (opt_prop v ''network'')
           @ eff_validateRollbackResult (opt_prop v ''rollback'')
           @ chk (\<not> null_or isDigest (opt_prop v ''outputDigest'')) (context @ '':invalid-outputDigest'')
           @ chk (\<not> null_or (str_sat (code_text 63)) (opt_prop v ''errorCode'')) (context @ '':invalid-errorCode'')
           @ chk (succeeded \<and> opt_prop v ''errorCode'' \<noteq> JNull) (context @ '':error-on-success'')
           @ chk (\<not> succeeded \<and> opt_prop v ''errorCode'' = JNull) (context @ '':missing-errorCode'')
           @ validateSortedUniqueStrings (opt_prop v ''evidenceRefs'') (context @ ''.evidenceRefs'') (eff_isNonEmptyString 1024)
           @ chk (\<not> is_bool (opt_prop v ''lateCompletionRejected'')) (context @ '':invalid-lateCompletionRejected'')) v)"

section \<open>The result of a request\<close>

definition resultRequestValidation :: "effect_env \<Rightarrow> jsval \<Rightarrow> jsval \<Rightarrow> (string list \<times> bool) js" where
  "resultRequestValidation E request result =
     bindE (validateEffectRequest E request) (\<lambda>rq.
       let rs = validateEffectResult E result; errs = errors rq @ errors rs
       in if \<not> valid rq \<or> \<not> valid rs then Inr (errs, False)
          else bindE (computeEffectRequestDigest E request) (\<lambda>d.
            Inr (errs @ chk (\<not> strict_eq (opt_prop result ''effectId'') (opt_prop request ''effectId'')
                           \<or> \<not> strict_eq (opt_prop result ''runId'') (opt_prop request ''runId'')
                           \<or> \<not> strict_eq (opt_prop result ''projectId'') (opt_prop (opt_prop request ''origin'') ''projectId'')
                           \<or> opt_prop result ''requestDigest'' \<noteq> JStr d) ''effect-result:request-identity-mismatch'', True)))"

definition processEvidenceIsEmpty :: "jsval \<Rightarrow> bool" where
  "processEvidenceIsEmpty result =
     list_all (\<lambda>k. opt_prop (opt_prop result ''process'') k = JNull) [''pid'', ''processGroupId'', ''startIdentity'', ''exitCode'', ''signal'']"

definition networkEvidenceIsEmpty :: "jsval \<Rightarrow> bool" where
  "networkEvidenceIsEmpty result =
     (let n = opt_prop result ''network''
      in length_sat (\<lambda>l. l = 0) (opt_prop n ''resolvedAddresses'') \<and> opt_prop n ''finalUrl'' = JNull
         \<and> opt_prop n ''status'' = JNull \<and> strict_eq (opt_prop n ''bytes'') (JInt 0))"

definition changesEvidenceIsEmpty :: "jsval \<Rightarrow> bool" where
  "changesEvidenceIsEmpty result =
     (let c = opt_prop result ''changes''
      in length_sat (\<lambda>l. l = 0) (opt_prop c ''paths'') \<and> opt_prop c ''beforeDigest'' = JNull
         \<and> opt_prop c ''afterDigest'' = JNull \<and> opt_prop c ''diffArtifact'' = JNull)"

definition hasExactPaths :: "jsval \<Rightarrow> jsval list \<Rightarrow> bool" where
  "hasExactPaths result expectedPaths =
     list_all2 strict_eq (elements (opt_prop (opt_prop result ''changes'') ''paths'')) expectedPaths"

definition validateNoProcessEvidence :: "jsval \<Rightarrow> string \<Rightarrow> string list" where
  "validateNoProcessEvidence result kind =
     chk (\<not> processEvidenceIsEmpty result) (''effect-result:'' @ kind @ ''-process-evidence-mismatch'')"

definition validateNoNetworkEvidence :: "jsval \<Rightarrow> string \<Rightarrow> string list" where
  "validateNoNetworkEvidence result kind =
     chk (\<not> networkEvidenceIsEmpty result) (''effect-result:'' @ kind @ ''-network-evidence-mismatch'')"

definition validateNoRollbackEvidence :: "jsval \<Rightarrow> string \<Rightarrow> string list" where
  "validateNoRollbackEvidence result kind =
     (let r = opt_prop result ''rollback''
      in chk (opt_prop r ''required'' \<noteq> JBool False \<or> opt_prop r ''status'' \<noteq> JStr ''not_required'' \<or> opt_prop r ''evidenceRef'' \<noteq> JNull)
           (''effect-result:'' @ kind @ ''-rollback-evidence-mismatch''))"

text \<open>The answer is whether this shape decides the result; the messages are added in any case.\<close>

definition validatePreExecutionApprovalTerminal :: "jsval \<Rightarrow> bool \<times> string list" where
  "validatePreExecutionApprovalTerminal result =
     (if \<not> str_in (opt_prop result ''errorCode'') PRE_EXECUTION_CODES then (False, [])
      else if opt_prop result ''terminalStatus'' \<noteq> JStr ''cancelled'' then
        (False, [''effect-result:approval-pre-execution-status-mismatch''])
      else (True,
        validateNoProcessEvidence result ''approval-pre-execution''
        @ validateNoNetworkEvidence result ''approval-pre-execution''
        @ validateNoRollbackEvidence result ''approval-pre-execution''
        @ chk (\<not> changesEvidenceIsEmpty result) ''effect-result:approval-pre-execution-change-evidence-mismatch''
        @ chk (opt_prop result ''outputDigest'' \<noteq> JNull) ''effect-result:approval-pre-execution-output-evidence-mismatch''
        @ chk (opt_prop result ''lateCompletionRejected'' \<noteq> JBool False)
            ''effect-result:approval-pre-execution-late-completion-mismatch''))"

definition validateFsWriteResultForRequest :: "jsval \<Rightarrow> jsval \<Rightarrow> string list" where
  "validateFsWriteResultForRequest request result =
     (let e = ''effect-result:fs-write-''; path = opt_prop (opt_prop request ''target'') ''relativePath'';
          payload = opt_prop request ''payloadDigest''; changes = opt_prop result ''changes''; rollback = opt_prop result ''rollback'';
          after = opt_prop changes ''afterDigest''; output = opt_prop result ''outputDigest''; late = opt_prop result ''lateCompletionRejected''
      in chk (\<not> processEvidenceIsEmpty result) (e @ ''success-process-mismatch'')
         @ chk (\<not> networkEvidenceIsEmpty result) (e @ ''network-mismatch'')
         @ chk (opt_prop changes ''diffArtifact'' \<noteq> JNull) (e @ ''diff-artifact-mismatch'')
         @ (if opt_prop result ''terminalStatus'' = JStr ''succeeded'' then
              chk (\<not> hasExactPaths result [path]) (e @ ''path-evidence-mismatch'')
              @ chk (\<not> strict_eq after payload) (e @ ''after-digest-mismatch'')
              @ chk (\<not> strict_eq output payload) (e @ ''output-digest-mismatch'')
              @ chk (opt_prop rollback ''required'' \<noteq> JBool False \<or> opt_prop rollback ''status'' \<noteq> JStr ''not_required'')
                  (e @ ''success-rollback-mismatch'')
              @ chk (late \<noteq> JBool False) (e @ ''success-late-completion-mismatch'')
            else if opt_prop rollback ''required'' = JBool True then
              chk (\<not> hasExactPaths result [path]) (e @ ''rollback-path-evidence-mismatch'')
              @ chk (opt_prop rollback ''evidenceRef'' = JNull) (e @ ''rollback-evidence-missing'')
              @ chk (after \<noteq> JNull \<and> \<not> strict_eq after payload) (e @ ''rollback-after-digest-mismatch'')
              @ chk (output \<noteq> JNull \<and> \<not> strict_eq output payload) (e @ ''rollback-output-digest-mismatch'')
            else
              chk (\<not> length_sat (\<lambda>l. l = 0) (opt_prop changes ''paths'') \<or> opt_prop changes ''beforeDigest'' \<noteq> JNull
                   \<or> after \<noteq> JNull \<or> output \<noteq> JNull) (e @ ''pre-effect-evidence-mismatch'')
              @ chk (late \<noteq> JBool False) (e @ ''pre-effect-late-completion-mismatch''))
         @ chk (str_in (opt_prop result ''terminalStatus'') [''orphaned'', ''killed''] \<and> opt_prop rollback ''required'' \<noteq> JBool True)
             (e @ ''ambiguous-without-rollback'')
         @ chk (late = JBool True \<and> opt_prop rollback ''required'' \<noteq> JBool True) (e @ ''late-completion-without-rollback''))"

definition validateFsReadResultForRequest :: "jsval \<Rightarrow> string list" where
  "validateFsReadResultForRequest result =
     (let e = ''effect-result:fs-read-''; output = opt_prop result ''outputDigest'';
          succeeded = (opt_prop result ''terminalStatus'' = JStr ''succeeded'')
      in validateNoProcessEvidence result ''fs-read''
         @ validateNoNetworkEvidence result ''fs-read''
         @ validateNoRollbackEvidence result ''fs-read''
         @ chk (\<not> changesEvidenceIsEmpty result) (e @ ''change-evidence-mismatch'')
         @ chk (succeeded \<and> output = JNull) (e @ ''output-evidence-missing'')
         @ chk (\<not> succeeded \<and> output \<noteq> JNull) (e @ ''failure-output-evidence-mismatch'')
         @ chk (opt_prop result ''lateCompletionRejected'' \<noteq> JBool False) (e @ ''late-completion-mismatch''))"

definition validateFsDeleteResultForRequest :: "jsval \<Rightarrow> jsval \<Rightarrow> string list" where
  "validateFsDeleteResultForRequest request result =
     (let e = ''effect-result:fs-delete-''; path = opt_prop (opt_prop request ''target'') ''relativePath'';
          changes = opt_prop result ''changes''; rollback = opt_prop result ''rollback'';
          output = opt_prop result ''outputDigest''; late = opt_prop result ''lateCompletionRejected''
      in validateNoProcessEvidence result ''fs-delete''
         @ validateNoNetworkEvidence result ''fs-delete''
         @ chk (opt_prop changes ''diffArtifact'' \<noteq> JNull) (e @ ''diff-artifact-mismatch'')
         @ (if opt_prop result ''terminalStatus'' = JStr ''succeeded'' then
              chk (\<not> hasExactPaths result [path]) (e @ ''path-evidence-mismatch'')
              @ chk (opt_prop changes ''beforeDigest'' = JNull \<or> opt_prop changes ''afterDigest'' \<noteq> JNull) (e @ ''digest-evidence-mismatch'')
              @ chk (\<not> strict_eq output (opt_prop request ''payloadDigest'')) (e @ ''output-evidence-mismatch'')
              @ validateNoRollbackEvidence result ''fs-delete-success''
              @ chk (late \<noteq> JBool False) (e @ ''success-late-completion-mismatch'')
            else if opt_prop rollback ''required'' = JBool True then
              chk (\<not> hasExactPaths result [path]) (e @ ''rollback-path-evidence-mismatch'')
              @ chk (opt_prop rollback ''evidenceRef'' = JNull) (e @ ''rollback-evidence-missing'')
            else chk (\<not> changesEvidenceIsEmpty result \<or> output \<noteq> JNull) (e @ ''pre-effect-evidence-mismatch''))
         @ chk (str_in (opt_prop result ''terminalStatus'') [''orphaned'', ''killed''] \<and> opt_prop rollback ''required'' \<noteq> JBool True)
             (e @ ''ambiguous-without-rollback'')
         @ chk (late = JBool True \<and> opt_prop rollback ''required'' \<noteq> JBool True) (e @ ''late-completion-without-rollback''))"

definition validateProcessExecResultForRequest :: "jsval \<Rightarrow> string list" where
  "validateProcessExecResultForRequest result =
     (let e = ''effect-result:process-exec-''; p = opt_prop result ''process'';
          identity = (opt_prop p ''pid'' \<noteq> JNull \<or> opt_prop p ''processGroupId'' \<noteq> JNull \<or> opt_prop p ''startIdentity'' \<noteq> JNull);
          completeIdentity = (int_ge (opt_prop p ''pid'') 1 \<and> int_ge (opt_prop p ''processGroupId'') 1
            \<and> eff_isNonEmptyString 256 (opt_prop p ''startIdentity''))
      in validateNoNetworkEvidence result ''process-exec''
         @ validateNoRollbackEvidence result ''process-exec''
         @ chk (\<not> changesEvidenceIsEmpty result) (e @ ''change-evidence-mismatch'')
         @ chk (identity \<and> \<not> completeIdentity) (e @ ''partial-process-identity'')
         @ (if opt_prop result ''terminalStatus'' = JStr ''succeeded'' then
              chk (\<not> completeIdentity \<or> \<not> strict_eq (opt_prop p ''exitCode'') (JInt 0) \<or> opt_prop p ''signal'' \<noteq> JNull)
                (e @ ''success-process-evidence-missing'')
              @ chk (opt_prop result ''outputDigest'' = JNull) (e @ ''output-evidence-missing'')
              @ chk (opt_prop result ''lateCompletionRejected'' \<noteq> JBool False) (e @ ''success-late-completion-mismatch'')
            else chk (\<not> identity \<and> \<not> processEvidenceIsEmpty result) (e @ ''pre-start-evidence-mismatch'')))"

definition validateGitCommitResultForRequest :: "jsval \<Rightarrow> jsval \<Rightarrow> string list" where
  "validateGitCommitResultForRequest request result =
     (let e = ''effect-result:git-commit-''; changes = opt_prop result ''changes''; rollback = opt_prop result ''rollback'';
          prior = opt_prop changes ''beforeDigest''; after = opt_prop changes ''afterDigest''; output = opt_prop result ''outputDigest'';
          late = opt_prop result ''lateCompletionRejected''; status = opt_prop result ''terminalStatus''; code = opt_prop result ''errorCode'';
          paths = elements (opt_prop (opt_prop request ''target'') ''paths'')
      in validateNoProcessEvidence result ''git-commit''
         @ validateNoNetworkEvidence result ''git-commit''
         @ chk (opt_prop changes ''diffArtifact'' \<noteq> JNull) (e @ ''diff-artifact-mismatch'')
         @ (if status = JStr ''succeeded'' then
              chk (\<not> hasExactPaths result paths) (e @ ''path-evidence-mismatch'')
              @ chk (prior = JNull \<or> after = JNull \<or> output = JNull \<or> \<not> strict_eq output after) (e @ ''digest-evidence-mismatch'')
              @ validateNoRollbackEvidence result ''git-commit-success''
              @ chk (late \<noteq> JBool False) (e @ ''success-late-completion-mismatch'')
            else if opt_prop rollback ''required'' = JBool True then
              chk (\<not> hasExactPaths result paths) (e @ ''rollback-path-evidence-mismatch'')
              @ chk (prior = JNull \<or> after = JNull \<or> \<not> strict_eq output after) (e @ ''rollback-digest-evidence-mismatch'')
              @ chk (opt_prop rollback ''evidenceRef'' = JNull) (e @ ''rollback-evidence-missing'')
              @ (if opt_prop rollback ''status'' = JStr ''succeeded'' then
                   chk (status \<noteq> JStr ''failed'' \<or> code \<noteq> JStr ''GIT_COMMIT_COMPENSATED'' \<or> late \<noteq> JBool False)
                     (e @ ''compensated-terminal-mismatch'')
                 else chk (status \<noteq> JStr ''orphaned'' \<or> code \<noteq> JStr ''GIT_COMMIT_IN_DOUBT'' \<or> late \<noteq> JBool True)
                     (e @ ''in-doubt-terminal-mismatch''))
            else
              chk (\<not> changesEvidenceIsEmpty result \<or> output \<noteq> JNull) (e @ ''pre-effect-evidence-mismatch'')
              @ chk (late \<noteq> JBool False) (e @ ''pre-effect-late-completion-mismatch'')
              @ chk (status = JStr ''orphaned'') (e @ ''ambiguous-without-rollback'')
              @ chk (case map_of [(''failed'', ''GIT_COMMIT_PRE_EFFECT_FAILED''), (''cancelled'', ''GIT_COMMIT_CANCELLED''),
                         (''timed_out'', ''GIT_COMMIT_TIMED_OUT'')] (str_of status) of
                       None \<Rightarrow> code \<noteq> JUndef
                     | Some c \<Rightarrow> code \<noteq> JStr c) (e @ ''pre-effect-error-code-mismatch'')))"

definition validateNetworkRequestResultForRequest :: "jsval \<Rightarrow> string list" where
  "validateNetworkRequestResultForRequest result =
     (let e = ''effect-result:network-request-''; n = opt_prop result ''network''; output = opt_prop result ''outputDigest''
      in validateNoProcessEvidence result ''network-request''
         @ validateNoRollbackEvidence result ''network-request''
         @ chk (\<not> changesEvidenceIsEmpty result) (e @ ''change-evidence-mismatch'')
         @ (if opt_prop result ''terminalStatus'' = JStr ''succeeded'' then
              chk (length_sat (\<lambda>l. l = 0) (opt_prop n ''resolvedAddresses'') \<or> opt_prop n ''finalUrl'' = JNull
                   \<or> opt_prop n ''status'' = JNull \<or> output = JNull) (e @ ''success-evidence-missing'')
              @ chk (opt_prop result ''lateCompletionRejected'' \<noteq> JBool False) (e @ ''success-late-completion-mismatch'')
            else chk (networkEvidenceIsEmpty result \<and> output \<noteq> JNull) (e @ ''pre-effect-output-mismatch'')))"

definition validateGitPushResultForRequest :: "jsval \<Rightarrow> jsval \<Rightarrow> string list" where
  "validateGitPushResultForRequest request result =
     (let e = ''effect-result:git-push-''; changes = opt_prop result ''changes''; n = opt_prop result ''network'';
          output = opt_prop result ''outputDigest''; late = opt_prop result ''lateCompletionRejected''; status = opt_prop result ''terminalStatus''
      in validateNoProcessEvidence result ''git-push''
         @ validateNoRollbackEvidence result ''git-push''
         @ chk (opt_prop changes ''diffArtifact'' \<noteq> JNull) (e @ ''diff-artifact-mismatch'')
         @ (if status = JStr ''succeeded'' then
              chk (\<not> hasExactPaths result (elements (opt_prop (opt_prop request ''target'') ''paths''))) (e @ ''path-evidence-mismatch'')
              @ chk (opt_prop changes ''beforeDigest'' = JNull \<or> opt_prop changes ''afterDigest'' = JNull \<or> output = JNull
                     \<or> length_sat (\<lambda>l. l = 0) (opt_prop n ''resolvedAddresses'') \<or> opt_prop n ''finalUrl'' = JNull)
                  (e @ ''success-evidence-missing'')
              @ chk (late \<noteq> JBool False) (e @ ''success-late-completion-mismatch'')
            else if changesEvidenceIsEmpty result \<and> networkEvidenceIsEmpty result then
              chk (output \<noteq> JNull \<or> late \<noteq> JBool False) (e @ ''pre-effect-evidence-mismatch'')
            else chk (status \<noteq> JStr ''orphaned'' \<or> late \<noteq> JBool True) (e @ ''ambiguous-terminal-mismatch'')))"

definition validateEffectResultForRequestV1 :: "effect_env \<Rightarrow> jsval \<Rightarrow> jsval \<Rightarrow> validation js" where
  "validateEffectResultForRequestV1 E request result =
     bindE (resultRequestValidation E request result) (\<lambda>(errs, ok). Inr (validationResult
       (if \<not> ok then errs
        else errs @ (if opt_prop request ''kind'' = JStr ''fs.write'' then validateFsWriteResultForRequest request result else [])) result))"

text \<open>The \<open>switch\<close> on the kind.\<close>

definition kind_errors :: "jsval \<Rightarrow> jsval \<Rightarrow> string list" where
  "kind_errors request result =
     (let kind = opt_prop request ''kind''
      in if kind = JStr ''fs.read'' then validateFsReadResultForRequest result
         else if kind = JStr ''fs.write'' then validateFsWriteResultForRequest request result
         else if kind = JStr ''fs.delete'' then validateFsDeleteResultForRequest request result
         else if kind = JStr ''process.exec'' then validateProcessExecResultForRequest result
         else if kind = JStr ''network.request'' then validateNetworkRequestResultForRequest result
         else if kind = JStr ''git.commit'' then validateGitCommitResultForRequest request result
         else if kind = JStr ''git.push'' then validateGitPushResultForRequest request result
         else [''effect-result:request-kind-unsupported''])"

definition validateEffectResultForRequest :: "effect_env \<Rightarrow> jsval \<Rightarrow> jsval \<Rightarrow> validation js" where
  "validateEffectResultForRequest E request result =
     bindE (resultRequestValidation E request result) (\<lambda>(errs, ok). Inr (validationResult
       (if \<not> ok then errs
        else let (decided, pre) = validatePreExecutionApprovalTerminal result
             in errs @ chk (length_sat (\<lambda>l. l = 0) (opt_prop result ''evidenceRefs'')) ''effect-result:evidence-refs-empty''
                @ pre @ (if decided then [] else kind_errors request result)) result))"

section \<open>Approval grants\<close>

definition validateGrantSubject :: "jsval \<Rightarrow> string list" where
  "validateGrantSubject v =
     (let context = ''approval-grant.subject''; errors = validateExactKeys v [''actorType'', ''actorId''] [] context
      in if \<not> isPlainRecord v then errors
         else errors
           @ chk (opt_prop v ''actorType'' \<noteq> JStr ''user'') (context @ '':invalid-actorType'')
           @ chk (\<not> isIdentifier (opt_prop v ''actorId'')) (context @ '':invalid-actorId''))"

definition validateGrantScope :: "jsval \<Rightarrow> string list" where
  "validateGrantScope v =
     (let context = ''approval-grant.scope'';
          errors = validateExactKeys v [''runId'', ''projectId'', ''effectId'', ''kind'', ''payloadDigest'', ''payloadBytes'',
            ''workspaceRevision''] [] context
      in if \<not> isPlainRecord v then errors
         else errors
           @ concat (map (\<lambda>k. chk (\<not> isIdentifier (opt_prop v k)) (context @ '':invalid-'' @ k)) [''runId'', ''effectId''])
           @ chk (\<not> isProjectId (opt_prop v ''projectId'')) (context @ '':invalid-projectId'')
           @ chk (\<not> str_in (opt_prop v ''kind'') EFFECT_KINDS) (context @ '':invalid-kind'')
           @ chk (\<not> isDigest (opt_prop v ''payloadDigest'')) (context @ '':invalid-payloadDigest'')
           @ chk (\<not> int_ge (opt_prop v ''payloadBytes'') 0) (context @ '':invalid-payloadBytes'')
           @ chk (\<not> eff_isNonEmptyString 256 (opt_prop v ''workspaceRevision'')) (context @ '':invalid-workspaceRevision''))"

definition validateGrantConstraints :: "jsval \<Rightarrow> jsval \<Rightarrow> string list" where
  "validateGrantConstraints v scope =
     (let context = ''approval-grant.constraints'';
          errors = validateExactKeys v [''allowedRealpaths'', ''allowedBinary'', ''allowedArgvDigest'', ''allowedOrigin'', ''maxBytes''] [] context
      in if \<not> isPlainRecord v then errors
         else errors
           @ validateSortedUniqueStrings (opt_prop v ''allowedRealpaths'') (context @ ''.allowedRealpaths'') eff_isCanonicalAbsolute
           @ chk (\<not> null_or eff_isCanonicalAbsolute (opt_prop v ''allowedBinary'')) (context @ '':invalid-allowedBinary'')
           @ chk (\<not> null_or isDigest (opt_prop v ''allowedArgvDigest'')) (context @ '':invalid-allowedArgvDigest'')
           @ chk (\<not> null_or (eff_isNonEmptyString 4096) (opt_prop v ''allowedOrigin'')) (context @ '':invalid-allowedOrigin'')
           @ chk (\<not> null_or (\<lambda>x. int_ge x 0) (opt_prop v ''maxBytes'')) (context @ '':invalid-maxBytes'')
           @ chk (safe_int (opt_prop scope ''payloadBytes'') \<noteq> None
                  \<and> \<not> strict_eq (opt_prop v ''maxBytes'') (opt_prop scope ''payloadBytes'')) (context @ '':maxBytes-scope-mismatch''))"

definition deriveApprovalGrantConstraints :: "effect_env \<Rightarrow> jsval \<Rightarrow> jsval js" where
  "deriveApprovalGrantConstraints E request =
     bindE (validateEffectRequest E request) (\<lambda>r.
       if \<not> valid r then Inl (TypeErr (''m2-effect:invalid-request-for-grant:'' @ join_with '','' (errors r)))
       else let kind = str_of (opt_prop request ''kind''); target = opt_prop request ''target'';
                constraints = (\<lambda>paths binary argv orig. JObj [(''allowedRealpaths'', JArr paths), (''allowedBinary'', binary),
                  (''allowedArgvDigest'', argv), (''allowedOrigin'', orig), (''maxBytes'', opt_prop request ''payloadBytes'')])
            in Inr (if take 3 kind = ''fs.'' then constraints [opt_prop target ''resolvedRealpath''] JNull JNull JNull
                    else if kind = ''process.exec'' then constraints [] (opt_prop target ''binary'') (opt_prop target ''argvDigest'') JNull
                    else if kind = ''network.request'' then constraints [] JNull JNull (opt_prop target ''origin'')
                    else if take 4 kind = ''git.'' then
                      constraints (map JStr (sort (map (\<lambda>p. posix_resolve (str_of (opt_prop target ''canonicalRepo'')) (str_of p))
                        (elements (opt_prop target ''paths''))))) JNull JNull JNull
                    else constraints [] JNull JNull JNull))"

definition validateApprovalGrant :: "jsval \<Rightarrow> validation" where
  "validateApprovalGrant v =
     (let context = ''approval-grant'';
          errors = validateExactKeys v [''contract'', ''version'', ''grantId'', ''subject'', ''scope'', ''constraints'', ''issuedAt'',
            ''expiresAt'', ''singleUse'', ''nonce'', ''consumedAt'', ''consumedByEffectId'', ''revokedAt'', ''revocationReason''] [] context;
          issued = opt_prop v ''issuedAt''; expires = opt_prop v ''expiresAt''; consumedAt = opt_prop v ''consumedAt'';
          consumedBy = opt_prop v ''consumedByEffectId''; revokedAt = opt_prop v ''revokedAt''; revocation = opt_prop v ''revocationReason'';
          consumed = (consumedAt \<noteq> JNull \<or> consumedBy \<noteq> JNull); revoked = (revokedAt \<noteq> JNull \<or> revocation \<noteq> JNull)
      in if \<not> isPlainRecord v then validationResult errors v
         else validationResult (errors
           @ chk (opt_prop v ''contract'' \<noteq> JStr ''ApprovalGrant'') (context @ '':invalid-contract'')
           @ chk (opt_prop v ''version'' \<noteq> JInt 1) (context @ '':invalid-version'')
           @ chk (\<not> isIdentifier (opt_prop v ''grantId'')) (context @ '':invalid-grantId'')
           @ validateGrantSubject (opt_prop v ''subject'')
           @ validateGrantScope (opt_prop v ''scope'')
           @ validateGrantConstraints (opt_prop v ''constraints'') (opt_prop v ''scope'')
           @ chk (\<not> isCanonicalTimestamp issued) (context @ '':invalid-issuedAt'')
           @ chk (\<not> isCanonicalTimestamp expires) (context @ '':invalid-expiresAt'')
           @ chk (isCanonicalTimestamp issued \<and> isCanonicalTimestamp expires \<and> time_of expires \<le> time_of issued)
               (context @ '':invalid-expiry-order'')
           @ chk (opt_prop v ''singleUse'' \<noteq> JBool True) (context @ '':singleUse-required'')
           @ chk (\<not> eff_isNonEmptyString 256 (opt_prop v ''nonce'') \<or> length_sat (\<lambda>l. l < 16) (opt_prop v ''nonce'')) (context @ '':invalid-nonce'')
           @ (if consumed then
                chk (\<not> isCanonicalTimestamp consumedAt) (context @ '':invalid-consumedAt'')
                @ chk (\<not> isIdentifier consumedBy) (context @ '':invalid-consumedByEffectId'')
                @ chk (\<not> strict_eq consumedBy (opt_prop (opt_prop v ''scope'') ''effectId'')) (context @ '':consumed-effect-mismatch'')
              else [])
           @ chk ((consumedAt = JNull) \<noteq> (consumedBy = JNull)) (context @ '':partial-consumption'')
           @ chk (isCanonicalTimestamp issued \<and> isCanonicalTimestamp expires \<and> isCanonicalTimestamp consumedAt
                  \<and> (time_of consumedAt < time_of issued \<or> time_of consumedAt \<ge> time_of expires)) (context @ '':invalid-consumption-time'')
           @ (if revoked then
                chk (\<not> isCanonicalTimestamp revokedAt) (context @ '':invalid-revokedAt'')
                @ chk (\<not> eff_isNonEmptyString 1024 revocation) (context @ '':invalid-revocationReason'')
              else [])
           @ chk ((revokedAt = JNull) \<noteq> (revocation = JNull)) (context @ '':partial-revocation'')
           @ chk (consumed \<and> revoked) (context @ '':consumed-and-revoked'')) v)"

definition scope_matches :: "jsval \<Rightarrow> jsval \<Rightarrow> bool" where
  "scope_matches request grant =
     (let scope = opt_prop grant ''scope''; subject = opt_prop grant ''subject''; actor = opt_prop request ''actor''
      in strict_eq (opt_prop scope ''runId'') (opt_prop request ''runId'')
         \<and> strict_eq (opt_prop scope ''projectId'') (opt_prop (opt_prop request ''origin'') ''projectId'')
         \<and> list_all (\<lambda>k. strict_eq (opt_prop scope k) (opt_prop request k))
             [''effectId'', ''kind'', ''payloadDigest'', ''payloadBytes'', ''workspaceRevision'']
         \<and> opt_prop actor ''type'' = JStr ''user'' \<and> opt_prop subject ''actorType'' = JStr ''user''
         \<and> strict_eq (opt_prop subject ''actorId'') (opt_prop actor ''id'')
         \<and> (opt_prop request ''approvalGrantId'' = JNull \<or> strict_eq (opt_prop request ''approvalGrantId'') (opt_prop grant ''grantId'')))"

definition validateApprovalGrantForRequest :: "effect_env \<Rightarrow> jsval \<Rightarrow> jsval \<Rightarrow> validation js" where
  "validateApprovalGrantForRequest E request grant =
     bindE (validateEffectRequest E request) (\<lambda>rq.
       let gr = validateApprovalGrant grant; errs = errors rq @ errors gr
       in if \<not> valid rq \<or> \<not> valid gr then Inr (validationResult errs grant)
          else bindE (deriveApprovalGrantConstraints E request) (\<lambda>expected.
            bindE (canonicalStringify E (opt_prop grant ''constraints'')) (\<lambda>t.
              bindE (canonicalStringify E expected) (\<lambda>t'.
                Inr (validationResult (errs
                  @ chk (\<not> scope_matches request grant) ''approval-grant:request-scope-mismatch''
                  @ chk (t \<noteq> t') ''approval-grant:request-constraints-mismatch'') grant)))))"

section \<open>Dispatch\<close>

text \<open>
  \<open>VALIDATORS[value.contract]\<close> also finds what every object inherits. Called without a receiver,
  \<open>Object\<close> (under \<open>constructor\<close>) gives the document itself back, and \<open>toString\<close> a text; the others throw.
  Whatever comes back is taken for the verdict, so the answer of this definition is that value.
\<close>

definition verdict_object :: "validation \<Rightarrow> jsval" where
  "verdict_object r = JObj [(''valid'', JBool (valid r)), (''errors'', JArr (map JStr (errors r))), (''value'', value_of r)]"

definition validateM2EffectContract :: "effect_env \<Rightarrow> jsval \<Rightarrow> jsval \<Rightarrow> jsval js" where
  "validateM2EffectContract E v expected =
     (let contract = opt_prop v ''contract''; reject = (\<lambda>e. Inr (verdict_object (validationResult [e] v)))
      in if \<not> isPlainRecord v then reject ''m2-effect:not-object''
         else if expected \<noteq> JNull \<and> \<not> strict_eq contract expected then reject ''m2-effect:unexpected-contract''
         else bindE (js_string E contract) (\<lambda>name.
           if name = ''EffectRequest'' then bindE (validateEffectRequest E v) (\<lambda>r. Inr (verdict_object r))
           else if name = ''EffectResult'' then Inr (verdict_object (validateEffectResult E v))
           else if name = ''ApprovalGrant'' then Inr (verdict_object (validateApprovalGrant v))
           else if name = ''constructor'' then Inr v
           else if name = ''toString'' then Inr (JStr ''[object Undefined]'')
           else if name \<in> set inherited_names then Inl (TypeErr ''called on undefined'')
           else reject ''m2-effect:unknown-contract''))"

definition encodeM2EffectContract :: "effect_env \<Rightarrow> jsval \<Rightarrow> jsval \<Rightarrow> string js" where
  "encodeM2EffectContract E v expected =
     bindE (validateM2EffectContract E v expected) (\<lambda>r.
       if \<not> truthy (opt_prop r ''valid'') then Inl (TypeErr (join_with '', '' (map str_of (elements (opt_prop r ''errors'')))))
       else canonicalStringify E v)"

text \<open>A document that names no contract is encoded all the same.\<close>

lemma inherited_contract_encoded:
  "encodeM2EffectContract E (JObj [(''contract'', JStr ''constructor''), (''valid'', JBool True)]) JNull
     = Inr (''{'' @ json_quote ''contract'' @ '':'' @ json_quote ''constructor'' @ '','' @ json_quote ''valid'' @ '':true}'')"
  by (simp add: encodeM2EffectContract_def validateM2EffectContract_def js_string.simps canonicalStringify_def eff_text.simps
      isPlainRecord_def truthy_def printed_order_def is_index_def is_digit_def unit_rank_def Let_def)

end
