(* ===== verification/M2EffectLaws.thy ===== *)
theory M2EffectLaws
  imports M2EffectResult
begin

text \<open>
  What the effect contract promises: where an accepted file request can reach, what an accepted grant
  authorises, what a success proves and what a failure leaves behind. The canonical text of documents
  with safe integers is injective up to the order of properties, by the reader of \<open>M2Canonical\<close>.
\<close>


section \<open>Accepted documents\<close>

lemma effect_request_accepted:
  assumes "validateEffectRequest E v = Inr r" and "valid r"
  shows "isPlainRecord v" and "validateTarget E (opt_prop v ''target'') (opt_prop v ''kind'') (opt_prop v ''workspaceRevision'') = Inr []"
    and "str_in (opt_prop v ''kind'') EFFECT_KINDS" and "isIdentifier (opt_prop v ''effectId'')" and "isIdentifier (opt_prop v ''runId'')"
    and "eff_validateActor (opt_prop v ''actor'') = []" and "eff_validateOrigin (opt_prop v ''origin'') = []"
    and "isDigest (opt_prop v ''payloadDigest'')" and "int_ge (opt_prop v ''payloadBytes'') 0"
    and "eff_isNonEmptyString 256 (opt_prop v ''workspaceRevision'')"
  using assms
  by (auto simp: validateEffectRequest_def Let_def bindE_Inr_iff split: if_split_asm)

lemma effect_result_forms:
  "validateEffectRequest E v = Inr r \<Longrightarrow> valid r \<longleftrightarrow> errors r = []"
  "valid (validateEffectResult E v) \<longleftrightarrow> errors (validateEffectResult E v) = []"
  "valid (validateApprovalGrant v) \<longleftrightarrow> errors (validateApprovalGrant v) = []"
  by (auto simp: validateEffectRequest_def validateEffectResult_def validateApprovalGrant_def Let_def bindE_Inr_iff split: if_split_asm)

lemma effect_kinds:
  "str_in k EFFECT_KINDS \<Longrightarrow> k \<in> {JStr ''fs.read'', JStr ''fs.write'', JStr ''fs.delete'', JStr ''process.exec'',
     JStr ''network.request'', JStr ''git.commit'', JStr ''git.push''}"
  by (auto simp: str_in_def str_sat_iff EFFECT_KINDS_def)

lemma drop_common_empty: "drop_common xs ys = ([], down) \<Longrightarrow> ys = xs @ down"
  by (induction xs ys rule: drop_common.induct) (auto split: if_split_asm)

lemma join_front: "join_with d (w # ws) = w \<or> (\<exists>t. join_with d (w # ws) = w @ d @ t)"
  by (cases ws) auto

lemma inside_below:
  assumes "isInside root real"
  shows "\<exists>down. down \<noteq> [] \<and> segments real = segments root @ down"
proof -
  obtain up down where ud: "drop_common (segments root) (segments real) = (up, down)" by fastforce
  have "up = []"
  proof (rule ccontr)
    assume "up \<noteq> []"
    then obtain u us where up: "up = u # us" by (cases up) auto
    then have "posix_relative root real = ''..'' \<or> take 3 (posix_relative root real) = ''../''"
      using join_front [of "''/''" "''..''" "replicate (length us) ''..'' @ down"] by (auto simp: posix_relative_def ud)
    with assms show False by (simp add: isInside_def Let_def)
  qed
  then show ?thesis
    using assms ud drop_common_empty [of "segments root" "segments real" down]
    by (auto simp: isInside_def Let_def posix_relative_def)
qed

lemma segments_proper: "list_all proper_segment (segments p)"
  by (simp add: segments_def normalize_segments_proper)

text \<open>
  C3. A file effect stays below its project. The path an accepted file request resolves to is its
  relative path resolved against the project root, and its segments are those of the root followed by
  at least one more, none of them a step up.
\<close>

theorem filesystem_target_confined:
  assumes "validateEffectRequest E v = Inr r" and "valid r" and "take 3 (str_of (opt_prop v ''kind'')) = ''fs.''"
  shows "\<exists>root rel real below. opt_prop (opt_prop v ''target'') ''canonicalRoot'' = JStr root
    \<and> opt_prop (opt_prop v ''target'') ''relativePath'' = JStr rel \<and> opt_prop (opt_prop v ''target'') ''resolvedRealpath'' = JStr real
    \<and> real = posix_resolve root rel \<and> segments real = segments root @ below \<and> below \<noteq> [] \<and> list_all proper_segment below"
proof -
  let ?t = "opt_prop v ''target''"
  obtain k where k: "opt_prop v ''kind'' = JStr k"
    using effect_request_accepted(3) [OF assms(1,2)] by (auto simp: str_in_def str_sat_iff)
  then have "validateFilesystemTarget ?t = []"
    using effect_request_accepted(2) [OF assms(1,2)] assms(3) by (simp add: validateTarget_def)
  then have ok: "eff_isCanonicalAbsolute (opt_prop ?t ''canonicalRoot'')" "isM2ProjectRelativePath (opt_prop ?t ''relativePath'')"
    "eff_isCanonicalAbsolute (opt_prop ?t ''resolvedRealpath'')"
    "isInside (str_of (opt_prop ?t ''canonicalRoot'')) (str_of (opt_prop ?t ''resolvedRealpath''))"
    "posix_resolve (str_of (opt_prop ?t ''canonicalRoot'')) (str_of (opt_prop ?t ''relativePath'')) = str_of (opt_prop ?t ''resolvedRealpath'')"
    by (auto simp: validateFilesystemTarget_def Let_def split: if_split_asm)
  then obtain root rel real where texts: "opt_prop ?t ''canonicalRoot'' = JStr root" "opt_prop ?t ''relativePath'' = JStr rel"
    "opt_prop ?t ''resolvedRealpath'' = JStr real"
    by (auto simp: eff_isCanonicalAbsolute_def isM2ProjectRelativePath_def str_sat_iff)
  with ok obtain below where "below \<noteq> []" "segments real = segments root @ below" using inside_below by auto
  moreover from this segments_proper [of real] have "list_all proper_segment below" by simp
  ultimately show ?thesis using texts ok by (intro exI [of _ root] exI [of _ rel] exI [of _ real] exI [of _ below]) simp
qed

section \<open>Canonical text of plain documents\<close>

text \<open>Documents whose numbers are safe integers, and their normal form.\<close>

fun plain :: "jsval \<Rightarrow> bool" where
  "plain (JArr xs) = list_all plain xs"
| "plain (JObj kvs) = list_all (\<lambda>(k, x). plain x) kvs"
| "plain (JInt i) = (- MAX_SAFE_INTEGER \<le> i \<and> i \<le> MAX_SAFE_INTEGER)"
| "plain (JFloat m k) = False"
| "plain v = True"

fun eff_normal :: "jsval \<Rightarrow> jsval" where
  "eff_normal (JArr xs) = JArr (map eff_normal xs)"
| "eff_normal (JObj kvs) = JObj (printed_order (map (\<lambda>(k, x). (k, eff_normal x)) (sort_key (\<lambda>(k, x). map unit_rank k) kvs)))"
| "eff_normal JNegZero = JInt 0"
| "eff_normal v = v"

lemma printed_order_map: "printed_order (map (\<lambda>(k, x). (k, f x)) kvs) = map (\<lambda>(k, x). (k, f x)) (printed_order kvs)"
  by (simp only: printed_order_def filter_map_value sort_map_value map_append)

lemma printed_order_subset: "set (printed_order kvs) \<subseteq> set kvs"
  by (auto simp: printed_order_def)

lemma mapE_values:
  assumes "mapE (\<lambda>(k, x). bindE (f x) (\<lambda>t. Inr (k, t))) kvs = Inr ts"
  shows "ts = map (\<lambda>(k, x). (k, catchE (f x) [])) kvs \<and> (\<forall>(k, x) \<in> set kvs. f x = Inr (catchE (f x) []))"
  using assms
proof (induction kvs arbitrary: ts)
  case (Cons p kvs)
  then show ?case by (cases p; cases "f (snd p)") (auto simp: bindE_Inr_iff)
qed simp

lemma reads_zero: "reads ''0'' (JInt 0)"
proof -
  have "int_to_string 0 = ''0''" by code_simp
  then show ?thesis using reads_int [of 0] by (simp add: MAX_SAFE_INTEGER_def)
qed

lemma eff_text_reads: "eff_text E v = Inr t \<Longrightarrow> plain v \<Longrightarrow> reads t (eff_normal v)"
proof (induction E v arbitrary: t rule: eff_text.induct)
  case (1 E v)
  show ?case
  proof (cases v)
    case (JArr xs)
    with 1(3) obtain ts where ts: "mapE (eff_text E) xs = Inr ts" and t: "t = ''['' @ join_with '','' ts @ '']''"
      by (auto simp: eff_text.simps [of E] bindE_Inr_iff)
    have "list_all2 (\<lambda>x u. eff_text E x = Inr u) xs ts" using ts by (simp add: mapE_Inr_iff)
    moreover have "\<forall>x \<in> set xs. plain x" using 1(4) JArr by (simp add: list_all_iff)
    ultimately have "list_all2 reads ts (map eff_normal xs)"
      using 1(1) [OF JArr] by (fastforce simp: list_all2_conv_all_nth in_set_conv_nth)
    then show ?thesis using t JArr by (simp add: reads_array del: append_Cons append_Nil)
  next
    case (JObj kvs)
    let ?s = "sort_key (\<lambda>(k, x). map unit_rank k) kvs" and ?txt = "\<lambda>x. catchE (eff_text E x) []"
    from JObj 1(3) obtain ts where ts: "mapE (\<lambda>(k, x). bindE (eff_text E x) (\<lambda>t. Inr (k, t))) ?s = Inr ts"
      and t: "t = ''{'' @ join_with '','' (map (\<lambda>(k, t). json_quote k @ '':'' @ t) (printed_order ts)) @ ''}''"
      by (auto simp: eff_text.simps [of E] bindE_Inr_iff)
    have eq: "ts = map (\<lambda>(k, x). (k, ?txt x)) ?s" and ok: "\<forall>(k, x) \<in> set ?s. eff_text E x = Inr (?txt x)"
      using mapE_values [OF ts] by auto
    have each: "reads (?txt x) (eff_normal x)" if "(k, x) \<in> set (printed_order ?s)" for k x
    proof -
      have mem: "(k, x) \<in> set ?s" using that printed_order_subset by blast
      then have "plain x" using 1(4) JObj by (auto simp: list_all_iff)
      then show ?thesis using 1(2) [OF JObj mem refl] ok mem by blast
    qed
    have "list_all2 (\<lambda>t (k, x). \<exists>u. t = json_quote k @ '':'' @ u \<and> reads u x)
        (map (\<lambda>(k, t). json_quote k @ '':'' @ t) (printed_order ts)) (printed_order (map (\<lambda>(k, x). (k, eff_normal x)) ?s))"
      unfolding eq printed_order_map list.rel_map by (rule list.rel_refl_strong) (auto dest: each)
    then show ?thesis using t JObj by (simp add: reads_object del: append_Cons append_Nil)
  qed (use 1(3,4) reads_zero reads_int reads_quote reads_literals in
      \<open>auto simp: eff_text.simps [of E] split: if_splits\<close>)
qed


text \<open>A property of the normal form is the normal form of the property.\<close>

lemma map_of_filter_key: "map_of (filter (\<lambda>(k', x). k' = k) kvs) k = map_of kvs k"
  by (induction kvs) auto

lemma filter_key_sort: "filter (\<lambda>(k', x). k' = k) (sort_key (\<lambda>(k, x). g k) kvs) = filter (\<lambda>(k', x). k' = k) kvs"
proof -
  have "filter (\<lambda>(k', x). k' = k) ys = filter (\<lambda>(k', x). k' = k) (filter (\<lambda>p. (case p of (k, x) \<Rightarrow> g k) = g k) ys)" for ys :: "('a \<times> 'b) list"
    by (induction ys) auto
  then show ?thesis using sort_key_stable [of "\<lambda>(k, x). g k" "g k" kvs] by metis
qed

lemma map_of_sort: "map_of (sort_key (\<lambda>(k, x). g k) kvs) k = map_of kvs k"
  using map_of_filter_key filter_key_sort by metis

lemma map_of_filter_fst: "map_of (filter (\<lambda>(k, x). P k) kvs) k = (if P k then map_of kvs k else None)"
  by (induction kvs) auto

lemma map_of_printed: "k \<noteq> ''__proto__'' \<Longrightarrow> map_of (printed_order kvs) k = map_of kvs k"
  by (simp add: printed_order_def map_add_def map_of_sort map_of_filter_fst split: option.splits)

lemma eff_normal_prop:
  "isPlainRecord v \<Longrightarrow> k \<noteq> ''__proto__'' \<Longrightarrow> opt_prop (eff_normal v) k = eff_normal (opt_prop v k)"
  by (auto simp: isPlainRecord_iff map_of_printed map_of_map map_of_sort split: option.splits)

lemma eff_text_identifies:
  assumes "eff_text E v = Inr t" "eff_text E w = Inr t" "plain v" "plain w"
  shows "eff_normal v = eff_normal w"
  using eff_text_reads [OF assms(1,3)] eff_text_reads [OF assms(2,4)]
  by (auto simp: reads_def dest!: spec [of _ "Suc (2 * length t)"] spec [of _ "[]"])

section \<open>What a grant authorises\<close>

lemma grant_accepted:
  assumes "valid (validateApprovalGrant v)"
  shows "isPlainRecord v" and "validateGrantSubject (opt_prop v ''subject'') = []" and "validateGrantScope (opt_prop v ''scope'') = []"
    and "validateGrantConstraints (opt_prop v ''constraints'') (opt_prop v ''scope'') = []" and "opt_prop v ''singleUse'' = JBool True"
    and "isCanonicalTimestamp (opt_prop v ''issuedAt'')" and "isCanonicalTimestamp (opt_prop v ''expiresAt'')"
    and "time_of (opt_prop v ''issuedAt'') < time_of (opt_prop v ''expiresAt'')"
    and "opt_prop v ''consumedAt'' = JNull \<and> opt_prop v ''consumedByEffectId'' = JNull
      \<or> isCanonicalTimestamp (opt_prop v ''consumedAt'') \<and> strict_eq (opt_prop v ''consumedByEffectId'') (opt_prop (opt_prop v ''scope'') ''effectId'')
        \<and> time_of (opt_prop v ''issuedAt'') \<le> time_of (opt_prop v ''consumedAt'') \<and> time_of (opt_prop v ''consumedAt'') < time_of (opt_prop v ''expiresAt'')"
    and "\<not> (opt_prop v ''consumedAt'' \<noteq> JNull \<and> opt_prop v ''revokedAt'' \<noteq> JNull)"
  using assms by (auto simp: validateApprovalGrant_def Let_def split: if_split_asm)


lemma canonicalAbsolute_string: "eff_isCanonicalAbsolute v \<Longrightarrow> is_string v"
  by (auto simp: eff_isCanonicalAbsolute_def str_sat_iff is_string_def)

lemma relativePath_string: "isM2ProjectRelativePath v \<Longrightarrow> is_string v"
  by (auto simp: isM2ProjectRelativePath_def str_sat_iff is_string_def)

text \<open>Values the normal form does not change: null, texts and lists of texts.\<close>

definition text_value :: "jsval \<Rightarrow> bool" where
  "text_value v \<longleftrightarrow> v = JNull \<or> (\<exists>s. v = JStr s) \<or> (\<exists>ss. v = JArr (map JStr ss))"

lemma text_value_normal: "text_value v \<Longrightarrow> eff_normal v = v"
  by (auto simp: text_value_def comp_def)

lemma text_value_plain: "text_value v \<Longrightarrow> plain v"
  by (auto simp: text_value_def list_all_iff)

lemma normal_texts: "eff_normal v = JArr (map JStr ss) \<Longrightarrow> text_value v \<Longrightarrow> v = JArr (map JStr ss)"
  by (simp add: text_value_normal)

lemma safe_int_normal:
  assumes "safe_int v = Some i"
  shows "plain v" and "eff_normal v = JInt i" and "strict_eq v w \<longleftrightarrow> strict_eq (JInt i) w"
  using assms by (auto simp: safe_int_def strict_eq_def split: jsval.splits if_splits)

lemma safe_int_strict: "safe_int v = Some i \<Longrightarrow> safe_int w = Some i \<Longrightarrow> strict_eq v w"
  by (auto simp: safe_int_def strict_eq_def split: jsval.splits if_splits)

lemma constraints_accepted:
  assumes "validateGrantConstraints v scope = []" and "int_ge (opt_prop scope ''payloadBytes'') 0"
  shows "isPlainRecord v"
    and "list_all (\<lambda>k. text_value (opt_prop v k)) [''allowedRealpaths'', ''allowedBinary'', ''allowedArgvDigest'', ''allowedOrigin'']"
    and "\<exists>i. safe_int (opt_prop v ''maxBytes'') = Some i" and "\<forall>k. hasOwn v k \<longrightarrow> k \<in> {''allowedRealpaths'', ''allowedBinary'', ''allowedArgvDigest'', ''allowedOrigin'', ''maxBytes''}"
proof -
  have parts: "isPlainRecord v" "validateSortedUniqueStrings (opt_prop v ''allowedRealpaths'') (''approval-grant.constraints'' @ ''.allowedRealpaths'') eff_isCanonicalAbsolute = []"
    "null_or eff_isCanonicalAbsolute (opt_prop v ''allowedBinary'')" "null_or isDigest (opt_prop v ''allowedArgvDigest'')"
    "null_or (eff_isNonEmptyString 4096) (opt_prop v ''allowedOrigin'')" "null_or (\<lambda>x. int_ge x 0) (opt_prop v ''maxBytes'')"
    "strict_eq (opt_prop v ''maxBytes'') (opt_prop scope ''payloadBytes'')"
    using assms by (auto simp: validateGrantConstraints_def Let_def int_ge_iff split: if_split_asm)
  show "isPlainRecord v" by fact
  obtain ss where "opt_prop v ''allowedRealpaths'' = JArr (map JStr ss)"
    by (rule validateSortedUniqueStrings_Nil [OF parts(2) canonicalAbsolute_string])
  then show "list_all (\<lambda>k. text_value (opt_prop v k)) [''allowedRealpaths'', ''allowedBinary'', ''allowedArgvDigest'', ''allowedOrigin'']"
    using parts(3-5) by (auto simp: text_value_def null_or_def eff_isCanonicalAbsolute_def isDigest_def eff_isNonEmptyString_def str_sat_iff)
  show "\<exists>i. safe_int (opt_prop v ''maxBytes'') = Some i"
    using parts(6,7) assms(2) by (auto simp: null_or_def int_ge_iff safe_int_def)
  show "\<forall>k. hasOwn v k \<longrightarrow> k \<in> {''allowedRealpaths'', ''allowedBinary'', ''allowedArgvDigest'', ''allowedOrigin'', ''maxBytes''}"
    using assms(1) parts(1) by (auto simp: validateGrantConstraints_def Let_def validateExactKeys_Nil_iff)
qed


text \<open>What a request needs granted, by its kind: paths of the file system, or one binary with its
  arguments, or one network origin.\<close>

definition needed_paths :: "jsval \<Rightarrow> string list" where
  "needed_paths request =
     (let kind = str_of (opt_prop request ''kind''); target = opt_prop request ''target''
      in if kind \<in> {''fs.read'', ''fs.write'', ''fs.delete''} then [str_of (opt_prop target ''resolvedRealpath'')]
         else if kind \<in> {''git.commit'', ''git.push''} then
           sort (map (\<lambda>p. posix_resolve (str_of (opt_prop target ''canonicalRepo'')) (str_of p)) (elements (opt_prop target ''paths'')))
         else [])"

definition needed_for :: "string \<Rightarrow> string \<Rightarrow> jsval \<Rightarrow> jsval" where
  "needed_for kind fld request = (if opt_prop request ''kind'' = JStr kind then opt_prop (opt_prop request ''target'') fld else JNull)"

lemma derived_constraints:
  assumes "validateEffectRequest E request = Inr rq" and "valid rq"
  shows "deriveApprovalGrantConstraints E request = Inr (JObj [(''allowedRealpaths'', JArr (map JStr (needed_paths request))),
      (''allowedBinary'', needed_for ''process.exec'' ''binary'' request),
      (''allowedArgvDigest'', needed_for ''process.exec'' ''argvDigest'' request),
      (''allowedOrigin'', needed_for ''network.request'' ''origin'' request), (''maxBytes'', opt_prop request ''payloadBytes'')])
    \<and> text_value (needed_for ''process.exec'' ''binary'' request) \<and> text_value (needed_for ''process.exec'' ''argvDigest'' request)
    \<and> text_value (needed_for ''network.request'' ''origin'' request)"
proof -
  let ?t = "opt_prop request ''target''"
  note ok = effect_request_accepted(2,3) [OF assms]
  have fs: "\<exists>s. opt_prop ?t ''resolvedRealpath'' = JStr s" if "validateFilesystemTarget ?t = []"
    using that by (auto simp: validateFilesystemTarget_def Let_def eff_isCanonicalAbsolute_def str_sat_iff split: if_split_asm)
  have proc: "(\<exists>s. opt_prop ?t ''binary'' = JStr s) \<and> (\<exists>s. opt_prop ?t ''argvDigest'' = JStr s)" if "validateProcessTarget E ?t = Inr []"
    using that by (auto simp: validateProcessTarget_def Let_def bindE_Inr_iff eff_isCanonicalAbsolute_def isDigest_def str_sat_iff split: if_split_asm)
  have net: "\<exists>s. opt_prop ?t ''origin'' = JStr s" if "validateNetworkTarget E ?t = []"
    using that by (auto simp: validateNetworkTarget_def Let_def eff_isNonEmptyString_def str_sat_iff split: if_split_asm)
  note defs = deriveApprovalGrantConstraints_def assms needed_paths_def needed_for_def text_value_def Let_def
  consider "opt_prop request ''kind'' = JStr ''fs.read''" | "opt_prop request ''kind'' = JStr ''fs.write''"
    | "opt_prop request ''kind'' = JStr ''fs.delete''" | "opt_prop request ''kind'' = JStr ''process.exec''"
    | "opt_prop request ''kind'' = JStr ''network.request''" | "opt_prop request ''kind'' = JStr ''git.commit''"
    | "opt_prop request ''kind'' = JStr ''git.push''"
    using effect_kinds [OF ok(2)] by blast
  then show ?thesis
  proof cases
    case 1 then show ?thesis using ok(1) fs by (auto simp: validateTarget_def defs)
  next
    case 2 then show ?thesis using ok(1) fs by (auto simp: validateTarget_def defs)
  next
    case 3 then show ?thesis using ok(1) fs by (auto simp: validateTarget_def defs)
  next
    case 4 then show ?thesis using ok(1) proc by (auto simp: validateTarget_def defs)
  next
    case 5 then show ?thesis using ok(1) net by (auto simp: validateTarget_def defs)
  next
    case 6 then show ?thesis by (simp add: defs)
  next
    case 7 then show ?thesis by (simp add: defs)
  qed
qed

definition distinct_keys :: "jsval \<Rightarrow> bool" where
  "distinct_keys v = (case v of JObj kvs \<Rightarrow> distinct (map fst kvs) | _ \<Rightarrow> True)"

lemma plain_object:
  assumes "isPlainRecord v" and "distinct_keys v" and "\<forall>k. hasOwn v k \<longrightarrow> plain (opt_prop v k)"
  shows "plain v"
proof -
  obtain kvs where v: "v = JObj kvs" using assms(1) by (auto simp: isPlainRecord_iff)
  have "plain x" if "(k, x) \<in> set kvs" for k x
  proof -
    have "map_of kvs k = Some x" using that assms(2) v by (simp add: distinct_keys_def)
    moreover have "hasOwn v k" using that v by (force simp: hasOwn_def)
    ultimately show ?thesis using assms(3) v by force
  qed
  then show ?thesis by (auto simp: v list_all_iff)
qed

lemma grant_for_request_accepted:
  assumes "validateApprovalGrantForRequest E request grant = Inr r" and "valid r"
  shows "\<exists>rq expected t. validateEffectRequest E request = Inr rq \<and> valid rq \<and> valid (validateApprovalGrant grant)
    \<and> scope_matches request grant \<and> deriveApprovalGrantConstraints E request = Inr expected
    \<and> eff_text E (opt_prop grant ''constraints'') = Inr t \<and> eff_text E expected = Inr t"
proof -
  obtain rq where rq: "validateEffectRequest E request = Inr rq"
    using assms(1) by (auto simp: validateApprovalGrantForRequest_def bindE_Inr_iff)
  have ok: "valid rq \<and> valid (validateApprovalGrant grant)"
  proof (rule ccontr)
    assume no: "\<not> (valid rq \<and> valid (validateApprovalGrant grant))"
    then have "r = validationResult (errors rq @ errors (validateApprovalGrant grant)) grant"
      using assms(1) rq by (auto simp: validateApprovalGrantForRequest_def Let_def)
    with assms(2) no show False by (simp add: effect_result_forms(1) [OF rq] effect_result_forms(3))
  qed
  then obtain expected t t' where parts: "deriveApprovalGrantConstraints E request = Inr expected"
    "eff_text E (opt_prop grant ''constraints'') = Inr t" "eff_text E expected = Inr t'"
    "r = validationResult (errors rq @ errors (validateApprovalGrant grant) @ chk (\<not> scope_matches request grant) ''approval-grant:request-scope-mismatch''
      @ chk (t \<noteq> t') ''approval-grant:request-constraints-mismatch'') grant"
    using assms(1) rq by (auto simp: validateApprovalGrantForRequest_def Let_def bindE_Inr_iff canonicalStringify_def)
  with assms(2) have "scope_matches request grant" "t = t'" by simp_all
  with parts ok rq show ?thesis by blast
qed

text \<open>
  C1. A grant authorises one request and nothing else. A grant accepted for a request is single-use,
  names the requesting user and the run, project, effect, kind, payload and workspace revision of the
  request, and its constraints are exactly the paths, the binary with its arguments, or the origin that
  the request needs, and its number of bytes. A document has no two properties of the same name.
\<close>

theorem grant_authorises_request:
  assumes "validateApprovalGrantForRequest E request grant = Inr r" and "valid r" and "distinct_keys (opt_prop grant ''constraints'')"
  shows "strict_eq (opt_prop (opt_prop grant ''scope'') ''runId'') (opt_prop request ''runId'')
    \<and> strict_eq (opt_prop (opt_prop grant ''scope'') ''projectId'') (opt_prop (opt_prop request ''origin'') ''projectId'')
    \<and> list_all (\<lambda>k. strict_eq (opt_prop (opt_prop grant ''scope'') k) (opt_prop request k))
        [''effectId'', ''kind'', ''payloadDigest'', ''payloadBytes'', ''workspaceRevision'']
    \<and> opt_prop (opt_prop request ''actor'') ''type'' = JStr ''user''
    \<and> strict_eq (opt_prop (opt_prop grant ''subject'') ''actorId'') (opt_prop (opt_prop request ''actor'') ''id'')
    \<and> opt_prop grant ''singleUse'' = JBool True
    \<and> opt_prop (opt_prop grant ''constraints'') ''allowedRealpaths'' = JArr (map JStr (needed_paths request))
    \<and> opt_prop (opt_prop grant ''constraints'') ''allowedBinary'' = needed_for ''process.exec'' ''binary'' request
    \<and> opt_prop (opt_prop grant ''constraints'') ''allowedArgvDigest'' = needed_for ''process.exec'' ''argvDigest'' request
    \<and> opt_prop (opt_prop grant ''constraints'') ''allowedOrigin'' = needed_for ''network.request'' ''origin'' request
    \<and> strict_eq (opt_prop (opt_prop grant ''constraints'') ''maxBytes'') (opt_prop request ''payloadBytes'')"
proof -
  let ?c = "opt_prop grant ''constraints''"
  obtain rq expected t where rq: "validateEffectRequest E request = Inr rq" "valid rq"
    and gr: "valid (validateApprovalGrant grant)" and scp: "scope_matches request grant"
    and derived: "deriveApprovalGrantConstraints E request = Inr expected"
    and texts: "eff_text E ?c = Inr t" "eff_text E expected = Inr t"
    using grant_for_request_accepted [OF assms(1,2)] by blast
  note expected = derived_constraints [OF rq, unfolded derived, simplified]
  have bytes: "int_ge (opt_prop (opt_prop grant ''scope'') ''payloadBytes'') 0"
    using grant_accepted(3) [OF gr] by (auto simp: validateGrantScope_def Let_def split: if_split_asm)
  note c = constraints_accepted [OF grant_accepted(4) [OF gr] bytes]
  obtain i where i: "safe_int (opt_prop ?c ''maxBytes'') = Some i" using c(3) by blast
  obtain j where j: "safe_int (opt_prop request ''payloadBytes'') = Some j"
    using effect_request_accepted(9) [OF rq] by (auto simp: int_ge_iff)
  have "plain (opt_prop ?c k)" if "hasOwn ?c k" for k
    using that c(2,4) i by (auto simp: text_value_plain safe_int_normal(1))
  then have "plain ?c" using plain_object c(1) assms(3) by blast
  moreover have "plain expected" using expected j by (auto simp: text_value_plain safe_int_normal(1) list_all_iff)
  moreover have object: "isPlainRecord expected" using expected by (auto simp: isPlainRecord_def)
  ultimately have "eff_normal ?c = eff_normal expected" using eff_text_identifies texts by blast
  then have fld: "eff_normal (opt_prop ?c k) = eff_normal (opt_prop expected k)" if "k \<noteq> ''__proto__''" for k
    using eff_normal_prop [OF c(1) that] eff_normal_prop [OF object that] by simp
  have "strict_eq (opt_prop ?c ''maxBytes'') (opt_prop request ''payloadBytes'')"
    using fld [of "''maxBytes''"] expected i j safe_int_strict [OF i, of "opt_prop request ''payloadBytes''"] by (simp add: safe_int_normal(2))
  moreover have "opt_prop ?c ''allowedRealpaths'' = JArr (map JStr (needed_paths request))"
    using fld [of "''allowedRealpaths''"] expected c(2) by (simp add: text_value_normal comp_def)
  moreover have "opt_prop ?c ''allowedBinary'' = needed_for ''process.exec'' ''binary'' request"
    using fld [of "''allowedBinary''"] expected c(2) by (simp add: text_value_normal)
  moreover have "opt_prop ?c ''allowedArgvDigest'' = needed_for ''process.exec'' ''argvDigest'' request"
    using fld [of "''allowedArgvDigest''"] expected c(2) by (simp add: text_value_normal)
  moreover have "opt_prop ?c ''allowedOrigin'' = needed_for ''network.request'' ''origin'' request"
    using fld [of "''allowedOrigin''"] expected c(2) by (simp add: text_value_normal)
  ultimately show ?thesis using scp [unfolded scope_matches_def Let_def] grant_accepted(5) [OF gr] by blast
qed


section \<open>What a result proves\<close>

lemma effect_result_accepted:
  assumes "valid (validateEffectResult E v)"
  shows "eff_validateChangesResult (opt_prop v ''changes'') = []" and "validateProcessResult (opt_prop v ''process'') = []"
    and "validateNetworkResult E (opt_prop v ''network'') = []" and "eff_validateRollbackResult (opt_prop v ''rollback'') = []"
    and "null_or isDigest (opt_prop v ''outputDigest'')" and "is_bool (opt_prop v ''lateCompletionRejected'')"
    and "opt_prop v ''terminalStatus'' = JStr ''succeeded'' \<longleftrightarrow> opt_prop v ''errorCode'' = JNull"
    and "str_in (opt_prop v ''terminalStatus'') EFFECT_TERMINAL_STATUSES"
    and "validateSortedUniqueStrings (opt_prop v ''evidenceRefs'') (''effect-result'' @ ''.evidenceRefs'') (eff_isNonEmptyString 1024) = []"
    and "null_or (str_sat (code_text 63)) (opt_prop v ''errorCode'')"
  using assms by (auto simp: validateEffectResult_def Let_def split: if_split_asm)

lemma result_request_accepted:
  assumes "validateEffectResultForRequest E request result = Inr r" and "valid r"
  shows "\<exists>rq d. validateEffectRequest E request = Inr rq \<and> valid rq \<and> valid (validateEffectResult E result)
    \<and> computeEffectRequestDigest E request = Inr d \<and> opt_prop result ''requestDigest'' = JStr d
    \<and> strict_eq (opt_prop result ''effectId'') (opt_prop request ''effectId'') \<and> strict_eq (opt_prop result ''runId'') (opt_prop request ''runId'')
    \<and> \<not> length_sat (\<lambda>l. l = 0) (opt_prop result ''evidenceRefs'')
    \<and> snd (validatePreExecutionApprovalTerminal result) = []
    \<and> (if fst (validatePreExecutionApprovalTerminal result) then True else kind_errors request result = [])"
proof -
  obtain errs ok where rrv: "resultRequestValidation E request result = Inr (errs, ok)"
    using assms(1) by (auto simp: validateEffectResultForRequest_def bindE_Inr_iff)
  obtain rq where rq: "validateEffectRequest E request = Inr rq"
    using rrv by (auto simp: resultRequestValidation_def bindE_Inr_iff)
  have both: "valid rq \<and> valid (validateEffectResult E result)"
  proof (rule ccontr)
    assume no: "\<not> (valid rq \<and> valid (validateEffectResult E result))"
    then have "r = validationResult (errors rq @ errors (validateEffectResult E result)) result"
      using assms(1) rrv rq by (auto simp: validateEffectResultForRequest_def resultRequestValidation_def Let_def)
    with assms(2) no show False by (simp add: effect_result_forms(1) [OF rq] effect_result_forms(2))
  qed
  then have none: "errors rq = []" "errors (validateEffectResult E result) = []"
    by (simp_all add: effect_result_forms(1) [OF rq] effect_result_forms(2))
  obtain d where d: "computeEffectRequestDigest E request = Inr d" and ok: ok
    and errs: "errs = chk (\<not> strict_eq (opt_prop result ''effectId'') (opt_prop request ''effectId'')
        \<or> \<not> strict_eq (opt_prop result ''runId'') (opt_prop request ''runId'')
        \<or> \<not> strict_eq (opt_prop result ''projectId'') (opt_prop (opt_prop request ''origin'') ''projectId'')
        \<or> opt_prop result ''requestDigest'' \<noteq> JStr d) ''effect-result:request-identity-mismatch''"
    using rrv rq both none by (auto simp: resultRequestValidation_def Let_def bindE_Inr_iff)
  from assms rrv ok have "errs = [] \<and> \<not> length_sat (\<lambda>l. l = 0) (opt_prop result ''evidenceRefs'')
    \<and> snd (validatePreExecutionApprovalTerminal result) = []
    \<and> (if fst (validatePreExecutionApprovalTerminal result) then True else kind_errors request result = [])"
    by (auto simp: validateEffectResultForRequest_def case_prod_unfold Let_def)
  then show ?thesis using rq both d errs by simp
qed

lemma success_not_decided:
  assumes "valid (validateEffectResult E result)" and "opt_prop result ''terminalStatus'' = JStr ''succeeded''"
  shows "\<not> fst (validatePreExecutionApprovalTerminal result)"
  using effect_result_accepted(7) [OF assms(1)] assms(2)
  by (simp add: validatePreExecutionApprovalTerminal_def str_in_def str_sat_def)

text \<open>The paths an effect changes when it succeeds.\<close>

definition changed_paths :: "jsval \<Rightarrow> jsval list" where
  "changed_paths request =
     (let kind = str_of (opt_prop request ''kind''); target = opt_prop request ''target''
      in if kind \<in> {''fs.write'', ''fs.delete''} then [opt_prop target ''relativePath'']
         else if kind \<in> {''git.commit'', ''git.push''} then elements (opt_prop target ''paths'') else [])"

lemma exact_paths:
  assumes "hasExactPaths result ps" and "eff_validateChangesResult (opt_prop result ''changes'') = []"
  shows "opt_prop (opt_prop result ''changes'') ''paths'' = JArr ps"
proof -
  have srt: "validateSortedUniqueStrings (opt_prop (opt_prop result ''changes'') ''paths'') (''effect-result.changes'' @ ''.paths'') isM2ProjectRelativePath = []"
    using assms(2) by (auto simp: eff_validateChangesResult_def Let_def split: if_split_asm)
  obtain ss where ss: "opt_prop (opt_prop result ''changes'') ''paths'' = JArr (map JStr ss)"
    by (rule validateSortedUniqueStrings_Nil [OF srt relativePath_string])
  with assms(1) have "list_all2 strict_eq (map JStr ss) ps" by (simp add: hasExactPaths_def)
  then have "ps = map JStr ss" by (auto simp: list_all2_conv_all_nth intro!: nth_equalityI)
  with ss show ?thesis by simp
qed

lemma empty_changes:
  assumes "changesEvidenceIsEmpty result" and "eff_validateChangesResult (opt_prop result ''changes'') = []"
  shows "opt_prop (opt_prop result ''changes'') ''paths'' = JArr []"
proof -
  have srt: "validateSortedUniqueStrings (opt_prop (opt_prop result ''changes'') ''paths'') (''effect-result.changes'' @ ''.paths'') isM2ProjectRelativePath = []"
    using assms(2) by (auto simp: eff_validateChangesResult_def Let_def split: if_split_asm)
  obtain ss where "opt_prop (opt_prop result ''changes'') ''paths'' = JArr (map JStr ss)"
    by (rule validateSortedUniqueStrings_Nil [OF srt relativePath_string])
  with assms(1) show ?thesis by (simp add: changesEvidenceIsEmpty_def Let_def length_sat_def)
qed


text \<open>The evidence of a success, kind by kind.\<close>

definition process_succeeded :: "jsval \<Rightarrow> bool" where
  "process_succeeded p \<longleftrightarrow> int_ge (opt_prop p ''pid'') 1 \<and> int_ge (opt_prop p ''processGroupId'') 1
     \<and> eff_isNonEmptyString 256 (opt_prop p ''startIdentity'')
     \<and> strict_eq (opt_prop p ''exitCode'') (JInt 0) \<and> opt_prop p ''signal'' = JNull"

definition network_reached :: "bool \<Rightarrow> jsval \<Rightarrow> bool" where
  "network_reached answered n \<longleftrightarrow> \<not> length_sat (\<lambda>l. l = 0) (opt_prop n ''resolvedAddresses'') \<and> opt_prop n ''finalUrl'' \<noteq> JNull
     \<and> (if answered then opt_prop n ''status'' \<noteq> JNull else True)"

definition digests_proved :: "jsval \<Rightarrow> jsval \<Rightarrow> bool" where
  "digests_proved request result \<longleftrightarrow>
     (let kind = opt_prop request ''kind''; payload = opt_prop request ''payloadDigest'';
          c = opt_prop result ''changes''; prior = opt_prop c ''beforeDigest''; after = opt_prop c ''afterDigest'';
          output = opt_prop result ''outputDigest''
      in output \<noteq> JNull \<and> opt_prop c ''diffArtifact'' = JNull
         \<and> (if kind = JStr ''fs.write'' then strict_eq after payload \<and> strict_eq output payload
            else if kind = JStr ''fs.delete'' then prior \<noteq> JNull \<and> after = JNull \<and> strict_eq output payload
            else if kind = JStr ''git.commit'' then prior \<noteq> JNull \<and> after \<noteq> JNull \<and> strict_eq output after
            else if kind = JStr ''git.push'' then prior \<noteq> JNull \<and> after \<noteq> JNull
            else prior = JNull \<and> after = JNull))"

definition effect_proved :: "jsval \<Rightarrow> jsval \<Rightarrow> bool" where
  "effect_proved request result \<longleftrightarrow>
     (let kind = opt_prop request ''kind''; rollback = opt_prop result ''rollback'' in
     hasExactPaths result (changed_paths request) \<and> digests_proved request result
     \<and> opt_prop rollback ''required'' = JBool False \<and> opt_prop rollback ''status'' = JStr ''not_required''
     \<and> (if kind = JStr ''fs.write'' then True else opt_prop rollback ''evidenceRef'' = JNull)
     \<and> opt_prop result ''lateCompletionRejected'' = JBool False
     \<and> (if kind = JStr ''process.exec'' then process_succeeded (opt_prop result ''process'') else processEvidenceIsEmpty result)
     \<and> (if str_in kind [''network.request'', ''git.push''] then network_reached (kind = JStr ''network.request'') (opt_prop result ''network'')
        else networkEvidenceIsEmpty result))"

lemma no_changes_paths: "changesEvidenceIsEmpty result \<Longrightarrow> eff_validateChangesResult (opt_prop result ''changes'') = [] \<Longrightarrow> hasExactPaths result []"
  using empty_changes by (simp add: hasExactPaths_def)

lemma not_null_digest: "isDigest d \<Longrightarrow> strict_eq v d \<Longrightarrow> v \<noteq> JNull"
  by (auto simp: isDigest_def str_sat_iff)

lemmas evidence_checks = validateNoProcessEvidence_def validateNoNetworkEvidence_def validateNoRollbackEvidence_def

lemmas success_rules = effect_proved_def digests_proved_def network_reached_def process_succeeded_def changed_paths_def
  validateNoProcessEvidence_def validateNoNetworkEvidence_def validateNoRollbackEvidence_def Let_def str_in_def str_sat_def

text \<open>The checks of a kind find nothing wrong with a success exactly when it carries that evidence.\<close>

lemma no_changes_iff:
  assumes "eff_validateChangesResult (opt_prop result ''changes'') = []"
  shows "changesEvidenceIsEmpty result \<longleftrightarrow> hasExactPaths result [] \<and> opt_prop (opt_prop result ''changes'') ''beforeDigest'' = JNull
    \<and> opt_prop (opt_prop result ''changes'') ''afterDigest'' = JNull \<and> opt_prop (opt_prop result ''changes'') ''diffArtifact'' = JNull"
  using no_changes_paths [OF _ assms] exact_paths [OF _ assms, of "[]"] by (auto simp: changesEvidenceIsEmpty_def Let_def length_sat_def)

lemma success_proved:
  assumes "opt_prop result ''terminalStatus'' = JStr ''succeeded''"
    and "str_in (opt_prop request ''kind'') EFFECT_KINDS" and "isDigest (opt_prop request ''payloadDigest'')"
    and "eff_validateChangesResult (opt_prop result ''changes'') = []"
  shows "kind_errors request result = [] \<longleftrightarrow> effect_proved request result"
proof -
  note nochange = no_changes_iff [OF assms(4)] and dig = not_null_digest [OF assms(3)]
  consider "opt_prop request ''kind'' = JStr ''fs.read''" | "opt_prop request ''kind'' = JStr ''fs.write''"
    | "opt_prop request ''kind'' = JStr ''fs.delete''" | "opt_prop request ''kind'' = JStr ''process.exec''"
    | "opt_prop request ''kind'' = JStr ''network.request''" | "opt_prop request ''kind'' = JStr ''git.commit''"
    | "opt_prop request ''kind'' = JStr ''git.push''"
    using effect_kinds [OF assms(2)] by blast
  then show ?thesis
  proof cases
    case 1
    then have "kind_errors request result = validateFsReadResultForRequest result" by (simp add: kind_errors_def)
    with 1 show ?thesis using assms(1) nochange by (auto simp: validateFsReadResultForRequest_def success_rules)
  next
    case 2
    then have "kind_errors request result = validateFsWriteResultForRequest request result" by (simp add: kind_errors_def)
    with 2 show ?thesis using assms(1) dig by (auto simp: validateFsWriteResultForRequest_def success_rules)
  next
    case 3
    then have "kind_errors request result = validateFsDeleteResultForRequest request result" by (simp add: kind_errors_def)
    with 3 show ?thesis using assms(1) dig by (auto simp: validateFsDeleteResultForRequest_def success_rules)
  next
    case 4
    then have "kind_errors request result = validateProcessExecResultForRequest result" by (simp add: kind_errors_def)
    with 4 show ?thesis using assms(1) nochange by (auto simp: validateProcessExecResultForRequest_def success_rules)
  next
    case 5
    then have "kind_errors request result = validateNetworkRequestResultForRequest result" by (simp add: kind_errors_def)
    with 5 show ?thesis using assms(1) nochange by (auto simp: validateNetworkRequestResultForRequest_def success_rules)
  next
    case 6
    then have "kind_errors request result = validateGitCommitResultForRequest request result" by (simp add: kind_errors_def)
    with 6 show ?thesis using assms(1) by (auto simp: validateGitCommitResultForRequest_def success_rules)
  next
    case 7
    then have "kind_errors request result = validateGitPushResultForRequest request result" by (simp add: kind_errors_def)
    with 7 show ?thesis using assms(1) by (auto simp: validateGitPushResultForRequest_def success_rules)
  qed
qed

text \<open>
  C2. What a success proves. An accepted result that says succeeded belongs to the request by identity and
  digest, names its evidence, changed exactly the paths the request names, has an output digest, no diff
  artifact, no rollback and no late completion, and carries the evidence of its kind: a process its
  complete identity and exit code 0; a network request the addresses, the final URL and the status it
  reached, a push the first two; a write ends with the digest of its payload and reports it; a delete has
  the digest of what was there and none after; a commit and a push have both digests, and a commit reports
  the one after. Evidence of any other kind is absent.
\<close>

theorem effect_success_proved:
  assumes "validateEffectResultForRequest E request result = Inr r" and "valid r"
    and "opt_prop result ''terminalStatus'' = JStr ''succeeded''"
  shows "(\<exists>d. computeEffectRequestDigest E request = Inr d \<and> opt_prop result ''requestDigest'' = JStr d)
    \<and> strict_eq (opt_prop result ''effectId'') (opt_prop request ''effectId'')
    \<and> \<not> length_sat (\<lambda>l. l = 0) (opt_prop result ''evidenceRefs'')
    \<and> opt_prop (opt_prop result ''changes'') ''paths'' = JArr (changed_paths request)
    \<and> effect_proved request result"
proof -
  obtain rq d where rq: "validateEffectRequest E request = Inr rq" "valid rq" and rs: "valid (validateEffectResult E result)"
    and d: "computeEffectRequestDigest E request = Inr d" "opt_prop result ''requestDigest'' = JStr d"
    and same: "strict_eq (opt_prop result ''effectId'') (opt_prop request ''effectId'')"
    and refs: "\<not> length_sat (\<lambda>l. l = 0) (opt_prop result ''evidenceRefs'')"
    and kind: "if fst (validatePreExecutionApprovalTerminal result) then True else kind_errors request result = []"
    using result_request_accepted [OF assms(1,2)] by blast
  have "effect_proved request result"
    using success_proved kind success_not_decided [OF rs assms(3)] assms(3) effect_request_accepted(3,8) [OF rq]
      effect_result_accepted(1) [OF rs] by simp
  moreover from this have "opt_prop (opt_prop result ''changes'') ''paths'' = JArr (changed_paths request)"
    using exact_paths [OF _ effect_result_accepted(1) [OF rs]] by (simp add: effect_proved_def Let_def)
  ultimately show ?thesis using d same refs by blast
qed

text \<open>
  C4. What a failure leaves behind. An effect on files or on the repository that neither succeeded
  nor asks for rollback changed nothing, has no output and no late completion, and cannot be in doubt:
  it was neither orphaned nor killed.
\<close>

theorem failure_leaves_nothing:
  assumes "validateEffectResultForRequest E request result = Inr r" and "valid r"
    and "str_in (opt_prop request ''kind'') [''fs.write'', ''fs.delete'', ''git.commit'']"
    and "opt_prop result ''terminalStatus'' \<noteq> JStr ''succeeded''" and "opt_prop (opt_prop result ''rollback'') ''required'' \<noteq> JBool True"
  shows "changesEvidenceIsEmpty result \<and> opt_prop result ''outputDigest'' = JNull \<and> processEvidenceIsEmpty result
    \<and> networkEvidenceIsEmpty result \<and> opt_prop result ''lateCompletionRejected'' = JBool False
    \<and> \<not> str_in (opt_prop result ''terminalStatus'') [''orphaned'', ''killed'']"
proof -
  obtain rq d where rs: "valid (validateEffectResult E result)"
    and pre: "snd (validatePreExecutionApprovalTerminal result) = []"
    and kind: "if fst (validatePreExecutionApprovalTerminal result) then True else kind_errors request result = []"
    using result_request_accepted [OF assms(1,2)] by blast
  have late: "opt_prop result ''lateCompletionRejected'' \<noteq> JBool True \<Longrightarrow> opt_prop result ''lateCompletionRejected'' = JBool False"
    using effect_result_accepted(6) [OF rs] by (auto simp: is_bool_def split: jsval.splits)
  show ?thesis
  proof (cases "fst (validatePreExecutionApprovalTerminal result)")
    case True
    then show ?thesis using pre
      by (auto simp: validatePreExecutionApprovalTerminal_def evidence_checks str_in_def str_sat_def split: if_split_asm)
  next
    case False
    then have none: "kind_errors request result = []" using kind by simp
    consider "opt_prop request ''kind'' = JStr ''fs.write''" | "opt_prop request ''kind'' = JStr ''fs.delete''"
      | "opt_prop request ''kind'' = JStr ''git.commit''"
      using assms(3) by (auto simp: str_in_def str_sat_iff)
    then show ?thesis
    proof cases
      case 1
      then have "validateFsWriteResultForRequest request result = []" using none by (simp add: kind_errors_def)
      then show ?thesis using assms(4,5)
        by (simp add: validateFsWriteResultForRequest_def changesEvidenceIsEmpty_def Let_def)
    next
      case 2
      then have "validateFsDeleteResultForRequest request result = []" using none by (simp add: kind_errors_def)
      then show ?thesis using assms(4,5) late
        by (simp add: validateFsDeleteResultForRequest_def evidence_checks Let_def)
    next
      case 3
      then have "validateGitCommitResultForRequest request result = []" using none by (simp add: kind_errors_def)
      then show ?thesis using assms(4,5) effect_result_accepted(10) [OF rs]
        by (auto simp: null_or_def validateGitCommitResultForRequest_def evidence_checks Let_def str_in_def str_sat_iff)
    qed
  qed
qed

end
