(* ===== verification/M2EffectSamples.thy ===== *)
theory M2EffectSamples
  imports M2EffectLaws
begin

text \<open>Concrete effect documents, accepted by evaluation, and the witnesses of the laws.\<close>


text \<open>A host for the concrete documents: URLs are those already in normal form, addresses are dotted.\<close>

definition sample_env :: effect_env where
  "sample_env = js_env.extend ascii_env (effect_env.fields
     (\<lambda>s. if take 8 s = ''https://'' then Some \<lparr>protocol = ''https:'', href = s, origin = takeWhile (\<lambda>c. c \<noteq> CHR ''/'') (drop 8 s), credentialed = False\<rparr> else None)
     (\<lambda>s. length (split_at (CHR ''.'') s) = 4) (\<lambda>v. ''0''))"

definition payload :: string where
  "payload = ''sha256:'' @ replicate 64 CHR ''a''"

definition write_request :: jsval where
  "write_request = JObj [(''contract'', JStr ''EffectRequest''), (''version'', JInt 1), (''effectId'', JStr ''e1''), (''runId'', JStr ''r1''),
     (''parentEffectId'', JNull), (''actor'', JObj [(''type'', JStr ''user''), (''id'', JStr ''ann'')]),
     (''origin'', JObj [(''surface'', JStr ''http''), (''sessionId'', JNull), (''conversationId'', JNull), (''projectId'', JInt 7)]),
     (''kind'', JStr ''fs.write''), (''target'', JObj [(''type'', JStr ''filesystem''), (''canonicalRoot'', JStr ''/p''),
        (''relativePath'', JStr ''a/b''), (''resolvedRealpath'', JStr ''/p/a/b'')]),
     (''payloadDigest'', JStr payload), (''workspaceRevision'', JStr ''w''), (''requiredCapability'', JStr ''project.fs''),
     (''payloadBytes'', JInt 3), (''riskClass'', JStr ''write''), (''timeoutMs'', JInt 1000), (''idempotencyKey'', JStr ''k1''),
     (''approvalGrantId'', JStr ''g1''), (''createdAt'', JStr ''2026-01-01T00:00:00.000Z'')]"

definition write_grant :: jsval where
  "write_grant = JObj [(''contract'', JStr ''ApprovalGrant''), (''version'', JInt 1), (''grantId'', JStr ''g1''),
     (''subject'', JObj [(''actorType'', JStr ''user''), (''actorId'', JStr ''ann'')]),
     (''scope'', JObj [(''runId'', JStr ''r1''), (''projectId'', JInt 7), (''effectId'', JStr ''e1''), (''kind'', JStr ''fs.write''),
        (''payloadDigest'', JStr payload), (''payloadBytes'', JInt 3), (''workspaceRevision'', JStr ''w'')]),
     (''constraints'', JObj [(''maxBytes'', JInt 3), (''allowedRealpaths'', JArr [JStr ''/p/a/b'']), (''allowedBinary'', JNull),
        (''allowedArgvDigest'', JNull), (''allowedOrigin'', JNull)]),
     (''issuedAt'', JStr ''2026-01-01T00:00:00.000Z''), (''expiresAt'', JStr ''2026-01-01T00:05:00.000Z''), (''singleUse'', JBool True),
     (''nonce'', JStr ''0123456789abcdef''), (''consumedAt'', JNull), (''consumedByEffectId'', JNull), (''revokedAt'', JNull),
     (''revocationReason'', JNull)]"

definition empty_process :: jsval where
  "empty_process = JObj [(''pid'', JNull), (''processGroupId'', JNull), (''startIdentity'', JNull), (''exitCode'', JNull), (''signal'', JNull)]"

definition empty_network :: jsval where
  "empty_network = JObj [(''resolvedAddresses'', JArr []), (''finalUrl'', JNull), (''status'', JNull), (''bytes'', JInt 0)]"

definition no_rollback :: jsval where
  "no_rollback = JObj [(''required'', JBool False), (''status'', JStr ''not_required''), (''evidenceRef'', JNull)]"

definition request_digest :: string where
  "request_digest = ''sha256:'' @ replicate 63 CHR ''0'' @ ''4''"

definition write_result :: "string \<Rightarrow> jsval \<Rightarrow> jsval \<Rightarrow> jsval \<Rightarrow> jsval" where
  "write_result status code changes output = JObj [(''contract'', JStr ''EffectResult''), (''version'', JInt 1), (''effectId'', JStr ''e1''),
     (''runId'', JStr ''r1''), (''projectId'', JInt 7), (''requestDigest'', JStr request_digest), (''approvalGrantId'', JStr ''g1''),
     (''terminalStatus'', JStr status), (''startedAt'', JStr ''2026-01-01T00:00:01.000Z''), (''completedAt'', JStr ''2026-01-01T00:00:02.000Z''),
     (''process'', empty_process), (''changes'', changes), (''network'', empty_network), (''rollback'', no_rollback),
     (''outputDigest'', output), (''errorCode'', code), (''evidenceRefs'', JArr [JStr ''evidence/1'']), (''lateCompletionRejected'', JBool False)]"

definition written :: jsval where
  "written = write_result ''succeeded'' JNull
     (JObj [(''paths'', JArr [JStr ''a/b'']), (''beforeDigest'', JNull), (''afterDigest'', JStr payload), (''diffArtifact'', JNull)]) (JStr payload)"

definition refused :: jsval where
  "refused = write_result ''failed'' (JStr ''EACCES'')
     (JObj [(''paths'', JArr []), (''beforeDigest'', JNull), (''afterDigest'', JNull), (''diffArtifact'', JNull)]) JNull"

lemma write_request_accepted:
  "validateEffectRequest sample_env write_request = Inr \<lparr>valid = True, errors = [], value_of = write_request\<rparr>"
  by code_simp

lemma write_grant_accepted:
  "validateApprovalGrantForRequest sample_env write_request write_grant = Inr \<lparr>valid = True, errors = [], value_of = write_grant\<rparr>"
  by code_simp

lemma written_accepted:
  "validateEffectResultForRequest sample_env write_request written = Inr \<lparr>valid = True, errors = [], value_of = written\<rparr>"
  by code_simp

lemma refused_accepted:
  "validateEffectResultForRequest sample_env write_request refused = Inr \<lparr>valid = True, errors = [], value_of = refused\<rparr>"
  by code_simp

theorem filesystem_target_confined_witness:
  "\<exists>below. segments ''/p/a/b'' = segments ''/p'' @ below \<and> below \<noteq> [] \<and> posix_resolve ''/p'' ''a/b'' = ''/p/a/b''"
proof -
  have "take 3 (str_of (opt_prop write_request ''kind'')) = ''fs.''"
    and t: "opt_prop (opt_prop write_request ''target'') ''canonicalRoot'' = JStr ''/p''"
      "opt_prop (opt_prop write_request ''target'') ''relativePath'' = JStr ''a/b''"
      "opt_prop (opt_prop write_request ''target'') ''resolvedRealpath'' = JStr ''/p/a/b''"
    by (simp_all add: write_request_def)
  then show ?thesis using filesystem_target_confined [OF write_request_accepted] by auto
qed

theorem grant_authorises_request_witness:
  "strict_eq (opt_prop (opt_prop write_grant ''subject'') ''actorId'') (opt_prop (opt_prop write_request ''actor'') ''id'')
   \<and> opt_prop (opt_prop write_grant ''constraints'') ''allowedRealpaths'' = JArr [JStr ''/p/a/b'']"
proof -
  have "distinct_keys (opt_prop write_grant ''constraints'')" by (simp add: write_grant_def distinct_keys_def)
  moreover have "needed_paths write_request = [''/p/a/b'']" by code_simp
  ultimately show ?thesis using grant_authorises_request [OF write_grant_accepted] by simp
qed

theorem effect_success_proved_witness: "effect_proved write_request written"
proof -
  have "opt_prop written ''terminalStatus'' = JStr ''succeeded''" by (simp add: written_def write_result_def)
  then show ?thesis using effect_success_proved [OF written_accepted] by simp
qed

theorem failure_leaves_nothing_witness: "changesEvidenceIsEmpty refused \<and> opt_prop refused ''outputDigest'' = JNull"
proof -
  have "str_in (opt_prop write_request ''kind'') [''fs.write'', ''fs.delete'', ''git.commit'']"
    by (simp add: write_request_def str_in_def str_sat_def)
  moreover have "opt_prop refused ''terminalStatus'' \<noteq> JStr ''succeeded''" "opt_prop (opt_prop refused ''rollback'') ''required'' \<noteq> JBool True"
    by (simp_all add: refused_def write_result_def no_rollback_def)
  ultimately show ?thesis using failure_leaves_nothing [OF refused_accepted] by simp
qed

end
