(* ===== verification/ImportScanner.thy ===== *)
theory ImportScanner
  imports M2ExecutionV2
begin

text \<open>
  \<open>src/lifecycle/m2-import-scanner.js\<close>, the trusted side: admission of a source set, the check
  of the reply of the parsing process, the private registry of observations and the read that
  rejects anything stale. Parsing runs in a child process on a native parser that is not part of the
  repository: the reply it prints, the identity of the installed parser and its end are
  parameters.
\<close>

section \<open>Limits and codes\<close>

definition LIMIT_FILES :: nat where "LIMIT_FILES = 10000"
definition LIMIT_FILE_BYTES :: nat where "LIMIT_FILE_BYTES = 8388608"
definition LIMIT_TOTAL_BYTES :: nat where "LIMIT_TOTAL_BYTES = 16777216"
definition LIMIT_NODES_PER_FILE :: int where "LIMIT_NODES_PER_FILE = 200000"
definition LIMIT_INPUT_BYTES :: nat where "LIMIT_INPUT_BYTES = 33554432"

definition EXTENSIONS :: "string list" where
  "EXTENSIONS = [''.js'', ''.mjs'', ''.cjs'', ''.jsx'', ''.ts'', ''.tsx'']"

definition PARSER_VERSIONS :: "(string \<times> string) list" where
  "PARSER_VERSIONS = [(''runtime'', ''0.21.1''), (''javascript'', ''0.21.4''), (''typescript'', ''0.23.2'')]"

definition SCAN_CODES :: "string list" where
  "SCAN_CODES =
     [''IMPORT_ARGUMENT_UNSUPPORTED'', ''IMPORT_CODE_GENERATION_UNSUPPORTED'', ''IMPORT_FACTORY_MODULE_UNSUPPORTED'',
      ''IMPORT_FACTORY_UNSUPPORTED'', ''IMPORT_IDENTIFIER_UNSUPPORTED'', ''IMPORT_LITERAL_UNSUPPORTED'',
      ''IMPORT_LOADER_ALIAS_UNSUPPORTED'', ''IMPORT_LOADER_NAMESPACE_ALIAS_UNSUPPORTED'',
      ''IMPORT_MEMBER_LOADER_UNSUPPORTED'', ''IMPORT_SHADOWED_REQUIRE_UNSUPPORTED'', ''IMPORT_SPECIFIER_INVALID'',
      ''SOURCE_SYNTAX_ERROR'', ''SOURCE_PARSER_AST_LIMIT'', ''SOURCE_PARSER_GRAMMAR_INCOMPATIBLE'',
      ''SOURCE_PARSER_GRAMMAR_UNAVAILABLE'', ''SOURCE_PARSER_TIMEOUT'', ''SOURCE_PARSER_TOTAL_AST_LIMIT'',
      ''SOURCE_PARSER_UNAVAILABLE'']"

text \<open>\<open>sha(value)\<close>\<close>

definition sha_text :: "js_env \<Rightarrow> string \<Rightarrow> string" where
  "sha_text E bytes = ''sha256:'' @ sha256 E bytes"

text \<open>\<open>Object.keys(value).sort().join('\0') === [...keys].sort().join('\0')\<close>\<close>

definition exactKeys :: "jsval \<Rightarrow> string list \<Rightarrow> bool" where
  "exactKeys v ks =
     (case v of
        JObj kvs \<Rightarrow> join_with [CHR 0x00] (sort (map fst kvs)) = join_with [CHR 0x00] (sort ks)
      | _ \<Rightarrow> False)"

section \<open>\<open>JSON.stringify\<close>\<close>

text \<open>
  The values are plain data, so there is no \<open>toJSON\<close>: undefined properties are left out, an undefined
  item and a number that is not finite print as null.
\<close>

function json_text :: "effect_env \<Rightarrow> jsval \<Rightarrow> string" where
  "json_text E v =
     (case v of
        JStr s \<Rightarrow> json_quote s
      | JBool b \<Rightarrow> (if b then ''true'' else ''false'')
      | JInt i \<Rightarrow> (if - MAX_SAFE_INTEGER \<le> i \<and> i \<le> MAX_SAFE_INTEGER then int_to_string i else num_text E v)
      | JNegZero \<Rightarrow> ''0''
      | JFloat m k \<Rightarrow> num_text E v
      | JArr xs \<Rightarrow> ''['' @ join_with '','' (map (json_text E) xs) @ '']''
      | JObj kvs \<Rightarrow> ''{'' @ join_with '',''
          (map (\<lambda>(k, x). json_quote k @ '':'' @ json_text E x) (filter (\<lambda>(k, x). x \<noteq> JUndef) kvs)) @ ''}''
      | _ \<Rightarrow> ''null'')"
  by pat_completeness auto
termination
  by (relation "measure (\<lambda>(E, v). size v)") (auto dest: object_value_size array_value_size)

declare json_text.simps [simp del]

section \<open>Prepared sources\<close>

record source_file =
  sf_path :: string
  sf_extension :: string
  sf_source :: "string option"
  sf_bytes :: nat
  sf_digest :: string

text \<open>A set that is not ready for a reason of its own has no binding; one with an error has both.\<close>

record source_set =
  set_ready :: bool
  set_error :: "string option"
  set_binding :: "string option"
  set_files :: "source_file list"

section \<open>The identity of the parser\<close>

definition version_text :: "string \<Rightarrow> bool" where
  "version_text s =
     (case s of
        c # r \<Rightarrow> c = CHR ''v'' \<and> length (split_at (CHR ''.'') r) = 3
          \<and> list_all (\<lambda>w. w \<noteq> [] \<and> list_all is_digit w) (split_at (CHR ''.'') r)
      | [] \<Rightarrow> False)"

text \<open>\<open>/.../.test(v)\<close> converts its argument to a string.\<close>

definition regex_test :: "effect_env \<Rightarrow> (string \<Rightarrow> bool) \<Rightarrow> jsval \<Rightarrow> bool js" where
  "regex_test E p v = bindE (js_string E v) (\<lambda>s. Inr (p s))"

definition component_ok :: "effect_env \<Rightarrow> string \<Rightarrow> string \<Rightarrow> jsval \<Rightarrow> bool js" where
  "component_ok E kind version component =
     (if kind = ''typescript'' \<and> component = JNull then Inr True
      else all_js
        [Inr (exactKeys component [''version'', ''packageDigest'', ''nativeDigest'', ''nativePath'']),
         Inr (opt_prop component ''version'' = JStr version),
         regex_test E (hex_tail ''sha256:'' 64) (opt_prop component ''packageDigest''),
         regex_test E (hex_tail ''sha256:'' 64) (opt_prop component ''nativeDigest''),
         Inr (str_sat (\<lambda>s. s \<noteq> []) (opt_prop component ''nativePath''))])"

definition validIdentity :: "effect_env \<Rightarrow> jsval \<Rightarrow> bool js" where
  "validIdentity E identity =
     all_js
       ([Inr (exactKeys identity [''protocol'', ''node'', ''abi'', ''platform'', ''arch'', ''components'']),
         Inr (opt_prop identity ''protocol'' = JStr ''m2-import-ast-1''),
         regex_test E version_text (opt_prop identity ''node''),
         regex_test E (\<lambda>s. s \<noteq> [] \<and> list_all is_digit s) (opt_prop identity ''abi''),
         Inr (is_string (opt_prop identity ''platform'') \<and> is_string (opt_prop identity ''arch'')),
         Inr (exactKeys (opt_prop identity ''components'') (map fst PARSER_VERSIONS))]
        @ map (\<lambda>(kind, version). component_ok E kind version (opt_prop (opt_prop identity ''components'') kind)) PARSER_VERSIONS)"

section \<open>The reply of the parsing process\<close>

definition same_source :: "jsval \<Rightarrow> source_file \<Rightarrow> bool" where
  "same_source v f \<longleftrightarrow>
     opt_prop v ''path'' = JStr (sf_path f) \<and> opt_prop v ''extension'' = JStr (sf_extension f)
     \<and> strict_eq (opt_prop v ''bytes'') (JInt (int (sf_bytes f))) \<and> opt_prop v ''digest'' = JStr (sf_digest f)"

definition specifiers_ok :: "jsval \<Rightarrow> bool" where
  "specifiers_ok v \<longleftrightarrow>
     list_all (str_sat (\<lambda>s. s \<noteq> [] \<and> CHR 0x00 \<notin> set s)) (elements v) \<and> strings_increasing (elements v)"

definition scan_errors_ok :: "jsval \<Rightarrow> bool" where
  "scan_errors_ok v \<longleftrightarrow>
     list_all (\<lambda>e. exactKeys e [''code''] \<and> str_in (opt_prop e ''code'') SCAN_CODES) (elements v)
     \<and> strings_increasing (map (\<lambda>e. opt_prop e ''code'') (elements v))"

definition reply_file_ok :: "jsval \<Rightarrow> source_file \<Rightarrow> bool" where
  "reply_file_ok v f \<longleftrightarrow>
     exactKeys v [''path'', ''extension'', ''bytes'', ''digest'', ''complete'', ''specifiers'', ''errors'', ''nodes'']
     \<and> same_source v f \<and> is_bool (opt_prop v ''complete'') \<and> int_in (opt_prop v ''nodes'') 0 LIMIT_NODES_PER_FILE
     \<and> is_array (opt_prop v ''specifiers'') \<and> is_array (opt_prop v ''errors'')
     \<and> specifiers_ok (opt_prop v ''specifiers'') \<and> scan_errors_ok (opt_prop v ''errors'')
     \<and> opt_prop v ''complete'' = JBool (elements (opt_prop v ''errors'') = [])"

definition validateReply :: "effect_env \<Rightarrow> jsval \<Rightarrow> source_set \<Rightarrow> jsval \<Rightarrow> bool" where
  "validateReply E reply prepared identity \<longleftrightarrow>
     exactKeys reply [''identity'', ''files''] \<and> opt_prop reply ''identity'' \<noteq> JUndef
     \<and> json_text E (opt_prop reply ''identity'') = json_text E identity
     \<and> is_array (opt_prop reply ''files'') \<and> list_all2 reply_file_ok (elements (opt_prop reply ''files'')) (set_files prepared)"

section \<open>The registry\<close>

text \<open>
  The observations by the token that stands for each: a token is an object that only \<open>mint\<close> creates,
  so no other value reaches an entry.
\<close>

record scanner =
  observations :: "(nat \<times> jsval) list"
  next_token :: nat
  activeChild :: bool

definition new_scanner :: scanner where
  "new_scanner = \<lparr>observations = [], next_token = 0, activeChild = False\<rparr>"

definition binding_value :: "source_set \<Rightarrow> jsval" where
  "binding_value prepared = (case set_binding prepared of None \<Rightarrow> JUndef | Some d \<Rightarrow> JStr d)"

definition mint :: "source_set \<Rightarrow> (string \<times> jsval) list \<Rightarrow> scanner \<Rightarrow> nat \<times> scanner" where
  "mint prepared result S =
     (next_token S,
      S\<lparr>observations := AList.update (next_token S) (JObj (spread [(''bindingDigest'', binding_value prepared)] result)) (observations S),
        next_token := Suc (next_token S)\<rparr>)"

text \<open>The argument is what the caller passed as observation: a token, or anything else.\<close>

definition readM2ImportObservation :: "effect_env \<Rightarrow> scanner \<Rightarrow> nat option \<Rightarrow> source_set \<Rightarrow> jsval option js" where
  "readM2ImportObservation E S token prepared =
     (case Option.bind token (map_of (observations S)) of
        None \<Rightarrow> Inr None
      | Some v \<Rightarrow>
          if \<not> set_ready prepared \<or> \<not> strict_eq (opt_prop v ''bindingDigest'') (binding_value prepared) then Inr None
          else if truthy (opt_prop v ''error'') then Inr (Some v)
          else bindE (validIdentity E (opt_prop v ''identity'')) (\<lambda>ok.
            Inr (if ok \<and> list_all2 same_source (elements (opt_prop v ''files'')) (set_files prepared)
                 then Some v else None)))"

section \<open>Admission\<close>

definition encoded_file :: "source_file \<Rightarrow> string \<Rightarrow> jsval" where
  "encoded_file f bytes = JObj
     [(''path'', JStr (sf_path f)), (''extension'', JStr (sf_extension f)), (''bytes'', JInt (int (sf_bytes f))),
      (''digest'', JStr (sf_digest f)), (''contentBase64'', JStr (b64_encode bytes))]"

text \<open>
  The loop over the files: the bytes so far, the encoded size so far and the encoded files, or the
  error the first failing test mints.
\<close>

fun admit_files :: "effect_env \<Rightarrow> source_file list \<Rightarrow> nat \<Rightarrow> nat \<Rightarrow> jsval list \<Rightarrow> string + jsval list" where
  "admit_files E [] used encodedBytes files = Inr files"
| "admit_files E (f # fs) used encodedBytes files =
     (case sf_source f of
        None \<Rightarrow> Inl ''SOURCE_PARSER_INPUT_INVALID''
      | Some bytes \<Rightarrow>
          (let encoded = encoded_file f bytes;
               encodedBytes' = encodedBytes + length (json_text E encoded) + (if files \<noteq> [] then 1 else 0)
           in if sf_extension f \<notin> set EXTENSIONS then Inl ''SOURCE_PARSER_INPUT_INVALID''
              else if length bytes \<noteq> sf_bytes f \<or> sha_text (js_env.truncate E) bytes \<noteq> sf_digest f
                then Inl ''SOURCE_PARSER_INPUT_INVALID''
              else if length bytes > LIMIT_FILE_BYTES then Inl ''SOURCE_PARSER_FILE_BYTES_LIMIT''
              else if used + length bytes > LIMIT_TOTAL_BYTES then Inl ''SOURCE_PARSER_TOTAL_BYTES_LIMIT''
              else if encodedBytes' > LIMIT_INPUT_BYTES then Inl ''SOURCE_PARSER_INPUT_BYTES_LIMIT''
              else admit_files E fs (used + length bytes) encodedBytes' (files @ [encoded])))"

definition worker_input :: "jsval \<Rightarrow> jsval list \<Rightarrow> jsval" where
  "worker_input identity files = JObj [(''identity'', identity), (''files'', JArr files)]"

text \<open>
  \<open>observeM2Imports\<close> up to its \<open>await\<close>: it throws on an unprepared set, mints an error, or starts the
  child on the input text. The identity is none when \<open>parserIdentity\<close> throws.
\<close>

datatype admission = Unprepared | Minted nat | Started string jsval

definition mint_error :: "source_set \<Rightarrow> string \<Rightarrow> scanner \<Rightarrow> admission \<times> scanner" where
  "mint_error prepared code S =
     (case mint prepared [(''error'', JStr code)] S of (t, S') \<Rightarrow> (Minted t, S'))"

definition observe_start :: "effect_env \<Rightarrow> source_set \<Rightarrow> bool \<Rightarrow> jsval option \<Rightarrow> scanner \<Rightarrow> admission \<times> scanner" where
  "observe_start E prepared aborted parserIdentity S =
     (if \<not> set_ready prepared \<or> \<not> isDigest (binding_value prepared) then (Unprepared, S)
      else if aborted then mint_error prepared ''SOURCE_PARSER_CANCELLED'' S
      else if activeChild S then mint_error prepared ''SOURCE_PARSER_RESOURCE_BUSY'' S
      else if length (set_files prepared) > LIMIT_FILES then mint_error prepared ''SOURCE_PARSER_FILE_COUNT_LIMIT'' S
      else (case parserIdentity of
              None \<Rightarrow> mint_error prepared ''SOURCE_PARSER_UNAVAILABLE'' S
            | Some identity \<Rightarrow>
                (case admit_files E (set_files prepared) 0 (length (json_text E (worker_input identity []))) [] of
                   Inl code \<Rightarrow> mint_error prepared code S
                 | Inr files \<Rightarrow>
                     (let input = json_text E (worker_input identity files)
                      in if length input > LIMIT_INPUT_BYTES then mint_error prepared ''SOURCE_PARSER_INPUT_BYTES_LIMIT'' S
                         else (Started input identity, S\<lparr>activeChild := True\<rparr>)))))"

text \<open>How the child ended: with an error code, with a text that is no JSON, or with a value.\<close>

datatype child_end = Child_error string | Child_garbage | Child_reply jsval

definition observe_finish :: "effect_env \<Rightarrow> source_set \<Rightarrow> jsval \<Rightarrow> child_end \<Rightarrow> scanner \<Rightarrow> nat \<times> scanner" where
  "observe_finish E prepared identity ending S0 =
     (let S = S0\<lparr>activeChild := False\<rparr>
      in case ending of
           Child_error code \<Rightarrow> mint prepared [(''error'', JStr code)] S
         | Child_garbage \<Rightarrow> mint prepared [(''error'', JStr ''SOURCE_PARSER_PROTOCOL_INVALID'')] S
         | Child_reply reply \<Rightarrow>
             if \<not> validateReply E reply prepared identity
             then mint prepared [(''error'', JStr ''SOURCE_PARSER_PROTOCOL_INVALID'')] S
             else mint prepared (object_fields reply) S)"

end
