(* ===== verification/M2Evaluator.thy ===== *)
theory M2Evaluator
  imports ImportScanner "HOL-Library.Product_Lexorder"
begin

text \<open>
  \<open>src/lifecycle/m2-governance-evaluator.js\<close> and \<open>m2-governance-ast-adapter.js\<close>: from a request, a
  policy, a baseline, the proposed files and an observation of their imports to a governance decision.
  The evaluation only ever lowers the status of a check and files findings, so its
  body is a sequence of events: lowering a status, filing a finding.
\<close>

section \<open>Texts\<close>

definition SUPPORTED_SOURCE_EXTENSIONS :: "string list" where
  "SUPPORTED_SOURCE_EXTENSIONS = [''.cjs'', ''.js'', ''.jsx'', ''.mjs'', ''.ts'', ''.tsx'']"

text \<open>The bytes a text encodes to are exactly the well-formed UTF-8 sequences.\<close>

definition validUtf8 :: "string \<Rightarrow> string option" where
  "validUtf8 bytes = (if utf8_valid bytes then Some bytes else None)"

text \<open>\<open>path.posix.dirname\<close>, \<open>path.posix.extname\<close> and \<open>path.posix.join(a, b)\<close>.\<close>

definition posix_dirname :: "string \<Rightarrow> string" where
  "posix_dirname p =
     (let r = dropWhile (\<lambda>c. c \<noteq> CHR ''/'') (dropWhile (\<lambda>c. c = CHR ''/'') (rev (tl p)))
      in if p = [] then ''.''
         else if r = [] then (if posix_isAbsolute p then ''/'' else ''.'')
         else if posix_isAbsolute p \<and> length r = 1 then ''//''
         else take (length r) p)"

definition posix_basename :: "string \<Rightarrow> string" where
  "posix_basename p =
     rev (takeWhile (\<lambda>c. c \<noteq> CHR ''/'') (dropWhile (\<lambda>c. c = CHR ''/'') (rev p)))"

definition posix_extname :: "string \<Rightarrow> string" where
  "posix_extname p =
     (let b = posix_basename p; tail = takeWhile (\<lambda>c. c \<noteq> CHR ''.'') (rev b)
      in if b = ''..'' \<or> length tail + 1 \<ge> length b then [] else CHR ''.'' # rev tail)"

definition posix_join :: "string \<Rightarrow> string \<Rightarrow> string" where
  "posix_join a b =
     posix_normalize (if a = [] then b else if b = [] then a else a @ ''/'' @ b)"

section \<open>Candidates and the overlay\<close>

record governance_args =
  lifecycleId :: jsval
  milestoneId :: jsval
  g_request :: jsval
  policySnapshot :: jsval
  baselineSnapshot :: jsval
  candidateFiles :: jsval
  expectedAfterRevision :: jsval

definition changes_of :: "jsval \<Rightarrow> jsval list" where
  "changes_of request = elements (opt_prop request ''changes'')"

definition nth_value :: "jsval list \<Rightarrow> nat \<Rightarrow> jsval" where
  "nth_value xs i = (if i < length xs then xs ! i else JUndef)"

definition validateCandidate :: "js_env \<Rightarrow> jsval list \<Rightarrow> nat \<Rightarrow> jsval \<Rightarrow> string list" where
  "validateCandidate E changes index v =
     (let context = ''governance-candidates['' @ int_to_string (int index) @ '']'';
          errors = validateExactKeys v [''path'', ''contentBase64''] [] context
            @ chk (isPlainRecord v \<and> \<not> isM2ExecutionProjectRelativePath E (opt_prop v ''path'')) (context @ '':invalid-path'');
          change = nth_value changes index; after = opt_prop change ''after''
      in if \<not> isPlainRecord v then errors
         else (case decodeCanonicalBase64 (opt_prop v ''contentBase64'') of
                 None \<Rightarrow> errors @ [context @ '':invalid-contentBase64'']
               | Some bytes \<Rightarrow>
                   if \<not> truthy change \<or> \<not> strict_eq (opt_prop v ''path'') (opt_prop change ''path'') then errors
                   else errors
                     @ chk (\<not> strict_eq (opt_prop after ''bytes'') (JInt (int (length bytes)))) (context @ '':after-byte-count-mismatch'')
                     @ chk (opt_prop after ''digest'' \<noteq> JStr (sha_text E bytes)) (context @ '':after-digest-mismatch'')))"

definition validateCandidateFiles :: "js_env \<Rightarrow> jsval \<Rightarrow> jsval \<Rightarrow> validation" where
  "validateCandidateFiles E v request =
     (let path = (\<lambda>x. opt_prop x ''path''); changes = changes_of request
      in if \<not> is_array v then validationResult [''governance-candidates:not-array''] v
         else validationResult
           (chk (\<not> arraysEqual (JArr (map path (elements v))) (JArr (map path changes)))
              ''governance-candidates:exact-request-path-set-required''
            @ validateSortedFilePaths (elements v) ''governance-candidates''
            @ each_indexed (validateCandidate E changes) (elements v)) v)"

definition baseline_entry :: "jsval \<Rightarrow> jsval \<Rightarrow> jsval option" where
  "baseline_entry baseline path =
     map_of (rev (map (\<lambda>f. (opt_prop f ''path'', f)) (elements (opt_prop baseline ''files'')))) path"

definition baselineMatchesRequest :: "jsval \<Rightarrow> jsval \<Rightarrow> string list" where
  "baselineMatchesRequest baseline request =
     concat (map (\<lambda>change.
       let path = opt_prop change ''path''; pre = opt_prop change ''before''
       in if opt_prop pre ''exists'' = JBool False
          then chk (baseline_entry baseline path \<noteq> None) (''new-path-present:'' @ str_of path)
          else (case baseline_entry baseline path of
                  None \<Rightarrow> [''before-path-missing:'' @ str_of path]
                | Some e \<Rightarrow> chk (\<not> same_props e pre [''digest'', ''bytes'']) (''before-image-mismatch:'' @ str_of path)))
       (changes_of request))"

text \<open>\<open>overlayCandidate\<close>; path and bytes of an entry are all that is read of it.\<close>

definition file_bytes :: "jsval \<Rightarrow> string" where
  "file_bytes f = (case decodeCanonicalBase64 (opt_prop f ''contentBase64'') of None \<Rightarrow> [] | Some b \<Rightarrow> b)"

definition path_and_bytes :: "jsval \<Rightarrow> string \<times> string" where
  "path_and_bytes f = (str_of (opt_prop f ''path''), file_bytes f)"

definition overlayCandidate :: "jsval \<Rightarrow> jsval \<Rightarrow> (string \<times> string) list" where
  "overlayCandidate baseline candidates =
     sort_key fst (fold (\<lambda>f. case path_and_bytes f of (p, b) \<Rightarrow> AList.update p b)
       (elements (opt_prop baseline ''files'') @ elements candidates) [])"

section \<open>Layers and imports\<close>

definition under_root :: "string \<Rightarrow> string \<Rightarrow> bool" where
  "under_root root p \<longleftrightarrow> p = root \<or> take (length root + 1) p = root @ ''/''"

definition layer_matches :: "string \<Rightarrow> jsval \<Rightarrow> (string \<times> string) list" where
  "layer_matches p policy =
     concat (map (\<lambda>l. map (\<lambda>r. (str_of (opt_prop l ''name''), str_of r))
         (filter (\<lambda>r. under_root (str_of r) p) (elements (opt_prop l ''roots''))))
       (elements (opt_prop policy ''layers'')))"

definition layerForFile :: "string \<Rightarrow> jsval \<Rightarrow> string option" where
  "layerForFile p policy =
     (case sort_key (\<lambda>(name, root). (- utf16_length root, name)) (layer_matches p policy) of
        [] \<Rightarrow> None
      | (name, root) # _ \<Rightarrow> Some name)"

datatype import_resolution = External | Unresolved | Resolved string

definition resolveRelativeImport :: "js_env \<Rightarrow> string \<Rightarrow> string \<Rightarrow> string list \<Rightarrow> import_resolution" where
  "resolveRelativeImport E specifier sourcePath filePaths =
     (let relative = (case specifier of c # _ \<Rightarrow> c = CHR ''.'' | [] \<Rightarrow> False);
          base = (if relative then posix_normalize (posix_join (posix_dirname sourcePath) specifier)
                  else posix_normalize specifier);
          candidates = base # map (\<lambda>x. base @ x) SUPPORTED_SOURCE_EXTENSIONS
            @ map (\<lambda>x. base @ ''/index'' @ x) SUPPORTED_SOURCE_EXTENSIONS;
          found = filter (\<lambda>c. c \<in> set filePaths) candidates
      in if \<not> isM2ExecutionProjectRelativePath E (JStr base) then Unresolved
         else if \<not> relative \<and> found = [] then External
         else if length found \<noteq> 1 then Unresolved
         else Resolved (hd found))"

section \<open>Statuses, findings, events\<close>

datatype check_status = Pass | Fail | Unavailable

definition status_text :: "check_status \<Rightarrow> string" where
  "status_text s = (case s of Pass \<Rightarrow> ''pass'' | Fail \<Rightarrow> ''fail'' | Unavailable \<Rightarrow> ''unavailable'')"

record finding_spec =
  f_check :: string
  f_code :: string
  f_path :: jsval
  f_evidence :: jsval

datatype event = Lower check_status | File finding_spec

text \<open>Unavailable is assigned unconditionally, a failure only where nothing worse stands.\<close>

definition lower_status :: "check_status \<Rightarrow> check_status \<Rightarrow> check_status" where
  "lower_status new cur = (if new = Unavailable \<or> cur = Unavailable then Unavailable else if new = Fail then Fail else cur)"

fun status_after :: "event list \<Rightarrow> check_status \<Rightarrow> check_status" where
  "status_after [] cur = cur"
| "status_after (Lower s # es) cur = status_after es (lower_status s cur)"
| "status_after (File f # es) cur = status_after es cur"

fun filed :: "event list \<Rightarrow> finding_spec list" where
  "filed [] = []"
| "filed (File f # es) = f # filed es"
| "filed (Lower s # es) = filed es"

definition event_finding :: "string \<Rightarrow> string \<Rightarrow> jsval \<Rightarrow> (string \<times> jsval) list \<Rightarrow> event" where
  "event_finding check code path evidence =
     File \<lparr>f_check = check, f_code = code, f_path = path, f_evidence = JObj evidence\<rparr>"

definition on :: "bool \<Rightarrow> check_status \<Rightarrow> event \<Rightarrow> event list" where
  "on b s f = (if b then [Lower s, f] else [])"

definition upstreamUnavailable :: "string \<Rightarrow> string \<Rightarrow> event" where
  "upstreamUnavailable check upstream =
     event_finding check ''UPSTREAM_REQUIRED_CHECK_UNAVAILABLE'' JNull [(''upstream'', JStr upstream)]"

type_synonym finding_map = "(string \<times> jsval) list"

definition addFinding :: "js_env \<Rightarrow> finding_spec \<Rightarrow> finding_map \<Rightarrow> finding_map js" where
  "addFinding E f found =
     bindE (createM2GovernanceFinding E (JStr (f_check f)) (JStr (f_code f)) (f_path f) (f_evidence f))
       (\<lambda>v. Inr (AList.update (str_of (opt_prop v ''findingId'')) v found))"

fun addFindings :: "js_env \<Rightarrow> finding_spec list \<Rightarrow> finding_map \<Rightarrow> finding_map js" where
  "addFindings E [] found = Inr found"
| "addFindings E (f # fs) found = bindE (addFinding E f found) (addFindings E fs)"

definition makeCheck :: "string \<Rightarrow> check_status \<Rightarrow> jsval list \<Rightarrow> jsval" where
  "makeCheck checkId status findings =
     JObj [(''checkId'', JStr checkId), (''required'', JBool True), (''status'', JStr (status_text status)),
           (''findingIds'', JArr (map JStr (sort (map (\<lambda>f. str_of (opt_prop f ''findingId''))
              (filter (\<lambda>f. opt_prop f ''checkId'' = JStr checkId) findings)))))]"

definition decisionVerdict :: "check_status list \<Rightarrow> string" where
  "decisionVerdict statuses =
     (if Unavailable \<in> set statuses then ''unavailable'' else if Fail \<in> set statuses then ''deny'' else ''allow'')"

section \<open>\<open>prepareInputState\<close>\<close>

definition safeDigest :: "js_env \<Rightarrow> jsval \<Rightarrow> string \<Rightarrow> string js" where
  "safeDigest E v label =
     (case computeM2ExecutionValueDigest E v of
        Inl _ \<Rightarrow> computeM2ExecutionValueDigest E (JObj [(''invalidGovernanceInput'', JStr label)])
      | Inr d \<Rightarrow> Inr d)"

definition error_list :: "validation \<Rightarrow> jsval" where
  "error_list r = JArr (map JStr (errors r))"

definition binds_request :: "jsval \<Rightarrow> jsval \<Rightarrow> bool" where
  "binds_request snapshot request =
     same_props snapshot (opt_prop request ''project'') [''projectId'', ''workspaceRevision'']"

definition binding_evidence :: "string \<Rightarrow> jsval \<Rightarrow> jsval \<Rightarrow> (string \<times> jsval) list" where
  "binding_evidence who snapshot request =
     [(who @ ''ProjectId'', opt_prop snapshot ''projectId''), (who @ ''Revision'', opt_prop snapshot ''workspaceRevision''),
      (''requestProjectId'', opt_prop (opt_prop request ''project'') ''projectId''),
      (''requestRevision'', opt_prop (opt_prop request ''project'') ''workspaceRevision'')]"

definition input_events :: "js_env \<Rightarrow> governance_args \<Rightarrow> string \<Rightarrow> string \<Rightarrow> event list" where
  "input_events E args requestDigest policyDigest =
     (let request = g_request args; policy = policySnapshot args; baseline = baselineSnapshot args;
          pv = validateM2GovernancePolicySnapshot E policy; bv = validateM2GovernanceBaselineSnapshot E baseline;
          cv = validateCandidateFiles E (candidateFiles args) request; find = event_finding ''input.bindings'';
          policyPath = opt_prop policy ''policyPath''; mismatches = baselineMatchesRequest baseline request
      in on (\<not> valid pv) Unavailable (find ''POLICY_INVALID'' JNull [(''errors'', error_list pv)])
         @ on (\<not> valid bv) Unavailable (find ''BASELINE_INVALID'' JNull [(''errors'', error_list bv)])
         @ on (\<not> valid cv) Unavailable (find ''CANDIDATE_MATERIAL_INVALID'' JNull [(''errors'', error_list cv)])
         @ on (\<not> isWorkspaceRevision (expectedAfterRevision args)) Unavailable
             (find ''EXPECTED_AFTER_REVISION_INVALID'' JNull
               [(''beforeRevision'', opt_prop (opt_prop request ''project'') ''workspaceRevision''),
                (''expectedAfterRevision'', expectedAfterRevision args)])
         @ on (valid pv \<and> \<not> binds_request policy request) Unavailable
             (find ''POLICY_REQUEST_BINDING_MISMATCH'' JNull (binding_evidence ''policy'' policy request))
         @ on (valid pv \<and> list_ex (\<lambda>c. strict_eq (opt_prop c ''path'') policyPath) (changes_of request)) Fail
             (find ''POLICY_SELF_CHANGE_FORBIDDEN'' policyPath
               [(''policyDigest'', JStr policyDigest), (''policyPath'', policyPath), (''requestDigest'', JStr requestDigest)])
         @ on (valid bv \<and> \<not> binds_request baseline request) Unavailable
             (find ''BASELINE_REQUEST_BINDING_MISMATCH'' JNull (binding_evidence ''baseline'' baseline request))
         @ on (valid bv \<and> mismatches \<noteq> []) Unavailable
             (find ''BASELINE_BEFORE_IMAGE_MISMATCH'' JNull [(''mismatches'', JArr (map JStr (sort mismatches)))]))"

definition inventory_events :: "check_status \<Rightarrow> jsval \<Rightarrow> event list" where
  "inventory_events inputStatus baseline =
     (if inputStatus = Unavailable then [Lower Unavailable, upstreamUnavailable ''inventory.complete'' ''input.bindings'']
      else on (opt_prop baseline ''complete'' \<noteq> JBool True) Unavailable
        (event_finding ''inventory.complete'' ''INVENTORY_TRUNCATED'' JNull
          [(''complete'', opt_prop baseline ''complete''),
           (''observedFiles'', opt_prop (opt_prop baseline ''files'') ''length'')]))"

record input_state =
  requestDigest :: string
  policyDigest :: string
  baselineDigest :: string
  boundAfterRevision :: jsval
  findingsById :: finding_map
  inputStatus :: check_status
  inventoryStatus :: check_status

definition prepareInputState :: "js_env \<Rightarrow> governance_args \<Rightarrow> input_state js" where
  "prepareInputState E args =
     (let request = g_request args; policy = policySnapshot args; baseline = baselineSnapshot args
      in if \<not> isIdentifier (lifecycleId args) \<or> \<not> isIdentifier (milestoneId args)
         then Inl (TypeErr ''m2-governance-evaluator:invalid-lifecycle-identity'')
         else bindE (v2_validateM2ProjectChangeRequest E request) (\<lambda>rq.
           if \<not> valid rq then Inl (TypeErr (''m2-governance-evaluator:invalid-request:'' @ join_with '','' (errors rq)))
           else bindE (v2_computeM2ProjectChangeRequestDigest E request) (\<lambda>rd.
                bindE (if valid (validateM2GovernancePolicySnapshot E policy) then computeM2GovernancePolicySnapshotDigest E policy
                       else safeDigest E policy ''policy'') (\<lambda>pd.
                bindE (if valid (validateM2GovernanceBaselineSnapshot E baseline) then computeM2GovernanceBaselineDigest E baseline
                       else safeDigest E baseline ''baseline'') (\<lambda>bd.
                  let inputs = input_events E args rd pd; input = status_after inputs Pass;
                      inventories = inventory_events input baseline
                  in bindE (addFindings E (filed inputs @ filed inventories) []) (\<lambda>found.
                       Inr \<lparr>requestDigest = rd, policyDigest = pd, baselineDigest = bd,
                            boundAfterRevision = (if isWorkspaceRevision (expectedAfterRevision args)
                                                  then expectedAfterRevision args else JNull),
                            findingsById = found, inputStatus = input,
                            inventoryStatus = status_after inventories Pass\<rparr>))))))"

section \<open>\<open>prepareSourceSet\<close>\<close>

definition extension_of :: "js_env \<Rightarrow> string \<Rightarrow> string" where
  "extension_of E p = to_lower E (posix_extname p)"

definition declares :: "jsval \<Rightarrow> string \<Rightarrow> bool" where
  "declares policy extension \<longleftrightarrow> array_includes (elements (opt_prop policy ''sourceExtensions'')) (JStr extension)"

text \<open>A file of a declared extension that nothing can be said about ends the preparation.\<close>

definition unobservable :: "js_env \<Rightarrow> jsval \<Rightarrow> string \<Rightarrow> bool" where
  "unobservable E policy p \<longleftrightarrow>
     extension_of E p \<notin> set SUPPORTED_SOURCE_EXTENSIONS \<or> layerForFile p policy = None"

definition source_file_of :: "js_env \<Rightarrow> string \<times> string \<Rightarrow> source_file" where
  "source_file_of E f =
     (case f of (p, bytes) \<Rightarrow>
        \<lparr>sf_path = p, sf_extension = extension_of E p, sf_source = validUtf8 bytes, sf_bytes = length bytes,
         sf_digest = sha_text E bytes\<rparr>)"

text \<open>\<open>error ??= e\<close> in sequence: the first error stands. The test on the bytes of the baseline assigns.\<close>

definition set_errors :: "js_env \<Rightarrow> jsval \<Rightarrow> jsval \<Rightarrow> (string \<times> string) list \<Rightarrow> string list" where
  "set_errors E policy baseline overlay =
     (let files = elements (opt_prop baseline ''files'');
          baselineBytes = sum_list (map (\<lambda>f. case safe_int (opt_prop f ''bytes'') of None \<Rightarrow> 0 | Some n \<Rightarrow> n) files)
      in (if baselineBytes > int (LIMIT_TOTAL_BYTES div 2) then [''SOURCE_PARSER_BASELINE_BYTES_LIMIT'']
          else chk (length files > LIMIT_FILES) ''SOURCE_PARSER_FILE_COUNT_LIMIT'')
         @ chk (length overlay > LIMIT_FILES) ''SOURCE_PARSER_FILE_COUNT_LIMIT''
         @ concat (map (\<lambda>(p, bytes). chk (length bytes > LIMIT_FILE_BYTES) ''SOURCE_PARSER_FILE_BYTES_LIMIT''
              @ chk (declares policy (extension_of E p) \<and> validUtf8 bytes = None) ''SOURCE_NOT_UTF8'') overlay)
         @ chk (sum_list (map (length \<circ> snd) overlay) > LIMIT_TOTAL_BYTES) ''SOURCE_PARSER_TOTAL_BYTES_LIMIT'')"

definition binding_projection :: "js_env \<Rightarrow> governance_args \<Rightarrow> input_state \<Rightarrow> (string \<times> string) list \<Rightarrow> string \<Rightarrow> jsval" where
  "binding_projection E args st overlay candidateDigest =
     JObj [(''lifecycleId'', lifecycleId args), (''milestoneId'', milestoneId args),
           (''requestDigest'', JStr (requestDigest st)), (''policyDigest'', JStr (policyDigest st)),
           (''baselineDigest'', JStr (baselineDigest st)), (''candidateDigest'', JStr candidateDigest),
           (''expectedAfterRevision'', boundAfterRevision st),
           (''sourceSet'', JArr (map (\<lambda>(p, bytes). JObj [(''path'', JStr p), (''bytes'', JInt (int (length bytes))),
              (''digest'', JStr (sha_text E bytes))]) overlay))]"

definition not_ready :: source_set where
  "not_ready = \<lparr>set_ready = False, set_error = None, set_binding = None, set_files = []\<rparr>"

definition prepareSourceSet :: "js_env \<Rightarrow> governance_args \<Rightarrow> input_state \<Rightarrow> source_set js" where
  "prepareSourceSet E args st =
     (let policy = policySnapshot args; baseline = baselineSnapshot args;
          overlay = overlayCandidate baseline (candidateFiles args);
          sources = filter (\<lambda>(p, bytes). declares policy (extension_of E p)) overlay;
          errs = set_errors E policy baseline overlay
      in if inventoryStatus st \<noteq> Pass then Inr not_ready
         else if list_ex (\<lambda>(p, bytes). unobservable E policy p) sources then Inr not_ready
         else bindE (computeM2ExecutionValueDigest E (candidateFiles args)) (\<lambda>cd.
              bindE (computeM2ExecutionValueDigest E (binding_projection E args st overlay cd)) (\<lambda>binding.
                Inr \<lparr>set_ready = (errs = []), set_error = (case errs of [] \<Rightarrow> None | e # _ \<Rightarrow> Some e),
                     set_binding = Some binding, set_files = map (source_file_of E) sources\<rparr>)))"

definition prepareM2GovernanceSourceSet :: "js_env \<Rightarrow> governance_args \<Rightarrow> source_set js" where
  "prepareM2GovernanceSourceSet E args = bindE (prepareInputState E args) (prepareSourceSet E args)"

section \<open>\<open>evaluateM2Governance\<close>\<close>

definition unmapped_layers :: "js_env \<Rightarrow> jsval \<Rightarrow> string \<Rightarrow> (string \<times> string) list \<Rightarrow> event list" where
  "unmapped_layers E policy policySum sources =
     concat (map (\<lambda>(p, bytes). on (layerForFile p policy = None) Unavailable
       (event_finding ''layers.mapped'' ''SOURCE_FILE_UNMAPPED'' (JStr p)
         [(''policyDigest'', JStr policySum), (''path'', JStr p)])) sources)"

definition unsupported_languages :: "js_env \<Rightarrow> (string \<times> string) list \<Rightarrow> event list" where
  "unsupported_languages E sources =
     concat (map (\<lambda>(p, bytes). on (extension_of E p \<notin> set SUPPORTED_SOURCE_EXTENSIONS) Unavailable
       (event_finding ''imports.allowed'' ''SOURCE_LANGUAGE_UNSUPPORTED'' (JStr p)
         [(''extension'', JStr (extension_of E p)), (''path'', JStr p)])) sources)"

text \<open>The findings of the first loop, file by file: a layer finding, then a language finding.\<close>

definition source_findings :: "js_env \<Rightarrow> jsval \<Rightarrow> string \<Rightarrow> (string \<times> string) list \<Rightarrow> finding_spec list" where
  "source_findings E policy policySum sources =
     concat (map (\<lambda>f. filed (unmapped_layers E policy policySum [f]) @ filed (unsupported_languages E [f])) sources)"

definition import_fields :: "string \<Rightarrow> string \<Rightarrow> (string \<times> jsval) list" where
  "import_fields p specifier = [(''sourcePath'', JStr p), (''specifier'', JStr specifier)]"

text \<open>One specifier of one file: the body of the inner loop.\<close>

definition import_events :: "js_env \<Rightarrow> jsval \<Rightarrow> string list \<Rightarrow> string \<Rightarrow> string \<Rightarrow> event list" where
  "import_events E policy filePaths p specifier =
     (let find = (\<lambda>code extra. event_finding ''imports.allowed'' code (JStr p) (import_fields p specifier @ extra));
          fromLayer = layerForFile p policy;
          rule = (case fromLayer of None \<Rightarrow> JUndef
                  | Some l \<Rightarrow> (case map_of (rev (map (\<lambda>r. (opt_prop r ''from'', r)) (elements (opt_prop policy ''rules'')))) (JStr l) of
                                None \<Rightarrow> JUndef | Some r \<Rightarrow> r))
      in case resolveRelativeImport E specifier p filePaths of
           External \<Rightarrow> on (\<not> array_includes (elements (opt_prop policy ''externalImports'')) (JStr specifier)) Unavailable
             (find ''EXTERNAL_IMPORT_UNDECLARED'' [])
         | Unresolved \<Rightarrow> [Lower Unavailable, find ''RELATIVE_IMPORT_UNRESOLVED'' []]
         | Resolved q \<Rightarrow>
             (case layerForFile q policy of
                None \<Rightarrow> [Lower Unavailable, find ''IMPORT_TARGET_UNMAPPED'' [(''targetPath'', JStr q)]]
              | Some toLayer \<Rightarrow>
                  on (fromLayer \<noteq> Some toLayer \<and> \<not> array_includes (elements (opt_prop rule ''canImport'')) (JStr toLayer)) Fail
                    (find ''IMPORT_LAYER_VIOLATION''
                      [(''targetPath'', JStr q),
                       (''fromLayer'', case fromLayer of None \<Rightarrow> JNull | Some l \<Rightarrow> JStr l), (''toLayer'', JStr toLayer)])))"

text \<open>One file: its scan, if the observation has one, then each of its specifiers.\<close>

definition scan_events :: "js_env \<Rightarrow> jsval \<Rightarrow> string list \<Rightarrow> jsval list \<Rightarrow> string \<times> string \<Rightarrow> event list" where
  "scan_events E policy filePaths scans f =
     (case f of (p, bytes) \<Rightarrow>
        (case validUtf8 bytes of
           None \<Rightarrow> [Lower Unavailable, event_finding ''imports.allowed'' ''SOURCE_NOT_UTF8'' (JStr p)
             [(''path'', JStr p), (''digest'', JStr (sha_text E bytes))]]
         | Some source \<Rightarrow>
             (case map_of (rev (map (\<lambda>s. (opt_prop s ''path'', s)) scans)) (JStr p) of
                None \<Rightarrow> []
              | Some scan \<Rightarrow>
                  (if truthy (opt_prop scan ''complete'') then [] else [Lower Unavailable])
                  @ map (\<lambda>e. event_finding ''imports.allowed'' (str_of (opt_prop e ''code'')) (JStr p)
                      [(''sourcePath'', JStr p), (''sourceDigest'', JStr (sha_text E bytes))]) (elements (opt_prop scan ''errors''))
                  @ concat (map (\<lambda>x. import_events E policy filePaths p (str_of x)) (elements (opt_prop scan ''specifiers''))))))"

text \<open>\<open>prepared.error ?? observation?.error ?? (observation === null ? '...' : null)\<close>\<close>

definition observation_error :: "source_set \<Rightarrow> jsval option \<Rightarrow> string option" where
  "observation_error prepared observation =
     (case set_error prepared of
        Some e \<Rightarrow> Some e
      | None \<Rightarrow>
          (case observation of
             None \<Rightarrow> Some ''IMPORT_OBSERVATION_UNAVAILABLE''
           | Some v \<Rightarrow> if is_string (opt_prop v ''error'') then Some (str_of (opt_prop v ''error'')) else None))"

definition observed_events :: "js_env \<Rightarrow> governance_args \<Rightarrow> (string \<times> string) list \<Rightarrow> source_set \<Rightarrow> jsval option \<Rightarrow> event list" where
  "observed_events E args overlay prepared observation =
     (let policy = policySnapshot args; err = observation_error prepared observation;
          scans = (case observation of None \<Rightarrow> [] | Some v \<Rightarrow> elements (opt_prop v ''files''));
          sources = filter (\<lambda>(p, bytes). declares policy (extension_of E p)
            \<and> extension_of E p \<in> set SUPPORTED_SOURCE_EXTENSIONS) overlay
      in (case err of
            None \<Rightarrow> []
          | Some e \<Rightarrow> on (e \<noteq> [] \<and> e \<noteq> ''SOURCE_NOT_UTF8'') Unavailable
              (event_finding ''imports.allowed'' e JNull [(''sourceSetBinding'', binding_value prepared)]))
         @ concat (map (scan_events E policy (map fst overlay) scans) sources))"

definition decision_fields :: "governance_args \<Rightarrow> input_state \<Rightarrow> check_status \<Rightarrow> check_status \<Rightarrow> finding_map \<Rightarrow> (string \<times> jsval) list" where
  "decision_fields args st layersStatus importsStatus found =
     (let request = g_request args;
          findings = sort_key (\<lambda>f. str_of (opt_prop f ''findingId'')) (map snd found);
          statuses = [importsStatus, inputStatus st, inventoryStatus st, layersStatus];
          verdict = decisionVerdict statuses
      in [(''lifecycleId'', lifecycleId args), (''milestoneId'', milestoneId args),
          (''executionId'', opt_prop request ''executionId''), (''runId'', opt_prop request ''runId''),
          (''projectId'', opt_prop (opt_prop request ''project'') ''projectId''),
          (''requestDigest'', JStr (requestDigest st)), (''policyDigest'', JStr (policyDigest st)),
          (''baselineDigest'', JStr (baselineDigest st)), (''expectedAfterRevision'', boundAfterRevision st),
          (''verdict'', JStr verdict),
          (''checks'', JArr (map2 (\<lambda>c s. makeCheck c s findings) DECISION_CHECKS statuses)),
          (''findings'', JArr findings),
          (''blockingFindingIds'', JArr (if verdict = ''allow'' then []
             else map JStr (sort (map (\<lambda>f. str_of (opt_prop f ''findingId'')) findings))))])"

definition finish_decision :: "js_env \<Rightarrow> governance_args \<Rightarrow> input_state \<Rightarrow> check_status \<Rightarrow> check_status \<Rightarrow> finding_spec list \<Rightarrow> jsval js" where
  "finish_decision E args st layersStatus importsStatus specs =
     bindE (addFindings E specs (findingsById st)) (\<lambda>found.
       createM2GovernanceDecision E (decision_fields args st layersStatus importsStatus found))"

definition evaluateM2Governance :: "effect_env \<Rightarrow> scanner \<Rightarrow> governance_args \<Rightarrow> nat option \<Rightarrow> jsval js" where
  "evaluateM2Governance E0 S args importObservation =
     (let E = js_env.truncate E0; policy = policySnapshot args;
          overlay = overlayCandidate (baselineSnapshot args) (candidateFiles args);
          sources = filter (\<lambda>(p, bytes). declares policy (extension_of E p)) overlay
      in bindE (prepareInputState E args) (\<lambda>st.
         bindE (prepareSourceSet E args st) (\<lambda>prepared.
           if inventoryStatus st \<noteq> Pass then
             finish_decision E args st Unavailable Unavailable
               (filed [upstreamUnavailable ''layers.mapped'' ''inventory.complete'',
                       upstreamUnavailable ''imports.allowed'' ''inventory.complete''])
           else
             (let layers = unmapped_layers E policy (policyDigest st) sources;
                  languages = unsupported_languages E sources;
                  layersStatus = status_after layers Pass; importsStatus = status_after languages Pass;
                  specs = source_findings E policy (policyDigest st) sources
              in if layersStatus \<noteq> Pass then
                   finish_decision E args st layersStatus Unavailable
                     (specs @ filed [upstreamUnavailable ''imports.allowed'' ''layers.mapped''])
                 else if importsStatus \<noteq> Pass then finish_decision E args st layersStatus importsStatus specs
                 else bindE (readM2ImportObservation E0 S importObservation prepared) (\<lambda>observation.
                   let observed = observed_events E args overlay prepared observation
                   in finish_decision E args st layersStatus (status_after observed Pass) (specs @ filed observed))))))"

text \<open>
  \<open>evaluateM2GovernanceWithAst\<close>: nothing is observed for a set that is not ready; otherwise the
  evaluation uses the token that the observation ends with, in the registry as it is then. The
  observation runs in the background, so it is an argument: from the prepared set to the token and
  the later registry.
\<close>

definition evaluateM2GovernanceWithAst ::
    "effect_env \<Rightarrow> scanner \<Rightarrow> governance_args \<Rightarrow> (source_set \<Rightarrow> nat \<times> scanner) \<Rightarrow> jsval js" where
  "evaluateM2GovernanceWithAst E S args observe =
     bindE (prepareM2GovernanceSourceSet (js_env.truncate E) args) (\<lambda>prepared.
       if \<not> set_ready prepared then evaluateM2Governance E S args None
       else (case observe prepared of (t, S') \<Rightarrow> evaluateM2Governance E S' args (Some t)))"

end
