(* ===== verification/ImportScannerLaws.thy ===== *)
theory ImportScannerLaws
  imports ImportScanner
begin

text \<open>
  The registry of import observations as a state machine: the only steps are the start and the end of
  \<open>observeM2Imports\<close>, interleaved in any way. In every reachable state at most one child runs, and an
  observation without an error is a reply that passed every check against the source set it is bound to.
\<close>

text \<open>The codes \<open>runChild\<close> ends with, and all the codes an observation can carry.\<close>

definition CHILD_CODES :: "string list" where
  "CHILD_CODES = [''SOURCE_PARSER_PROCESS_UNAVAILABLE'', ''SOURCE_PARSER_CANCELLED'', ''SOURCE_PARSER_PROCESS_TIMEOUT'',
     ''SOURCE_PARSER_OUTPUT_BYTES_LIMIT'', ''SOURCE_PARSER_PROTOCOL_INVALID'']"

definition OBSERVATION_CODES :: "string list" where
  "OBSERVATION_CODES = CHILD_CODES @ [''SOURCE_PARSER_RESOURCE_BUSY'', ''SOURCE_PARSER_FILE_COUNT_LIMIT'',
     ''SOURCE_PARSER_UNAVAILABLE'', ''SOURCE_PARSER_INPUT_INVALID'', ''SOURCE_PARSER_FILE_BYTES_LIMIT'',
     ''SOURCE_PARSER_TOTAL_BYTES_LIMIT'', ''SOURCE_PARSER_INPUT_BYTES_LIMIT'']"

definition ending_ok :: "child_end \<Rightarrow> bool" where
  "ending_ok ending = (case ending of Child_error code \<Rightarrow> code \<in> set CHILD_CODES | _ \<Rightarrow> True)"

inductive scanner_reachable :: "effect_env \<Rightarrow> scanner \<Rightarrow> (source_set \<times> jsval) list \<Rightarrow> bool" for E where
  fresh: "scanner_reachable E new_scanner []"
| refused: "scanner_reachable E S running \<Longrightarrow> observe_start E prepared aborted identity S = (Minted t, S')
    \<Longrightarrow> scanner_reachable E S' running"
| started: "scanner_reachable E S running \<Longrightarrow> observe_start E prepared aborted identity S = (Started input i, S')
    \<Longrightarrow> scanner_reachable E S' ((prepared, i) # running)"
| finished: "scanner_reachable E S (xs @ (prepared, i) # ys) \<Longrightarrow> ending_ok ending
    \<Longrightarrow> observe_finish E prepared i ending S = (t, S') \<Longrightarrow> scanner_reachable E S' (xs @ ys)"

text \<open>What an entry of the registry is: a recorded failure, or a reply checked against its source set.\<close>

definition trusted :: "effect_env \<Rightarrow> jsval \<Rightarrow> bool" where
  "trusted E v \<longleftrightarrow>
     str_in (opt_prop v ''error'') OBSERVATION_CODES
     \<or> (opt_prop v ''error'' = JUndef \<and> (\<exists>prepared reply identity. validateReply E reply prepared identity
          \<and> opt_prop v ''bindingDigest'' = binding_value prepared
          \<and> opt_prop v ''files'' = opt_prop reply ''files''))"

lemma join_chars: "w \<in> set ws \<Longrightarrow> set w \<subseteq> set (join_with d ws)"
  by (induction d ws rule: join_with.induct) auto

text \<open>Keys that join to the given text use no other character.\<close>

lemma exactKeys_chars:
  assumes "exactKeys v ks" and "c \<notin> set (join_with [CHR 0x00] (sort ks))" and "c \<in> set k"
  shows "opt_prop v k = JUndef"
proof -
  obtain kvs where v: "v = JObj kvs" and j: "join_with [CHR 0x00] (sort (map fst kvs)) = join_with [CHR 0x00] (sort ks)"
    using assms(1) by (auto simp: exactKeys_def split: jsval.splits)
  have "k \<notin> set (map fst kvs)"
  proof
    assume "k \<in> set (map fst kvs)"
    then have "set k \<subseteq> set (join_with [CHR 0x00] (sort (map fst kvs)))" by (intro join_chars) simp
    with j assms(2,3) show False by auto
  qed
  then have "map_of kvs k = None" by (simp add: map_of_eq_None_iff image_image)
  with v show ?thesis by simp
qed

lemma split_join_concat:
  "ws \<noteq> [] \<Longrightarrow> split_at d (join_with [d] ws) = concat (map (split_at d) ws)"
proof (induction ws)
  case (Cons w ws)
  then show ?case by (cases ws) (simp_all add: split_at_append)
qed simp

lemma concat_long: "(\<And>x. f x \<noteq> []) \<Longrightarrow> length xs \<le> length (concat (map f xs))"
proof (induction xs)
  case (Cons x xs)
  then have "1 \<le> length (f x)" "length xs \<le> length (concat (map f xs))"
    by (simp_all add: Suc_leI)
  then show ?case by simp
qed simp

lemma concat_short:
  "(\<And>x. f x \<noteq> []) \<Longrightarrow> length (concat (map f xs)) \<le> length xs \<Longrightarrow> y \<in> set xs \<Longrightarrow> length (f y) = 1"
proof (induction xs)
  case (Cons x xs)
  have "1 \<le> length (f x)" "1 \<le> length (f y)" "length xs \<le> length (concat (map f xs))"
    using Cons.prems(1) concat_long [of f xs] by (simp_all add: Suc_leI)
  with Cons show ?case by fastforce
qed simp

text \<open>An object with every expected key has no other and none twice.\<close>

lemma exactKeys_present:
  assumes keys: "exactKeys (JObj kvs) ks" and ks: "ks \<noteq> []" "distinct ks" "\<forall>k \<in> set ks. CHR 0x00 \<notin> set k"
    and present: "\<forall>k \<in> set ks. opt_prop (JObj kvs) k \<noteq> JUndef"
  shows "sort (map fst kvs) = sort ks"
proof -
  define ws where "ws = sort (map fst kvs)"
  have sub: "set ks \<subseteq> set ws"
  proof
    fix k assume "k \<in> set ks"
    with present have "map_of kvs k \<noteq> None" by (auto split: option.splits)
    then show "k \<in> set ws" by (auto simp: ws_def map_of_eq_None_iff)
  qed
  then have ne: "ws \<noteq> []" using ks(1) by auto
  have len: "length ks \<le> length ws"
    using sub ks(2) by (metis List.finite_set card_length card_mono distinct_card order_trans)
  have "concat (map (split_at (CHR 0x00)) ws) = split_at (CHR 0x00) (join_with [CHR 0x00] ws)"
    using split_join_concat [OF ne] by simp
  also have "\<dots> = split_at (CHR 0x00) (join_with [CHR 0x00] (sort ks))"
    using keys by (simp add: exactKeys_def ws_def)
  also have "\<dots> = sort ks" using ks by (intro split_join) (simp_all flip: set_empty)
  finally have parts: "concat (map (split_at (CHR 0x00)) ws) = sort ks" .
  have "split_at (CHR 0x00) w = [w]" if "w \<in> set ws" for w
  proof -
    have "length (split_at (CHR 0x00) w) = 1"
      by (rule concat_short [OF _ _ that]) (use parts len in \<open>simp_all flip: length_concat\<close>)
    then obtain u where "split_at (CHR 0x00) w = [u]" by (auto simp: length_Suc_conv)
    with join_split [of "CHR 0x00" w] show ?thesis by simp
  qed
  then have "concat (map (split_at (CHR 0x00)) ws) = ws" by (induction ws) auto
  with parts show ?thesis by (simp add: ws_def)
qed

section \<open>What is minted can be trusted\<close>

lemma failure_trusted: "code \<in> set OBSERVATION_CODES \<Longrightarrow> trusted E (JObj (spread [(''bindingDigest'', b)] [(''error'', JStr code)]))"
  by (simp add: trusted_def spread_def str_in_def str_sat_def)

lemma reply_trusted:
  assumes "validateReply E reply prepared identity"
  shows "trusted E (JObj (spread [(''bindingDigest'', binding_value prepared)] (object_fields reply)))"
proof -
  let ?v = "JObj (spread [(''bindingDigest'', binding_value prepared)] (object_fields reply))"
  have keys: "exactKeys reply [''identity'', ''files'']"
    and idt: "opt_prop reply ''identity'' \<noteq> JUndef" and files: "is_array (opt_prop reply ''files'')"
    using assms by (auto simp: validateReply_def)
  obtain kvs where reply: "reply = JObj kvs" using keys by (auto simp: exactKeys_def split: jsval.splits)
  have "sort (map fst kvs) = sort [''identity'', ''files'']"
    by (rule exactKeys_present) (use keys idt files reply in \<open>auto simp: is_array_iff\<close>)
  then have sorted: "sort (map fst kvs) = [''files'', ''identity'']" by (simp add: less_eq_char_def)
  then have sorted_set: "set (map fst kvs) = set [''files'', ''identity'']" by (metis set_sort)
  have "distinct (sort (map fst kvs))" unfolding sorted by simp
  then have dist: "distinct (map fst kvs)" by (simp only: distinct_sort)
  from sorted_set have none: "map_of (rev kvs) ''error'' = None" "map_of (rev kvs) ''bindingDigest'' = None"
    by (auto simp: map_of_eq_None_iff rev_map [symmetric])
  have "opt_prop ?v ''files'' = opt_prop reply ''files''"
    using spread_prop(2) [of kvs "''files''"] dist files reply by (auto simp: object_fields_def is_array_iff)
  moreover have "opt_prop ?v ''error'' = JUndef" "opt_prop ?v ''bindingDigest'' = binding_value prepared"
    using none reply by (simp_all add: spread_prop(1) object_fields_def del: opt_prop_simps) (simp_all add: spread_def)
  ultimately show ?thesis using assms unfolding trusted_def by blast
qed

lemma update_member: "(t, v) \<in> set (AList.update k x m) \<Longrightarrow> (t, v) = (k, x) \<or> (t, v) \<in> set m"
  by (induction m) (auto split: if_splits)

definition scanner_inv :: "effect_env \<Rightarrow> scanner \<Rightarrow> (source_set \<times> jsval) list \<Rightarrow> bool" where
  "scanner_inv E S running \<longleftrightarrow>
     distinct (map fst (observations S)) \<and> (\<forall>(t, v) \<in> set (observations S). t < next_token S \<and> trusted E v)
     \<and> length running = (if activeChild S then 1 else 0)"

lemma mint_inv:
  assumes "mint prepared result S = (t, S')" and "scanner_inv E S running"
    and "trusted E (JObj (spread [(''bindingDigest'', binding_value prepared)] result))"
  shows "scanner_inv E S' running"
  using assms by (fastforce simp: mint_def scanner_inv_def distinct_update less_Suc_eq dest!: update_member)

lemma admit_code: "admit_files E fs used encodedBytes files = Inl code \<Longrightarrow> code \<in> set OBSERVATION_CODES"
  by (induction E fs used encodedBytes files rule: admit_files.induct)
    (auto simp: Let_def OBSERVATION_CODES_def split: option.splits if_splits)

lemma mint_error_inv:
  "mint_error prepared code S = (Minted t, S') \<Longrightarrow> code \<in> set OBSERVATION_CODES \<Longrightarrow> scanner_inv E S running \<Longrightarrow> scanner_inv E S' running"
  by (auto simp: mint_error_def split: prod.splits intro: mint_inv failure_trusted)

lemma start_minted_inv:
  assumes "observe_start E prepared aborted identity S = (Minted t, S')" and "scanner_inv E S running"
  shows "scanner_inv E S' running"
  using assms mint_error_inv admit_code
  by (auto simp: observe_start_def Let_def OBSERVATION_CODES_def CHILD_CODES_def split: if_splits option.splits sum.splits)

lemma start_started_inv:
  assumes "observe_start E prepared aborted identity S = (Started input i, S')" and "scanner_inv E S running"
  shows "scanner_inv E S' ((prepared, i) # running)"
  using assms
  by (auto simp: observe_start_def mint_error_def scanner_inv_def Let_def split: if_splits option.splits sum.splits prod.splits)

lemma finish_inv:
  assumes "observe_finish E prepared i ending S = (t, S')" and "ending_ok ending"
    and "scanner_inv E S (xs @ (prepared, i) # ys)"
  shows "scanner_inv E S' (xs @ ys)"
proof -
  have inv: "scanner_inv E (S\<lparr>activeChild := False\<rparr>) (xs @ ys)"
    using assms(3) by (auto simp: scanner_inv_def split: if_splits)
  then show ?thesis
    using assms(1,2) failure_trusted reply_trusted
    by (auto simp: observe_finish_def Let_def ending_ok_def OBSERVATION_CODES_def CHILD_CODES_def
        split: child_end.splits if_splits intro: mint_inv [OF _ inv])
qed

lemma reachable_inv: "scanner_reachable E S running \<Longrightarrow> scanner_inv E S running"
proof (induction rule: scanner_reachable.induct)
  case fresh
  show ?case by (simp add: scanner_inv_def new_scanner_def)
qed (auto intro: start_minted_inv start_started_inv finish_inv)

text \<open>
  C38. The registry of import observations can be trusted, however the starts and ends of the parsing
  processes interleave. In every reachable state at most one process runs, exactly when the busy flag
  is set; no two tokens share an entry; and every entry is a recorded failure with a code, or the
  reply to a source set that passed every check, bound to the digest of exactly that set.
\<close>

theorem scanner_registry_trusted:
  assumes "scanner_reachable E S running"
  shows "length running \<le> 1 \<and> (activeChild S \<longleftrightarrow> running \<noteq> []) \<and> distinct (map fst (observations S))
    \<and> (\<forall>t v. map_of (observations S) t = Some v \<longrightarrow> t < next_token S \<and> trusted E v)"
proof -
  have inv: "scanner_inv E S running" by (rule reachable_inv [OF assms])
  then have "activeChild S \<longleftrightarrow> running \<noteq> []" by (auto simp: scanner_inv_def split: if_splits)
  with inv show ?thesis by (fastforce simp: scanner_inv_def dest: map_of_SomeD)
qed

section \<open>What the parsing process is given\<close>

lemma admit_complete:
  "admit_files E fs used encodedBytes files = Inr out \<Longrightarrow> used \<le> LIMIT_TOTAL_BYTES \<Longrightarrow>
   \<exists>bs. list_all2 (\<lambda>f b. sf_source f = Some b \<and> sf_extension f \<in> set EXTENSIONS \<and> length b = sf_bytes f
            \<and> length b \<le> LIMIT_FILE_BYTES \<and> sf_digest f = sha_text (js_env.truncate E) b) fs bs
     \<and> out = files @ map2 encoded_file fs bs \<and> used + sum_list (map length bs) \<le> LIMIT_TOTAL_BYTES"
proof (induction E fs used encodedBytes files rule: admit_files.induct)
  case (2 E f fs used encodedBytes files)
  from "2.prems"(1) obtain b where b: "sf_source f = Some b" "sf_extension f \<in> set EXTENSIONS" "length b = sf_bytes f"
      "sha_text (js_env.truncate E) b = sf_digest f" "length b \<le> LIMIT_FILE_BYTES" "used + length b \<le> LIMIT_TOTAL_BYTES"
    by (auto simp: Let_def split: option.splits if_splits)
  let ?bytes = "encodedBytes + length (json_text E (encoded_file f b)) + (if files \<noteq> [] then 1 else 0)"
  have rest: "admit_files E fs (used + length b) ?bytes (files @ [encoded_file f b]) = Inr out"
    using "2.prems"(1) b by (auto simp: Let_def split: if_splits)
  have bytes: "\<not> ?bytes > LIMIT_INPUT_BYTES" using "2.prems"(1) b by (auto simp: Let_def split: if_splits)
  obtain bs where "list_all2 (\<lambda>f b. sf_source f = Some b \<and> sf_extension f \<in> set EXTENSIONS \<and> length b = sf_bytes f
            \<and> length b \<le> LIMIT_FILE_BYTES \<and> sf_digest f = sha_text (js_env.truncate E) b) fs bs"
      "out = files @ encoded_file f b # map2 encoded_file fs bs" "used + length b + sum_list (map length bs) \<le> LIMIT_TOTAL_BYTES"
    using "2.IH" [OF b(1) refl refl] rest bytes b by auto
  with b show ?case by (intro exI [of _ "b # bs"]) simp
qed simp

text \<open>
  The parsing process sees the whole source set. When the observation starts, its input is the text
  of the parser's identity and of every file in order, each with the base64 of the very bytes whose
  length and digest the set states; nothing is truncated or left out, and the number of files, the
  bytes of each file, of all of them and of the text stay within the limits.
\<close>

theorem observation_input_complete:
  assumes "observe_start E prepared aborted parserIdentity S = (Started input identity, S')"
  shows "\<exists>bs. list_all2 (\<lambda>f b. sf_source f = Some b \<and> sf_extension f \<in> set EXTENSIONS \<and> length b = sf_bytes f
            \<and> length b \<le> LIMIT_FILE_BYTES \<and> sf_digest f = sha_text (js_env.truncate E) b) (set_files prepared) bs
     \<and> input = json_text E (worker_input identity (map2 encoded_file (set_files prepared) bs))
     \<and> parserIdentity = Some identity \<and> length bs \<le> LIMIT_FILES
     \<and> sum_list (map length bs) \<le> LIMIT_TOTAL_BYTES \<and> length input \<le> LIMIT_INPUT_BYTES"
proof -
  obtain files where "admit_files E (set_files prepared) 0 (length (json_text E (worker_input identity []))) [] = Inr files"
      "input = json_text E (worker_input identity files)" "length input \<le> LIMIT_INPUT_BYTES"
      "parserIdentity = Some identity" "length (set_files prepared) \<le> LIMIT_FILES"
    using assms
    by (auto simp: observe_start_def mint_error_def Let_def split: if_splits option.splits sum.splits prod.splits)
  with admit_complete show ?thesis by (force dest: list_all2_lengthD)
qed

end
