(* ===== verification/M2EvaluatorLaws.thy ===== *)
theory M2EvaluatorLaws
  imports M2Evaluator ImportScannerLaws
begin

text \<open>
  What an allow verdict of the governance evaluator means: the documents fit together, every source file
  lies in a layer, was observed completely, and imports only what its layer may import.
\<close>

section \<open>Events\<close>

lemma lower_status_Pass: "lower_status s cur = Pass \<longleftrightarrow> s = Pass \<and> cur = Pass"
  by (cases s; cases cur) (simp_all add: lower_status_def)

lemma status_after_Pass: "status_after es cur = Pass \<longleftrightarrow> cur = Pass \<and> (\<forall>s. Lower s \<in> set es \<longrightarrow> s = Pass)"
  by (induction es cur rule: status_after.induct) (auto simp: lower_status_Pass)

lemma Lower_finding [simp]: "Lower s \<noteq> event_finding c d p e" "event_finding c d p e \<noteq> Lower s"
  by (simp_all add: event_finding_def)

lemma Lower_on [simp]: "Lower s' \<in> set (on b s (event_finding c d p e)) \<longleftrightarrow> b \<and> s' = s"
  by (simp add: on_def)

lemma Lower_upstream [simp]: "Lower s \<noteq> upstreamUnavailable c u"
  by (simp add: upstreamUnavailable_def)

section \<open>The verdict of a created decision\<close>

lemma created_field:
  assumes "createM2GovernanceDecision E props = Inr d" and "map_of (rev props) k = Some x"
  shows "opt_prop d k = x"
proof -
  let ?projection = "spread [(''contract'', JStr ''GovernanceDecision''), (''version'', JInt 1)] props"
  obtain i where d: "d = JObj (spread [(''decisionId'', JStr i)] ?projection)"
    using assms(1) by (auto simp: createM2GovernanceDecision_def Let_def bindE_Inr_iff split: if_splits)
  have "map_of (rev ?projection) = map_of ?projection" by (intro map_of_rev_same distinct_spread) simp
  moreover have "map_of ?projection k = Some x" using assms(2) by (simp add: map_of_spread map_add_def)
  ultimately show ?thesis by (simp add: d map_of_spread map_add_def)
qed

lemma created_accepted:
  assumes "createM2GovernanceDecision E props = Inr d"
  shows "\<exists>r. validateM2GovernanceDecision E d = Inr r \<and> valid r"
  using assms by (auto simp: createM2GovernanceDecision_def Let_def bindE_Inr_iff split: if_splits)

lemma finish_verdict:
  assumes "finish_decision E args st layersStatus importsStatus specs = Inr d"
  shows "opt_prop d ''verdict'' = JStr (decisionVerdict [importsStatus, inputStatus st, inventoryStatus st, layersStatus])"
proof -
  obtain found where "createM2GovernanceDecision E (decision_fields args st layersStatus importsStatus found) = Inr d"
    using assms by (auto simp: finish_decision_def bindE_Inr_iff)
  then show ?thesis by (rule created_field) (simp add: decision_fields_def Let_def)
qed

lemma allow_iff: "decisionVerdict ss = ''allow'' \<longleftrightarrow> set ss \<subseteq> {Pass}"
proof -
  have "x = Pass \<longleftrightarrow> x \<noteq> Unavailable \<and> x \<noteq> Fail" for x :: check_status by (cases x) simp_all
  then show ?thesis by (auto simp: decisionVerdict_def)
qed

lemma finish_allow:
  assumes "finish_decision E args st layersStatus importsStatus specs = Inr d" and "opt_prop d ''verdict'' = JStr ''allow''"
  shows "importsStatus = Pass \<and> inputStatus st = Pass \<and> inventoryStatus st = Pass \<and> layersStatus = Pass"
  using finish_verdict [OF assms(1)] assms(2) allow_iff [of "[importsStatus, inputStatus st, inventoryStatus st, layersStatus]"]
  by auto

section \<open>Stages of an allow\<close>

text \<open>What an evaluation that allows went through.\<close>

definition allowed_run :: "effect_env \<Rightarrow> scanner \<Rightarrow> governance_args \<Rightarrow> nat option \<Rightarrow> input_state \<Rightarrow> source_set \<Rightarrow> jsval option \<Rightarrow> bool" where
  "allowed_run E0 S args token st prepared observation \<longleftrightarrow>
     (let E = js_env.truncate E0; overlay = overlayCandidate (baselineSnapshot args) (candidateFiles args);
          sources = filter (\<lambda>(p, bytes). declares (policySnapshot args) (extension_of E p)) overlay
      in prepareInputState E args = Inr st \<and> inputStatus st = Pass \<and> inventoryStatus st = Pass
         \<and> prepareSourceSet E args st = Inr prepared
         \<and> status_after (unmapped_layers E (policySnapshot args) (policyDigest st) sources) Pass = Pass
         \<and> status_after (unsupported_languages E sources) Pass = Pass
         \<and> readM2ImportObservation E0 S token prepared = Inr observation
         \<and> status_after (observed_events E args overlay prepared observation) Pass = Pass)"

lemma allow_stages:
  assumes "evaluateM2Governance E S args token = Inr d" and "opt_prop d ''verdict'' = JStr ''allow''"
  obtains st prepared observation where "allowed_run E S args token st prepared observation"
proof -
  obtain st prepared where st: "prepareInputState (js_env.truncate E) args = Inr st"
      "prepareSourceSet (js_env.truncate E) args st = Inr prepared"
    using assms(1) by (auto simp: evaluateM2Governance_def Let_def bindE_Inr_iff)
  note run = assms(1) [unfolded evaluateM2Governance_def Let_def st bindE_simps]
  show thesis
  proof (cases "inventoryStatus st = Pass")
    case False
    with run have "finish_decision (js_env.truncate E) args st Unavailable Unavailable
        (filed [upstreamUnavailable ''layers.mapped'' ''inventory.complete'',
                upstreamUnavailable ''imports.allowed'' ''inventory.complete'']) = Inr d" by simp
    from finish_allow [OF this assms(2)] show thesis by simp
  next
    case True
    with run have "\<exists>observation. allowed_run E S args token st prepared observation"
      by (auto simp: bindE_Inr_iff allowed_run_def Let_def st split: if_splits dest: finish_allow [OF _ assms(2)])
    then show thesis using that by blast
  qed
qed

section \<open>The overlay\<close>

lemma distinct_map_sort_key: "distinct (map f (sort_key k xs)) \<longleftrightarrow> distinct (map f xs)"
  by (metis mset_eq_imp_distinct_iff mset_map mset_sort)

lemma distinct_overlay: "distinct (map fst (overlayCandidate baseline candidates))"
proof -
  have "distinct (map fst (fold (\<lambda>f. case path_and_bytes f of (p, b) \<Rightarrow> AList.update p b) fs m))"
    if "distinct (map fst m)" for fs and m :: "(string \<times> string) list"
    using that by (induction fs arbitrary: m) (simp_all add: distinct_update split: prod.splits)
  then show ?thesis by (simp add: overlayCandidate_def distinct_map_sort_key)
qed

section \<open>What may be imported\<close>

definition rule_permits :: "jsval \<Rightarrow> string \<Rightarrow> string \<Rightarrow> bool" where
  "rule_permits policy fromLayer toLayer \<longleftrightarrow>
     (\<exists>r \<in> set (elements (opt_prop policy ''rules'')). opt_prop r ''from'' = JStr fromLayer
        \<and> array_includes (elements (opt_prop r ''canImport'')) (JStr toLayer))"

definition may_import :: "js_env \<Rightarrow> jsval \<Rightarrow> string list \<Rightarrow> string \<Rightarrow> string \<Rightarrow> string \<Rightarrow> bool" where
  "may_import E policy filePaths layer p specifier \<longleftrightarrow>
     (case resolveRelativeImport E specifier p filePaths of
        External \<Rightarrow> array_includes (elements (opt_prop policy ''externalImports'')) (JStr specifier)
      | Unresolved \<Rightarrow> False
      | Resolved q \<Rightarrow> \<exists>target. layerForFile q policy = Some target \<and> (target = layer \<or> rule_permits policy layer target))"

lemma no_includes [simp]: "\<not> array_includes [] x" "\<not> array_includes (elements JUndef) x"
  by (simp_all add: array_includes_def elements_def)

lemma import_events_allow:
  assumes "\<forall>s. Lower s \<in> set (import_events E policy filePaths p specifier) \<longrightarrow> s = Pass"
    and "layerForFile p policy = Some layer"
  shows "may_import E policy filePaths layer p specifier"
proof (cases "resolveRelativeImport E specifier p filePaths")
  case External
  with assms show ?thesis by (auto simp: import_events_def may_import_def Let_def)
next
  case Unresolved
  with assms show ?thesis by (auto simp: import_events_def Let_def)
next
  case (Resolved q)
  obtain target where t: "layerForFile q policy = Some target"
    using assms Resolved by (cases "layerForFile q policy") (auto simp: import_events_def Let_def)
  let ?rules = "elements (opt_prop policy ''rules'')"
  have "target = layer \<or> rule_permits policy layer target"
  proof (cases "map_of (rev (map (\<lambda>r. (opt_prop r ''from'', r)) ?rules)) (JStr layer)")
    case None
    with assms Resolved t show ?thesis by (auto simp: import_events_def Let_def)
  next
    case (Some r)
    then have "r \<in> set ?rules" "opt_prop r ''from'' = JStr layer" by (auto dest!: map_of_SomeD)
    with assms Resolved t Some show ?thesis by (auto simp: import_events_def Let_def rule_permits_def)
  qed
  with Resolved t show ?thesis by (simp add: may_import_def)
qed

lemma scan_events_allow:
  assumes "\<forall>s. Lower s \<in> set (scan_events E policy filePaths scans (p, bytes)) \<longrightarrow> s = Pass"
  shows "utf8_valid bytes"
    and "map_of (rev (map (\<lambda>s. (opt_prop s ''path'', s)) scans)) (JStr p) = Some scan \<Longrightarrow>
         truthy (opt_prop scan ''complete'')
         \<and> (layerForFile p policy = Some layer \<longrightarrow>
            (\<forall>x \<in> set (elements (opt_prop scan ''specifiers'')). may_import E policy filePaths layer p (str_of x)))"
proof -
  show valid: "utf8_valid bytes"
    using assms by (rule_tac ccontr) (auto simp: scan_events_def validUtf8_def)
  assume scan: "map_of (rev (map (\<lambda>s. (opt_prop s ''path'', s)) scans)) (JStr p) = Some scan"
  have "may_import E policy filePaths layer p (str_of x)"
    if "layerForFile p policy = Some layer" "x \<in> set (elements (opt_prop scan ''specifiers''))" for x
    by (rule import_events_allow [OF _ that(1)]) (use assms scan valid that(2) in \<open>auto simp: scan_events_def validUtf8_def\<close>)
  moreover have "truthy (opt_prop scan ''complete'')"
    using assms scan valid by (auto simp: scan_events_def validUtf8_def split: if_splits)
  ultimately show "truthy (opt_prop scan ''complete'')
         \<and> (layerForFile p policy = Some layer \<longrightarrow>
            (\<forall>x \<in> set (elements (opt_prop scan ''specifiers'')). may_import E policy filePaths layer p (str_of x)))"
    by blast
qed

section \<open>The observation an allow rests on\<close>

lemma read_observation:
  assumes "readM2ImportObservation E S token prepared = Inr (Some v)" and "\<not> truthy (opt_prop v ''error'')"
  shows "set_ready prepared \<and> list_all2 same_source (elements (opt_prop v ''files'')) (set_files prepared)"
  using assms by (auto simp: readM2ImportObservation_def bindE_Inr_iff split: option.splits if_splits)

lemma read_member:
  assumes "readM2ImportObservation E S token prepared = Inr (Some v)"
  shows "\<exists>t. token = Some t \<and> map_of (observations S) t = Some v \<and> set_ready prepared
    \<and> strict_eq (opt_prop v ''bindingDigest'') (binding_value prepared)"
  using assms
  by (cases token) (auto simp: readM2ImportObservation_def bindE_Inr_iff split: option.splits if_splits)

text \<open>An observation without an error scans exactly the sources it is read for.\<close>

lemma scan_of_source:
  assumes "list_all2 same_source scans (map (source_file_of E) sources)" and "(p, bytes) \<in> set sources"
    and "distinct (map fst sources)"
  obtains scan where "map_of (rev (map (\<lambda>s. (opt_prop s ''path'', s)) scans)) (JStr p) = Some scan"
    and "scan \<in> set scans" and "opt_prop scan ''path'' = JStr p" and "opt_prop scan ''digest'' = JStr (sha_text E bytes)"
proof -
  obtain i where i: "i < length sources" "sources ! i = (p, bytes)" using assms(2) by (auto simp: in_set_conv_nth)
  have same: "same_source (scans ! j) (source_file_of E (sources ! j))" if "j < length sources" for j
    using assms(1) that by (auto simp: list_all2_conv_all_nth)
  have len: "length scans = length sources" using assms(1) by (auto dest: list_all2_lengthD)
  let ?m = "rev (map (\<lambda>s. (opt_prop s ''path'', s)) scans)"
  have "(JStr p, scans ! i) \<in> set ?m"
    using same [OF i(1)] i len by (auto simp: same_source_def source_file_of_def image_iff intro!: bexI [of _ "scans ! i"])
  then obtain scan where scan: "map_of ?m (JStr p) = Some scan" using weak_map_of_SomeI by fastforce
  then obtain j where j: "j < length sources" "scan = scans ! j" "opt_prop scan ''path'' = JStr p"
    using len by (auto simp: in_set_conv_nth dest!: map_of_SomeD)
  have "fst (sources ! j) = p"
    using same [OF j(1)] j(2,3) by (auto simp: same_source_def source_file_of_def split: prod.splits)
  then have "j = i" using nth_eq_iff_index_eq [OF assms(3), of j i] i j(1) by simp
  then show thesis using that [OF scan] same [OF i(1)] i j len
    by (auto simp: same_source_def source_file_of_def)
qed

lemma prepared_files:
  assumes "prepareSourceSet E args st = Inr prepared" and "set_ready prepared"
  shows "set_files prepared = map (source_file_of E)
    (filter (\<lambda>(p, bytes). declares (policySnapshot args) (extension_of E p))
      (overlayCandidate (baselineSnapshot args) (candidateFiles args)))"
  using assms by (auto simp: prepareSourceSet_def Let_def bindE_Inr_iff not_ready_def split: if_splits)

lemma set_error_cause:
  assumes "prepareSourceSet E args st = Inr prepared" and "set_error prepared = Some e"
  shows "e \<noteq> [] \<and> (e = ''SOURCE_NOT_UTF8'' \<longrightarrow>
    (\<exists>(p, bytes) \<in> set (overlayCandidate (baselineSnapshot args) (candidateFiles args)).
       declares (policySnapshot args) (extension_of E p) \<and> \<not> utf8_valid bytes))"
proof -
  let ?overlay = "overlayCandidate (baselineSnapshot args) (candidateFiles args)"
  have e: "e \<in> set (set_errors E (policySnapshot args) (baselineSnapshot args) ?overlay)"
    using assms by (auto simp: prepareSourceSet_def Let_def bindE_Inr_iff not_ready_def split: if_splits list.splits)
  then have "e \<noteq> []" by (auto simp: set_errors_def Let_def chk_def split: if_splits)
  moreover have "\<exists>(p, bytes) \<in> set ?overlay. declares (policySnapshot args) (extension_of E p) \<and> \<not> utf8_valid bytes"
    if "e = ''SOURCE_NOT_UTF8''"
    using e that by (auto simp: set_errors_def Let_def chk_def validUtf8_def split: if_splits)
  ultimately show ?thesis by blast
qed

lemma observed_member:
  assumes "\<forall>s. Lower s \<in> set (observed_events E args overlay prepared observation) \<longrightarrow> s = Pass"
    and "f \<in> set overlay" and "declares (policySnapshot args) (extension_of E (fst f))"
    and "extension_of E (fst f) \<in> set SUPPORTED_SOURCE_EXTENSIONS"
  shows "\<forall>s. Lower s \<in> set (scan_events E (policySnapshot args) (map fst overlay)
      (case observation of None \<Rightarrow> [] | Some v \<Rightarrow> elements (opt_prop v ''files'')) f) \<longrightarrow> s = Pass"
  using assms by (cases f) (fastforce simp: observed_events_def Let_def)

lemma languages_supported:
  assumes "status_after (unsupported_languages E sources) Pass = Pass" and "f \<in> set sources"
  shows "extension_of E (fst f) \<in> set SUPPORTED_SOURCE_EXTENSIONS"
  using assms by (cases f) (fastforce simp: status_after_Pass unsupported_languages_def)

lemma layers_mapped:
  assumes "status_after (unmapped_layers E policy policySum sources) Pass = Pass" and "f \<in> set sources"
  shows "\<exists>layer. layerForFile (fst f) policy = Some layer"
  using assms by (cases f) (fastforce simp: status_after_Pass unmapped_layers_def)

lemma allowed_prepared:
  assumes run: "allowed_run E S args token st prepared observation"
  shows "set_error prepared = None"
    and "observation_error prepared observation = Some e \<Longrightarrow> e = [] \<or> e = ''SOURCE_NOT_UTF8''"
proof -
  let ?E = "js_env.truncate E" and ?overlay = "overlayCandidate (baselineSnapshot args) (candidateFiles args)"
  have quiet: "\<forall>s. Lower s \<in> set (observed_events ?E args ?overlay prepared observation) \<longrightarrow> s = Pass"
    and prep: "prepareSourceSet ?E args st = Inr prepared"
    and lang: "status_after (unsupported_languages ?E
      (filter (\<lambda>(p, bytes). declares (policySnapshot args) (extension_of ?E p)) ?overlay)) Pass = Pass"
    using run by (auto simp: allowed_run_def Let_def status_after_Pass)
  show err: "e = [] \<or> e = ''SOURCE_NOT_UTF8''" if "observation_error prepared observation = Some e" for e
    using quiet that by (auto simp: observed_events_def Let_def)
  show "set_error prepared = None"
  proof (rule ccontr)
    assume "set_error prepared \<noteq> None"
    then obtain e where e: "set_error prepared = Some e" by blast
    then have "e = [] \<or> e = ''SOURCE_NOT_UTF8''" by (intro err) (simp add: observation_error_def)
    with set_error_cause [OF prep e] obtain p bytes where f: "(p, bytes) \<in> set ?overlay"
        "declares (policySnapshot args) (extension_of ?E p)" "\<not> utf8_valid bytes" by auto
    have "extension_of ?E (fst (p, bytes)) \<in> set SUPPORTED_SOURCE_EXTENSIONS"
      by (rule languages_supported [OF lang]) (use f in simp)
    then have "utf8_valid bytes"
      using observed_member [OF quiet f(1)] f(2) by (intro scan_events_allow(1)) simp
    with f(3) show False by simp
  qed
qed

lemma allowed_read:
  assumes run: "allowed_run E S args token st prepared observation"
  obtains t v where "observation = Some v" and "token = Some t" and "map_of (observations S) t = Some v"
    and "set_ready prepared" and "strict_eq (opt_prop v ''bindingDigest'') (binding_value prepared)"
proof -
  obtain v where v: "observation = Some v"
    using allowed_prepared [OF run] by (cases observation) (auto simp: observation_error_def)
  with run have "readM2ImportObservation E S token prepared = Inr (Some v)" by (simp add: allowed_run_def Let_def)
  with v that show thesis using read_member by blast
qed

lemma allowed_observation:
  assumes run: "allowed_run E S args token st prepared observation" and reach: "scanner_reachable E S running"
  obtains t v where "observation = Some v" and "token = Some t" and "map_of (observations S) t = Some v"
    and "set_ready prepared" and "opt_prop v ''error'' = JUndef" and "trusted E v"
proof -
  obtain t v where v: "observation = Some v" "token = Some t" "map_of (observations S) t = Some v" "set_ready prepared"
    using allowed_read [OF run] .
  have tr: "trusted E v" using reachable_inv [OF reach] v(3) by (auto simp: scanner_inv_def dest!: map_of_SomeD)
  moreover have "\<not> str_in (opt_prop v ''error'') OBSERVATION_CODES"
    using allowed_prepared [OF run] v(1)
    by (auto simp: observation_error_def str_in_def str_sat_iff is_string_def OBSERVATION_CODES_def CHILD_CODES_def)
  ultimately have "opt_prop v ''error'' = JUndef" by (auto simp: trusted_def)
  with v tr show thesis by (intro that)
qed

lemma trusted_scan:
  assumes "trusted E v" and "opt_prop v ''error'' = JUndef" and "scan \<in> set (elements (opt_prop v ''files''))"
  shows "is_array (opt_prop scan ''errors'') \<and> opt_prop scan ''complete'' = JBool (elements (opt_prop scan ''errors'') = [])
    \<and> (\<forall>x \<in> set (elements (opt_prop scan ''specifiers'')). \<exists>s. x = JStr s)"
proof -
  obtain prepared reply identity where "validateReply E reply prepared identity" "opt_prop v ''files'' = opt_prop reply ''files''"
    using assms(1,2) by (auto simp: trusted_def str_in_def str_sat_def)
  with assms(3) obtain f where "reply_file_ok scan f"
    by (auto simp: validateReply_def list_all2_conv_all_nth in_set_conv_nth)
  then show ?thesis by (auto simp: reply_file_ok_def specifiers_ok_def list_all_iff str_sat_iff)
qed

section \<open>What an allow guarantees\<close>

text \<open>
  C5. An allow respects the architecture of the policy. Take any evaluation that allows, with the
  registry in any reachable state, and any file of the proposed project whose extension the policy
  declares. The file lies in a layer, its bytes are text, and the observation the evaluation read holds
  a complete scan of exactly these bytes (same path, same digest, no error); every import in that scan
  names a declared external module, or resolves to exactly one project file in the same layer or in a
  layer the rule of this layer lists. No unmapped, unread, stale or unresolvable import slips through.
\<close>

theorem allow_respects_architecture:
  assumes "scanner_reachable E S running" and "evaluateM2Governance E S args token = Inr d"
    and "opt_prop d ''verdict'' = JStr ''allow''"
    and "(p, bytes) \<in> set (overlayCandidate (baselineSnapshot args) (candidateFiles args))"
    and "declares (policySnapshot args) (extension_of (js_env.truncate E) p)"
  shows "\<exists>layer t v scan. layerForFile p (policySnapshot args) = Some layer \<and> utf8_valid bytes
    \<and> token = Some t \<and> map_of (observations S) t = Some v \<and> scan \<in> set (elements (opt_prop v ''files''))
    \<and> opt_prop scan ''path'' = JStr p \<and> opt_prop scan ''digest'' = JStr (sha_text (js_env.truncate E) bytes)
    \<and> opt_prop scan ''errors'' = JArr []
    \<and> (\<forall>x \<in> set (elements (opt_prop scan ''specifiers'')). \<exists>s. x = JStr s
         \<and> may_import (js_env.truncate E) (policySnapshot args)
             (map fst (overlayCandidate (baselineSnapshot args) (candidateFiles args))) layer p s)"
proof -
  let ?E = "js_env.truncate E" and ?overlay = "overlayCandidate (baselineSnapshot args) (candidateFiles args)"
  let ?sources = "filter (\<lambda>(p, bytes). declares (policySnapshot args) (extension_of ?E p)) ?overlay"
  obtain st prepared observation where run: "allowed_run E S args token st prepared observation"
    using allow_stages [OF assms(2,3)] .
  obtain t v where v: "observation = Some v" "token = Some t" "map_of (observations S) t = Some v" "set_ready prepared"
      "opt_prop v ''error'' = JUndef" "trusted E v"
    using allowed_observation [OF run assms(1)] .
  have src: "(p, bytes) \<in> set ?sources" using assms(4,5) by simp
  have stages: "readM2ImportObservation E S token prepared = Inr (Some v)" "prepareSourceSet ?E args st = Inr prepared"
      "status_after (unsupported_languages ?E ?sources) Pass = Pass"
      "status_after (unmapped_layers ?E (policySnapshot args) (policyDigest st) ?sources) Pass = Pass"
      "\<forall>s. Lower s \<in> set (observed_events ?E args ?overlay prepared observation) \<longrightarrow> s = Pass"
    using run v(1) by (auto simp: allowed_run_def Let_def status_after_Pass)
  obtain layer where layer: "layerForFile p (policySnapshot args) = Some layer"
    using layers_mapped [OF stages(4) src] by auto
  have scans: "list_all2 same_source (elements (opt_prop v ''files'')) (map (source_file_of ?E) ?sources)"
    using read_observation [OF stages(1)] v(4,5) prepared_files [OF stages(2)] by (simp add: truthy_def)
  obtain scan where scan: "map_of (rev (map (\<lambda>s. (opt_prop s ''path'', s)) (elements (opt_prop v ''files'')))) (JStr p) = Some scan"
      "scan \<in> set (elements (opt_prop v ''files''))" "opt_prop scan ''path'' = JStr p"
      "opt_prop scan ''digest'' = JStr (sha_text ?E bytes)"
    by (rule scan_of_source [OF scans src]) (simp_all add: distinct_overlay distinct_map_filter)
  have quiet: "\<forall>s. Lower s \<in> set (scan_events ?E (policySnapshot args) (map fst ?overlay) (elements (opt_prop v ''files'')) (p, bytes)) \<longrightarrow> s = Pass"
    using observed_member [OF stages(5) assms(4)] assms(5) languages_supported [OF stages(3) src] v(1) by simp
  note t = trusted_scan [OF v(6,5) scan(2)]
  have "opt_prop scan ''errors'' = JArr []"
    using t scan_events_allow(2) [OF quiet scan(1)] by (auto simp: is_array_iff truthy_def)
  moreover have "\<forall>x \<in> set (elements (opt_prop scan ''specifiers'')). \<exists>s. x = JStr s
         \<and> may_import ?E (policySnapshot args) (map fst ?overlay) layer p s"
    using t scan_events_allow(2) [OF quiet scan(1), of layer] layer by fastforce
  ultimately show ?thesis using layer scan scan_events_allow(1) [OF quiet] v(2,3) by auto
qed

text \<open>
  C7. Without a current observation nothing is allowed. If the evaluation is given no token, a value that
  is no token, or a token minted for another source set (its binding digest differs from the one of the
  material evaluated now), the verdict is not allow.
\<close>

theorem stale_observation_never_allows:
  assumes "prepareM2GovernanceSourceSet (js_env.truncate E) args = Inr prepared"
    and "\<And>v. Option.bind token (map_of (observations S)) = Some v \<Longrightarrow> opt_prop v ''bindingDigest'' \<noteq> binding_value prepared"
    and "evaluateM2Governance E S args token = Inr d"
  shows "opt_prop d ''verdict'' \<noteq> JStr ''allow''"
proof
  assume "opt_prop d ''verdict'' = JStr ''allow''"
  then obtain st prepared' observation where run: "allowed_run E S args token st prepared' observation"
    using allow_stages [OF assms(3)] by blast
  then have "prepared' = prepared"
    using assms(1) by (simp add: allowed_run_def prepareM2GovernanceSourceSet_def Let_def)
  moreover obtain t v where "token = Some t" "map_of (observations S) t = Some v" "set_ready prepared'"
      "strict_eq (opt_prop v ''bindingDigest'') (binding_value prepared')"
    using allowed_read [OF run] by blast
  moreover have "\<exists>b. set_binding prepared = Some b"
    using run calculation(1,4) by (auto simp: allowed_run_def Let_def prepareSourceSet_def not_ready_def bindE_Inr_iff split: if_splits)
  ultimately show False using assms(2) by (auto simp: binding_value_def)
qed

section \<open>What an allow is bound to\<close>

lemma prepared_input:
  assumes "prepareInputState E args = Inr st"
  shows "\<exists>r. v2_validateM2ProjectChangeRequest E (g_request args) = Inr r \<and> valid r"
    and "v2_computeM2ProjectChangeRequestDigest E (g_request args) = Inr (requestDigest st)"
    and "inputStatus st = status_after (input_events E args (requestDigest st) (policyDigest st)) Pass"
    and "inventoryStatus st = status_after (inventory_events (inputStatus st) (baselineSnapshot args)) Pass"
  using assms by (auto simp: prepareInputState_def Let_def bindE_Inr_iff split: if_splits)

lemma input_passed:
  assumes "status_after (input_events E args requestSum policySum) Pass = Pass"
  shows "valid (validateM2GovernancePolicySnapshot E (policySnapshot args))"
    and "valid (validateM2GovernanceBaselineSnapshot E (baselineSnapshot args))"
    and "valid (validateCandidateFiles E (candidateFiles args) (g_request args))"
    and "isWorkspaceRevision (expectedAfterRevision args)"
    and "binds_request (policySnapshot args) (g_request args)" and "binds_request (baselineSnapshot args) (g_request args)"
    and "\<forall>c \<in> set (changes_of (g_request args)). \<not> strict_eq (opt_prop c ''path'') (opt_prop (policySnapshot args) ''policyPath'')"
    and "baselineMatchesRequest (baselineSnapshot args) (g_request args) = []"
proof -
  have quiet: "Lower s \<in> set (input_events E args requestSum policySum) \<Longrightarrow> s = Pass" for s
    using assms by (simp add: status_after_Pass)
  note q = quiet [of Unavailable] quiet [of Fail]
  show p: "valid (validateM2GovernancePolicySnapshot E (policySnapshot args))"
    using q by (rule_tac ccontr) (simp add: input_events_def Let_def)
  show b: "valid (validateM2GovernanceBaselineSnapshot E (baselineSnapshot args))"
    using q by (rule_tac ccontr) (simp add: input_events_def Let_def)
  show "valid (validateCandidateFiles E (candidateFiles args) (g_request args))"
    using q by (rule_tac ccontr) (simp add: input_events_def Let_def)
  show "isWorkspaceRevision (expectedAfterRevision args)"
    using q by (rule_tac ccontr) (simp add: input_events_def Let_def)
  show "binds_request (policySnapshot args) (g_request args)" "binds_request (baselineSnapshot args) (g_request args)"
      "baselineMatchesRequest (baselineSnapshot args) (g_request args) = []"
    using q p b by (rule_tac [!] ccontr) (simp_all add: input_events_def Let_def)
  show "\<forall>c \<in> set (changes_of (g_request args)). \<not> strict_eq (opt_prop c ''path'') (opt_prop (policySnapshot args) ''policyPath'')"
    using q p by (rule_tac ccontr) (simp add: input_events_def Let_def list_ex_iff)
qed

lemma inventory_passed:
  "status_after (inventory_events Pass baseline) Pass = Pass \<Longrightarrow> opt_prop baseline ''complete'' = JBool True"
  by (auto simp: inventory_events_def status_after_Pass on_def split: if_splits)

text \<open>Accepted candidates: the requested paths, each with the after-image the request states.\<close>

lemma candidates_accepted:
  assumes "valid (validateCandidateFiles E v request)"
  obtains cs where "v = JArr cs" and "length cs = length (changes_of request)"
    and "\<And>i. i < length cs \<Longrightarrow> strict_eq (opt_prop (cs ! i) ''path'') (opt_prop (changes_of request ! i) ''path'')
           \<and> validateCandidate E (changes_of request) i (cs ! i) = []"
proof -
  obtain cs where v: "v = JArr cs" using assms by (auto simp: validateCandidateFiles_def Let_def is_array_iff split: if_splits)
  have eq: "list_all2 strict_eq (map (\<lambda>x. opt_prop x ''path'') cs) (map (\<lambda>x. opt_prop x ''path'') (changes_of request))"
    and each: "each_indexed (validateCandidate E (changes_of request)) cs = []"
    using assms v by (auto simp: validateCandidateFiles_def Let_def is_array_def arraysEqual_def)
  show thesis
    using that [OF v] list_all2_lengthD [OF eq] eq each by (auto simp: list_all2_conv_all_nth each_indexed_Nil_iff)
qed

lemma decoded_canonical: "decodeCanonicalBase64 v = Some bytes \<Longrightarrow> v = JStr (b64_encode bytes)"
  by (auto simp: decodeCanonicalBase64_def split: jsval.splits option.splits if_splits)

lemma candidate_after_image:
  assumes "validateCandidate E changes i c = []" and "i < length changes" and "truthy (changes ! i)"
    and "strict_eq (opt_prop c ''path'') (opt_prop (changes ! i) ''path'')"
  shows "\<exists>bytes. opt_prop c ''contentBase64'' = JStr (b64_encode bytes)
    \<and> strict_eq (opt_prop (opt_prop (changes ! i) ''after'') ''bytes'') (JInt (int (length bytes)))
    \<and> opt_prop (opt_prop (changes ! i) ''after'') ''digest'' = JStr (sha_text E bytes)"
proof -
  have rec: "isPlainRecord c"
    using assms(1) by (auto simp: validateCandidate_def Let_def validateExactKeys_Nil_iff split: if_splits)
  obtain bytes where "decodeCanonicalBase64 (opt_prop c ''contentBase64'') = Some bytes"
    using assms(1) rec by (auto simp: validateCandidate_def Let_def split: option.splits)
  with assms rec show ?thesis
    by (intro exI [of _ bytes]) (auto simp: validateCandidate_def Let_def nth_value_def dest: decoded_canonical)
qed

lemma finish_request:
  assumes "finish_decision E args st layersStatus importsStatus specs = Inr d"
  shows "opt_prop d ''requestDigest'' = JStr (requestDigest st)"
proof -
  obtain found where "createM2GovernanceDecision E (decision_fields args st layersStatus importsStatus found) = Inr d"
    using assms by (auto simp: finish_decision_def bindE_Inr_iff)
  then show ?thesis by (rule created_field) (simp add: decision_fields_def Let_def)
qed

lemma decision_request:
  assumes "evaluateM2Governance E S args token = Inr d" and "prepareInputState (js_env.truncate E) args = Inr st"
  shows "opt_prop d ''requestDigest'' = JStr (requestDigest st)"
  using assms by (auto simp: evaluateM2Governance_def Let_def bindE_Inr_iff split: if_splits dest: finish_request)

text \<open>A version 2 request is accepted with a version 1 projection that has the same changes and project.\<close>

lemma request_projection:
  assumes "v2_validateM2ProjectChangeRequest E v = Inr r" and "valid r"
  obtains w q where "validateM2ProjectChangeRequest E w = Inr q" and "valid q"
    and "\<And>k. k \<noteq> ''version'' \<Longrightarrow> k \<noteq> ''focusedTest'' \<Longrightarrow> opt_prop w k = opt_prop v k"
proof (cases "opt_prop v ''version'' = JInt 1")
  case True
  with assms that show thesis by (auto simp: v2_validateM2ProjectChangeRequest_def Let_def)
next
  case False
  with assms obtain q where q: "validateM2ProjectChangeRequest E (requestBase v) = Inr q" "errors q = []"
    by (auto simp: v2_validateM2ProjectChangeRequest_def versionError_def validationResult_def Let_def bindE_Inr_iff
        split: if_splits)
  then have "valid q" using request_result_form [OF q(1)] by auto
  moreover have "opt_prop (requestBase v) k = opt_prop v k" if "k \<noteq> ''version''" "k \<noteq> ''focusedTest''" for k
    using that by (cases v)
      (auto simp: requestBase_def Let_def isPlainRecord_def object_fields_def map_of_spread map_add_def
        simp del: opt_prop_simps(5) split: jsval.splits, auto simp: opt_prop_def map_of_spread map_add_def)
  ultimately show thesis using q(1) that by blast
qed

lemma request_changes_records:
  assumes "v2_validateM2ProjectChangeRequest E v = Inr r" and "valid r" and "i < length (changes_of v)"
  shows "truthy (changes_of v ! i)"
proof -
  obtain w q where w: "validateM2ProjectChangeRequest E w = Inr q" "valid q"
      "\<And>k. k \<noteq> ''version'' \<Longrightarrow> k \<noteq> ''focusedTest'' \<Longrightarrow> opt_prop w k = opt_prop v k"
    using request_projection [OF assms(1,2)] by blast
  obtain cs where "opt_prop w ''changes'' = JArr cs" "\<forall>i < length cs. validateChange E i (cs ! i) = []"
    by (rule request_changes_accepted [OF request_accepted(4) [OF w(1,2)]]) blast
  moreover have "opt_prop w ''changes'' = opt_prop v ''changes''" by (rule w(3)) simp_all
  ultimately show ?thesis
    using assms(3) change_accepted(1) by (fastforce simp: changes_of_def isPlainRecord_iff truthy_def)
qed

text \<open>
  C6. An allow is bound to one consistent set of documents. The request is accepted and its digest is the
  one in the decision; policy and baseline are accepted, belong to the project and revision of the
  request, and the baseline is the complete inventory; the change does not touch the policy file and its
  before-images are those of the baseline; and the candidate files are, in order, the requested paths
  with base64 content of exactly the length and digest the request promises.
\<close>

theorem allow_binds_documents:
  assumes "evaluateM2Governance E S args token = Inr d" and "opt_prop d ''verdict'' = JStr ''allow''"
  shows "\<exists>r cs. v2_validateM2ProjectChangeRequest (js_env.truncate E) (g_request args) = Inr r \<and> valid r
    \<and> v2_computeM2ProjectChangeRequestDigest (js_env.truncate E) (g_request args) = Inr (str_of (opt_prop d ''requestDigest''))
    \<and> valid (validateM2GovernancePolicySnapshot (js_env.truncate E) (policySnapshot args))
    \<and> valid (validateM2GovernanceBaselineSnapshot (js_env.truncate E) (baselineSnapshot args))
    \<and> binds_request (policySnapshot args) (g_request args) \<and> binds_request (baselineSnapshot args) (g_request args)
    \<and> opt_prop (baselineSnapshot args) ''complete'' = JBool True
    \<and> baselineMatchesRequest (baselineSnapshot args) (g_request args) = []
    \<and> (\<forall>c \<in> set (changes_of (g_request args)).
          \<not> strict_eq (opt_prop c ''path'') (opt_prop (policySnapshot args) ''policyPath''))
    \<and> candidateFiles args = JArr cs \<and> length cs = length (changes_of (g_request args))
    \<and> (\<forall>i < length cs. \<exists>bytes. strict_eq (opt_prop (cs ! i) ''path'') (opt_prop (changes_of (g_request args) ! i) ''path'')
          \<and> opt_prop (cs ! i) ''contentBase64'' = JStr (b64_encode bytes)
          \<and> strict_eq (opt_prop (opt_prop (changes_of (g_request args) ! i) ''after'') ''bytes'') (JInt (int (length bytes)))
          \<and> opt_prop (opt_prop (changes_of (g_request args) ! i) ''after'') ''digest''
              = JStr (sha_text (js_env.truncate E) bytes))"
proof -
  let ?E = "js_env.truncate E"
  obtain st prepared observation where run: "allowed_run E S args token st prepared observation"
    using allow_stages [OF assms] .
  then have prep: "prepareInputState ?E args = Inr st" "inputStatus st = Pass" "inventoryStatus st = Pass"
    by (auto simp: allowed_run_def Let_def)
  note input = prepared_input [OF prep(1)]
  note passed = input_passed [OF input(3) [unfolded prep(2), symmetric]]
  obtain r where r: "v2_validateM2ProjectChangeRequest ?E (g_request args) = Inr r" "valid r" using input(1) by blast
  obtain cs where cs: "candidateFiles args = JArr cs" "length cs = length (changes_of (g_request args))"
      "\<And>i. i < length cs \<Longrightarrow> strict_eq (opt_prop (cs ! i) ''path'') (opt_prop (changes_of (g_request args) ! i) ''path'')
           \<and> validateCandidate ?E (changes_of (g_request args)) i (cs ! i) = []"
    using candidates_accepted [OF passed(3)] by blast
  have after: "\<exists>bytes. strict_eq (opt_prop (cs ! i) ''path'') (opt_prop (changes_of (g_request args) ! i) ''path'')
          \<and> opt_prop (cs ! i) ''contentBase64'' = JStr (b64_encode bytes)
          \<and> strict_eq (opt_prop (opt_prop (changes_of (g_request args) ! i) ''after'') ''bytes'') (JInt (int (length bytes)))
          \<and> opt_prop (opt_prop (changes_of (g_request args) ! i) ''after'') ''digest'' = JStr (sha_text ?E bytes)"
    if "i < length cs" for i
    using candidate_after_image [of ?E "changes_of (g_request args)" i "cs ! i"] cs(2,3) that
      request_changes_records [OF r, of i] by auto
  have "opt_prop d ''requestDigest'' = JStr (requestDigest st)"
    using decision_request [OF assms(1) prep(1)] .
  then show ?thesis
    using r input(2) passed cs(1,2) after inventory_passed input(4) prep(2,3) by auto
qed

end
