(* ===== verification/M2EvaluatorSamples.thy ===== *)
theory M2EvaluatorSamples
  imports M2EffectSamples M2GovSamples M2EvaluatorLaws
begin

text \<open>
  A change of one file in the user interface layer that imports the core, from the request to the
  allow decision, evaluated on the ASCII host; the same evaluation without an observation; and the
  witnesses of the laws of the evaluator and of the import scanner.
\<close>

definition ui_changes :: jsval where
  "ui_changes = JArr [JObj
     [(''path'', JStr ''src/ui/a.js''),
      (''before'', JObj [(''exists'', JBool False), (''digest'', JNull), (''bytes'', JInt 0), (''mode'', JNull)]),
      (''after'', JObj [(''digest'', sha ''c''), (''bytes'', JInt 12), (''mode'', JInt 420)]),
      (''forwardAuthority'', sample_binding ''e1''), (''rollbackAuthority'', sample_binding ''e2'')]]"

definition ui_request0 :: "string \<Rightarrow> string \<Rightarrow> jsval" where
  "ui_request0 patch_sum set_sum = JObj
     [(''contract'', JStr ''ProjectChangeRequest''), (''version'', JInt 1), (''executionId'', JStr ''x1''),
      (''runId'', JStr ''r1''), (''actor'', JObj [(''type'', JStr ''user''), (''id'', JStr ''u1'')]),
      (''origin'', JObj [(''surface'', JStr ''ws''), (''sessionId'', JNull), (''conversationId'', JStr ''c1''),
                       (''projectId'', JInt 7)]),
      (''project'', sample_project), (''patchSetDigest'', sha patch_sum), (''changes'', ui_changes),
      (''focusedTest'', JObj
        [(''authority'', sample_binding ''e3''), (''binary'', JStr ''/bin/node''), (''argv'', sample_argv),
         (''argvDigest'', sha ''8''), (''canonicalCwd'', JStr ''/w/p''), (''environmentDigest'', sha ''6''),
         (''timeoutMs'', JInt 60000), (''expectedExitCode'', JInt 0), (''sandboxProfile'', JStr ''linux-bwrap-ro-v2'')]),
      (''gitCommit'', JNull),
      (''authoritySetDigest'', sha set_sum), (''createdAt'', JStr ''2026-01-02T03:04:05.006Z'')]"


definition ui_request :: jsval where "ui_request = ui_request0 ''9'' ''d''"

definition ui_args :: governance_args where
  "ui_args = \<lparr>lifecycleId = JStr ''l1'', milestoneId = JStr ''m1'', g_request = ui_request, policySnapshot = sample_policy,
     baselineSnapshot = sample_baseline,
     candidateFiles = JArr [JObj [(''path'', JStr ''src/ui/a.js''), (''contentBase64'', JStr ''aGVsbG8gd29ybGQh'')]],
     expectedAfterRevision = wsr ''9''\<rparr>"

definition ui_identity :: jsval where
  "ui_identity = JObj [(''protocol'', JStr ''m2-import-ast-1''), (''node'', JStr ''v24.0.0''), (''abi'', JStr ''137''),
     (''platform'', JStr ''linux''), (''arch'', JStr ''x64''),
     (''components'', JObj (map (\<lambda>(k, version). (k, JObj [(''version'', JStr version), (''packageDigest'', sha ''1''),
        (''nativeDigest'', sha ''2''), (''nativePath'', JStr ''/n'')])) PARSER_VERSIONS))]"

definition ui_scan :: "string \<Rightarrow> string \<Rightarrow> nat \<Rightarrow> string list \<Rightarrow> jsval" where
  "ui_scan p d n specifiers = JObj [(''path'', JStr p), (''extension'', JStr ''.js''), (''bytes'', JInt (int n)), (''digest'', sha d),
     (''complete'', JBool True), (''specifiers'', JArr (map JStr specifiers)), (''errors'', JArr []), (''nodes'', JInt 5)]"

definition ui_reply :: jsval where
  "ui_reply = JObj [(''identity'', ui_identity),
     (''files'', JArr [ui_scan ''src/core/a.js'' ''3'' 3 [], ui_scan ''src/ui/a.js'' ''c'' 12 [''../core/a.js'', ''fs'']])]"


section \<open>The documents\<close>

lemma truncate_sample [simp]: "js_env.truncate sample_env = ascii_env"
  by (simp add: sample_env_def js_env.defs)

lemma ui_focusedTest:
  "validateFocusedTest ascii_env (opt_prop ui_request ''focusedTest'')
     (opt_prop (opt_prop ui_request ''project'') ''canonicalRoot'') = Inr []"
  by code_simp

lemma ui_changes_accepted: "request_change_errors ascii_env ui_request = []"
  by code_simp

lemma ui_authorities: "request_authority_errors ascii_env ui_request = []"
  by code_simp

lemma ui_project: "validateProject ascii_env (opt_prop ui_request ''project'') (opt_prop ui_request ''origin'') = []"
  by code_simp

lemma ui_head:
  "validateActor (opt_prop ui_request ''actor'') = []" "validateOrigin (opt_prop ui_request ''origin'') = []"
  "isCanonicalTimestamp (opt_prop ui_request ''createdAt'')"
  "isIdentifier (opt_prop ui_request ''executionId'')" "isIdentifier (opt_prop ui_request ''runId'')"
  by code_simp+

lemma ui_request_accepted:
  "validateM2ProjectChangeRequest ascii_env ui_request = Inr (validationResult [] ui_request)"
proof -
  have keys: "validateExactKeys ui_request [''contract'', ''version'', ''executionId'', ''runId'', ''actor'',
      ''origin'', ''project'', ''patchSetDigest'', ''changes'', ''focusedTest'', ''gitCommit'',
      ''authoritySetDigest'', ''createdAt''] [] ''project-change-request'' = []"
    by code_simp
  have tag: "isPlainRecord ui_request" "opt_prop ui_request ''contract'' = JStr ''ProjectChangeRequest''"
      "opt_prop ui_request ''version'' = JInt 1" "opt_prop ui_request ''gitCommit'' = JNull"
    by (simp_all add: ui_request_def ui_request0_def isPlainRecord_def)
  show ?thesis
    unfolding validateM2ProjectChangeRequest_def Let_def ui_focusedTest keys
    by (simp add: tag ui_changes_accepted ui_authorities ui_project ui_head validateGitCommit_def Let_def)
qed

lemma ui_request_v2:
  "v2_validateM2ProjectChangeRequest ascii_env ui_request = Inr (validationResult [] ui_request)"
  "v2_computeM2ProjectChangeRequestDigest ascii_env ui_request = Inr (''sha256:'' @ zeros 64 ''a'')"
proof -
  have v: "opt_prop ui_request ''version'' = JInt 1" by (simp add: ui_request_def ui_request0_def)
  have "computeM2ExecutionValueDigest ascii_env ui_request = Inr (''sha256:'' @ zeros 64 ''a'')" by code_simp
  with v show "v2_computeM2ProjectChangeRequestDigest ascii_env ui_request = Inr (''sha256:'' @ zeros 64 ''a'')"
    by (simp add: v2_computeM2ProjectChangeRequestDigest_def computeM2ProjectChangeRequestDigest_def ui_request_accepted)
  show "v2_validateM2ProjectChangeRequest ascii_env ui_request = Inr (validationResult [] ui_request)"
    using v by (simp add: v2_validateM2ProjectChangeRequest_def ui_request_accepted Let_def)
qed

lemma ui_digests:
  "computeM2ExecutionValueDigest ascii_env sample_policy = Inr (''sha256:'' @ zeros 64 ''0'')"
  "computeM2ExecutionValueDigest ascii_env sample_baseline = Inr (''sha256:'' @ zeros 64 ''2'')"
  by code_simp+

lemma ui_candidates: "valid (validateCandidateFiles ascii_env (candidateFiles ui_args) ui_request)"
  by code_simp

lemma ui_bindings:
  "binds_request sample_policy ui_request" "binds_request sample_baseline ui_request"
  "baselineMatchesRequest sample_baseline ui_request = []" "isWorkspaceRevision (wsr ''9'')"
  "\<not> list_ex (\<lambda>c. strict_eq (opt_prop c ''path'') (opt_prop sample_policy ''policyPath'')) (changes_of ui_request)"
  by code_simp+

definition ui_state :: input_state where
  "ui_state = \<lparr>requestDigest = ''sha256:'' @ zeros 64 ''a'', policyDigest = ''sha256:'' @ zeros 64 ''0'',
     baselineDigest = ''sha256:'' @ zeros 64 ''2'', boundAfterRevision = wsr ''9'', findingsById = [],
     inputStatus = Pass, inventoryStatus = Pass\<rparr>"

lemma ui_prepares: "prepareInputState ascii_env ui_args = Inr ui_state"
proof -
  have ids: "isIdentifier (lifecycleId ui_args)" "isIdentifier (milestoneId ui_args)" by code_simp+
  have sel: "g_request ui_args = ui_request" "policySnapshot ui_args = sample_policy" "baselineSnapshot ui_args = sample_baseline"
      "expectedAfterRevision ui_args = wsr ''9''" by (simp_all add: ui_args_def)
  have input: "input_events ascii_env ui_args r p = []" for r p
    by (simp add: input_events_def Let_def on_def sel good_policy_accepted good_baseline_accepted ui_candidates ui_bindings)
  have complete: "opt_prop sample_baseline ''complete'' = JBool True" by (simp add: sample_baseline_def)
  show ?thesis
    by (simp add: prepareInputState_def Let_def ids sel ui_request_v2 good_policy_accepted good_baseline_accepted
        computeM2GovernancePolicySnapshotDigest_def computeM2GovernanceBaselineDigest_def digest_if_valid_def ui_digests
        input inventory_events_def on_def complete ui_bindings ui_state_def)
qed

section \<open>The source set and its observation\<close>

definition ui_overlay :: "(string \<times> string) list" where
  "ui_overlay = [(''src/core/a.js'', ''abc''), (''src/ui/a.js'', ''hello world!'')]"

definition ui_prepared :: source_set where
  "ui_prepared = \<lparr>set_ready = True, set_error = None, set_binding = Some (''sha256:'' @ zeros 64 ''a''),
     set_files = map (source_file_of ascii_env) ui_overlay\<rparr>"

lemma ui_overlaid: "overlayCandidate sample_baseline (candidateFiles ui_args) = ui_overlay"
  by code_simp

lemma ui_declared: "filter (\<lambda>(p, bytes). declares sample_policy (extension_of ascii_env p)) ui_overlay = ui_overlay"
  by code_simp

lemma ui_observable: "\<not> list_ex (\<lambda>(p, bytes). unobservable ascii_env sample_policy p) ui_overlay"
  by code_simp

lemma ui_no_set_errors: "set_errors ascii_env sample_policy sample_baseline ui_overlay = []"
  by code_simp

lemma ui_binding_digests:
  "computeM2ExecutionValueDigest ascii_env (candidateFiles ui_args) = Inr (''sha256:'' @ zeros 64 ''b'')"
  "computeM2ExecutionValueDigest ascii_env (binding_projection ascii_env ui_args ui_state ui_overlay (''sha256:'' @ zeros 64 ''b''))
     = Inr (''sha256:'' @ zeros 64 ''a'')"
  by code_simp+

lemma ui_sources: "prepareSourceSet ascii_env ui_args ui_state = Inr ui_prepared"
proof -
  have sel: "policySnapshot ui_args = sample_policy" "baselineSnapshot ui_args = sample_baseline" by (simp_all add: ui_args_def)
  have "inventoryStatus ui_state = Pass" by (simp add: ui_state_def)
  then show ?thesis
    unfolding prepareSourceSet_def Let_def sel ui_overlaid ui_declared ui_no_set_errors ui_binding_digests bindE_simps
    using ui_observable by (simp add: ui_prepared_def)
qed

definition ui_running :: scanner where
  "ui_running = new_scanner\<lparr>activeChild := True\<rparr>"

definition ui_scanner :: scanner where
  "ui_scanner = \<lparr>observations = [(0, JObj ((''bindingDigest'', sha ''a'') # object_fields ui_reply))], next_token = 1,
     activeChild = False\<rparr>"

lemma ui_started:
  obtains input where "observe_start sample_env ui_prepared False (Some ui_identity) new_scanner = (Started input ui_identity, ui_running)"
proof -
  have "case observe_start sample_env ui_prepared False (Some ui_identity) new_scanner of
      (a, S) \<Rightarrow> (case a of Started input i \<Rightarrow> i = ui_identity | _ \<Rightarrow> False) \<and> S = ui_running"
    by code_simp
  then show thesis using that by (auto split: prod.splits admission.splits)
qed

lemma ui_finished:
  "observe_finish sample_env ui_prepared ui_identity (Child_reply ui_reply) ui_running = (0, ui_scanner)"
  by code_simp

lemma ui_reachable: "scanner_reachable sample_env ui_scanner []"
proof -
  obtain input where "observe_start sample_env ui_prepared False (Some ui_identity) new_scanner = (Started input ui_identity, ui_running)"
    by (rule ui_started)
  then have "scanner_reachable sample_env ui_running ([] @ (ui_prepared, ui_identity) # [])"
    using scanner_reachable.started [OF scanner_reachable.fresh] by simp
  from scanner_reachable.finished [OF this _ ui_finished] show ?thesis by (simp add: ending_ok_def)
qed

definition ui_observation :: jsval where
  "ui_observation = JObj ((''bindingDigest'', sha ''a'') # object_fields ui_reply)"

lemma ui_read: "readM2ImportObservation sample_env ui_scanner (Some 0) ui_prepared = Inr (Some ui_observation)"
  by code_simp

lemma ui_observed: "observed_events ascii_env ui_args ui_overlay ui_prepared (Some ui_observation) = []"
  by code_simp

section \<open>The decision\<close>

definition ui_decision :: jsval where
  "ui_decision = (case createM2GovernanceDecision ascii_env (decision_fields ui_args ui_state Pass Pass []) of
     Inl _ \<Rightarrow> JNull | Inr d \<Rightarrow> d)"

lemma ui_created: "createM2GovernanceDecision ascii_env (decision_fields ui_args ui_state Pass Pass []) = Inr ui_decision"
proof -
  have "case createM2GovernanceDecision ascii_env (decision_fields ui_args ui_state Pass Pass []) of Inl _ \<Rightarrow> False | Inr _ \<Rightarrow> True"
    by code_simp
  then show ?thesis by (auto simp: ui_decision_def split: sum.splits)
qed

lemma ui_layers:
  "unmapped_layers ascii_env sample_policy policySum ui_overlay = []" "unsupported_languages ascii_env ui_overlay = []"
proof -
  have "\<not> list_ex (\<lambda>(p, bytes). layerForFile p sample_policy = None) ui_overlay"
      "\<not> list_ex (\<lambda>(p, bytes). extension_of ascii_env p \<notin> set SUPPORTED_SOURCE_EXTENSIONS) ui_overlay"
    by code_simp+
  then show "unmapped_layers ascii_env sample_policy policySum ui_overlay = []" "unsupported_languages ascii_env ui_overlay = []"
    by (auto simp: unmapped_layers_def unsupported_languages_def on_def list_ex_iff)
qed

lemma ui_no_source_findings: "source_findings ascii_env sample_policy policySum ui_overlay = []"
proof -
  have "unmapped_layers ascii_env sample_policy policySum [f] = []" "unsupported_languages ascii_env [f] = []"
    if "f \<in> set ui_overlay" for f
    using that ui_layers(1) [of policySum] ui_layers(2) by (auto simp: unmapped_layers_def unsupported_languages_def)
  then show ?thesis by (simp add: source_findings_def)
qed

text \<open>The evaluation of the sample with any token, up to what it reads.\<close>

lemma ui_evaluation:
  assumes "readM2ImportObservation sample_env S token ui_prepared = Inr observation"
  shows "evaluateM2Governance sample_env S ui_args token =
    (let observed = observed_events ascii_env ui_args ui_overlay ui_prepared observation
     in finish_decision ascii_env ui_args ui_state Pass (status_after observed Pass) (filed observed))"
proof -
  have sel: "policySnapshot ui_args = sample_policy" "baselineSnapshot ui_args = sample_baseline" by (simp_all add: ui_args_def)
  have pass: "inventoryStatus ui_state = Pass" by (simp add: ui_state_def)
  show ?thesis
    unfolding evaluateM2Governance_def Let_def truncate_sample sel ui_overlaid ui_declared ui_prepares ui_sources
      bindE_simps ui_layers ui_no_source_findings assms
    by (simp add: pass)
qed

lemma ui_allowed: "evaluateM2Governance sample_env ui_scanner ui_args (Some 0) = Inr ui_decision"
  unfolding ui_evaluation [OF ui_read] ui_observed Let_def
  by (simp add: finish_decision_def ui_state_def [THEN arg_cong, of findingsById] ui_created)

lemma ui_verdict: "opt_prop ui_decision ''verdict'' = JStr ''allow''"
  by (rule created_field [OF ui_created]) (simp add: decision_fields_def Let_def ui_state_def decisionVerdict_def)

section \<open>The laws at this evaluation\<close>

theorem scanner_registry_trusted_witness: "distinct (map fst (observations ui_scanner)) \<and> \<not> activeChild ui_scanner"
  using scanner_registry_trusted [OF ui_reachable] by simp

theorem observation_input_complete_witness:
  "\<exists>input bs. input = json_text sample_env (worker_input ui_identity (map2 encoded_file (set_files ui_prepared) bs))
     \<and> list_all2 (\<lambda>f b. sf_source f = Some b \<and> length b = sf_bytes f) (set_files ui_prepared) bs
     \<and> length input \<le> LIMIT_INPUT_BYTES"
proof -
  obtain input where "observe_start sample_env ui_prepared False (Some ui_identity) new_scanner = (Started input ui_identity, ui_running)"
    by (rule ui_started)
  from observation_input_complete [OF this] show ?thesis by (auto elim!: list_all2_mono)
qed

theorem allow_respects_architecture_witness:
  "\<exists>layer scan. layerForFile ''src/ui/a.js'' sample_policy = Some layer
     \<and> opt_prop scan ''path'' = JStr ''src/ui/a.js'' \<and> opt_prop scan ''digest'' = JStr (sha_text ascii_env ''hello world!'')
     \<and> opt_prop scan ''errors'' = JArr []"
proof -
  have sel: "policySnapshot ui_args = sample_policy" "baselineSnapshot ui_args = sample_baseline" by (simp_all add: ui_args_def)
  have "(''src/ui/a.js'', ''hello world!'') \<in> set (overlayCandidate (baselineSnapshot ui_args) (candidateFiles ui_args))"
    unfolding sel ui_overlaid by (simp add: ui_overlay_def)
  moreover have "declares (policySnapshot ui_args) (extension_of (js_env.truncate sample_env) ''src/ui/a.js'')"
    unfolding sel truncate_sample by code_simp
  ultimately show ?thesis
    using allow_respects_architecture [OF ui_reachable ui_allowed ui_verdict] sel by fastforce
qed

theorem allow_binds_documents_witness:
  "opt_prop sample_baseline ''complete'' = JBool True \<and> baselineMatchesRequest sample_baseline ui_request = []
   \<and> str_of (opt_prop ui_decision ''requestDigest'') = ''sha256:'' @ zeros 64 ''a''"
  using allow_binds_documents [OF ui_allowed ui_verdict] ui_request_v2(2) by (auto simp: ui_args_def)

text \<open>Without a token the same material is unavailable.\<close>

definition ui_stale :: finding_spec where
  "ui_stale = \<lparr>f_check = ''imports.allowed'', f_code = ''IMPORT_OBSERVATION_UNAVAILABLE'', f_path = JNull,
     f_evidence = JObj [(''sourceSetBinding'', binding_value ui_prepared)]\<rparr>"

definition ui_stale_found :: jsval where
  "ui_stale_found = (case createM2GovernanceFinding ascii_env (JStr (f_check ui_stale)) (JStr (f_code ui_stale))
       (f_path ui_stale) (f_evidence ui_stale) of Inl _ \<Rightarrow> JNull | Inr f \<Rightarrow> f)"

lemma ui_stale_created:
  "createM2GovernanceFinding ascii_env (JStr (f_check ui_stale)) (JStr (f_code ui_stale)) (f_path ui_stale) (f_evidence ui_stale)
     = Inr ui_stale_found"
proof -
  have "case createM2GovernanceFinding ascii_env (JStr (f_check ui_stale)) (JStr (f_code ui_stale))
      (f_path ui_stale) (f_evidence ui_stale) of Inl _ \<Rightarrow> False | Inr _ \<Rightarrow> True"
    by code_simp
  then show ?thesis by (auto simp: ui_stale_found_def split: sum.splits)
qed

lemma ui_stale_scans:
  "concat (map (scan_events ascii_env sample_policy (map fst ui_overlay) [])
     (filter (\<lambda>(p, bytes). declares sample_policy (extension_of ascii_env p)
        \<and> extension_of ascii_env p \<in> set SUPPORTED_SOURCE_EXTENSIONS) ui_overlay)) = []"
  by code_simp

lemma ui_stale_events:
  "observed_events ascii_env ui_args ui_overlay ui_prepared None = [Lower Unavailable, File ui_stale]"
proof -
  have sel: "policySnapshot ui_args = sample_policy" by (simp add: ui_args_def)
  have "set_error ui_prepared = None" by (simp add: ui_prepared_def)
  then show ?thesis
    by (simp add: observed_events_def sel ui_stale_scans observation_error_def on_def event_finding_def ui_stale_def)
qed

definition ui_missing :: jsval where
  "ui_missing = (case createM2GovernanceDecision ascii_env
       (decision_fields ui_args ui_state Pass Unavailable
         (AList.update (str_of (opt_prop ui_stale_found ''findingId'')) ui_stale_found [])) of
     Inl _ \<Rightarrow> JNull | Inr d \<Rightarrow> d)"

lemma ui_missing_created:
  "createM2GovernanceDecision ascii_env
     (decision_fields ui_args ui_state Pass Unavailable
       (AList.update (str_of (opt_prop ui_stale_found ''findingId'')) ui_stale_found [])) = Inr ui_missing"
proof -
  have "case createM2GovernanceDecision ascii_env
      (decision_fields ui_args ui_state Pass Unavailable
        (AList.update (str_of (opt_prop ui_stale_found ''findingId'')) ui_stale_found [])) of Inl _ \<Rightarrow> False | Inr _ \<Rightarrow> True"
    by code_simp
  then show ?thesis by (auto simp: ui_missing_def split: sum.splits)
qed

lemma ui_unobserved: "evaluateM2Governance sample_env ui_scanner ui_args None = Inr ui_missing"
proof -
  have read: "readM2ImportObservation sample_env ui_scanner None ui_prepared = Inr None"
    by (simp add: readM2ImportObservation_def)
  have none: "findingsById ui_state = []" by (simp add: ui_state_def)
  show ?thesis
    unfolding ui_evaluation [OF read] Let_def ui_stale_events finish_decision_def none
    using ui_missing_created by (simp add: addFinding_def ui_stale_created lower_status_def)
qed

theorem stale_observation_never_allows_witness: "opt_prop ui_missing ''verdict'' \<noteq> JStr ''allow''"
  by (rule stale_observation_never_allows [OF _ _ ui_unobserved])
    (simp_all add: prepareM2GovernanceSourceSet_def ui_prepares ui_sources)

end
