(* ===== verification/M2Wire.thy ===== *)
theory M2Wire
  imports M2LifecycleV2 M2EffectResult
begin

text \<open>
  The decoders of \<open>contracts/m2/\<close>: bytes to an accepted document. A decoder takes a string or a byte
  array, checks its size and that it is UTF-8, parses it, validates the document and compares the bytes
  with the canonical text of what it parsed. The contract of a decoder and its encoder is the locale
  \<open>wire_codec\<close>, interpreted for each of the five pairs.
\<close>

section \<open>Reading bytes\<close>

text \<open>What a caller may pass: a string (its UTF-8 bytes), a \<open>Buffer\<close> or \<open>Uint8Array\<close>, or something else.\<close>

datatype wire = Text string | Bytes string | Not_bytes

fun wire_bytes :: "wire \<Rightarrow> string option" where
  "wire_bytes (Text b) = Some b"
| "wire_bytes (Bytes b) = Some b"
| "wire_bytes Not_bytes = None"

definition read_wire :: "string \<Rightarrow> nat \<Rightarrow> wire \<Rightarrow> (string \<times> jsval) js" where
  "read_wire codec limit w =
     (case wire_bytes w of
        None \<Rightarrow> Inl (TypeErr (codec @ ''-decode:invalid-bytes''))
      | Some b \<Rightarrow>
          if b = [] \<or> length b > limit then Inl (TypeErr (codec @ ''-decode:invalid-size''))
          else if \<not> utf8_valid b then Inl (TypeErr (codec @ ''-decode:invalid-utf8''))
          else case JSON_parse b of
                 None \<Rightarrow> Inl (TypeErr (codec @ ''-decode:invalid-json''))
               | Some v \<Rightarrow> Inr (b, v))"

definition M2_DOCUMENT_BYTES :: nat where "M2_DOCUMENT_BYTES = 4194304"

section \<open>The decoders\<close>

definition decodeM2ExecutionContract :: "js_env \<Rightarrow> wire \<Rightarrow> jsval \<Rightarrow> jsval js" where
  "decodeM2ExecutionContract E w expected =
     bindE (read_wire ''m2-execution'' MAX_WIRE_BYTES w) (\<lambda>(b, v).
     bindE (validateM2ExecutionContract E v expected) (\<lambda>r.
       if \<not> valid r then Inl (TypeErr (join_with '','' (errors r)))
       else bindE (canonicalizeM2ExecutionValue E v) (\<lambda>t.
         if t \<noteq> b then Inl (TypeErr ''m2-execution-decode:non-canonical-encoding'') else Inr v)))"

definition v2_decodeM2ExecutionContract :: "js_env \<Rightarrow> wire \<Rightarrow> jsval \<Rightarrow> jsval js" where
  "v2_decodeM2ExecutionContract E w expected =
     bindE (read_wire ''m2-execution'' MAX_WIRE_BYTES w) (\<lambda>(b, v).
       if opt_prop v ''version'' = JInt 1 then decodeM2ExecutionContract E w expected
       else bindE (v2_validateM2ExecutionContract E v expected) (\<lambda>r.
         if \<not> valid r then Inl (TypeErr (join_with '','' (errors r)))
         else bindE (v2_encodeM2ExecutionContract E v expected) (\<lambda>t.
           if t \<noteq> b then Inl (TypeErr ''m2-execution-decode:non-canonical-encoding'') else Inr v)))"

definition decodeM2GovernanceContract :: "js_env \<Rightarrow> wire \<Rightarrow> jsval \<Rightarrow> jsval js" where
  "decodeM2GovernanceContract E w expected =
     bindE (read_wire ''m2-governance'' M2_DOCUMENT_BYTES w) (\<lambda>(b, v).
     bindE (validateM2GovernanceContract E v expected) (\<lambda>r.
       if \<not> valid r then Inl (TypeErr (join_with '','' (errors r)))
       else bindE (canonicalizeM2ExecutionValue E v) (\<lambda>t.
         if t \<noteq> b then Inl (TypeErr ''m2-governance-decode:noncanonical'') else Inr v)))"

definition decodeM2LifecycleContract :: "js_env \<Rightarrow> wire \<Rightarrow> jsval \<Rightarrow> jsval js" where
  "decodeM2LifecycleContract E w expected =
     bindE (read_wire ''m2-lifecycle'' M2_DOCUMENT_BYTES w) (\<lambda>(b, v).
       let r = validateM2LifecycleContract E v expected
       in if \<not> valid r then Inl (TypeErr (join_with '','' (errors r)))
          else bindE (canonicalizeM2ExecutionValue E v) (\<lambda>t.
            if t \<noteq> b then Inl (TypeErr ''m2-lifecycle-decode:noncanonical'') else Inr v))"

definition v2_decodeM2LifecycleContract :: "js_env \<Rightarrow> wire \<Rightarrow> jsval \<Rightarrow> jsval js" where
  "v2_decodeM2LifecycleContract E w expected =
     bindE (read_wire ''m2-lifecycle'' M2_DOCUMENT_BYTES w) (\<lambda>(b, v).
       if opt_prop v ''contract'' \<noteq> JStr ''LifecyclePlanSnapshot'' \<or> opt_prop v ''version'' = JInt 1
       then decodeM2LifecycleContract E w expected
       else bindE (v2_validateM2LifecycleContract E v expected) (\<lambda>r.
         if \<not> valid r then Inl (TypeErr (join_with '','' (errors r)))
         else bindE (v2_encodeM2LifecycleContract E v expected) (\<lambda>t.
           if t \<noteq> b then Inl (TypeErr ''m2-lifecycle-decode:noncanonical'') else Inr v)))"

text \<open>The effect decoder takes only a string, and accepts any text that parses to an accepted document.\<close>

definition decodeM2EffectContract :: "effect_env \<Rightarrow> wire \<Rightarrow> jsval \<Rightarrow> jsval js" where
  "decodeM2EffectContract E w expected =
     (case w of
        Text s \<Rightarrow>
          (case JSON_parse s of
             None \<Rightarrow> Inl (TypeErr ''m2-effect:invalid-json'')
           | Some v \<Rightarrow> bindE (validateM2EffectContract E v expected) (\<lambda>r.
               if \<not> truthy (opt_prop r ''valid'')
               then Inl (TypeErr (join_with '', '' (map str_of (elements (opt_prop r ''errors''))))) else Inr v))
      | _ \<Rightarrow> Inl (TypeErr ''m2-effect:encoded-not-string''))"

section \<open>The contract of a decoder\<close>

lemma read_wire_iff:
  "read_wire codec limit w = Inr (b, v) \<longleftrightarrow>
     wire_bytes w = Some b \<and> b \<noteq> [] \<and> length b \<le> limit \<and> utf8_valid b \<and> JSON_parse b = Some v"
  by (auto simp: read_wire_def split: option.splits)

lemma empty_not_json: "JSON_parse [] = None"
  by code_simp

locale wire_codec =
  fixes limit :: nat
    and encode :: "js_env \<Rightarrow> jsval \<Rightarrow> jsval \<Rightarrow> string js"
    and decode :: "js_env \<Rightarrow> wire \<Rightarrow> jsval \<Rightarrow> jsval js"
  assumes decode_iff: "decode E w x = Inr v \<longleftrightarrow>
      (\<exists>b. wire_bytes w = Some b \<and> b \<noteq> [] \<and> length b \<le> limit \<and> utf8_valid b \<and> JSON_parse b = Some v \<and> encode E v x = Inr b)"
    and encode_canonical: "encode E v x = Inr b \<Longrightarrow> canonicalizeM2ExecutionValue E v = Inr b"
begin

text \<open>A decoded document encodes to the bytes it was read from.\<close>

lemma encode_decoded: "decode E w x = Inr v \<Longrightarrow> \<exists>b. wire_bytes w = Some b \<and> length b \<le> limit \<and> encode E v x = Inr b"
  by (auto simp: decode_iff)

text \<open>Documents that are equal up to property order and normalisation have one wire form.\<close>

lemma one_wire_form:
  assumes "decode E w x = Inr v" and "decode E w' x' = Inr v'" and "normal_value E v = normal_value E v'"
  shows "wire_bytes w = wire_bytes w'"
proof -
  obtain b b' where b: "wire_bytes w = Some b" "encode E v x = Inr b" and b': "wire_bytes w' = Some b'" "encode E v' x' = Inr b'"
    using assms by (auto simp: decode_iff)
  from encode_canonical [OF b(2)] encode_canonical [OF b'(2)] canonicalize_normal_cong [OF assms(3)] b b' show ?thesis
    by (simp add: canonicalizeM2ExecutionValue_def)
qed

text \<open>The bytes that decode to a document are its encoding, and only normalised documents are decoded.\<close>

lemma decode_bytes:
  "decode E (Bytes b) x = Inr v \<longleftrightarrow>
     encode E v x = Inr b \<and> normalizeM2ExecutionValue E v = Inr v \<and> length b \<le> limit \<and> utf8_valid b"
proof -
  have "normalizeM2ExecutionValue E v = Inr v \<longleftrightarrow> JSON_parse b = Some v" if "encode E v x = Inr b"
    using encode_canonical [OF that] by (auto simp: normalizeM2ExecutionValue_def split: option.splits)
  moreover have "b \<noteq> []" if "JSON_parse b = Some v" using that empty_not_json by auto
  ultimately show ?thesis by (auto simp: decode_iff)
qed

end

lemma decode_execution_iff:
  "decodeM2ExecutionContract E w x = Inr v \<longleftrightarrow>
     (\<exists>b. read_wire ''m2-execution'' MAX_WIRE_BYTES w = Inr (b, v) \<and> encodeM2ExecutionContract E v x = Inr b)"
  by (auto simp: decodeM2ExecutionContract_def encodeM2ExecutionContract_def bindE_Inr_iff split: if_splits)

lemma decode_lifecycle_iff:
  "decodeM2LifecycleContract E w x = Inr v \<longleftrightarrow>
     (\<exists>b. read_wire ''m2-lifecycle'' M2_DOCUMENT_BYTES w = Inr (b, v) \<and> encodeM2LifecycleContract E v x = Inr b)"
  by (auto simp: decodeM2LifecycleContract_def encodeM2LifecycleContract_def bindE_Inr_iff Let_def split: if_splits)

lemma decode_execution_v2_iff:
  "v2_decodeM2ExecutionContract E w x = Inr v \<longleftrightarrow>
     (\<exists>b. read_wire ''m2-execution'' MAX_WIRE_BYTES w = Inr (b, v) \<and> v2_encodeM2ExecutionContract E v x = Inr b)"
proof (cases "read_wire ''m2-execution'' MAX_WIRE_BYTES w")
  case (Inr p)
  obtain b u where p: "p = (b, u)" by (cases p)
  show ?thesis
  proof (cases "opt_prop u ''version'' = JInt 1")
    case old: True
    have "v2_decodeM2ExecutionContract E w x = decodeM2ExecutionContract E w x" and "v2_encodeM2ExecutionContract E u x = encodeM2ExecutionContract E u x"
      unfolding v2_decodeM2ExecutionContract_def v2_encodeM2ExecutionContract_def Inr p bindE_simps prod.case by (rule if_P [OF old])+
    then show ?thesis using Inr by (auto simp only: decode_execution_iff p)
  next
    case False
    note plain = v2_decodeM2ExecutionContract_def v2_encodeM2ExecutionContract_def Inr p bindE_simps prod.case if_not_P [OF False]
    show ?thesis
    proof (cases "v2_validateM2ExecutionContract E u x")
      case (Inl e)
      then have "v2_decodeM2ExecutionContract E w x = Inl e" and "v2_encodeM2ExecutionContract E u x = Inl e" by (simp_all only: plain)
      then show ?thesis using Inr p by auto
    next
      case val: (Inr r)
      show ?thesis
      proof (cases "valid r")
        case True
        then have d: "v2_decodeM2ExecutionContract E w x = bindE (v2_encodeM2ExecutionContract E u x) (\<lambda>t. if t \<noteq> b
            then Inl (TypeErr ''m2-execution-decode:non-canonical-encoding'') else Inr u)"
          by (simp only: v2_decodeM2ExecutionContract_def Inr p bindE_simps prod.case if_not_P [OF False] val) simp
        show ?thesis by (cases "v2_encodeM2ExecutionContract E u x") (auto simp add: d Inr p)
      next
        case False
        then have "v2_decodeM2ExecutionContract E w x = Inl (TypeErr (join_with '','' (errors r)))" and "v2_encodeM2ExecutionContract E u x = Inl (TypeErr (join_with '','' (errors r)))"
          by (simp_all only: plain val bindE_simps not_False_eq_True if_True)
        then show ?thesis using Inr p by auto
      qed
    qed
  qed
qed (simp add: v2_decodeM2ExecutionContract_def)

lemma decode_lifecycle_v2_iff:
  "v2_decodeM2LifecycleContract E w x = Inr v \<longleftrightarrow>
     (\<exists>b. read_wire ''m2-lifecycle'' M2_DOCUMENT_BYTES w = Inr (b, v) \<and> v2_encodeM2LifecycleContract E v x = Inr b)"
proof (cases "read_wire ''m2-lifecycle'' M2_DOCUMENT_BYTES w")
  case (Inr p)
  obtain b u where p: "p = (b, u)" by (cases p)
  show ?thesis
  proof (cases "opt_prop u ''contract'' \<noteq> JStr ''LifecyclePlanSnapshot'' \<or> opt_prop u ''version'' = JInt 1")
    case old: True
    have "v2_decodeM2LifecycleContract E w x = decodeM2LifecycleContract E w x" and "v2_encodeM2LifecycleContract E u x = encodeM2LifecycleContract E u x"
      unfolding v2_decodeM2LifecycleContract_def v2_encodeM2LifecycleContract_def Inr p bindE_simps prod.case by (rule if_P [OF old])+
    then show ?thesis using Inr by (auto simp only: decode_lifecycle_iff p)
  next
    case False
    note plain = v2_decodeM2LifecycleContract_def v2_encodeM2LifecycleContract_def Inr p bindE_simps prod.case if_not_P [OF False]
    show ?thesis
    proof (cases "v2_validateM2LifecycleContract E u x")
      case (Inl e)
      then have "v2_decodeM2LifecycleContract E w x = Inl e" and "v2_encodeM2LifecycleContract E u x = Inl e" by (simp_all only: plain)
      then show ?thesis using Inr p by auto
    next
      case val: (Inr r)
      show ?thesis
      proof (cases "valid r")
        case True
        then have d: "v2_decodeM2LifecycleContract E w x = bindE (v2_encodeM2LifecycleContract E u x) (\<lambda>t. if t \<noteq> b
            then Inl (TypeErr ''m2-lifecycle-decode:noncanonical'') else Inr u)"
          by (simp only: v2_decodeM2LifecycleContract_def Inr p bindE_simps prod.case if_not_P [OF False] val) simp
        show ?thesis by (cases "v2_encodeM2LifecycleContract E u x") (auto simp add: d Inr p)
      next
        case False
        then have "v2_decodeM2LifecycleContract E w x = Inl (TypeErr (join_with '','' (errors r)))" and "v2_encodeM2LifecycleContract E u x = Inl (TypeErr (join_with '','' (errors r)))"
          by (simp_all only: plain val bindE_simps not_False_eq_True if_True)
        then show ?thesis using Inr p by auto
      qed
    qed
  qed
qed (simp add: v2_decodeM2LifecycleContract_def)

lemma decode_governance_iff:
  "decodeM2GovernanceContract E w x = Inr v \<longleftrightarrow>
     (\<exists>b. read_wire ''m2-governance'' M2_DOCUMENT_BYTES w = Inr (b, v) \<and> encodeM2GovernanceContract E v x = Inr b)"
  by (auto simp: decodeM2GovernanceContract_def encodeM2GovernanceContract_def bindE_Inr_iff split: if_splits)

text \<open>Every encoder writes the canonical text of its document.\<close>

lemma encoders_canonical:
  "encodeM2ExecutionContract E v x = Inr b \<Longrightarrow> canonicalizeM2ExecutionValue E v = Inr b"
  "v2_encodeM2ExecutionContract E v x = Inr b \<Longrightarrow> canonicalizeM2ExecutionValue E v = Inr b"
  "encodeM2GovernanceContract E v x = Inr b \<Longrightarrow> canonicalizeM2ExecutionValue E v = Inr b"
  "encodeM2LifecycleContract E v x = Inr b \<Longrightarrow> canonicalizeM2ExecutionValue E v = Inr b"
  "v2_encodeM2LifecycleContract E v x = Inr b \<Longrightarrow> canonicalizeM2ExecutionValue E v = Inr b"
proof -
  show v1: "encodeM2ExecutionContract E v x = Inr b \<Longrightarrow> canonicalizeM2ExecutionValue E v = Inr b"
    by (auto simp: encodeM2ExecutionContract_def bindE_Inr_iff split: if_splits)
  show "v2_encodeM2ExecutionContract E v x = Inr b \<Longrightarrow> canonicalizeM2ExecutionValue E v = Inr b"
    using v1 by (auto simp: v2_encodeM2ExecutionContract_def bindE_Inr_iff simp del: opt_prop_simps split: if_split_asm)
  show "encodeM2GovernanceContract E v x = Inr b \<Longrightarrow> canonicalizeM2ExecutionValue E v = Inr b"
    by (auto simp: encodeM2GovernanceContract_def bindE_Inr_iff split: if_splits)
  show l1: "encodeM2LifecycleContract E v x = Inr b \<Longrightarrow> canonicalizeM2ExecutionValue E v = Inr b"
    by (auto simp: encodeM2LifecycleContract_def Let_def split: if_splits)
  show "v2_encodeM2LifecycleContract E v x = Inr b \<Longrightarrow> canonicalizeM2ExecutionValue E v = Inr b"
    using l1 by (auto simp: v2_encodeM2LifecycleContract_def bindE_Inr_iff simp del: opt_prop_simps split: if_split_asm)
qed

interpretation execution_wire: wire_codec MAX_WIRE_BYTES encodeM2ExecutionContract decodeM2ExecutionContract
  by unfold_locales (auto simp only: decode_execution_iff read_wire_iff conj_assoc, rule encoders_canonical(1))

interpretation execution_v2_wire: wire_codec MAX_WIRE_BYTES v2_encodeM2ExecutionContract v2_decodeM2ExecutionContract
  by unfold_locales (auto simp only: decode_execution_v2_iff read_wire_iff conj_assoc, rule encoders_canonical(2))

interpretation governance_wire: wire_codec M2_DOCUMENT_BYTES encodeM2GovernanceContract decodeM2GovernanceContract
  by unfold_locales (auto simp only: decode_governance_iff read_wire_iff conj_assoc, rule encoders_canonical(3))

interpretation lifecycle_wire: wire_codec M2_DOCUMENT_BYTES encodeM2LifecycleContract decodeM2LifecycleContract
  by unfold_locales (auto simp only: decode_lifecycle_iff read_wire_iff conj_assoc, rule encoders_canonical(4))

interpretation lifecycle_v2_wire: wire_codec M2_DOCUMENT_BYTES v2_encodeM2LifecycleContract v2_decodeM2LifecycleContract
  by unfold_locales (auto simp only: decode_lifecycle_v2_iff read_wire_iff conj_assoc, rule encoders_canonical(5))

section \<open>Properties\<close>

text \<open>
  C13. Decoding and encoding undo each other. The bytes that the lifecycle decoder reads as a document are
  exactly the document's encoding for the same expected contract: they are at most 4 MiB of UTF-8 and the
  document is normalised; and conversely every such encoding is decoded to the document. So nothing
  but the canonical bytes of an accepted document is ever decoded, for both versions.
\<close>

theorem lifecycle_wire_roundtrip:
  "v2_decodeM2LifecycleContract E (Bytes b) x = Inr v \<longleftrightarrow>
     v2_encodeM2LifecycleContract E v x = Inr b \<and> normalizeM2ExecutionValue E v = Inr v \<and> length b \<le> 4194304 \<and> utf8_valid b"
  using lifecycle_v2_wire.decode_bytes unfolding M2_DOCUMENT_BYTES_def by blast

text \<open>
  An execution document has one wire form. Two inputs that decode to requests or results equal up to
  property order and Unicode normalisation are the same bytes, so a signature or a digest
  over the bytes is one over the document.
\<close>

lemma one_execution_wire_form:
  assumes "v2_decodeM2ExecutionContract E w x = Inr v" and "v2_decodeM2ExecutionContract E w' x' = Inr v'"
    and "normal_value E v = normal_value E v'"
  shows "wire_bytes w = wire_bytes w'"
  using assms by (rule execution_v2_wire.one_wire_form)

section \<open>The type of documents\<close>

text \<open>
  What the canonical form accepts: nested at most 32 deep, whole safe numbers only, and in each object no two
  names that are equal after normalisation.
\<close>

fun well_typed :: "js_env \<Rightarrow> nat \<Rightarrow> jsval \<Rightarrow> bool" where
  "well_typed E d v \<longleftrightarrow> d \<le> 32 \<and>
     (case v of
        JNull \<Rightarrow> True
      | JBool b \<Rightarrow> True
      | JStr s \<Rightarrow> True
      | JInt i \<Rightarrow> - MAX_SAFE_INTEGER \<le> i \<and> i \<le> MAX_SAFE_INTEGER
      | JArr xs \<Rightarrow> list_all (well_typed E (d + 1)) xs
      | JObj kvs \<Rightarrow> distinct (map (\<lambda>(k, x). nfc E k) kvs) \<and> list_all (\<lambda>(k, x). well_typed E (d + 1) x) kvs
      | _ \<Rightarrow> False)"

declare well_typed.simps [simp del]

lemma mapE_defined: "(\<exists>ys. mapE f xs = Inr ys) \<longleftrightarrow> (\<forall>x \<in> set xs. \<exists>y. f x = Inr y)"
  by (induction xs) (auto simp: bindE_Inr_iff)

lemma distinct_distinct_adj: "distinct xs \<Longrightarrow> distinct_adj xs"
  by (induction xs rule: induct_list012) auto

lemma canonical_distinct:
  "distinct_adj (map fst (canonical_fields E kvs)) \<longleftrightarrow> distinct (map (\<lambda>(k, x). nfc E k) kvs)"
proof -
  have m: "mset (map fst (canonical_fields E kvs)) = mset (map (\<lambda>(k, x). nfc E k) kvs)"
    by (simp add: canonical_fields_def multiset.map_comp comp_def case_prod_unfold)
  have s: "sorted (map fst (canonical_fields E kvs))" by (simp add: canonical_fields_def)
  have "distinct_adj (map fst (canonical_fields E kvs)) \<longleftrightarrow> distinct (map fst (canonical_fields E kvs))"
    using sorted_distinct_adj [OF s] distinct_distinct_adj by blast
  also have "\<dots> \<longleftrightarrow> distinct (map (\<lambda>(k, x). nfc E k) kvs)" using m mset_eq_imp_distinct_iff by blast
  finally show ?thesis .
qed

lemma canonical_defined: "(\<exists>t. canonicalize E d v = Inr t) \<longleftrightarrow> well_typed E d v"
proof (induction E d v rule: canonicalize.induct)
  case (1 E d v)
  show ?case
  proof (cases "d > 32")
    case d: False
    show ?thesis
    proof (cases v)
      case (JArr xs)
      then show ?thesis using d 1(1) [OF d JArr]
        by (auto simp: canonicalize.simps [of E d] well_typed.simps [of E d] bindE_Inr_iff mapE_defined list_all_iff)
    next
      case (JObj kvs)
      let ?fs = "canonical_fields E kvs"
      have "(\<exists>y. canonicalize E (d + 1) x = Inr y) \<longleftrightarrow> well_typed E (d + 1) x"
        if "(k, x) \<in> set ?fs" "distinct_adj (map fst ?fs)" for k x
        using 1(2) [OF d JObj refl _ that(1) refl] that(2) by simp
      then have "distinct_adj (map fst ?fs) \<Longrightarrow> (\<forall>(k, x) \<in> set ?fs. \<exists>y. canonicalize E (d + 1) x = Inr y)
          \<longleftrightarrow> (\<forall>(k, x) \<in> set ?fs. well_typed E (d + 1) x)" by blast
      moreover have "(\<forall>(k, x) \<in> set ?fs. well_typed E (d + 1) x) \<longleftrightarrow> list_all (\<lambda>(k, x). well_typed E (d + 1) x) kvs"
        by (auto simp: canonical_fields_def list_all_iff)
      ultimately show ?thesis using d JObj
        by (auto simp: canonicalize.simps [of E d] well_typed.simps [of E d] bindE_Inr_iff mapE_defined Let_def canonical_distinct
            case_prod_beta)
    qed (use d in \<open>auto simp: canonicalize.simps [of E d] well_typed.simps [of E d] canonical_number_def\<close>)
  qed (simp add: canonicalize.simps [of E d] well_typed.simps [of E d])
qed


end
