(* ===== verification/M2LifecycleDb.thy ===== *)
theory M2LifecycleDb
  imports M2LifecycleV2 M2EffectResult
begin

text \<open>
  The tables behind \<open>src/lifecycle/m2-lifecycle-authority-repository.js\<close> with the triggers that guard
  them: migration \<open>079\<close> creates the seven lifecycle tables, migration \<open>122\<close> replaces the functions
  its triggers call by those for both versions of the contracts. A table is the list of its rows in
  insertion order; an insert either extends it or reports what SQLite would throw.
\<close>

section \<open>SQL values\<close>

text \<open>The part of \<open>json_extract(text, '$.a.b')\<close> the triggers use: paths to strings and integers.\<close>

definition json_extract :: "string \<Rightarrow> string list \<Rightarrow> jsval" where
  "json_extract t path =
     (let v = (case JSON_parse t of None \<Rightarrow> JUndef | Some v \<Rightarrow> fold (\<lambda>k x. opt_prop x k) path v)
      in if v = JUndef then JNull else v)"

text \<open>\<open>length(trim(x)) BETWEEN lo AND hi\<close>: characters up to a NUL, after spaces at both ends are cut.\<close>

definition sql_trim :: "string \<Rightarrow> string" where
  "sql_trim s = rev (dropWhile (\<lambda>c. c = CHR '' '') (rev (dropWhile (\<lambda>c. c = CHR '' '') s)))"

definition text_between :: "nat \<Rightarrow> nat \<Rightarrow> string \<Rightarrow> bool" where
  "text_between lo hi s =
     (let n = length (utf8_chars (takeWhile (\<lambda>c. c \<noteq> CHR 0x00) (sql_trim s))) in lo \<le> n \<and> n \<le> hi)"

definition digest_column :: "string \<Rightarrow> bool" where
  "digest_column s \<longleftrightarrow> length s = 71 \<and> take 7 s = ''sha256:''"

definition json_column :: "nat \<Rightarrow> string \<Rightarrow> bool" where
  "json_column limit s \<longleftrightarrow> JSON_parse s \<noteq> None \<and> length s \<le> limit"

section \<open>Rows\<close>

record operation_row =
  op_lifecycle_id :: string
  op_milestone_id :: string
  op_run_id :: string
  op_execution_id :: string
  op_project_id :: jsval
  op_plan_version :: jsval
  op_plan_digest :: string
  op_request_digest :: string
  op_authority_set_digest :: string
  op_context_snapshot_digest :: string
  op_focused_environment_digest :: string
  op_policy_digest :: string
  op_baseline_digest :: string
  op_decision_digest :: string
  op_expected_after_revision :: string
  op_operation_digest :: string
  op_plan_json :: string
  op_context_snapshot_json :: string
  op_focused_environment_json :: string
  op_policy_json :: string
  op_baseline_json :: string
  op_decision_json :: string
  op_created_at_ms :: int
  op_approval_expires_at_ms :: int

record approval_row =
  ap_lifecycle_id :: string
  ap_approval_id :: string
  ap_plan_digest :: string
  ap_request_digest :: string
  ap_authority_set_digest :: string
  ap_actor_id :: string
  ap_intent_digest :: string
  ap_intent_json :: string
  ap_approved_at_ms :: int
  ap_expires_at_ms :: int
  ap_recorded_at_ms :: int

record grant_set_row =
  gs_lifecycle_id :: string
  gs_approval_intent_digest :: string
  gs_authority_set_digest :: string
  gs_grant_set_digest :: string
  gs_grant_set_json :: string
  gs_recorded_at_ms :: int

record cancel_row =
  ca_lifecycle_id :: string
  ca_cancel_id :: string
  ca_actor_id :: string
  ca_intent_digest :: string
  ca_intent_json :: string
  ca_requested_at_ms :: int

record receipt_row =
  rc_lifecycle_id :: string
  rc_receipt_id :: string
  rc_decision_digest :: string
  rc_result_digest :: string
  rc_receipt_digest :: string
  rc_receipt_json :: string
  rc_recorded_at_ms :: int

record terminal_row =
  te_lifecycle_id :: string
  te_execution_id :: string
  te_terminal_status :: string
  te_terminal_digest :: string
  te_terminal_json :: string
  te_completed_at_ms :: int

record event_row =
  ev_seq :: int
  ev_event_id :: string
  ev_lifecycle_id :: string
  ev_event_type :: string
  ev_occurred_at_ms :: int
  ev_details_json :: string

text \<open>
  The rows of other repositories that the triggers read: execution requests, steps and results,
  effect requests and approval grants. The columns nothing here reads are left out.
\<close>

record request_row =
  rq_execution_id :: string
  rq_run_id :: string
  rq_project_id :: jsval
  rq_request_digest :: string
  rq_workspace_revision :: string
  rq_authority_set_digest :: string
  rq_request_json :: string
  rq_focused_process_payload :: "string option"

record step_row =
  st_execution_id :: string
  st_effect_id :: string
  st_request_digest :: string

record result_row =
  re_execution_id :: string
  re_terminal_status :: string
  re_result_json :: string

record effect_row =
  ef_effect_id :: string
  ef_request_digest :: string
  ef_request_json :: string

record grant_row =
  gr_grant_id :: string
  gr_effect_id :: string
  gr_run_id :: string
  gr_project_id :: jsval
  gr_workspace_revision :: string
  gr_grant_json :: string
  gr_issued_at_ms :: int
  gr_expires_at_ms :: int
  gr_consumed_at_ms :: "int option"
  gr_revoked_at_ms :: "int option"

record database =
  db_operations :: "operation_row list"
  db_approvals :: "approval_row list"
  db_grant_sets :: "grant_set_row list"
  db_cancels :: "cancel_row list"
  db_receipts :: "receipt_row list"
  db_terminals :: "terminal_row list"
  db_events :: "event_row list"
  db_requests :: "request_row list"
  db_steps :: "step_row list"
  db_results :: "result_row list"
  db_effects :: "effect_row list"
  db_grants :: "grant_row list"

definition empty_database :: database where
  "empty_database = \<lparr>db_operations = [], db_approvals = [], db_grant_sets = [], db_cancels = [], db_receipts = [],
     db_terminals = [], db_events = [], db_requests = [], db_steps = [], db_results = [], db_effects = [], db_grants = []\<rparr>"

section \<open>The functions the triggers call\<close>

text \<open>The tests the functions are built from.\<close>

definition valid_js :: "validation js \<Rightarrow> bool js" where
  "valid_js m = bindE m (\<lambda>r. Inr (valid r))"

definition digest_is :: "jsval \<Rightarrow> string js \<Rightarrow> bool js" where
  "digest_is stored m = bindE m (\<lambda>d. Inr (stored = JStr d))"

definition parseJson :: "string option \<Rightarrow> jsval" where
  "parseJson t = (case t of None \<Rightarrow> JNull | Some s \<Rightarrow> (case JSON_parse s of None \<Rightarrow> JNull | Some v \<Rightarrow> v))"

definition canonicalEquals :: "js_env \<Rightarrow> jsval \<Rightarrow> string option \<Rightarrow> bool" where
  "canonicalEquals E v encoded = catchE (bindE (canonicalizeM2ExecutionValue E v) (\<lambda>t. Inr (Some t = encoded))) False"

definition environment_key :: "string \<Rightarrow> bool" where
  "environment_key s = (env_name s \<and> length s \<le> 128)"

definition validFocusedEnvironment :: "js_env \<Rightarrow> jsval \<Rightarrow> bool" where
  "validFocusedEnvironment E v =
     (case v of
        JObj kvs \<Rightarrow> list_all (\<lambda>(k, x). environment_key k
          \<and> str_sat (\<lambda>s. s = nfc E s \<and> CHR 0x00 \<notin> set s \<and> length s \<le> 32768) x) kvs
      | _ \<Rightarrow> False)"

text \<open>The seven documents of an operation, as text and parsed.\<close>

record 'a material =
  m_plan :: 'a
  m_request :: 'a
  m_context :: 'a
  m_environment :: 'a
  m_policy :: 'a
  m_baseline :: 'a
  m_decision :: 'a

definition parsed :: "string material \<Rightarrow> jsval material" where
  "parsed t = \<lparr>m_plan = parseJson (Some (m_plan t)), m_request = parseJson (Some (m_request t)),
     m_context = parseJson (Some (m_context t)), m_environment = parseJson (Some (m_environment t)),
     m_policy = parseJson (Some (m_policy t)), m_baseline = parseJson (Some (m_baseline t)),
     m_decision = parseJson (Some (m_decision t))\<rparr>"

definition material_list :: "'a material \<Rightarrow> 'a list" where
  "material_list m = [m_plan m, m_request m, m_context m, m_environment m, m_policy m, m_baseline m, m_decision m]"

definition material_exact :: "js_env \<Rightarrow> string material \<Rightarrow> bool" where
  "material_exact E t \<longleftrightarrow>
     list_all truthy (material_list (parsed t))
     \<and> list_all2 (\<lambda>v s. canonicalEquals E v (Some s)) (material_list (parsed t)) (material_list t)"

definition snapshots_bound :: "js_env \<Rightarrow> jsval material \<Rightarrow> bool js list" where
  "snapshots_bound E m =
     (let project = opt_prop (m_request m) ''project''; planDoc = m_plan m
      in [Inr (opt_prop (m_baseline m) ''complete'' = JBool True),
          Inr (strict_eq (opt_prop (m_policy m) ''projectId'') (opt_prop project ''projectId'')),
          Inr (strict_eq (opt_prop (m_policy m) ''workspaceRevision'') (opt_prop project ''workspaceRevision'')),
          Inr (strict_eq (opt_prop (m_baseline m) ''projectId'') (opt_prop project ''projectId'')),
          Inr (strict_eq (opt_prop (m_baseline m) ''workspaceRevision'') (opt_prop project ''workspaceRevision'')),
          digest_is (opt_prop planDoc ''governancePolicyDigest'') (computeM2GovernancePolicySnapshotDigest E (m_policy m)),
          digest_is (opt_prop planDoc ''governanceBaselineDigest'') (computeM2GovernanceBaselineDigest E (m_baseline m)),
          digest_is (opt_prop planDoc ''governanceDecisionDigest'') (computeM2GovernanceDecisionDigest E (m_decision m))])"

definition operationValid :: "js_env \<Rightarrow> string material \<Rightarrow> bool" where
  "operationValid E t =
     (let m = parsed t
      in material_exact E t
         \<and> catchE (all_js
              ([valid_js (v2_validateM2ProjectChangeRequest E (m_request m)),
                valid_js (v2_validateM2LifecyclePlanSnapshotForContext E (m_context m) (m_plan m)),
                valid_js (v2_validateM2LifecyclePlanSnapshotForDecision E (m_request m) (m_decision m) (m_plan m)),
                Inr (valid (validateM2GovernancePolicySnapshot E (m_policy m))),
                Inr (valid (validateM2GovernanceBaselineSnapshot E (m_baseline m))),
                valid_js (validateM2GovernanceDecision E (m_decision m)),
                Inr (validFocusedEnvironment E (m_environment m)),
                Inr (opt_prop (m_plan m) ''state'' = JStr ''awaiting_approval'')]
               @ snapshots_bound E m
               @ [digest_is (opt_prop (opt_prop (m_request m) ''focusedTest'') ''environmentDigest'')
                    (computeM2ExecutionValueDigest E (m_environment m))])) False)"

text \<open>\<open>Date.parse(a) === ms\<close> for a document whose time stamps were accepted.\<close>

definition date_is :: "jsval \<Rightarrow> int \<Rightarrow> bool" where
  "date_is v ms = (is_string v \<and> Date_parse (str_of v) = Some ms)"

definition approvalValid :: "js_env \<Rightarrow> string \<Rightarrow> string \<Rightarrow> int \<Rightarrow> int \<Rightarrow> bool" where
  "approvalValid E planJson approvalJson approvedAtMs expiresAtMs =
     (let planDoc = parseJson (Some planJson); approvalDoc = parseJson (Some approvalJson)
      in truthy planDoc \<and> truthy approvalDoc
         \<and> canonicalEquals E planDoc (Some planJson) \<and> canonicalEquals E approvalDoc (Some approvalJson)
         \<and> catchE (valid_js (v2_validateM2LifecycleApprovalIntentForPlan E planDoc approvalDoc)) False
         \<and> date_is (opt_prop approvalDoc ''approvedAt'') approvedAtMs
         \<and> date_is (opt_prop approvalDoc ''expiresAt'') expiresAtMs)"

definition GRANT_SET_MAX :: nat where "GRANT_SET_MAX = 68"

definition grant_entry_ok :: "nat \<Rightarrow> jsval \<Rightarrow> bool" where
  "grant_entry_ok i entry \<longleftrightarrow>
     validateExactKeys entry [''effectId'', ''grantId''] [] (''grant-set['' @ int_to_string (int i) @ '']'') = []
     \<and> isIdentifier (opt_prop entry ''effectId'') \<and> isIdentifier (opt_prop entry ''grantId'')"

definition grant_ids :: "string \<Rightarrow> jsval list \<Rightarrow> string list" where
  "grant_ids k entries = map (\<lambda>e. str_of (opt_prop e k)) entries"

definition validateGrantSet :: "jsval \<Rightarrow> bool" where
  "validateGrantSet v =
     (case v of
        JArr entries \<Rightarrow>
          1 \<le> length entries \<and> length entries \<le> GRANT_SET_MAX
          \<and> list_all (\<lambda>(i, e). grant_entry_ok i e) (enumerate 0 entries)
          \<and> sorted_wrt (<) (grant_ids ''effectId'' entries)
          \<and> distinct (grant_ids ''effectId'' entries) \<and> distinct (grant_ids ''grantId'' entries)
      | _ \<Rightarrow> False)"

definition grantSetValid :: "js_env \<Rightarrow> string \<Rightarrow> bool" where
  "grantSetValid E t = (let v = parseJson (Some t) in validateGrantSet v \<and> canonicalEquals E v (Some t))"

definition CANCEL_KEYS :: "string list" where
  "CANCEL_KEYS = [''cancelId'', ''identity'', ''actor'', ''reason'', ''requestedAt'']"

definition IDENTITY_KEYS :: "string list" where
  "IDENTITY_KEYS = [''lifecycleId'', ''milestoneId'', ''runId'', ''executionId'']"

definition cancel_fields_ok :: "jsval \<Rightarrow> bool" where
  "cancel_fields_ok v \<longleftrightarrow>
     isIdentifier (opt_prop v ''cancelId'')
     \<and> list_all (\<lambda>k. isIdentifier (opt_prop (opt_prop v ''identity'') k)) IDENTITY_KEYS
     \<and> opt_prop (opt_prop v ''actor'') ''type'' = JStr ''user''
     \<and> isIdentifier (opt_prop (opt_prop v ''actor'') ''id'')
     \<and> str_sat (\<lambda>s. trim_nonempty s \<and> length s \<le> 1024) (opt_prop v ''reason'')"

definition cancel_shape_errors :: "jsval \<Rightarrow> string list" where
  "cancel_shape_errors v =
     validateExactKeys v CANCEL_KEYS [] ''lifecycle-cancel-intent''
     @ validateExactKeys (opt_prop v ''identity'') IDENTITY_KEYS [] ''lifecycle-cancel-intent.identity''
     @ validateExactKeys (opt_prop v ''actor'') [''type'', ''id''] [] ''lifecycle-cancel-intent.actor''"

definition cancelValid :: "js_env \<Rightarrow> string \<Rightarrow> string \<Rightarrow> int \<Rightarrow> bool" where
  "cancelValid E planJson cancelJson requestedAtMs =
     (let planDoc = parseJson (Some planJson); cancelDoc = parseJson (Some cancelJson)
      in truthy planDoc \<and> truthy cancelDoc
         \<and> canonicalEquals E planDoc (Some planJson) \<and> canonicalEquals E cancelDoc (Some cancelJson)
         \<and> cancel_fields_ok cancelDoc \<and> isCanonicalTimestamp (opt_prop cancelDoc ''requestedAt'')
         \<and> cancel_shape_errors cancelDoc = []
         \<and> digests_differ E (opt_prop cancelDoc ''identity'') (opt_prop planDoc ''identity'') = Inr False
         \<and> strict_eq (opt_prop (opt_prop cancelDoc ''actor'') ''type'') (opt_prop (opt_prop planDoc ''actor'') ''type'')
         \<and> strict_eq (opt_prop (opt_prop cancelDoc ''actor'') ''id'') (opt_prop (opt_prop planDoc ''actor'') ''id'')
         \<and> date_is (opt_prop cancelDoc ''requestedAt'') requestedAtMs)"

definition receiptValid :: "js_env \<Rightarrow> string \<Rightarrow> string \<Rightarrow> string \<Rightarrow> string \<Rightarrow> int \<Rightarrow> bool" where
  "receiptValid E requestJson resultJson decisionJson receiptJson recordedAtMs =
     (let ts = [requestJson, resultJson, decisionJson, receiptJson]; vs = map (\<lambda>t. parseJson (Some t)) ts
      in list_all truthy vs \<and> list_all2 (\<lambda>v t. canonicalEquals E v (Some t)) vs ts
         \<and> catchE (valid_js (v2_validateM2GovernanceReceiptForDecision E (vs ! 0) (vs ! 1) (vs ! 2) (vs ! 3))) False
         \<and> date_is (opt_prop (vs ! 3) ''recordedAt'') recordedAtMs)"

text \<open>
  A terminal snapshot against the documents that are stored: \<open>None\<close> stands for a row that does not
  exist. A success needs the whole chain; every other state needs the identity of its plan and
  request, no receipt, and a result of the same status unless the change was blocked or cancelled
  before it ran, or was orphaned after a success that came too late.
\<close>

record stored_documents =
  sd_plan :: string
  sd_approval :: "string option"
  sd_request :: string
  sd_context :: string
  sd_result :: "string option"
  sd_decision :: string
  sd_receipt :: "string option"

definition stored_execution :: "stored_documents \<Rightarrow> string \<Rightarrow> execution_documents" where
  "stored_execution s terminalJson =
     \<lparr>contextSnapshot = parseJson (Some (sd_context s)), plan = parseJson (Some (sd_plan s)),
      approval = parseJson (sd_approval s), request = parseJson (Some (sd_request s)), result = parseJson (sd_result s),
      governanceDecision = parseJson (Some (sd_decision s)), governanceReceipt = parseJson (sd_receipt s),
      terminal = parseJson (Some terminalJson)\<rparr>"

definition terminal_exact :: "js_env \<Rightarrow> stored_documents \<Rightarrow> string \<Rightarrow> int \<Rightarrow> bool" where
  "terminal_exact E s terminalJson completedAtMs =
     (let d = stored_execution s terminalJson;
          required = [(plan d, sd_plan s), (request d, sd_request s), (contextSnapshot d, sd_context s),
            (governanceDecision d, sd_decision s), (terminal d, terminalJson)];
          given = [(approval d, sd_approval s), (result d, sd_result s), (governanceReceipt d, sd_receipt s)]
      in list_all (\<lambda>(v, t). truthy v \<and> canonicalEquals E v (Some t)) required
         \<and> date_is (opt_prop (terminal d) ''completedAt'') completedAtMs
         \<and> list_all (\<lambda>(v, t). truthy v \<longrightarrow> canonicalEquals E v t) given)"

definition orphaned_success :: "jsval \<Rightarrow> jsval \<Rightarrow> bool" where
  "orphaned_success t w \<longleftrightarrow>
     opt_prop t ''state'' = JStr ''orphaned'' \<and> opt_prop w ''terminalStatus'' = JStr ''succeeded''
     \<and> str_in (opt_prop t ''errorCode'') [''M2_LIFECYCLE_RESULT_REVISION_MISMATCH'', ''M2_LIFECYCLE_LATE_SUCCESS_AFTER_CANCEL'']"

definition or_value :: "jsval \<Rightarrow> jsval \<Rightarrow> jsval" where
  "or_value a b = (if a = JUndef \<or> a = JNull then b else a)"

definition terminal_result_ok :: "js_env \<Rightarrow> jsval \<Rightarrow> jsval \<Rightarrow> jsval \<Rightarrow> bool js list" where
  "terminal_result_ok E q w t =
     (let orphaned = (opt_prop t ''state'' = JStr ''orphaned'')
      in [valid_js (v2_validateM2ProjectChangeResultForRequest E q w),
          Inr (strict_eq (opt_prop w ''terminalStatus'') (opt_prop t ''state'') \<or> orphaned_success t w),
          digest_is (opt_prop t ''resultDigest'') (computeM2ExecutionValueDigest E w),
          Inr (orphaned \<or> strict_eq (opt_prop t ''workspaceRevision'')
            (or_value (opt_prop (opt_prop w ''changes'') ''afterRevision'') (opt_prop (opt_prop q ''project'') ''workspaceRevision''))),
          Inr (list_all (\<lambda>x. x \<in> set (elements (opt_prop t ''evidenceRefs''))) (elements (opt_prop w ''evidenceRefs''))),
          Inr (\<not> orphaned \<or> elements (opt_prop t ''evidenceRefs'') \<noteq> [])])"

definition terminal_identity_ok :: "js_env \<Rightarrow> execution_documents \<Rightarrow> bool js list" where
  "terminal_identity_ok E d =
     (let t = terminal d
      in [bindE (digests_differ E (opt_prop t ''identity'') (opt_prop (plan d) ''identity'')) (\<lambda>b. Inr (\<not> b)),
          Inr (strict_eq (opt_prop t ''planVersion'') (opt_prop (plan d) ''planVersion'')),
          digest_is (opt_prop t ''planDigest'') (v2_computeM2LifecyclePlanSnapshotDigest E (plan d)),
          digest_is (opt_prop t ''requestDigest'') (v2_computeM2ProjectChangeRequestDigest E (request d)),
          Inr (strict_eq (opt_prop t ''authoritySetDigest'') (opt_prop (request d) ''authoritySetDigest'')),
          Inr (strict_eq (opt_prop t ''projectId'') (opt_prop (opt_prop (request d) ''project'') ''projectId'')),
          digest_is (opt_prop t ''governanceDecisionDigest'') (computeM2GovernanceDecisionDigest E (governanceDecision d)),
          if approval d = JNull then Inr (opt_prop t ''approvalIntentDigest'' = JNull)
          else digest_is (opt_prop t ''approvalIntentDigest'') (computeM2LifecycleApprovalIntentDigest E (approval d))])"

definition terminal_without_result :: "execution_documents \<Rightarrow> bool" where
  "terminal_without_result d \<longleftrightarrow>
     str_in (opt_prop (terminal d) ''state'') [''blocked'', ''cancelled'']
     \<and> opt_prop (terminal d) ''resultDigest'' = JNull
     \<and> strict_eq (opt_prop (terminal d) ''workspaceRevision'') (opt_prop (opt_prop (request d) ''project'') ''workspaceRevision'')"

definition terminalValid :: "js_env \<Rightarrow> stored_documents \<Rightarrow> string \<Rightarrow> int \<Rightarrow> bool" where
  "terminalValid E s terminalJson completedAtMs =
     (let d = stored_execution s terminalJson; t = terminal d
      in terminal_exact E s terminalJson completedAtMs
         \<and> (if opt_prop t ''state'' = JStr ''succeeded''
            then truthy (approval d) \<and> truthy (result d) \<and> truthy (governanceReceipt d)
              \<and> catchE (valid_js (v2_validateM2LifecycleTerminalSnapshotForExecution E d)) False
            else catchE (all_js
              ([Inr (valid (validateM2LifecycleTerminalSnapshot E t)),
                valid_js (v2_validateM2LifecyclePlanSnapshotForContext E (contextSnapshot d) (plan d)),
                valid_js (v2_validateM2LifecyclePlanSnapshotForDecision E (request d) (governanceDecision d) (plan d)),
                if truthy (approval d) then valid_js (v2_validateM2LifecycleApprovalIntentForPlan E (plan d) (approval d)) else Inr True,
                Inr (governanceReceipt d = JNull \<and> opt_prop t ''governanceReceiptDigest'' = JNull)]
               @ terminal_identity_ok E d
               @ (if result d = JNull then [Inr (terminal_without_result d)]
                  else terminal_result_ok E (request d) (result d) t))) False))"

definition jsonDigest :: "js_env \<Rightarrow> string \<Rightarrow> string option" where
  "jsonDigest E t =
     (let v = parseJson (Some t)
      in if v = JNull \<or> \<not> canonicalEquals E v (Some t) then None
         else catchE (bindE (computeM2ExecutionValueDigest E v) (\<lambda>d. Inr (Some d))) None)"

text \<open>\<open>operationProjection\<close>: what the digest of an operation covers; the SQL function computes the same.\<close>

definition operationProjection :: "js_env \<Rightarrow> jsval material \<Rightarrow> jsval js" where
  "operationProjection E m =
     bindE (v2_computeM2ProjectChangeRequestDigest E (m_request m)) (\<lambda>d. Inr (JObj
       [(''plan'', m_plan m), (''requestDigest'', JStr d), (''contextSnapshot'', m_context m),
        (''focusedEnvironment'', m_environment m), (''policySnapshot'', m_policy m),
        (''baselineSnapshot'', m_baseline m), (''decision'', m_decision m)]))"

definition operationDigest :: "js_env \<Rightarrow> string material \<Rightarrow> string option" where
  "operationDigest E t =
     (if material_exact E t
      then catchE (bindE (operationProjection E (parsed t)) (\<lambda>v.
             bindE (computeM2ExecutionValueDigest E v) (\<lambda>d. Inr (Some d)))) None
      else None)"

section \<open>Execution requests\<close>

definition requestValid :: "js_env \<Rightarrow> string \<Rightarrow> bool" where
  "requestValid E t =
     (case JSON_parse t of
        None \<Rightarrow> False
      | Some v \<Rightarrow> catchE (all_js
          [valid_js (v2_validateM2ProjectChangeRequest E v),
           if opt_prop v ''version'' \<noteq> JInt 2 then Inr True
           else bindE (canonicalizeM2ExecutionValue E v) (\<lambda>c. Inr (c = t))]) False)"

definition validatePrivateHttpDurablePayload :: "effect_env \<Rightarrow> jsval \<Rightarrow> jsval \<Rightarrow> string option \<Rightarrow> bool" where
  "validatePrivateHttpDurablePayload E q effect payload =
     (case payload of
        None \<Rightarrow> False
      | Some b \<Rightarrow> opt_prop q ''version'' = JInt 2 \<and> 1 \<le> length b \<and> length b \<le> 4194304 \<and> utf8_valid b
          \<and> (case JSON_parse b of
               None \<Rightarrow> False
             | Some v \<Rightarrow> v \<noteq> JNull \<and> catchE (valid_js (validateM2PrivateHttpProcessEffectForRequest E q effect (Some b)
                 (opt_prop v ''environment''))) False))"

definition privateHttpRequestDigest :: "js_env \<Rightarrow> string \<Rightarrow> string option" where
  "privateHttpRequestDigest E t =
     (case JSON_parse t of
        None \<Rightarrow> None
      | Some v \<Rightarrow> if opt_prop v ''version'' = JInt 2 \<and> requestValid E t
          then catchE (bindE (v2_computeM2ProjectChangeRequestDigest E v) (\<lambda>d. Inr (Some d))) None else None)"

definition privateHttpPayloadMatches :: "effect_env \<Rightarrow> string \<Rightarrow> string \<Rightarrow> string option \<Rightarrow> bool" where
  "privateHttpPayloadMatches E requestJson effectJson payload =
     (case (JSON_parse requestJson, JSON_parse effectJson) of
        (Some q, Some e) \<Rightarrow> validatePrivateHttpDurablePayload E q e payload
      | _ \<Rightarrow> False)"

text \<open>The trigger of \<open>m2_execution_requests\<close> (migration \<open>078\<close>, as \<open>122\<close> rewrites it).\<close>

definition request_exact :: "effect_env \<Rightarrow> database \<Rightarrow> request_row \<Rightarrow> bool" where
  "request_exact E db q =
     (let J = js_env.truncate E; t = rq_request_json q; version = json_extract t [''version'']
      in requestValid J t
         \<and> json_extract t [''executionId''] = JStr (rq_execution_id q)
         \<and> json_extract t [''runId''] = JStr (rq_run_id q)
         \<and> json_extract t [''project'', ''projectId''] = rq_project_id q
         \<and> json_extract t [''project'', ''workspaceRevision''] = JStr (rq_workspace_revision q)
         \<and> json_extract t [''authoritySetDigest''] = JStr (rq_authority_set_digest q)
         \<and> (if version = JInt 1 then rq_focused_process_payload q = None
            else version = JInt 2 \<and> privateHttpRequestDigest J t = Some (rq_request_digest q)
              \<and> list_ex (\<lambda>f. json_extract t [''focusedTest'', ''authority'', ''effectId''] = JStr (ef_effect_id f)
                   \<and> privateHttpPayloadMatches E t (ef_request_json f) (rq_focused_process_payload q)) (db_effects db)))"

section \<open>Inserts\<close>

text \<open>
  What an insert into a table throws: the message of the trigger, which runs before the row is
  written, or the violation of a constraint. Two rows conflict when they agree on a primary key or on a
  unique column.
\<close>

datatype sql_error = Raised string | Constraint

definition material_of :: "operation_row \<Rightarrow> string \<Rightarrow> string material" where
  "material_of r requestJson =
     \<lparr>m_plan = op_plan_json r, m_request = requestJson, m_context = op_context_snapshot_json r,
      m_environment = op_focused_environment_json r, m_policy = op_policy_json r, m_baseline = op_baseline_json r,
      m_decision = op_decision_json r\<rparr>"

definition plan_columns_exact :: "operation_row \<Rightarrow> bool" where
  "plan_columns_exact r \<longleftrightarrow>
     (let column = json_extract (op_plan_json r)
      in column [''identity'', ''lifecycleId''] = JStr (op_lifecycle_id r)
         \<and> column [''identity'', ''milestoneId''] = JStr (op_milestone_id r)
         \<and> column [''identity'', ''runId''] = JStr (op_run_id r)
         \<and> column [''identity'', ''executionId''] = JStr (op_execution_id r)
         \<and> column [''project'', ''projectId''] = op_project_id r
         \<and> column [''planVersion''] = op_plan_version r
         \<and> column [''requestDigest''] = JStr (op_request_digest r)
         \<and> column [''authoritySetDigest''] = JStr (op_authority_set_digest r)
         \<and> column [''contextSnapshotDigest''] = JStr (op_context_snapshot_digest r)
         \<and> column [''governancePolicyDigest''] = JStr (op_policy_digest r)
         \<and> column [''governanceBaselineDigest''] = JStr (op_baseline_digest r)
         \<and> column [''governanceDecisionDigest''] = JStr (op_decision_digest r)
         \<and> column [''expectedAfterRevision''] = JStr (op_expected_after_revision r))"

definition operation_exact :: "js_env \<Rightarrow> operation_row \<Rightarrow> request_row \<Rightarrow> bool" where
  "operation_exact E r q \<longleftrightarrow>
     rq_execution_id q = op_execution_id r \<and> rq_run_id q = op_run_id r \<and> rq_project_id q = op_project_id r
     \<and> rq_request_digest q = op_request_digest r \<and> rq_authority_set_digest q = op_authority_set_digest r
     \<and> operationValid E (material_of r (rq_request_json q)) \<and> plan_columns_exact r
     \<and> jsonDigest E (op_plan_json r) = Some (op_plan_digest r)
     \<and> jsonDigest E (op_context_snapshot_json r) = Some (op_context_snapshot_digest r)
     \<and> jsonDigest E (op_focused_environment_json r) = Some (op_focused_environment_digest r)
     \<and> operationDigest E (material_of r (rq_request_json q)) = Some (op_operation_digest r)"

definition operation_checks :: "operation_row \<Rightarrow> bool" where
  "operation_checks r \<longleftrightarrow>
     list_all (text_between 1 128) [op_lifecycle_id r, op_milestone_id r, op_run_id r]
     \<and> int_ge (op_project_id r) 1 \<and> int_ge (op_plan_version r) 1
     \<and> list_all digest_column [op_plan_digest r, op_request_digest r, op_authority_set_digest r, op_context_snapshot_digest r,
          op_focused_environment_digest r, op_policy_digest r, op_baseline_digest r, op_decision_digest r, op_operation_digest r]
     \<and> text_between 1 256 (op_expected_after_revision r)
     \<and> list_all (json_column 4194304) [op_plan_json r, op_context_snapshot_json r, op_policy_json r, op_decision_json r]
     \<and> json_column 1048576 (op_focused_environment_json r) \<and> json_column 16777216 (op_baseline_json r)
     \<and> 0 \<le> op_created_at_ms r \<and> op_created_at_ms r < op_approval_expires_at_ms r"

definition operation_conflict :: "operation_row \<Rightarrow> operation_row \<Rightarrow> bool" where
  "operation_conflict r o' \<longleftrightarrow>
     op_lifecycle_id o' = op_lifecycle_id r \<or> op_run_id o' = op_run_id r \<or> op_execution_id o' = op_execution_id r
     \<or> op_plan_digest o' = op_plan_digest r \<or> op_decision_digest o' = op_decision_digest r
     \<or> op_operation_digest o' = op_operation_digest r"

definition insert_operation :: "js_env \<Rightarrow> operation_row \<Rightarrow> database \<Rightarrow> sql_error + database" where
  "insert_operation E r db =
     (if \<not> list_ex (operation_exact E r) (db_requests db) then Inl (Raised ''M2_LIFECYCLE_OPERATION_AUTHORITY_MISMATCH'')
      else if \<not> operation_checks r \<or> list_ex (operation_conflict r) (db_operations db) then Inl Constraint
      else Inr (db\<lparr>db_operations := db_operations db @ [r]\<rparr>))"

definition has_terminal :: "database \<Rightarrow> string \<Rightarrow> bool" where
  "has_terminal db l = list_ex (\<lambda>t. te_lifecycle_id t = l) (db_terminals db)"

definition has_cancel :: "database \<Rightarrow> string \<Rightarrow> bool" where
  "has_cancel db l = list_ex (\<lambda>c. ca_lifecycle_id c = l) (db_cancels db)"

definition has_approval :: "database \<Rightarrow> string \<Rightarrow> bool" where
  "has_approval db l = list_ex (\<lambda>a. ap_lifecycle_id a = l) (db_approvals db)"

definition has_grant_set :: "database \<Rightarrow> string \<Rightarrow> bool" where
  "has_grant_set db l = list_ex (\<lambda>g. gs_lifecycle_id g = l) (db_grant_sets db)"

definition has_receipt :: "database \<Rightarrow> string \<Rightarrow> bool" where
  "has_receipt db l = list_ex (\<lambda>c. rc_lifecycle_id c = l) (db_receipts db)"

definition approval_exact :: "js_env \<Rightarrow> approval_row \<Rightarrow> operation_row \<Rightarrow> bool" where
  "approval_exact E r p \<longleftrightarrow>
     op_lifecycle_id p = ap_lifecycle_id r \<and> op_plan_digest p = ap_plan_digest r \<and> op_request_digest p = ap_request_digest r
     \<and> op_authority_set_digest p = ap_authority_set_digest r \<and> ap_expires_at_ms r \<le> op_approval_expires_at_ms p
     \<and> approvalValid E (op_plan_json p) (ap_intent_json r) (ap_approved_at_ms r) (ap_expires_at_ms r)
     \<and> json_extract (ap_intent_json r) [''approvalId''] = JStr (ap_approval_id r)
     \<and> json_extract (ap_intent_json r) [''actor'', ''id''] = JStr (ap_actor_id r)
     \<and> jsonDigest E (ap_intent_json r) = Some (ap_intent_digest r)"

definition approval_checks :: "approval_row \<Rightarrow> bool" where
  "approval_checks r \<longleftrightarrow>
     text_between 1 128 (ap_approval_id r) \<and> text_between 1 128 (ap_actor_id r) \<and> digest_column (ap_intent_digest r)
     \<and> json_column 1048576 (ap_intent_json r) \<and> 0 \<le> ap_approved_at_ms r \<and> ap_approved_at_ms r < ap_expires_at_ms r
     \<and> 0 \<le> ap_recorded_at_ms r \<and> ap_approved_at_ms r \<le> ap_recorded_at_ms r \<and> ap_recorded_at_ms r < ap_expires_at_ms r"

definition approval_conflict :: "approval_row \<Rightarrow> approval_row \<Rightarrow> bool" where
  "approval_conflict r a \<longleftrightarrow> ap_lifecycle_id a = ap_lifecycle_id r \<or> ap_approval_id a = ap_approval_id r
     \<or> ap_intent_digest a = ap_intent_digest r"

definition insert_approval :: "js_env \<Rightarrow> approval_row \<Rightarrow> database \<Rightarrow> sql_error + database" where
  "insert_approval E r db =
     (if \<not> list_ex (approval_exact E r) (db_operations db) \<or> has_terminal db (ap_lifecycle_id r) \<or> has_cancel db (ap_lifecycle_id r)
      then Inl (Raised ''M2_LIFECYCLE_APPROVAL_AUTHORITY_MISMATCH'')
      else if \<not> approval_checks r \<or> list_ex (approval_conflict r) (db_approvals db) then Inl Constraint
      else Inr (db\<lparr>db_approvals := db_approvals db @ [r]\<rparr>))"

text \<open>One grant of the set for a step: not used, not revoked, in force, given by the approving user.\<close>

definition grant_covers :: "database \<Rightarrow> operation_row \<Rightarrow> approval_row \<Rightarrow> grant_set_row \<Rightarrow> step_row \<Rightarrow> grant_row \<Rightarrow> bool" where
  "grant_covers db p a r st g \<longleftrightarrow>
     list_ex (\<lambda>m. opt_prop m ''grantId'' = JStr (gr_grant_id g) \<and> opt_prop m ''effectId'' = JStr (gr_effect_id g))
       (elements (parseJson (Some (gs_grant_set_json r))))
     \<and> list_ex (\<lambda>f. ef_effect_id f = gr_effect_id g \<and> ef_request_digest f = st_request_digest st) (db_effects db)
     \<and> gr_effect_id g = st_effect_id st \<and> gr_run_id g = op_run_id p \<and> gr_project_id g = op_project_id p
     \<and> JStr (gr_workspace_revision g) = json_extract (op_plan_json p) [''project'', ''workspaceRevision'']
     \<and> json_extract (gr_grant_json g) [''subject'', ''actorType''] = JStr ''user''
     \<and> json_extract (gr_grant_json g) [''subject'', ''actorId''] = JStr (ap_actor_id a)
     \<and> gr_issued_at_ms g \<le> gs_recorded_at_ms r \<and> gs_recorded_at_ms r < gr_expires_at_ms g
     \<and> gr_consumed_at_ms g = None \<and> gr_revoked_at_ms g = None"

definition steps_of :: "database \<Rightarrow> operation_row \<Rightarrow> step_row list" where
  "steps_of db p = filter (\<lambda>st. st_execution_id st = op_execution_id p) (db_steps db)"

definition grant_set_complete :: "database \<Rightarrow> grant_set_row \<Rightarrow> operation_row \<Rightarrow> approval_row \<Rightarrow> bool" where
  "grant_set_complete db r p a \<longleftrightarrow>
     op_lifecycle_id p = gs_lifecycle_id r \<and> ap_lifecycle_id a = op_lifecycle_id p
     \<and> op_authority_set_digest p = gs_authority_set_digest r \<and> ap_intent_digest a = gs_approval_intent_digest r
     \<and> ap_recorded_at_ms a \<le> gs_recorded_at_ms r \<and> gs_recorded_at_ms r < ap_expires_at_ms a
     \<and> length (elements (parseJson (Some (gs_grant_set_json r)))) = length (steps_of db p)
     \<and> list_all (\<lambda>st. list_ex (grant_covers db p a r st) (db_grants db)) (steps_of db p)"

definition insert_grant_set :: "js_env \<Rightarrow> grant_set_row \<Rightarrow> database \<Rightarrow> sql_error + database" where
  "insert_grant_set E r db =
     (if \<not> grantSetValid E (gs_grant_set_json r)
         \<or> jsonDigest E (gs_grant_set_json r) \<noteq> Some (gs_grant_set_digest r)
         \<or> \<not> list_ex (\<lambda>p. list_ex (grant_set_complete db r p) (db_approvals db)) (db_operations db)
         \<or> has_terminal db (gs_lifecycle_id r) \<or> has_cancel db (gs_lifecycle_id r)
      then Inl (Raised ''M2_LIFECYCLE_GRANT_SET_INCOMPLETE'')
      else if \<not> digest_column (gs_grant_set_digest r) \<or> \<not> json_column 1048576 (gs_grant_set_json r) \<or> gs_recorded_at_ms r < 0
         \<or> list_ex (\<lambda>g. gs_lifecycle_id g = gs_lifecycle_id r \<or> gs_grant_set_digest g = gs_grant_set_digest r) (db_grant_sets db)
      then Inl Constraint
      else Inr (db\<lparr>db_grant_sets := db_grant_sets db @ [r]\<rparr>))"

definition results_of :: "database \<Rightarrow> operation_row \<Rightarrow> result_row list" where
  "results_of db p = filter (\<lambda>w. re_execution_id w = op_execution_id p) (db_results db)"

definition requests_of :: "database \<Rightarrow> operation_row \<Rightarrow> request_row list" where
  "requests_of db p = filter (\<lambda>q. rq_execution_id q = op_execution_id p) (db_requests db)"

definition cancel_exact :: "js_env \<Rightarrow> cancel_row \<Rightarrow> operation_row \<Rightarrow> bool" where
  "cancel_exact E r p \<longleftrightarrow>
     op_lifecycle_id p = ca_lifecycle_id r \<and> cancelValid E (op_plan_json p) (ca_intent_json r) (ca_requested_at_ms r)
     \<and> json_extract (ca_intent_json r) [''cancelId''] = JStr (ca_cancel_id r)
     \<and> json_extract (ca_intent_json r) [''actor'', ''id''] = JStr (ca_actor_id r)
     \<and> jsonDigest E (ca_intent_json r) = Some (ca_intent_digest r)"

definition insert_cancel :: "js_env \<Rightarrow> cancel_row \<Rightarrow> database \<Rightarrow> sql_error + database" where
  "insert_cancel E r db =
     (if \<not> list_ex (cancel_exact E r) (db_operations db) \<or> has_terminal db (ca_lifecycle_id r)
         \<or> list_ex (\<lambda>p. op_lifecycle_id p = ca_lifecycle_id r \<and> results_of db p \<noteq> []) (db_operations db)
      then Inl (Raised ''M2_LIFECYCLE_CANCEL_AUTHORITY_MISMATCH'')
      else if \<not> text_between 1 128 (ca_cancel_id r) \<or> \<not> text_between 1 128 (ca_actor_id r) \<or> \<not> digest_column (ca_intent_digest r)
         \<or> \<not> json_column 1048576 (ca_intent_json r) \<or> ca_requested_at_ms r < 0
         \<or> list_ex (\<lambda>c. ca_lifecycle_id c = ca_lifecycle_id r \<or> ca_cancel_id c = ca_cancel_id r
              \<or> ca_intent_digest c = ca_intent_digest r) (db_cancels db)
      then Inl Constraint
      else Inr (db\<lparr>db_cancels := db_cancels db @ [r]\<rparr>))"

definition receipt_exact :: "js_env \<Rightarrow> database \<Rightarrow> receipt_row \<Rightarrow> operation_row \<Rightarrow> bool" where
  "receipt_exact E db r p \<longleftrightarrow>
     op_lifecycle_id p = rc_lifecycle_id r \<and> has_approval db (op_lifecycle_id p) \<and> has_grant_set db (op_lifecycle_id p)
     \<and> op_decision_digest p = rc_decision_digest r
     \<and> list_ex (\<lambda>q. list_ex (\<lambda>w. re_terminal_status w = ''succeeded''
          \<and> json_extract (re_result_json w) [''requestDigest''] = JStr (op_request_digest p)
          \<and> receiptValid E (rq_request_json q) (re_result_json w) (op_decision_json p) (rc_receipt_json r) (rc_recorded_at_ms r))
        (results_of db p)) (requests_of db p)
     \<and> json_extract (rc_receipt_json r) [''receiptId''] = JStr (rc_receipt_id r)
     \<and> json_extract (rc_receipt_json r) [''resultDigest''] = JStr (rc_result_digest r)
     \<and> jsonDigest E (rc_receipt_json r) = Some (rc_receipt_digest r)"

definition insert_receipt :: "js_env \<Rightarrow> receipt_row \<Rightarrow> database \<Rightarrow> sql_error + database" where
  "insert_receipt E r db =
     (if \<not> list_ex (receipt_exact E db r) (db_operations db) \<or> has_terminal db (rc_lifecycle_id r) \<or> has_cancel db (rc_lifecycle_id r)
      then Inl (Raised ''M2_LIFECYCLE_RECEIPT_AUTHORITY_MISMATCH'')
      else if \<not> text_between 1 128 (rc_receipt_id r) \<or> \<not> digest_column (rc_receipt_digest r)
         \<or> \<not> json_column 4194304 (rc_receipt_json r) \<or> rc_recorded_at_ms r < 0
         \<or> list_ex (\<lambda>c. rc_lifecycle_id c = rc_lifecycle_id r \<or> rc_receipt_id c = rc_receipt_id r
              \<or> rc_receipt_digest c = rc_receipt_digest r) (db_receipts db)
      then Inl Constraint
      else Inr (db\<lparr>db_receipts := db_receipts db @ [r]\<rparr>))"

text \<open>A left join: the rows that match, or one missing row.\<close>

definition left_join :: "('a \<Rightarrow> bool) \<Rightarrow> 'a list \<Rightarrow> 'a option list" where
  "left_join f xs = (case filter f xs of [] \<Rightarrow> [None] | ys \<Rightarrow> map Some ys)"

definition stored_for :: "operation_row \<Rightarrow> request_row \<Rightarrow> approval_row option \<Rightarrow> result_row option \<Rightarrow> receipt_row option
    \<Rightarrow> stored_documents" where
  "stored_for p q a w c =
     \<lparr>sd_plan = op_plan_json p, sd_approval = map_option ap_intent_json a, sd_request = rq_request_json q,
      sd_context = op_context_snapshot_json p, sd_result = map_option re_result_json w, sd_decision = op_decision_json p,
      sd_receipt = map_option rc_receipt_json c\<rparr>"

definition late_success :: string where "late_success = ''M2_LIFECYCLE_LATE_SUCCESS_AFTER_CANCEL''"

definition open_grant :: "database \<Rightarrow> operation_row \<Rightarrow> bool" where
  "open_grant db p = list_ex (\<lambda>st. list_ex (\<lambda>g. gr_effect_id g = st_effect_id st \<and> gr_consumed_at_ms g = None
     \<and> gr_revoked_at_ms g = None) (db_grants db)) (steps_of db p)"

definition terminal_authority :: "js_env \<Rightarrow> database \<Rightarrow> terminal_row \<Rightarrow> operation_row \<Rightarrow> request_row \<Rightarrow> approval_row option
    \<Rightarrow> result_row option \<Rightarrow> receipt_row option \<Rightarrow> bool" where
  "terminal_authority E db r p q a w c \<longleftrightarrow>
     (let l = te_lifecycle_id r; status = te_terminal_status r; errorCode = json_extract (te_terminal_json r) [''errorCode''];
          ran_ok = (case w of None \<Rightarrow> False | Some x \<Rightarrow> re_terminal_status x = ''succeeded'')
      in op_lifecycle_id p = l \<and> op_execution_id p = te_execution_id r
         \<and> json_extract (te_terminal_json r) [''state''] = JStr status
         \<and> jsonDigest E (te_terminal_json r) = Some (te_terminal_digest r)
         \<and> terminalValid E (stored_for p q a w c) (te_terminal_json r) (te_completed_at_ms r)
         \<and> (status = ''succeeded'' \<longrightarrow> a \<noteq> None \<and> has_grant_set db l \<and> ran_ok \<and> c \<noteq> None \<and> \<not> has_cancel db l)
         \<and> (w = None \<longrightarrow> status \<in> {''blocked'', ''cancelled''})
         \<and> (status = ''cancelled'' \<and> w = None \<longrightarrow> has_cancel db l)
         \<and> (errorCode = JStr late_success \<longrightarrow> status = ''orphaned'' \<and> ran_ok \<and> has_cancel db l)
         \<and> (ran_ok \<and> has_cancel db l \<longrightarrow> status = ''orphaned'' \<and> errorCode = JStr late_success)
         \<and> (w = None \<longrightarrow> \<not> open_grant db p))"

definition terminal_joined :: "js_env \<Rightarrow> database \<Rightarrow> terminal_row \<Rightarrow> operation_row \<Rightarrow> bool" where
  "terminal_joined E db r p =
     list_ex (\<lambda>q. list_ex (\<lambda>a. list_ex (\<lambda>w. list_ex (\<lambda>c. terminal_authority E db r p q a w c)
        (left_join (\<lambda>c. rc_lifecycle_id c = op_lifecycle_id p) (db_receipts db)))
        (left_join (\<lambda>w. re_execution_id w = op_execution_id p) (db_results db)))
        (left_join (\<lambda>a. ap_lifecycle_id a = op_lifecycle_id p) (db_approvals db))) (requests_of db p)"

definition TERMINAL_ROW_STATES :: "string list" where
  "TERMINAL_ROW_STATES = [''succeeded'', ''failed'', ''cancelled'', ''timed_out'', ''orphaned'', ''blocked'']"

definition insert_terminal :: "js_env \<Rightarrow> terminal_row \<Rightarrow> database \<Rightarrow> sql_error + database" where
  "insert_terminal E r db =
     (if \<not> list_ex (terminal_joined E db r) (db_operations db) then Inl (Raised ''M2_LIFECYCLE_TERMINAL_AUTHORITY_MISSING'')
      else if te_terminal_status r \<notin> set TERMINAL_ROW_STATES \<or> \<not> digest_column (te_terminal_digest r)
         \<or> \<not> json_column 4194304 (te_terminal_json r) \<or> te_completed_at_ms r < 0
         \<or> list_ex (\<lambda>t. te_lifecycle_id t = te_lifecycle_id r \<or> te_execution_id t = te_execution_id r
              \<or> te_terminal_digest t = te_terminal_digest r) (db_terminals db)
      then Inl Constraint
      else Inr (db\<lparr>db_terminals := db_terminals db @ [r]\<rparr>))"

definition EVENT_TYPES :: "string list" where
  "EVENT_TYPES = [''operation_registered'', ''approval_recorded'', ''grant_set_recorded'', ''cancel_requested'',
     ''governance_receipt_recorded'', ''terminal_recorded'', ''recovery_observed'']"

definition event_refused :: "js_env \<Rightarrow> database \<Rightarrow> event_row \<Rightarrow> bool" where
  "event_refused E db r \<longleftrightarrow>
     (let l = ev_lifecycle_id r; kind = ev_event_type r
      in jsonDigest E (ev_details_json r) = None
         \<or> (kind = ''approval_recorded'' \<and> \<not> has_approval db l)
         \<or> (kind = ''grant_set_recorded'' \<and> \<not> has_grant_set db l)
         \<or> (kind = ''cancel_requested'' \<and> \<not> has_cancel db l)
         \<or> (kind = ''governance_receipt_recorded'' \<and> \<not> has_receipt db l)
         \<or> (kind = ''terminal_recorded'' \<and> \<not> has_terminal db l)
         \<or> (has_terminal db l \<and> kind \<noteq> ''terminal_recorded''))"

text \<open>
  \<open>seq INTEGER PRIMARY KEY AUTOINCREMENT\<close>: SQLite gives a row a number above all the table has held, up to
  $2^{63} - 1$, after which it refuses. It need not be the next one: an insertion that fails can use a number
  up, so the caller of the definition says how many numbers were skipped.
\<close>

definition next_event_seq :: "nat \<Rightarrow> event_row list \<Rightarrow> int" where
  "next_event_seq skipped events = foldr max (map ev_seq events) 0 + 1 + int skipped"

definition insert_event :: "js_env \<Rightarrow> nat \<Rightarrow> event_row \<Rightarrow> database \<Rightarrow> sql_error + database" where
  "insert_event E skipped r db =
     (if event_refused E db r then Inl (Raised ''M2_LIFECYCLE_EVENT_AFTER_TERMINAL'')
      else if \<not> text_between 1 128 (ev_event_id r) \<or> ev_event_type r \<notin> set EVENT_TYPES \<or> ev_occurred_at_ms r < 0
         \<or> \<not> json_column 65536 (ev_details_json r)
         \<or> list_ex (\<lambda>e. ev_event_id e = ev_event_id r) (db_events db)
         \<or> \<not> list_ex (\<lambda>p. op_lifecycle_id p = ev_lifecycle_id r) (db_operations db)
         \<or> next_event_seq skipped (db_events db) > 9223372036854775807
      then Inl Constraint
      else Inr (db\<lparr>db_events := db_events db @ [r\<lparr>ev_seq := next_event_seq skipped (db_events db)\<rparr>]\<rparr>))"

end
