(* ===== verification/M2LifecycleAuthority.thy ===== *)
theory M2LifecycleAuthority
  imports M2LifecycleDb
begin

text \<open>
  \<open>src/lifecycle/m2-lifecycle-authority-repository.js\<close>: the repository that records the authority of a
  lifecycle. An operation takes the database and the value the clock returns; it throws the code of a
  \<open>M2LifecycleAuthorityError\<close> (\<open>Coded\<close>) or what a contract function throws, or returns the database, whether a row
  was created, and the document. A refused insert leaves the database as it was, so the row that the
  handler of the exception looks for is looked for in the same database.
\<close>

section \<open>Failures and checks\<close>

definition INPUT_INVALID :: js_exn where "INPUT_INVALID = Coded ''M2_LIFECYCLE_AUTHORITY_INPUT_INVALID''"
definition OPERATION_NOT_FOUND :: js_exn where "OPERATION_NOT_FOUND = Coded ''M2_LIFECYCLE_OPERATION_NOT_FOUND''"
definition OPERATION_CONFLICT :: js_exn where "OPERATION_CONFLICT = Coded ''M2_LIFECYCLE_OPERATION_CONFLICT''"
definition APPROVAL_CONFLICT :: js_exn where "APPROVAL_CONFLICT = Coded ''M2_LIFECYCLE_APPROVAL_CONFLICT''"
definition GRANT_SET_INCOMPLETE :: js_exn where "GRANT_SET_INCOMPLETE = Coded ''M2_LIFECYCLE_GRANT_SET_INCOMPLETE''"
definition GRANT_SET_CONFLICT :: js_exn where "GRANT_SET_CONFLICT = Coded ''M2_LIFECYCLE_GRANT_SET_CONFLICT''"
definition CANCEL_CONFLICT :: js_exn where "CANCEL_CONFLICT = Coded ''M2_LIFECYCLE_CANCEL_CONFLICT''"
definition RECEIPT_CONFLICT :: js_exn where "RECEIPT_CONFLICT = Coded ''M2_LIFECYCLE_RECEIPT_CONFLICT''"
definition TERMINAL_AUTHORITY_MISSING :: js_exn where "TERMINAL_AUTHORITY_MISSING = Coded ''M2_LIFECYCLE_TERMINAL_AUTHORITY_MISSING''"
definition TERMINAL_CONFLICT :: js_exn where "TERMINAL_CONFLICT = Coded ''M2_LIFECYCLE_TERMINAL_CONFLICT''"
definition EVENT_CONFLICT :: js_exn where "EVENT_CONFLICT = Coded ''M2_LIFECYCLE_EVENT_CONFLICT''"
definition STORAGE_FAILURE :: js_exn where "STORAGE_FAILURE = Coded ''M2_LIFECYCLE_AUTHORITY_STORAGE_FAILURE''"

text \<open>\<open>catch (error) { if (error instanceof M2LifecycleAuthorityError) throw error; storageFailure(...); }\<close>\<close>

definition or_storage_failure :: "'a js \<Rightarrow> 'a js" where
  "or_storage_failure m = (case m of Inl (Coded c) \<Rightarrow> Inl (Coded c) | Inl e \<Rightarrow> Inl STORAGE_FAILURE | Inr x \<Rightarrow> Inr x)"

definition requireValid :: "validation js \<Rightarrow> unit js" where
  "requireValid m = bindE m (\<lambda>r. if \<not> valid r then Inl INPUT_INVALID else Inr ())"

definition requireTimestamp :: "jsval \<Rightarrow> int js" where
  "requireTimestamp v = (if isCanonicalTimestamp v then Inr (time_of v) else Inl INPUT_INVALID)"

definition requireLifecycleId :: "jsval \<Rightarrow> string js" where
  "requireLifecycleId v = (if isIdentifier v then Inr (str_of v) else Inl INPUT_INVALID)"

definition clock_now :: "jsval \<Rightarrow> int js" where
  "clock_now clock = (case safe_int clock of Some t \<Rightarrow> if 0 \<le> t then Inr t else Inl INPUT_INVALID | None \<Rightarrow> Inl INPUT_INVALID)"

definition parseStored :: "js_env \<Rightarrow> (jsval \<Rightarrow> validation js) \<Rightarrow> string \<Rightarrow> jsval js" where
  "parseStored E validator encoded =
     (case JSON_parse encoded of
        None \<Rightarrow> Inl STORAGE_FAILURE
      | Some v \<Rightarrow>
          if catchE (all_js [valid_js (validator v), bindE (canonicalizeM2ExecutionValue E v) (\<lambda>t. Inr (t = encoded))]) False
          then Inr v else Inl STORAGE_FAILURE)"

definition requireFocusedEnvironment :: "js_env \<Rightarrow> jsval \<Rightarrow> jsval \<Rightarrow> unit js" where
  "requireFocusedEnvironment E v requestDoc =
     (if \<not> validFocusedEnvironment E v then Inl INPUT_INVALID
      else bindE (computeM2ExecutionValueDigest E v) (\<lambda>d.
        if JStr d \<noteq> opt_prop (opt_prop requestDoc ''focusedTest'') ''environmentDigest'' then Inl INPUT_INVALID else Inr ()))"

definition validateCancelIntent :: "js_env \<Rightarrow> jsval \<Rightarrow> jsval \<Rightarrow> string list js" where
  "validateCancelIntent E v planDoc =
     collectE
       [Inr (cancel_shape_errors v),
        Inr (chk (\<not> cancel_fields_ok v) ''lifecycle-cancel-intent:invalid-fields''),
        Inr (chk (\<not> isCanonicalTimestamp (opt_prop v ''requestedAt'')) ''lifecycle-cancel-intent:invalid-requestedAt''),
        if planDoc = JNull then Inr []
        else chkE (any_js
          [digests_differ E (opt_prop v ''identity'') (opt_prop planDoc ''identity''),
           props_differ (opt_prop v ''actor'') ''type'' (opt_prop planDoc ''actor'') ''type'',
           props_differ (opt_prop v ''actor'') ''id'' (opt_prop planDoc ''actor'') ''id''])
          ''lifecycle-cancel-intent:plan-identity-mismatch'']"

definition grant_object :: "jsval \<Rightarrow> jsval" where
  "grant_object v = JObj [(''effectId'', opt_prop v ''effectId''), (''grantId'', opt_prop v ''grantId'')]"

definition canonicalGrantSet :: "jsval \<Rightarrow> jsval js" where
  "canonicalGrantSet values =
     (case values of
        JArr entries \<Rightarrow>
          if entries = [] \<or> length entries > GRANT_SET_MAX then Inl INPUT_INVALID
          else if \<not> list_all (\<lambda>(i, e). grant_entry_ok i e) (enumerate 0 entries) then Inl INPUT_INVALID
          else let granted = sort_key (\<lambda>g. str_of (opt_prop g ''effectId'')) (map grant_object entries)
               in if \<not> distinct (grant_ids ''effectId'' granted) \<or> \<not> distinct (grant_ids ''grantId'' granted)
                  then Inl INPUT_INVALID else Inr (JArr granted)
      | _ \<Rightarrow> Inl INPUT_INVALID)"

section \<open>Reading\<close>

definition stored_request_exact :: "effect_env \<Rightarrow> database \<Rightarrow> request_row \<Rightarrow> jsval \<Rightarrow> bool js" where
  "stored_request_exact E db q v =
     (let J = js_env.truncate E; project = opt_prop v ''project''
      in if opt_prop v ''version'' \<noteq> JInt 2 then Inr True
         else all_js
           [Inr (opt_prop v ''executionId'' = JStr (rq_execution_id q)), Inr (opt_prop v ''runId'' = JStr (rq_run_id q)),
            Inr (strict_eq (opt_prop project ''projectId'') (rq_project_id q)),
            Inr (opt_prop project ''workspaceRevision'' = JStr (rq_workspace_revision q)),
            Inr (opt_prop v ''authoritySetDigest'' = JStr (rq_authority_set_digest q)),
            digest_is (JStr (rq_request_digest q)) (v2_computeM2ProjectChangeRequestDigest J v),
            (case find (\<lambda>f. JStr (ef_effect_id f) = opt_prop (opt_prop (opt_prop v ''focusedTest'') ''authority'') ''effectId'')
                (db_effects db) of
               None \<Rightarrow> Inr False
             | Some f \<Rightarrow> (case JSON_parse (ef_request_json f) of
                  None \<Rightarrow> Inl (Err ''SyntaxError'')
                | Some e \<Rightarrow> Inr (validatePrivateHttpDurablePayload E v e (rq_focused_process_payload q))))])"

definition stored_request :: "effect_env \<Rightarrow> database \<Rightarrow> string \<Rightarrow> jsval js" where
  "stored_request E db executionId =
     (let J = js_env.truncate E
      in case find (\<lambda>q. rq_execution_id q = executionId) (db_requests db) of
           None \<Rightarrow> Inr JNull
         | Some q \<Rightarrow>
             bindE (parseStored J (v2_validateM2ProjectChangeRequest J) (rq_request_json q)) (\<lambda>v.
               if catchE (stored_request_exact E db q v) False then Inr v else Inl STORAGE_FAILURE))"

text \<open>The row stands for the projection the query returns, which leaves out the six documents.\<close>

definition find_operation :: "database \<Rightarrow> string \<Rightarrow> operation_row option" where
  "find_operation db l = find (\<lambda>p. op_lifecycle_id p = l) (db_operations db)"

definition getOperation :: "database \<Rightarrow> jsval \<Rightarrow> operation_row option js" where
  "getOperation db lifecycleId = bindE (requireLifecycleId lifecycleId) (\<lambda>l. Inr (find_operation db l))"

definition operationMaterial :: "database \<Rightarrow> string \<Rightarrow> operation_row option" where
  "operationMaterial db l =
     (case find_operation db l of
        None \<Rightarrow> None
      | Some p \<Rightarrow> if requests_of db p = [] then None else Some p)"

definition getPlan :: "effect_env \<Rightarrow> database \<Rightarrow> jsval \<Rightarrow> jsval js" where
  "getPlan E db lifecycleId =
     (let J = js_env.truncate E
      in bindE (requireLifecycleId lifecycleId) (\<lambda>l.
           case operationMaterial db l of
             None \<Rightarrow> Inr JNull
           | Some p \<Rightarrow>
               bindE (parseStored J (v2_validateM2LifecyclePlanSnapshot J) (op_plan_json p)) (\<lambda>planDoc.
               bindE (stored_request E db (op_execution_id p)) (\<lambda>requestDoc.
               bindE (parseStored J (\<lambda>v. Inr (validateProjectContextSnapshot J v)) (op_context_snapshot_json p)) (\<lambda>snapshot.
               bindE (parseStored J (validateM2GovernanceDecision J) (op_decision_json p)) (\<lambda>decision.
               bindE (all_js
                 [valid_js (v2_validateM2LifecyclePlanSnapshotForContext J snapshot planDoc),
                  valid_js (v2_validateM2LifecyclePlanSnapshotForDecision J requestDoc decision planDoc),
                  digest_is (JStr (op_plan_digest p)) (v2_computeM2LifecyclePlanSnapshotDigest J planDoc)]) (\<lambda>ok.
                 if ok then Inr planDoc else Inl STORAGE_FAILURE)))))))"

definition getRequest :: "effect_env \<Rightarrow> database \<Rightarrow> jsval \<Rightarrow> jsval js" where
  "getRequest E db lifecycleId =
     bindE (getOperation db lifecycleId) (\<lambda>p. case p of None \<Rightarrow> Inr JNull | Some p \<Rightarrow> stored_request E db (op_execution_id p))"

text \<open>The getters of one stored document.\<close>

definition stored_document :: "database \<Rightarrow> jsval \<Rightarrow> (operation_row \<Rightarrow> jsval js) \<Rightarrow> jsval js" where
  "stored_document db lifecycleId read =
     bindE (requireLifecycleId lifecycleId) (\<lambda>l. case operationMaterial db l of None \<Rightarrow> Inr JNull | Some p \<Rightarrow> read p)"

definition getContextSnapshot :: "js_env \<Rightarrow> database \<Rightarrow> jsval \<Rightarrow> jsval js" where
  "getContextSnapshot E db lifecycleId = stored_document db lifecycleId (\<lambda>p.
     parseStored E (\<lambda>v. Inr (validateProjectContextSnapshot E v)) (op_context_snapshot_json p))"

definition getFocusedEnvironment :: "js_env \<Rightarrow> database \<Rightarrow> jsval \<Rightarrow> jsval js" where
  "getFocusedEnvironment E db lifecycleId = stored_document db lifecycleId (\<lambda>p.
     case JSON_parse (op_focused_environment_json p) of
       None \<Rightarrow> Inl STORAGE_FAILURE
     | Some v \<Rightarrow>
         if validFocusedEnvironment E v
           \<and> catchE (all_js [bindE (canonicalizeM2ExecutionValue E v) (\<lambda>t. Inr (t = op_focused_environment_json p)),
               digest_is (JStr (op_focused_environment_digest p)) (computeM2ExecutionValueDigest E v)]) False
         then Inr v else Inl STORAGE_FAILURE)"

definition getPolicy :: "js_env \<Rightarrow> database \<Rightarrow> jsval \<Rightarrow> jsval js" where
  "getPolicy E db lifecycleId = stored_document db lifecycleId (\<lambda>p.
     parseStored E (\<lambda>v. Inr (validateM2GovernancePolicySnapshot E v)) (op_policy_json p))"

definition getBaseline :: "js_env \<Rightarrow> database \<Rightarrow> jsval \<Rightarrow> jsval js" where
  "getBaseline E db lifecycleId = stored_document db lifecycleId (\<lambda>p.
     parseStored E (\<lambda>v. Inr (validateM2GovernanceBaselineSnapshot E v)) (op_baseline_json p))"

definition getDecision :: "js_env \<Rightarrow> database \<Rightarrow> jsval \<Rightarrow> jsval js" where
  "getDecision E db lifecycleId = stored_document db lifecycleId (\<lambda>p.
     parseStored E (validateM2GovernanceDecision E) (op_decision_json p))"

definition getApprovalIntent :: "js_env \<Rightarrow> database \<Rightarrow> jsval \<Rightarrow> jsval js" where
  "getApprovalIntent E db lifecycleId =
     bindE (requireLifecycleId lifecycleId) (\<lambda>l.
       case find (\<lambda>a. ap_lifecycle_id a = l) (db_approvals db) of
         None \<Rightarrow> Inr JNull
       | Some a \<Rightarrow> parseStored E (\<lambda>v. Inr (validateM2LifecycleApprovalIntent v)) (ap_intent_json a))"

definition getGrantSet :: "js_env \<Rightarrow> database \<Rightarrow> jsval \<Rightarrow> (jsval \<times> string) option js" where
  "getGrantSet E db lifecycleId =
     bindE (requireLifecycleId lifecycleId) (\<lambda>l.
       case find (\<lambda>g. gs_lifecycle_id g = l) (db_grant_sets db) of
         None \<Rightarrow> Inr None
       | Some g \<Rightarrow>
           or_storage_failure
             (case JSON_parse (gs_grant_set_json g) of
                None \<Rightarrow> Inl (Err ''SyntaxError'')
              | Some v \<Rightarrow>
                  bindE (canonicalGrantSet v) (\<lambda>canonical.
                  bindE (all_js [bindE (canonicalizeM2ExecutionValue E canonical) (\<lambda>t. Inr (t = gs_grant_set_json g)),
                      digest_is (JStr (gs_grant_set_digest g)) (computeM2ExecutionValueDigest E canonical)]) (\<lambda>ok.
                    if ok then Inr (Some (canonical, gs_grant_set_digest g)) else Inl (Err ''stored grant set mismatch'')))))"

definition getCancelIntent :: "effect_env \<Rightarrow> database \<Rightarrow> jsval \<Rightarrow> jsval js" where
  "getCancelIntent E db lifecycleId =
     (let J = js_env.truncate E
      in bindE (requireLifecycleId lifecycleId) (\<lambda>l.
           case find (\<lambda>c. ca_lifecycle_id c = l) (db_cancels db) of
             None \<Rightarrow> Inr JNull
           | Some c \<Rightarrow>
               or_storage_failure
                 (case JSON_parse (ca_intent_json c) of
                    None \<Rightarrow> Inl (Err ''SyntaxError'')
                  | Some v \<Rightarrow>
                      bindE (getPlan E db (JStr l)) (\<lambda>planDoc.
                      bindE (validateCancelIntent J v planDoc) (\<lambda>es.
                        if es \<noteq> [] then Inl (Err ''stored cancel intent invalid'')
                        else bindE (canonicalizeM2ExecutionValue J v) (\<lambda>t.
                          if t \<noteq> ca_intent_json c then Inl (Err ''stored cancel intent invalid'') else Inr v))))))"

definition getReceipt :: "js_env \<Rightarrow> database \<Rightarrow> jsval \<Rightarrow> jsval js" where
  "getReceipt E db lifecycleId =
     bindE (requireLifecycleId lifecycleId) (\<lambda>l.
       case find (\<lambda>c. rc_lifecycle_id c = l) (db_receipts db) of
         None \<Rightarrow> Inr JNull
       | Some c \<Rightarrow> parseStored E (\<lambda>v. Inr (validateM2GovernanceReceipt E v)) (rc_receipt_json c))"

definition getTerminal :: "js_env \<Rightarrow> database \<Rightarrow> jsval \<Rightarrow> jsval js" where
  "getTerminal E db lifecycleId =
     bindE (requireLifecycleId lifecycleId) (\<lambda>l.
       case find (\<lambda>t. te_lifecycle_id t = l) (db_terminals db) of
         None \<Rightarrow> Inr JNull
       | Some t \<Rightarrow> parseStored E (\<lambda>v. Inr (validateM2LifecycleTerminalSnapshot E v)) (te_terminal_json t))"

section \<open>Recording\<close>

text \<open>What a recording returns: the database, whether a row was created, and the document.\<close>

type_synonym recorded = "database \<times> bool \<times> jsval"

text \<open>
  The handler of a refused insert: the row with the same bytes counts as recorded before, another row
  with one of the identities is a conflict, and otherwise the message of the trigger decides.
\<close>

definition replayed :: "database \<Rightarrow> jsval \<Rightarrow> string option \<Rightarrow> string \<Rightarrow> js_exn \<Rightarrow> js_exn \<Rightarrow> recorded js" where
  "replayed db v existing encoded conflict otherwise =
     (case existing of
        None \<Rightarrow> Inl otherwise
      | Some t \<Rightarrow> if t = encoded then Inr (db, False, v) else Inl conflict)"

text \<open>\<open>try { insert; return created } catch (error) { handler }\<close>\<close>

definition attempt :: "(sql_error + database) \<Rightarrow> 'a \<Rightarrow> (sql_error \<Rightarrow> (database \<times> bool \<times> 'a) js) \<Rightarrow> (database \<times> bool \<times> 'a) js" where
  "attempt inserted v handler = (case inserted of Inr db' \<Rightarrow> Inr (db', True, v) | Inl e \<Rightarrow> handler e)"

definition raised :: "string \<Rightarrow> sql_error \<Rightarrow> bool" where
  "raised message e = (e = Raised message)"

text \<open>\<open>input?.key ?? input\<close>, and the test that a wrapped document names the same lifecycle.\<close>

definition unwrap :: "jsval \<Rightarrow> string \<Rightarrow> jsval" where
  "unwrap input k = or_value (opt_prop input k) input"

definition wrapper_mismatch :: "jsval \<Rightarrow> string \<Rightarrow> jsval \<Rightarrow> bool" where
  "wrapper_mismatch input k lifecycleId \<longleftrightarrow>
     truthy (opt_prop input k) \<and> \<not> strict_eq (opt_prop input ''lifecycleId'') lifecycleId"

record operation_texts =
  ot_material :: "string material"
  ot_operation_digest :: string
  ot_plan_digest :: string
  ot_request_digest :: string
  ot_environment_digest :: string

definition encode_operation :: "js_env \<Rightarrow> jsval material \<Rightarrow> operation_texts js" where
  "encode_operation E m =
     (let c = canonicalizeM2ExecutionValue E
      in bindE (c (m_plan m)) (\<lambda>planJson.
         bindE (c (m_context m)) (\<lambda>contextJson.
         bindE (c (m_environment m)) (\<lambda>environmentJson.
         bindE (c (m_policy m)) (\<lambda>policyJson.
         bindE (c (m_baseline m)) (\<lambda>baselineJson.
         bindE (c (m_decision m)) (\<lambda>decisionJson.
         bindE (operationProjection E m) (\<lambda>projection.
         bindE (computeM2ExecutionValueDigest E projection) (\<lambda>operationDig.
         bindE (v2_computeM2LifecyclePlanSnapshotDigest E (m_plan m)) (\<lambda>planDigest.
         bindE (v2_computeM2ProjectChangeRequestDigest E (m_request m)) (\<lambda>requestDigest.
         bindE (computeM2ExecutionValueDigest E (m_environment m)) (\<lambda>environmentDigest.
           Inr \<lparr>ot_material = \<lparr>m_plan = planJson, m_request = [], m_context = contextJson, m_environment = environmentJson,
                    m_policy = policyJson, m_baseline = baselineJson, m_decision = decisionJson\<rparr>,
                ot_operation_digest = operationDig, ot_plan_digest = planDigest, ot_request_digest = requestDigest,
                ot_environment_digest = environmentDigest\<rparr>))))))))))))"

definition operation_values :: "jsval material \<Rightarrow> operation_texts \<Rightarrow> int \<Rightarrow> int \<Rightarrow> operation_row" where
  "operation_values m t createdAtMs expiresAtMs =
     (let planDoc = m_plan m; identity = opt_prop planDoc ''identity''; s = (\<lambda>v k. str_of (opt_prop v k)); texts = ot_material t
      in \<lparr>op_lifecycle_id = s identity ''lifecycleId'', op_milestone_id = s identity ''milestoneId'',
          op_run_id = s identity ''runId'', op_execution_id = s identity ''executionId'',
          op_project_id = opt_prop (opt_prop planDoc ''project'') ''projectId'', op_plan_version = opt_prop planDoc ''planVersion'',
          op_plan_digest = ot_plan_digest t, op_request_digest = ot_request_digest t,
          op_authority_set_digest = s (m_request m) ''authoritySetDigest'',
          op_context_snapshot_digest = s planDoc ''contextSnapshotDigest'',
          op_focused_environment_digest = ot_environment_digest t,
          op_policy_digest = s planDoc ''governancePolicyDigest'', op_baseline_digest = s planDoc ''governanceBaselineDigest'',
          op_decision_digest = s planDoc ''governanceDecisionDigest'',
          op_expected_after_revision = s planDoc ''expectedAfterRevision'', op_operation_digest = ot_operation_digest t,
          op_plan_json = m_plan texts, op_context_snapshot_json = m_context texts, op_focused_environment_json = m_environment texts,
          op_policy_json = m_policy texts, op_baseline_json = m_baseline texts, op_decision_json = m_decision texts,
          op_created_at_ms = createdAtMs, op_approval_expires_at_ms = expiresAtMs\<rparr>)"

text \<open>The documents must be accepted one by one, bind each other, and belong to one project and revision.\<close>

definition require_material :: "js_env \<Rightarrow> jsval material \<Rightarrow> unit js" where
  "require_material E m =
     bindE (requireValid (v2_validateM2LifecyclePlanSnapshot E (m_plan m))) (\<lambda>_.
     bindE (requireValid (v2_validateM2ProjectChangeRequest E (m_request m))) (\<lambda>_.
     bindE (requireValid (Inr (validateProjectContextSnapshot E (m_context m)))) (\<lambda>_.
     bindE (requireValid (Inr (validateM2GovernancePolicySnapshot E (m_policy m)))) (\<lambda>_.
     bindE (requireValid (Inr (validateM2GovernanceBaselineSnapshot E (m_baseline m)))) (\<lambda>_.
     bindE (requireValid (validateM2GovernanceDecision E (m_decision m))) (\<lambda>_.
     bindE (requireFocusedEnvironment E (m_environment m) (m_request m)) (\<lambda>_.
     bindE (v2_validateM2LifecyclePlanSnapshotForContext E (m_context m) (m_plan m)) (\<lambda>ctx.
     bindE (v2_validateM2LifecyclePlanSnapshotForDecision E (m_request m) (m_decision m) (m_plan m)) (\<lambda>dec.
     bindE (all_js ([Inr (valid ctx \<and> valid dec)] @ snapshots_bound E m)) (\<lambda>ok.
       if ok then Inr () else Inl INPUT_INVALID))))))))))"

definition existing_operation :: "database \<Rightarrow> operation_row \<Rightarrow> operation_row option" where
  "existing_operation db r =
     (case find_operation db (op_lifecycle_id r) of
        Some p \<Rightarrow> Some p
      | None \<Rightarrow> find (\<lambda>p. op_execution_id p = op_execution_id r \<or> op_run_id p = op_run_id r) (db_operations db))"

definition store_operation :: "effect_env \<Rightarrow> database \<Rightarrow> jsval \<Rightarrow> operation_row \<Rightarrow> (database \<times> bool \<times> operation_row option) js" where
  "store_operation E db requestDoc r =
     (let J = js_env.truncate E
      in bindE (stored_request E db (str_of (opt_prop requestDoc ''executionId''))) (\<lambda>stored.
         bindE (if \<not> truthy stored then Inr False
                else bindE (canonicalizeM2ExecutionValue J stored) (\<lambda>a.
                  bindE (canonicalizeM2ExecutionValue J requestDoc) (\<lambda>b. Inr (a = b)))) (\<lambda>registered.
           if \<not> registered then Inl OPERATION_NOT_FOUND
           else case existing_operation db r of
             Some p \<Rightarrow>
               if op_lifecycle_id p = op_lifecycle_id r \<and> op_operation_digest p = op_operation_digest r
               then bindE (getOperation db (JStr (op_lifecycle_id r))) (\<lambda>found. Inr (db, False, found)) else Inl OPERATION_CONFLICT
           | None \<Rightarrow>
               (case insert_operation J r db of
                  Inl e \<Rightarrow> if raised ''M2_LIFECYCLE_OPERATION_AUTHORITY_MISMATCH'' e then Inl OPERATION_CONFLICT else Inl STORAGE_FAILURE
                | Inr db' \<Rightarrow> bindE (getOperation db' (JStr (op_lifecycle_id r))) (\<lambda>found. Inr (db', True, found))))))"

definition registerOperation :: "effect_env \<Rightarrow> jsval material \<Rightarrow> database \<Rightarrow> (database \<times> bool \<times> operation_row option) js" where
  "registerOperation E m db =
     (let J = js_env.truncate E; planDoc = m_plan m
      in bindE (require_material J m) (\<lambda>_.
         bindE (encode_operation J m) (\<lambda>texts.
         bindE (requireTimestamp (opt_prop planDoc ''createdAt'')) (\<lambda>createdAtMs.
         bindE (requireTimestamp (opt_prop planDoc ''approvalExpiresAt'')) (\<lambda>expiresAtMs.
           or_storage_failure (store_operation E db (m_request m) (operation_values m texts createdAtMs expiresAtMs)))))))"

definition approval_twin :: "database \<Rightarrow> string \<Rightarrow> string \<Rightarrow> string \<Rightarrow> string option" where
  "approval_twin db l i d =
     map_option ap_intent_json (find (\<lambda>a. ap_lifecycle_id a = l \<or> ap_approval_id a = i \<or> ap_intent_digest a = d) (db_approvals db))"

definition approval_values :: "jsval \<Rightarrow> string \<Rightarrow> string \<Rightarrow> int \<Rightarrow> int \<Rightarrow> int \<Rightarrow> approval_row" where
  "approval_values v digest encoded approvedAtMs expiresAtMs now =
     \<lparr>ap_lifecycle_id = str_of (opt_prop (opt_prop v ''identity'') ''lifecycleId''), ap_approval_id = str_of (opt_prop v ''approvalId''),
      ap_plan_digest = str_of (opt_prop v ''planDigest''), ap_request_digest = str_of (opt_prop v ''requestDigest''),
      ap_authority_set_digest = str_of (opt_prop v ''authoritySetDigest''), ap_actor_id = str_of (opt_prop (opt_prop v ''actor'') ''id''),
      ap_intent_digest = digest, ap_intent_json = encoded, ap_approved_at_ms = approvedAtMs, ap_expires_at_ms = expiresAtMs,
      ap_recorded_at_ms = now\<rparr>"

definition recordApprovalIntent :: "effect_env \<Rightarrow> jsval \<Rightarrow> jsval \<Rightarrow> database \<Rightarrow> recorded js" where
  "recordApprovalIntent E clock input db =
     (let J = js_env.truncate E; v = unwrap input ''approval''; lifecycleId = opt_prop (opt_prop v ''identity'') ''lifecycleId'';
          l = str_of lifecycleId
      in if wrapper_mismatch input ''approval'' lifecycleId then Inl INPUT_INVALID
         else bindE (requireValid (Inr (validateM2LifecycleApprovalIntent v))) (\<lambda>_.
         bindE (getPlan E db lifecycleId) (\<lambda>planDoc.
           if \<not> truthy planDoc then Inl OPERATION_NOT_FOUND
           else bindE (requireValid (v2_validateM2LifecycleApprovalIntentForPlan J planDoc v)) (\<lambda>_.
           bindE (requireTimestamp (opt_prop v ''approvedAt'')) (\<lambda>approvedAtMs.
           bindE (requireTimestamp (opt_prop v ''expiresAt'')) (\<lambda>expiresAtMs.
           bindE (canonicalizeM2ExecutionValue J v) (\<lambda>encoded.
           bindE (computeM2LifecycleApprovalIntentDigest J v) (\<lambda>digest.
             let twin = approval_twin db l (str_of (opt_prop v ''approvalId'')) digest
             in if twin \<noteq> None then replayed db v twin encoded APPROVAL_CONFLICT STORAGE_FAILURE
                else bindE (clock_now clock) (\<lambda>now.
                  if now < approvedAtMs \<or> expiresAtMs \<le> now then Inl INPUT_INVALID
                  else attempt (insert_approval J (approval_values v digest encoded approvedAtMs expiresAtMs now) db) v
                    (\<lambda>_. replayed db v twin encoded APPROVAL_CONFLICT STORAGE_FAILURE))))))))))"

definition recordGrantSet :: "js_env \<Rightarrow> jsval \<Rightarrow> jsval \<Rightarrow> jsval \<Rightarrow> jsval \<Rightarrow> database \<Rightarrow> recorded js" where
  "recordGrantSet E clock lifecycleId approvalIntentDigest grantValues db =
     bindE (requireLifecycleId lifecycleId) (\<lambda>l.
     bindE (getOperation db lifecycleId) (\<lambda>found.
       case found of
         None \<Rightarrow> Inl OPERATION_NOT_FOUND
       | Some p \<Rightarrow>
           bindE (getApprovalIntent E db lifecycleId) (\<lambda>approvalDoc.
             if \<not> truthy approvalDoc then Inl INPUT_INVALID
             else bindE (computeM2LifecycleApprovalIntentDigest E approvalDoc) (\<lambda>durable.
               if approvalIntentDigest \<noteq> JUndef \<and> approvalIntentDigest \<noteq> JNull \<and> approvalIntentDigest \<noteq> JStr durable
               then Inl INPUT_INVALID
               else bindE (canonicalGrantSet grantValues) (\<lambda>granted.
               bindE (canonicalizeM2ExecutionValue E granted) (\<lambda>encoded.
               bindE (computeM2ExecutionValueDigest E granted) (\<lambda>digest.
               bindE (clock_now clock) (\<lambda>now.
                 let r = \<lparr>gs_lifecycle_id = l, gs_approval_intent_digest = durable,
                       gs_authority_set_digest = op_authority_set_digest p, gs_grant_set_digest = digest,
                       gs_grant_set_json = encoded, gs_recorded_at_ms = now\<rparr>
                 in attempt (insert_grant_set E r db) granted
                      (\<lambda>e. replayed db granted (map_option gs_grant_set_json
                          (find (\<lambda>g. gs_lifecycle_id g = l \<or> gs_grant_set_digest g = digest) (db_grant_sets db)))
                        encoded GRANT_SET_CONFLICT
                        (if raised ''M2_LIFECYCLE_GRANT_SET_INCOMPLETE'' e then GRANT_SET_INCOMPLETE else STORAGE_FAILURE))))))))))"

text \<open>A service may give the fields of a cancellation without its identity; the repository completes it.\<close>

definition service_cancel :: "jsval \<Rightarrow> bool" where
  "service_cancel input \<longleftrightarrow>
     truthy input \<and> \<not> truthy (opt_prop input ''identity'') \<and> isIdentifier (opt_prop input ''lifecycleId'')"

definition complete_cancel :: "js_env \<Rightarrow> jsval \<Rightarrow> jsval \<Rightarrow> jsval js" where
  "complete_cancel E input planDoc =
     bindE (computeM2ExecutionValueDigest E (JObj
       [(''lifecycleId'', opt_prop input ''lifecycleId''), (''actorId'', opt_prop input ''actorId''),
        (''reason'', opt_prop input ''reason''), (''requestedAt'', opt_prop input ''requestedAt'')])) (\<lambda>d.
       Inr (JObj [(''cancelId'', JStr (''cancel:'' @ drop 7 d)), (''identity'', opt_prop planDoc ''identity''),
         (''actor'', JObj [(''type'', JStr ''user''), (''id'', opt_prop input ''actorId'')]),
         (''reason'', opt_prop input ''reason''), (''requestedAt'', opt_prop input ''requestedAt'')]))"

definition recordCancelIntent :: "effect_env \<Rightarrow> jsval \<Rightarrow> jsval \<Rightarrow> database \<Rightarrow> recorded js" where
  "recordCancelIntent E clock input db =
     (let J = js_env.truncate E; service = service_cancel input;
          lifecycleId = (if service then opt_prop input ''lifecycleId'' else opt_prop (opt_prop input ''identity'') ''lifecycleId'')
      in bindE (requireLifecycleId lifecycleId) (\<lambda>l.
         bindE (getPlan E db lifecycleId) (\<lambda>planDoc.
           if \<not> truthy planDoc then Inl OPERATION_NOT_FOUND
           else bindE (if service then complete_cancel J input planDoc else Inr input) (\<lambda>v.
           bindE (validateCancelIntent J v planDoc) (\<lambda>es.
             if es \<noteq> [] then Inl INPUT_INVALID
             else bindE (requireTimestamp (opt_prop v ''requestedAt'')) (\<lambda>requestedAtMs.
             bindE (clock_now clock) (\<lambda>now.
               if now < requestedAtMs then Inl INPUT_INVALID
               else bindE (canonicalizeM2ExecutionValue J v) (\<lambda>encoded.
               bindE (computeM2ExecutionValueDigest J v) (\<lambda>digest.
                 let cancelId = str_of (opt_prop v ''cancelId'');
                     r = \<lparr>ca_lifecycle_id = l, ca_cancel_id = cancelId, ca_actor_id = str_of (opt_prop (opt_prop v ''actor'') ''id''),
                       ca_intent_digest = digest, ca_intent_json = encoded, ca_requested_at_ms = requestedAtMs\<rparr>
                 in attempt (insert_cancel J r db) v
                      (\<lambda>_. replayed db v (map_option ca_intent_json
                        (find (\<lambda>c. ca_lifecycle_id c = l \<or> ca_cancel_id c = cancelId \<or> ca_intent_digest c = digest) (db_cancels db)))
                        encoded CANCEL_CONFLICT STORAGE_FAILURE))))))))))"

text \<open>The result of an execution as the repository reads it: \<open>JSON.parse\<close> without a check.\<close>

definition stored_result :: "database \<Rightarrow> operation_row \<Rightarrow> jsval option js" where
  "stored_result db p =
     (case results_of db p of
        [] \<Rightarrow> Inr None
      | w # _ \<Rightarrow> (case JSON_parse (re_result_json w) of None \<Rightarrow> Inl STORAGE_FAILURE | Some v \<Rightarrow> Inr (Some v)))"

text \<open>The time stamp of a receipt is read inside the \<open>try\<close> of the insert.\<close>

definition insert_dated_receipt :: "js_env \<Rightarrow> int js \<Rightarrow> receipt_row \<Rightarrow> database \<Rightarrow> sql_error + database" where
  "insert_dated_receipt E recordedAt r db =
     (case recordedAt of Inl _ \<Rightarrow> Inl Constraint | Inr ms \<Rightarrow> insert_receipt E (r\<lparr>rc_recorded_at_ms := ms\<rparr>) db)"

definition recordReceipt :: "effect_env \<Rightarrow> jsval \<Rightarrow> database \<Rightarrow> recorded js" where
  "recordReceipt E input db =
     (let J = js_env.truncate E; v = unwrap input ''receipt''; lifecycleId = opt_prop v ''lifecycleId''; l = str_of lifecycleId
      in if wrapper_mismatch input ''receipt'' lifecycleId then Inl INPUT_INVALID
         else bindE (requireValid (Inr (validateM2GovernanceReceipt J v))) (\<lambda>_.
         bindE (getOperation db lifecycleId) (\<lambda>found.
           case found of
             None \<Rightarrow> Inl OPERATION_NOT_FOUND
           | Some p \<Rightarrow>
               bindE (getCancelIntent E db lifecycleId) (\<lambda>cancelDoc.
                 if truthy cancelDoc then Inl RECEIPT_CONFLICT
                 else bindE (stored_request E db (op_execution_id p)) (\<lambda>requestDoc.
                 bindE (getDecision J db lifecycleId) (\<lambda>decision.
                   if results_of db p = [] \<or> \<not> truthy decision then Inl INPUT_INVALID
                   else bindE (stored_result db p) (\<lambda>w.
                   bindE (requireValid (v2_validateM2GovernanceReceiptForDecision J requestDoc
                     (case w of None \<Rightarrow> JNull | Some x \<Rightarrow> x) decision v)) (\<lambda>_.
                   bindE (canonicalizeM2ExecutionValue J v) (\<lambda>encoded.
                   bindE (computeM2GovernanceReceiptDigest J v) (\<lambda>digest.
                     let receiptId = str_of (opt_prop v ''receiptId'')
                     in attempt (insert_dated_receipt J (requireTimestamp (opt_prop v ''recordedAt''))
                            \<lparr>rc_lifecycle_id = l, rc_receipt_id = receiptId, rc_decision_digest = str_of (opt_prop v ''decisionDigest''),
                             rc_result_digest = str_of (opt_prop v ''resultDigest''), rc_receipt_digest = digest,
                             rc_receipt_json = encoded, rc_recorded_at_ms = 0\<rparr> db) v
                        (\<lambda>_. replayed db v (map_option rc_receipt_json
                            (find (\<lambda>c. rc_lifecycle_id c = l \<or> rc_receipt_id c = receiptId \<or> rc_receipt_digest c = digest) (db_receipts db)))
                            encoded RECEIPT_CONFLICT STORAGE_FAILURE)))))))))))"

text \<open>
  A success is checked against the documents the getters return; any other terminal by the SQL function
  over the joined rows.
\<close>

definition terminal_documents :: "jsval \<Rightarrow> jsval \<Rightarrow> jsval \<Rightarrow> jsval \<Rightarrow> jsval option \<Rightarrow> jsval \<Rightarrow> jsval \<Rightarrow> jsval \<Rightarrow> execution_documents" where
  "terminal_documents snapshot planDoc approvalDoc requestDoc w decision receiptDoc v =
     \<lparr>contextSnapshot = snapshot, plan = planDoc, approval = approvalDoc, request = requestDoc,
      result = (case w of None \<Rightarrow> JNull | Some x \<Rightarrow> x), governanceDecision = decision, governanceReceipt = receiptDoc, terminal = v\<rparr>"

definition durable_terminal :: "js_env \<Rightarrow> database \<Rightarrow> operation_row \<Rightarrow> string \<Rightarrow> int \<Rightarrow> bool" where
  "durable_terminal E db p encoded completedAtMs =
     (case requests_of db p of
        [] \<Rightarrow> False
      | q # _ \<Rightarrow> terminalValid E (stored_for p q (find (\<lambda>a. ap_lifecycle_id a = op_lifecycle_id p) (db_approvals db))
          (find (\<lambda>w. re_execution_id w = op_execution_id p) (db_results db))
          (find (\<lambda>c. rc_lifecycle_id c = op_lifecycle_id p) (db_receipts db))) encoded completedAtMs)"

definition recordTerminal :: "effect_env \<Rightarrow> jsval \<Rightarrow> database \<Rightarrow> recorded js" where
  "recordTerminal E input db =
     (let J = js_env.truncate E; v = unwrap input ''terminal''; lifecycleId = opt_prop (opt_prop v ''identity'') ''lifecycleId'';
          l = str_of lifecycleId
      in if wrapper_mismatch input ''terminal'' lifecycleId then Inl INPUT_INVALID
         else bindE (requireValid (Inr (validateM2LifecycleTerminalSnapshot J v))) (\<lambda>_.
         bindE (getOperation db lifecycleId) (\<lambda>found.
           case found of
             None \<Rightarrow> Inl OPERATION_NOT_FOUND
           | Some p \<Rightarrow>
               bindE (getPlan E db lifecycleId) (\<lambda>planDoc.
               bindE (getContextSnapshot J db lifecycleId) (\<lambda>snapshot.
               bindE (getApprovalIntent J db lifecycleId) (\<lambda>approvalDoc.
               bindE (stored_request E db (op_execution_id p)) (\<lambda>requestDoc.
               bindE (getDecision J db lifecycleId) (\<lambda>decision.
               bindE (getReceipt J db lifecycleId) (\<lambda>receiptDoc.
               bindE (stored_result db p) (\<lambda>w.
               bindE (canonicalizeM2ExecutionValue J v) (\<lambda>encoded.
               bindE (requireTimestamp (opt_prop v ''completedAt'')) (\<lambda>completedAtMs.
               bindE (computeM2LifecycleTerminalSnapshotDigest J v) (\<lambda>digest.
               bindE (if opt_prop v ''state'' = JStr ''succeeded''
                      then valid_js (v2_validateM2LifecycleTerminalSnapshotForExecution J
                        (terminal_documents snapshot planDoc approvalDoc requestDoc w decision receiptDoc v))
                      else Inr (durable_terminal J db p encoded completedAtMs)) (\<lambda>ok.
                 if \<not> ok then Inl TERMINAL_AUTHORITY_MISSING
                 else let executionId = str_of (opt_prop (opt_prop v ''identity'') ''executionId'');
                      r = \<lparr>te_lifecycle_id = l, te_execution_id = executionId, te_terminal_status = str_of (opt_prop v ''state''),
                        te_terminal_digest = digest, te_terminal_json = encoded, te_completed_at_ms = completedAtMs\<rparr>
                      in attempt (insert_terminal J r db) v
                           (\<lambda>e. replayed db v (map_option te_terminal_json
                             (find (\<lambda>t. te_lifecycle_id t = l \<or> te_execution_id t = executionId \<or> te_terminal_digest t = digest) (db_terminals db)))
                             encoded (if raised ''M2_LIFECYCLE_TERMINAL_AUTHORITY_MISSING'' e then TERMINAL_AUTHORITY_MISSING else TERMINAL_CONFLICT)
                             (if raised ''M2_LIFECYCLE_TERMINAL_AUTHORITY_MISSING'' e then TERMINAL_AUTHORITY_MISSING else STORAGE_FAILURE))))))))))))))))"

text \<open>Parameters with a default take it for \<open>undefined\<close>; the event type may come under two names.\<close>

definition given_or :: "jsval \<Rightarrow> jsval \<Rightarrow> jsval" where
  "given_or v d = (if v = JUndef then d else v)"

definition appendEvent :: "js_env \<Rightarrow> nat \<Rightarrow> jsval \<Rightarrow> jsval \<Rightarrow> jsval \<Rightarrow> jsval \<Rightarrow> jsval \<Rightarrow> jsval \<Rightarrow> database
    \<Rightarrow> (database \<times> bool \<times> int) js" where
  "appendEvent E skipped clock eventId lifecycleId type eventType details db =
     bindE (requireLifecycleId lifecycleId) (\<lambda>l.
       let resolved = or_value type (given_or eventType JNull); body = given_or details (JObj [])
       in if \<not> isIdentifier eventId \<or> \<not> str_in resolved EVENT_TYPES \<or> \<not> isPlainRecord body then Inl INPUT_INVALID
          else bindE (canonicalizeM2ExecutionValue E body) (\<lambda>detailsJson.
            if length detailsJson > 65536 then Inl INPUT_INVALID
            else bindE (clock_now clock) (\<lambda>now.
              let r = \<lparr>ev_seq = 0, ev_event_id = str_of eventId, ev_lifecycle_id = l, ev_event_type = str_of resolved,
                       ev_occurred_at_ms = now, ev_details_json = detailsJson\<rparr>
              in attempt (insert_event E skipped r db) now
                   (\<lambda>_. case find (\<lambda>x. ev_event_id x = str_of eventId) (db_events db) of
                        None \<Rightarrow> Inl STORAGE_FAILURE
                      | Some x \<Rightarrow>
                          if ev_lifecycle_id x = l \<and> ev_event_type x = str_of resolved \<and> ev_details_json x = detailsJson
                          then Inr (db, False, ev_occurred_at_ms x) else Inl EVENT_CONFLICT))))"

section \<open>Listing\<close>

record listed_event =
  le_seq :: int
  le_event_id :: string
  le_type :: string
  le_occurred_at_ms :: int
  le_details :: jsval

definition listEvents :: "database \<Rightarrow> jsval \<Rightarrow> listed_event list js" where
  "listEvents db lifecycleId =
     bindE (requireLifecycleId lifecycleId) (\<lambda>l.
       mapE (\<lambda>x. case JSON_parse (ev_details_json x) of
               None \<Rightarrow> Inl STORAGE_FAILURE
             | Some v \<Rightarrow> Inr \<lparr>le_seq = ev_seq x, le_event_id = ev_event_id x, le_type = ev_event_type x,
                 le_occurred_at_ms = ev_occurred_at_ms x, le_details = v\<rparr>)
         (sort_key ev_seq (filter (\<lambda>x. ev_lifecycle_id x = l) (db_events db))))"

definition owned_row_ok :: "effect_env \<Rightarrow> database \<Rightarrow> jsval \<Rightarrow> operation_row \<Rightarrow> (string \<times> int) js" where
  "owned_row_ok E db actorId p =
     bindE (getPlan E db (JStr (op_lifecycle_id p))) (\<lambda>planDoc.
       if truthy planDoc \<and> opt_prop (opt_prop planDoc ''actor'') ''type'' = JStr ''user''
          \<and> strict_eq (opt_prop (opt_prop planDoc ''actor'') ''id'') actorId
          \<and> date_is (opt_prop planDoc ''createdAt'') (op_created_at_ms p)
       then Inr (op_lifecycle_id p, op_created_at_ms p) else Inl (Err ''owned lifecycle index does not match canonical plan''))"

definition listOwnedOperations :: "effect_env \<Rightarrow> database \<Rightarrow> jsval \<Rightarrow> jsval \<Rightarrow> (string \<times> int) list js" where
  "listOwnedOperations E db actorId limit =
     (if \<not> isIdentifier actorId \<or> \<not> int_in limit 1 2001 then Inl INPUT_INVALID
      else or_storage_failure (mapE (owned_row_ok E db actorId)
        (take (nat (case safe_int limit of None \<Rightarrow> 0 | Some n \<Rightarrow> n))
          (rev (sort_key (\<lambda>p. (op_created_at_ms p, op_lifecycle_id p))
            (filter (\<lambda>p. json_extract (op_plan_json p) [''actor'', ''id''] = actorId) (db_operations db)))))))"

record recoverable =
  rv_lifecycle_id :: string
  rv_run_id :: string
  rv_execution_id :: string
  rv_project_id :: jsval
  rv_state :: string
  rv_has_approval :: bool
  rv_has_grant_set :: bool
  rv_has_cancel_intent :: bool
  rv_has_execution_result :: bool
  rv_has_receipt :: bool

definition lifecycle_state :: "database \<Rightarrow> operation_row \<Rightarrow> string" where
  "lifecycle_state db p =
     (let l = op_lifecycle_id p
      in if has_cancel db l then ''cancel_requested''
         else case results_of db p of
           w # _ \<Rightarrow> if re_terminal_status w = ''succeeded'' \<and> \<not> has_receipt db l then ''governance_pending'' else ''terminal_pending''
         | [] \<Rightarrow>
             if has_grant_set db l then ''executing''
             else if has_approval db l then ''approval_recorded'' else str_of (json_extract (op_plan_json p) [''state'']))"

definition recoverable_row :: "database \<Rightarrow> operation_row \<Rightarrow> recoverable" where
  "recoverable_row db p =
     (let l = op_lifecycle_id p
      in \<lparr>rv_lifecycle_id = l, rv_run_id = op_run_id p, rv_execution_id = op_execution_id p, rv_project_id = op_project_id p,
          rv_state = lifecycle_state db p, rv_has_approval = has_approval db l, rv_has_grant_set = has_grant_set db l,
          rv_has_cancel_intent = has_cancel db l, rv_has_execution_result = (results_of db p \<noteq> []), rv_has_receipt = has_receipt db l\<rparr>)"

definition listRecoverable :: "database \<Rightarrow> recoverable list" where
  "listRecoverable db =
     map (recoverable_row db) (sort_key (\<lambda>p. (op_created_at_ms p, op_lifecycle_id p))
       (filter (\<lambda>p. \<not> has_terminal db (op_lifecycle_id p)) (db_operations db)))"

end
