(* ===== verification/M2AuthorityLaws.thy ===== *)
theory M2AuthorityLaws
  imports M2LifecycleAuthority M2ChainV2 "HOL-Library.Sublist"
begin

text \<open>
  What a successful call of the repository does to the database: it finds its row there, or it adds one row to
  one table by an insert the triggers let pass.
\<close>

section \<open>Steps\<close>

abbreviation host :: "effect_env \<Rightarrow> js_env" where
  "host E \<equiv> js_env.truncate E"

text \<open>A successful recording either found its row or inserted one.\<close>

lemma replayed_cases: "replayed db v x t e f = Inr (db', c, d) \<Longrightarrow> db' = db \<and> c = False \<and> d = v \<and> x = Some t"
  by (auto simp: replayed_def split: option.splits if_splits)

lemma attempt_Inr:
  "attempt inserted v h = Inr (db', c, d) \<longleftrightarrow>
     inserted = Inr db' \<and> c \<and> d = v \<or> (\<exists>e. inserted = Inl e \<and> h e = Inr (db', c, d))"
  by (auto simp: attempt_def split: sum.splits)

lemma or_storage_failure_Inr [simp]: "or_storage_failure m = Inr x \<longleftrightarrow> m = Inr x"
  by (auto simp: or_storage_failure_def split: sum.splits js_exn.splits)

lemma register_cases:
  assumes "registerOperation E m db = Inr (db', c, p)"
  shows "db' = db \<or> (\<exists>r. insert_operation (host E) r db = Inr db')"
  using assms
  by (auto simp: registerOperation_def store_operation_def Let_def bindE_Inr_iff split: if_split_asm option.split_asm sum.split_asm)

lemma approval_cases:
  assumes "recordApprovalIntent E clock v db = Inr (db', c, d)"
  shows "db' = db \<or> (\<exists>r. insert_approval (host E) r db = Inr db')"
  using assms
  by (auto simp: recordApprovalIntent_def Let_def bindE_Inr_iff attempt_Inr split: if_split_asm dest: replayed_cases)

lemma grant_set_cases:
  assumes "recordGrantSet E clock l h g db = Inr (db', c, d)"
  shows "db' = db \<or> (\<exists>r. insert_grant_set E r db = Inr db')"
  using assms
  by (auto simp: recordGrantSet_def Let_def bindE_Inr_iff attempt_Inr split: if_split_asm option.split_asm dest: replayed_cases)

lemma cancel_cases:
  assumes "recordCancelIntent E clock v db = Inr (db', c, d)"
  shows "db' = db \<or> (\<exists>r. insert_cancel (host E) r db = Inr db')"
  using assms
  by (auto simp: recordCancelIntent_def Let_def bindE_Inr_iff attempt_Inr split: if_split_asm dest: replayed_cases)

lemma insert_dated_receipt_Inr:
  "insert_dated_receipt E m r db = Inr db' \<longleftrightarrow> (\<exists>ms. m = Inr ms \<and> insert_receipt E (r\<lparr>rc_recorded_at_ms := ms\<rparr>) db = Inr db')"
  by (auto simp: insert_dated_receipt_def split: sum.splits)

lemma receipt_cases:
  assumes "recordReceipt E v db = Inr (db', c, d)"
  shows "db' = db \<or> (\<exists>r. insert_receipt (host E) r db = Inr db')"
  using assms
  by (auto simp: recordReceipt_def Let_def bindE_Inr_iff attempt_Inr insert_dated_receipt_Inr split: if_split_asm option.split_asm dest: replayed_cases)

lemma terminal_cases:
  assumes "recordTerminal E v db = Inr (db', c, d)"
  shows "db' = db \<or> (\<exists>r. insert_terminal (host E) r db = Inr db')"
  using assms
  by (auto simp: recordTerminal_def Let_def bindE_Inr_iff attempt_Inr split: if_split_asm option.split_asm dest: replayed_cases)

lemma event_cases:
  assumes "appendEvent E s clock i l t t' v db = Inr (db', c, n)"
  shows "db' = db \<or> (\<exists>r. insert_event E s r db = Inr db')"
  using assms
  by (auto simp: appendEvent_def Let_def bindE_Inr_iff attempt_Inr split: if_split_asm option.split_asm)

end
