(* ===== verification/M2AuthorityRuns.thy ===== *)
theory M2AuthorityRuns
  imports M2AuthorityLaws
begin

text \<open>
  Runs of the lifecycle authority: any sequence of recordings, interleaved with what the execution, effect
  and approval repositories store. The tables only grow, each lifecycle has one row per table, and what
  stands behind a terminal when it is accepted stands behind it in every later state.
\<close>

section \<open>Runs\<close>

text \<open>
  What the other repositories do to the tables the triggers read: they store requests that pass the
  trigger of their table, steps, results and effect requests, under fresh keys, and change grants in any way.
\<close>

inductive external :: "effect_env \<Rightarrow> database \<Rightarrow> database \<Rightarrow> bool" for E where
  request_stored: "request_exact E db q \<Longrightarrow> rq_execution_id q \<notin> rq_execution_id ` set (db_requests db) \<Longrightarrow>
    external E db (db\<lparr>db_requests := db_requests db @ [q]\<rparr>)"
| step_stored: "external E db (db\<lparr>db_steps := db_steps db @ [st]\<rparr>)"
| result_stored: "re_execution_id w \<notin> re_execution_id ` set (db_results db) \<Longrightarrow>
    external E db (db\<lparr>db_results := db_results db @ [w]\<rparr>)"
| effect_stored: "ef_effect_id f \<notin> ef_effect_id ` set (db_effects db) \<Longrightarrow>
    external E db (db\<lparr>db_effects := db_effects db @ [f]\<rparr>)"
| grants_changed: "external E db (db\<lparr>db_grants := gs\<rparr>)"

inductive lifecycle_step :: "effect_env \<Rightarrow> database \<Rightarrow> database \<Rightarrow> bool" for E where
  register: "registerOperation E m db = Inr (db', created, p) \<Longrightarrow> lifecycle_step E db db'"
| approve: "recordApprovalIntent E clock v db = Inr (db', created, d) \<Longrightarrow> lifecycle_step E db db'"
| grant: "recordGrantSet (host E) clock l h g db = Inr (db', created, d) \<Longrightarrow> lifecycle_step E db db'"
| cancel: "recordCancelIntent E clock v db = Inr (db', created, d) \<Longrightarrow> lifecycle_step E db db'"
| receipt: "recordReceipt E v db = Inr (db', created, d) \<Longrightarrow> lifecycle_step E db db'"
| terminate: "recordTerminal E v db = Inr (db', created, d) \<Longrightarrow> lifecycle_step E db db'"
| journal: "appendEvent (host E) skipped clock i l t t' v db = Inr (db', created, n) \<Longrightarrow> lifecycle_step E db db'"
| elsewhere: "external E db db' \<Longrightarrow> lifecycle_step E db db'"

inductive reachable :: "effect_env \<Rightarrow> database \<Rightarrow> bool" for E where
  fresh: "reachable E empty_database"
| further: "reachable E db \<Longrightarrow> lifecycle_step E db db' \<Longrightarrow> reachable E db'"

text \<open>A step is a row of one table, or an external change, or nothing.\<close>

inductive row_written :: "js_env \<Rightarrow> database \<Rightarrow> database \<Rightarrow> bool" for E where
  "insert_operation E r db = Inr db' \<Longrightarrow> row_written E db db'"
| "insert_approval E a db = Inr db' \<Longrightarrow> row_written E db db'"
| "insert_grant_set E g db = Inr db' \<Longrightarrow> row_written E db db'"
| "insert_cancel E c db = Inr db' \<Longrightarrow> row_written E db db'"
| "insert_receipt E k db = Inr db' \<Longrightarrow> row_written E db db'"
| "insert_terminal E t db = Inr db' \<Longrightarrow> row_written E db db'"
| "insert_event E s e db = Inr db' \<Longrightarrow> row_written E db db'"

lemma step_effect: "lifecycle_step E db db' \<Longrightarrow> db' = db \<or> row_written (host E) db db' \<or> external E db db'"
proof (induction rule: lifecycle_step.induct)
  case register then show ?case using register_cases row_written.intros(1) by blast
next
  case approve then show ?case using approval_cases row_written.intros(2) by blast
next
  case grant then show ?case using grant_set_cases row_written.intros(3) by blast
next
  case cancel then show ?case using cancel_cases row_written.intros(4) by blast
next
  case receipt then show ?case using receipt_cases row_written.intros(5) by blast
next
  case terminate then show ?case using terminal_cases row_written.intros(6) by blast
next
  case journal then show ?case using event_cases row_written.intros(7) by blast
qed simp

text \<open>What an accepted insert has passed.\<close>

lemma insert_operation_Inr:
  "insert_operation E r db = Inr db' \<longleftrightarrow>
     list_ex (operation_exact E r) (db_requests db) \<and> operation_checks r \<and> \<not> list_ex (operation_conflict r) (db_operations db)
     \<and> db' = db\<lparr>db_operations := db_operations db @ [r]\<rparr>"
  by (auto simp: insert_operation_def)

lemma insert_approval_Inr:
  "insert_approval E r db = Inr db' \<longleftrightarrow>
     list_ex (approval_exact E r) (db_operations db) \<and> \<not> has_terminal db (ap_lifecycle_id r) \<and> \<not> has_cancel db (ap_lifecycle_id r)
     \<and> approval_checks r \<and> \<not> list_ex (approval_conflict r) (db_approvals db)
     \<and> db' = db\<lparr>db_approvals := db_approvals db @ [r]\<rparr>"
  by (auto simp: insert_approval_def)

lemma insert_grant_set_Inr:
  "insert_grant_set E r db = Inr db' \<Longrightarrow>
     grantSetValid E (gs_grant_set_json r) \<and> jsonDigest E (gs_grant_set_json r) = Some (gs_grant_set_digest r)
     \<and> list_ex (\<lambda>p. list_ex (grant_set_complete db r p) (db_approvals db)) (db_operations db)
     \<and> \<not> has_terminal db (gs_lifecycle_id r) \<and> \<not> has_cancel db (gs_lifecycle_id r)
     \<and> \<not> list_ex (\<lambda>g. gs_lifecycle_id g = gs_lifecycle_id r \<or> gs_grant_set_digest g = gs_grant_set_digest r) (db_grant_sets db)
     \<and> db' = db\<lparr>db_grant_sets := db_grant_sets db @ [r]\<rparr>"
  unfolding insert_grant_set_def by (auto split: if_split_asm)

lemma insert_cancel_Inr:
  "insert_cancel E r db = Inr db' \<Longrightarrow>
     list_ex (cancel_exact E r) (db_operations db) \<and> \<not> has_terminal db (ca_lifecycle_id r)
     \<and> \<not> list_ex (\<lambda>p. op_lifecycle_id p = ca_lifecycle_id r \<and> results_of db p \<noteq> []) (db_operations db)
     \<and> \<not> list_ex (\<lambda>c. ca_lifecycle_id c = ca_lifecycle_id r \<or> ca_cancel_id c = ca_cancel_id r
          \<or> ca_intent_digest c = ca_intent_digest r) (db_cancels db)
     \<and> db' = db\<lparr>db_cancels := db_cancels db @ [r]\<rparr>"
  unfolding insert_cancel_def by (auto split: if_split_asm)

lemma insert_receipt_Inr:
  "insert_receipt E r db = Inr db' \<Longrightarrow>
     list_ex (receipt_exact E db r) (db_operations db) \<and> \<not> has_terminal db (rc_lifecycle_id r) \<and> \<not> has_cancel db (rc_lifecycle_id r)
     \<and> \<not> list_ex (\<lambda>c. rc_lifecycle_id c = rc_lifecycle_id r \<or> rc_receipt_id c = rc_receipt_id r
          \<or> rc_receipt_digest c = rc_receipt_digest r) (db_receipts db)
     \<and> db' = db\<lparr>db_receipts := db_receipts db @ [r]\<rparr>"
  unfolding insert_receipt_def by (auto split: if_split_asm)

lemma insert_terminal_Inr:
  "insert_terminal E r db = Inr db' \<Longrightarrow>
     list_ex (terminal_joined E db r) (db_operations db)
     \<and> \<not> list_ex (\<lambda>t. te_lifecycle_id t = te_lifecycle_id r \<or> te_execution_id t = te_execution_id r
          \<or> te_terminal_digest t = te_terminal_digest r) (db_terminals db)
     \<and> db' = db\<lparr>db_terminals := db_terminals db @ [r]\<rparr>"
  unfolding insert_terminal_def by (auto split: if_split_asm)

lemma insert_event_Inr:
  "insert_event E s r db = Inr db' \<Longrightarrow>
     \<not> event_refused E db r \<and> \<not> list_ex (\<lambda>e. ev_event_id e = ev_event_id r) (db_events db)
     \<and> list_ex (\<lambda>p. op_lifecycle_id p = ev_lifecycle_id r) (db_operations db)
     \<and> db' = db\<lparr>db_events := db_events db @ [r\<lparr>ev_seq := next_event_seq s (db_events db)\<rparr>]\<rparr>"
  unfolding insert_event_def by (auto split: if_split_asm)

lemmas inserted = insert_operation_Inr [THEN iffD1] insert_approval_Inr [THEN iffD1] insert_grant_set_Inr insert_cancel_Inr
  insert_receipt_Inr insert_terminal_Inr insert_event_Inr

section \<open>The tables only grow\<close>

definition extends :: "database \<Rightarrow> database \<Rightarrow> bool" where
  "extends db db' \<longleftrightarrow>
     prefix (db_operations db) (db_operations db') \<and> prefix (db_approvals db) (db_approvals db')
     \<and> prefix (db_grant_sets db) (db_grant_sets db') \<and> prefix (db_cancels db) (db_cancels db')
     \<and> prefix (db_receipts db) (db_receipts db') \<and> prefix (db_terminals db) (db_terminals db')
     \<and> prefix (db_events db) (db_events db') \<and> prefix (db_requests db) (db_requests db')
     \<and> prefix (db_steps db) (db_steps db') \<and> prefix (db_results db) (db_results db') \<and> prefix (db_effects db) (db_effects db')"

lemma extends_refl: "extends db db"
  by (simp add: extends_def)

lemma extends_trans: "extends a b \<Longrightarrow> extends b c \<Longrightarrow> extends a c"
  unfolding extends_def by (metis prefix_order.trans)

lemma written_extends: "row_written E db db' \<Longrightarrow> extends db db'"
  by (induction rule: row_written.induct) (auto simp: extends_def dest!: inserted)

lemma external_extends: "external E db db' \<Longrightarrow> extends db db'"
  by (induction rule: external.induct) (auto simp: extends_def)

lemma step_extends: "lifecycle_step E db db' \<Longrightarrow> extends db db'"
  using step_effect written_extends external_extends extends_refl by blast

lemma steps_extend: "(lifecycle_step E)\<^sup>*\<^sup>* db db' \<Longrightarrow> extends db db'"
  by (induction rule: rtranclp_induct) (use step_extends extends_refl extends_trans in blast)+

lemma reachable_steps: "(lifecycle_step E)\<^sup>*\<^sup>* db db' \<Longrightarrow> reachable E db \<Longrightarrow> reachable E db'"
proof (induction rule: rtranclp_induct)
  case (step y z)
  then show ?case using reachable.further by blast
qed simp

section \<open>One row per identity\<close>

definition keys_ok :: "database \<Rightarrow> bool" where
  "keys_ok db \<longleftrightarrow>
     distinct (map op_lifecycle_id (db_operations db)) \<and> distinct (map op_execution_id (db_operations db))
     \<and> distinct (map ap_lifecycle_id (db_approvals db)) \<and> distinct (map gs_lifecycle_id (db_grant_sets db))
     \<and> distinct (map ca_lifecycle_id (db_cancels db)) \<and> distinct (map rc_lifecycle_id (db_receipts db))
     \<and> distinct (map te_lifecycle_id (db_terminals db)) \<and> distinct (map te_execution_id (db_terminals db))
     \<and> distinct (map ev_event_id (db_events db)) \<and> sorted_wrt (<) (0 # map ev_seq (db_events db))
     \<and> distinct (map rq_execution_id (db_requests db)) \<and> distinct (map re_execution_id (db_results db))
     \<and> distinct (map ef_effect_id (db_effects db))"

text \<open>A new event has a number above all that were given out, so the numbers grow; they may skip some.\<close>

lemma next_event_above: "e \<in> set events \<Longrightarrow> ev_seq e < next_event_seq s events" "0 < next_event_seq s events"
proof -
  have "e \<in> set events \<Longrightarrow> ev_seq e \<le> foldr max (map ev_seq events) 0" and "0 \<le> foldr max (map ev_seq events) 0"
    by (induction events) auto
  then show "e \<in> set events \<Longrightarrow> ev_seq e < next_event_seq s events" and "0 < next_event_seq s events"
    by (auto simp: next_event_seq_def)
qed

lemma keys_empty: "keys_ok empty_database"
  by (simp add: keys_ok_def empty_database_def)

lemma keys_written: "row_written E db db' \<Longrightarrow> keys_ok db \<Longrightarrow> keys_ok db'"
  by (induction rule: row_written.induct)
    ((auto simp: keys_ok_def list_ex_iff operation_conflict_def approval_conflict_def sorted_wrt_append next_event_above dest!: inserted; force)+)

lemma keys_external: "external E db db' \<Longrightarrow> keys_ok db \<Longrightarrow> keys_ok db'"
  by (induction rule: external.induct) (auto simp: keys_ok_def)

lemma keys_reachable: "reachable E db \<Longrightarrow> keys_ok db"
  by (induction rule: reachable.induct) (use keys_empty step_effect keys_written keys_external in blast)+

section \<open>What stands behind a terminal\<close>

lemma extends_sets:
  assumes "extends db db'"
  shows "set (db_operations db) \<subseteq> set (db_operations db')" "set (db_approvals db) \<subseteq> set (db_approvals db')"
    "set (db_grant_sets db) \<subseteq> set (db_grant_sets db')" "set (db_cancels db) \<subseteq> set (db_cancels db')"
    "set (db_receipts db) \<subseteq> set (db_receipts db')" "set (db_terminals db) \<subseteq> set (db_terminals db')"
    "set (db_events db) \<subseteq> set (db_events db')" "set (db_requests db) \<subseteq> set (db_requests db')"
    "set (db_results db) \<subseteq> set (db_results db')" "set (db_effects db) \<subseteq> set (db_effects db')"
  using assms by (auto simp: extends_def dest: set_mono_prefix)

lemma extends_has:
  assumes "extends db db'"
  shows "has_approval db l \<Longrightarrow> has_approval db' l" "has_grant_set db l \<Longrightarrow> has_grant_set db' l"
    "has_cancel db l \<Longrightarrow> has_cancel db' l" "has_receipt db l \<Longrightarrow> has_receipt db' l" "has_terminal db l \<Longrightarrow> has_terminal db' l"
  using extends_sets [OF assms]
  by (auto simp: has_approval_def has_grant_set_def has_cancel_def has_receipt_def has_terminal_def list_ex_iff)

definition success_backed :: "js_env \<Rightarrow> database \<Rightarrow> terminal_row \<Rightarrow> bool" where
  "success_backed E db t \<longleftrightarrow>
     has_grant_set db (te_lifecycle_id t)
     \<and> (\<exists>p \<in> set (db_operations db). \<exists>q \<in> set (db_requests db). \<exists>a \<in> set (db_approvals db). \<exists>w \<in> set (db_results db).
          \<exists>c \<in> set (db_receipts db).
            op_lifecycle_id p = te_lifecycle_id t \<and> op_execution_id p = te_execution_id t
            \<and> rq_execution_id q = op_execution_id p \<and> ap_lifecycle_id a = op_lifecycle_id p
            \<and> re_execution_id w = op_execution_id p \<and> re_terminal_status w = ''succeeded'' \<and> rc_lifecycle_id c = op_lifecycle_id p
            \<and> terminalValid E (stored_for p q (Some a) (Some w) (Some c)) (te_terminal_json t) (te_completed_at_ms t))"

lemma success_backed_extends:
  assumes "extends db db'" and "success_backed E db t"
  shows "success_backed E db' t"
proof -
  from assms(2) have "has_grant_set db' (te_lifecycle_id t)" using extends_has(2) [OF assms(1)] by (simp add: success_backed_def)
  moreover from assms(2) obtain p q a w c where
    "p \<in> set (db_operations db)" "q \<in> set (db_requests db)" "a \<in> set (db_approvals db)" "w \<in> set (db_results db)" "c \<in> set (db_receipts db)"
    and r: "op_lifecycle_id p = te_lifecycle_id t \<and> op_execution_id p = te_execution_id t
            \<and> rq_execution_id q = op_execution_id p \<and> ap_lifecycle_id a = op_lifecycle_id p
            \<and> re_execution_id w = op_execution_id p \<and> re_terminal_status w = ''succeeded'' \<and> rc_lifecycle_id c = op_lifecycle_id p
            \<and> terminalValid E (stored_for p q (Some a) (Some w) (Some c)) (te_terminal_json t) (te_completed_at_ms t)"
    unfolding success_backed_def by blast
  then have "p \<in> set (db_operations db')" "q \<in> set (db_requests db')" "a \<in> set (db_approvals db')" "w \<in> set (db_results db')"
    "c \<in> set (db_receipts db')" using extends_sets [OF assms(1)] by blast+
  ultimately show ?thesis using r unfolding success_backed_def by blast
qed

lemma left_join_member: "x \<in> set (left_join f xs) \<Longrightarrow> (case x of None \<Rightarrow> filter f xs = [] | Some y \<Rightarrow> y \<in> set xs \<and> f y)"
proof (cases "filter f xs = []")
  case False
  then have "left_join f xs = map Some (filter f xs)" by (auto simp: left_join_def split: list.splits)
  then show "x \<in> set (left_join f xs) \<Longrightarrow> ?thesis" by auto
qed (simp add: left_join_def)

lemma joined_success:
  assumes "list_ex (terminal_joined E db t) (db_operations db)" and "te_terminal_status t = ''succeeded''"
  shows "success_backed E db t \<and> \<not> has_cancel db (te_lifecycle_id t)"
proof -
  from assms(1) obtain p q a w c where p: "p \<in> set (db_operations db)" and q: "q \<in> set (requests_of db p)"
    and a: "a \<in> set (left_join (\<lambda>a. ap_lifecycle_id a = op_lifecycle_id p) (db_approvals db))"
    and w: "w \<in> set (left_join (\<lambda>w. re_execution_id w = op_execution_id p) (db_results db))"
    and c: "c \<in> set (left_join (\<lambda>c. rc_lifecycle_id c = op_lifecycle_id p) (db_receipts db))"
    and auth: "terminal_authority E db t p q a w c"
    unfolding terminal_joined_def list_ex_iff by blast
  from auth assms(2) obtain a' w' c' where some: "a = Some a'" "w = Some w'" "c = Some c'" and ok: "re_terminal_status w' = ''succeeded''"
    and has: "has_grant_set db (te_lifecycle_id t)" "\<not> has_cancel db (te_lifecycle_id t)"
    and ids: "op_lifecycle_id p = te_lifecycle_id t" "op_execution_id p = te_execution_id t"
    and tv: "terminalValid E (stored_for p q a w c) (te_terminal_json t) (te_completed_at_ms t)"
    unfolding terminal_authority_def Let_def by (auto split: option.splits)
  from left_join_member [OF a] left_join_member [OF w] left_join_member [OF c] q
  have "a' \<in> set (db_approvals db)" "ap_lifecycle_id a' = op_lifecycle_id p" "w' \<in> set (db_results db)" "re_execution_id w' = op_execution_id p"
    "c' \<in> set (db_receipts db)" "rc_lifecycle_id c' = op_lifecycle_id p" "q \<in> set (db_requests db)" "rq_execution_id q = op_execution_id p"
    by (simp_all add: some requests_of_def)
  with p has ids ok tv show ?thesis unfolding success_backed_def some by blast
qed

text \<open>The terminals that are not among the \<open>old\<close> ones.\<close>

definition terminals_ok :: "js_env \<Rightarrow> terminal_row list \<Rightarrow> database \<Rightarrow> bool" where
  "terminals_ok E old db \<longleftrightarrow>
     (\<forall>t \<in> set (db_terminals db) - set old.
        json_extract (te_terminal_json t) [''state''] = JStr (te_terminal_status t)
        \<and> (te_terminal_status t = ''succeeded'' \<longrightarrow> success_backed E db t \<and> \<not> has_cancel db (te_lifecycle_id t)))"

lemma joined_state:
  "list_ex (terminal_joined E db t) (db_operations db) \<Longrightarrow> json_extract (te_terminal_json t) [''state''] = JStr (te_terminal_status t)"
  by (auto simp: terminal_joined_def list_ex_iff terminal_authority_def Let_def)

text \<open>Only a recorded cancellation adds one, and only a recorded terminal a terminal.\<close>

lemma written_cancel:
  "row_written E db db' \<Longrightarrow> has_cancel db' l \<Longrightarrow> has_cancel db l \<or> \<not> has_terminal db l"
  by (induction rule: row_written.induct) (auto simp: has_cancel_def dest!: inserted)

lemma written_terminals:
  "row_written E db db' \<Longrightarrow> t \<in> set (db_terminals db') \<Longrightarrow>
     t \<in> set (db_terminals db) \<or> list_ex (terminal_joined E db t) (db_operations db) \<and> (\<forall>l. has_cancel db' l = has_cancel db l)"
  by (induction rule: row_written.induct) (auto simp: has_cancel_def dest!: inserted)

lemma external_lifecycle:
  "external E db db' \<Longrightarrow> db_operations db' = db_operations db \<and> db_approvals db' = db_approvals db \<and> db_grant_sets db' = db_grant_sets db
     \<and> db_cancels db' = db_cancels db \<and> db_receipts db' = db_receipts db \<and> db_terminals db' = db_terminals db \<and> db_events db' = db_events db"
  by (induction rule: external.induct) auto

lemma terminals_written:
  assumes "row_written E db db'" and "terminals_ok E old db"
  shows "terminals_ok E old db'"
  unfolding terminals_ok_def
proof (rule ballI)
  fix t
  assume "t \<in> set (db_terminals db') - set old"
  then have t: "t \<in> set (db_terminals db')" and new: "t \<notin> set old" by auto
  note ext = written_extends [OF assms(1)]
  consider "t \<in> set (db_terminals db)" | "list_ex (terminal_joined E db t) (db_operations db)" "\<forall>l. has_cancel db' l = has_cancel db l"
    using written_terminals [OF assms(1) t] by blast
  then show "json_extract (te_terminal_json t) [''state''] = JStr (te_terminal_status t)
    \<and> (te_terminal_status t = ''succeeded'' \<longrightarrow> success_backed E db' t \<and> \<not> has_cancel db' (te_lifecycle_id t))"
  proof cases
    case 1
    then have "has_terminal db (te_lifecycle_id t)" by (auto simp: has_terminal_def list_ex_iff)
    with 1 new assms(2) written_cancel [OF assms(1), of "te_lifecycle_id t"] success_backed_extends [OF ext] show ?thesis
      by (auto simp: terminals_ok_def)
  next
    case 2
    with joined_success joined_state success_backed_extends [OF ext] show ?thesis by blast
  qed
qed

lemma terminals_external:
  assumes "external E db db'" and "terminals_ok (host E) old db"
  shows "terminals_ok (host E) old db'"
proof -
  have "\<And>l. has_cancel db' l = has_cancel db l" using external_lifecycle [OF assms(1)] by (simp add: has_cancel_def)
  with assms(2) external_lifecycle [OF assms(1)] success_backed_extends [OF external_extends [OF assms(1)]] show ?thesis
    by (simp add: terminals_ok_def)
qed

lemma terminals_steps: "(lifecycle_step E)\<^sup>*\<^sup>* db db' \<Longrightarrow> terminals_ok (host E) (db_terminals db) db'"
proof (induction rule: rtranclp_induct)
  case base
  then show ?case by (simp add: terminals_ok_def)
next
  case (step y z)
  then show ?case using step_effect terminals_written terminals_external by blast
qed

end
