(* ===== verification/M2AuthorityReplay.thy ===== *)
theory M2AuthorityReplay
  imports M2AuthorityRuns
begin

text \<open>
  A recording that is repeated, after a crash say, changes nothing: it finds the row it wrote and reports the
  same document as not newly created.
\<close>

section \<open>What a read does not depend on\<close>

lemma reads_exact:
  "stored_request_exact E (db\<lparr>db_operations := o'\<rparr>) q v = stored_request_exact E db q v"
  "stored_request_exact E (db\<lparr>db_approvals := a\<rparr>) q v = stored_request_exact E db q v"
  "stored_request_exact E (db\<lparr>db_grant_sets := g\<rparr>) q v = stored_request_exact E db q v"
  "stored_request_exact E (db\<lparr>db_cancels := c\<rparr>) q v = stored_request_exact E db q v"
  "stored_request_exact E (db\<lparr>db_receipts := r\<rparr>) q v = stored_request_exact E db q v"
  "stored_request_exact E (db\<lparr>db_terminals := t\<rparr>) q v = stored_request_exact E db q v"
  by (simp_all add: stored_request_exact_def Let_def cong: if_cong)

lemma reads_requests [simp]:
  "stored_request E (db\<lparr>db_operations := o'\<rparr>) i = stored_request E db i"
  "stored_request E (db\<lparr>db_approvals := a\<rparr>) i = stored_request E db i"
  "stored_request E (db\<lparr>db_grant_sets := g\<rparr>) i = stored_request E db i"
  "stored_request E (db\<lparr>db_cancels := c\<rparr>) i = stored_request E db i"
  "stored_request E (db\<lparr>db_receipts := r\<rparr>) i = stored_request E db i"
  "stored_request E (db\<lparr>db_terminals := t\<rparr>) i = stored_request E db i"
  by (simp_all add: stored_request_def Let_def reads_exact split: option.split)

lemma reads_rows [simp]:
  "find_operation (db\<lparr>db_approvals := a\<rparr>) l = find_operation db l"
  "find_operation (db\<lparr>db_grant_sets := g\<rparr>) l = find_operation db l"
  "find_operation (db\<lparr>db_cancels := c\<rparr>) l = find_operation db l"
  "find_operation (db\<lparr>db_receipts := r\<rparr>) l = find_operation db l"
  "find_operation (db\<lparr>db_terminals := t\<rparr>) l = find_operation db l"
  "requests_of (db\<lparr>db_operations := o'\<rparr>) p = requests_of db p"
  "requests_of (db\<lparr>db_approvals := a\<rparr>) p = requests_of db p"
  "requests_of (db\<lparr>db_grant_sets := g\<rparr>) p = requests_of db p"
  "requests_of (db\<lparr>db_cancels := c\<rparr>) p = requests_of db p"
  "requests_of (db\<lparr>db_receipts := r\<rparr>) p = requests_of db p"
  "requests_of (db\<lparr>db_terminals := t\<rparr>) p = requests_of db p"
  "results_of (db\<lparr>db_approvals := a\<rparr>) p = results_of db p"
  "results_of (db\<lparr>db_grant_sets := g\<rparr>) p = results_of db p"
  "results_of (db\<lparr>db_cancels := c\<rparr>) p = results_of db p"
  "results_of (db\<lparr>db_receipts := r\<rparr>) p = results_of db p"
  "results_of (db\<lparr>db_terminals := t\<rparr>) p = results_of db p"
  by (simp_all add: find_operation_def requests_of_def results_of_def)

lemma reads_operations [simp]:
  "getOperation (db\<lparr>db_approvals := a\<rparr>) l = getOperation db l"
  "getOperation (db\<lparr>db_grant_sets := g\<rparr>) l = getOperation db l"
  "getOperation (db\<lparr>db_cancels := c\<rparr>) l = getOperation db l"
  "getOperation (db\<lparr>db_receipts := r\<rparr>) l = getOperation db l"
  "getOperation (db\<lparr>db_terminals := t\<rparr>) l = getOperation db l"
  "operationMaterial (db\<lparr>db_approvals := a\<rparr>) i = operationMaterial db i"
  "operationMaterial (db\<lparr>db_grant_sets := g\<rparr>) i = operationMaterial db i"
  "operationMaterial (db\<lparr>db_cancels := c\<rparr>) i = operationMaterial db i"
  "operationMaterial (db\<lparr>db_receipts := r\<rparr>) i = operationMaterial db i"
  "operationMaterial (db\<lparr>db_terminals := t\<rparr>) i = operationMaterial db i"
  by (simp_all add: getOperation_def operationMaterial_def cong: option.case_cong)

lemma reads_plan [simp]:
  "getPlan E (db\<lparr>db_approvals := a\<rparr>) l = getPlan E db l"
  "getPlan E (db\<lparr>db_grant_sets := g\<rparr>) l = getPlan E db l"
  "getPlan E (db\<lparr>db_cancels := c\<rparr>) l = getPlan E db l"
  "getPlan E (db\<lparr>db_receipts := r\<rparr>) l = getPlan E db l"
  "getPlan E (db\<lparr>db_terminals := t\<rparr>) l = getPlan E db l"
  by (simp_all add: getPlan_def Let_def cong: option.case_cong)

lemma reads_documents [simp]:
  "getDecision J (db\<lparr>db_receipts := r\<rparr>) l = getDecision J db l"
  "getDecision J (db\<lparr>db_terminals := t\<rparr>) l = getDecision J db l"
  "getContextSnapshot J (db\<lparr>db_terminals := t\<rparr>) l = getContextSnapshot J db l"
  "getApprovalIntent J (db\<lparr>db_grant_sets := g\<rparr>) l = getApprovalIntent J db l"
  "getApprovalIntent J (db\<lparr>db_terminals := t\<rparr>) l = getApprovalIntent J db l"
  "getCancelIntent E (db\<lparr>db_receipts := r\<rparr>) l = getCancelIntent E db l"
  "getReceipt J (db\<lparr>db_terminals := t\<rparr>) l = getReceipt J db l"
  "stored_result (db\<lparr>db_receipts := r\<rparr>) p = stored_result db p"
  "stored_result (db\<lparr>db_terminals := t\<rparr>) p = stored_result db p"
  by (simp_all add: getDecision_def getContextSnapshot_def getApprovalIntent_def getCancelIntent_def getReceipt_def
      stored_result_def stored_document_def cong: option.case_cong)

lemma reads_terminal [simp]:
  "durable_terminal J (db\<lparr>db_terminals := t\<rparr>) p u ms = durable_terminal J db p u ms"
  "terminal_joined J (db\<lparr>db_terminals := t\<rparr>) r = terminal_joined J db r"
  by (simp_all add: fun_eq_iff durable_terminal_def terminal_joined_def terminal_authority_def Let_def has_grant_set_def has_cancel_def
      open_grant_def steps_of_def cong: list.case_cong)

section \<open>The second insert\<close>

lemma replayed_simps [simp]:
  "replayed db v (Some u) u e f = Inr (db, False, v)" "replayed db v x u e f \<noteq> Inr (db', True, d)"
  by (auto simp: replayed_def split: option.splits)

lemma attempt_simps [simp]:
  "attempt (Inl e) v h = h e" "attempt (Inr db') v h = Inr (db', True, v)"
  by (simp_all add: attempt_def)

lemma find_new: "\<not> list_ex f xs \<Longrightarrow> f x \<Longrightarrow> find f (xs @ [x]) = Some x"
  by (induction xs) auto

text \<open>
  A table whose rows are told apart by their identities: an insert that is accepted puts the row at the
  end, and one whose identities are taken is refused. So a row that was accepted is refused the second
  time, and it is the row the handler of the exception finds.
\<close>

locale keyed_table =
  fixes ins :: "'r \<Rightarrow> database \<Rightarrow> sql_error + database"
    and rows :: "database \<Rightarrow> 'r list"
    and put :: "'r list \<Rightarrow> database \<Rightarrow> database"
    and same :: "'r \<Rightarrow> 'r \<Rightarrow> bool"
  assumes accepted: "ins r db = Inr db' \<Longrightarrow> \<not> list_ex (same r) (rows db) \<and> db' = put (rows db @ [r]) db"
    and refused: "list_ex (same r) (rows db) \<Longrightarrow> \<exists>e. ins r db = Inl e"
    and rows_put: "rows (put rs db) = rs"
    and put_rows: "put (rows db) db = db"
    and same_refl: "same r r"
begin

lemma put_or_same: "ins r db = Inr db' \<or> db' = db \<Longrightarrow> \<exists>rs. db' = put rs db"
  using accepted put_rows by metis

lemma found: "ins r db = Inr (put rs db) \<Longrightarrow> find (same r) rs = Some r"
  using accepted [of r db "put rs db"] rows_put find_new [of "same r" "rows db" r] same_refl by metis

lemma again: "ins r db = Inr (put rs db) \<Longrightarrow> \<exists>e. ins r (put rs db) = Inl e"
proof (rule refused)
  assume "ins r db = Inr (put rs db)"
  then have "rows (put rs db) = rows (put (rows db @ [r]) db)" using accepted by metis
  then show "list_ex (same r) (rows (put rs db))" by (simp add: rows_put same_refl)
qed

lemma retry:
  assumes "attempt (ins r db) v h = Inr (put rs db, True, d)" and "\<And>e. h e \<noteq> Inr (put rs db, True, d)"
    and "f = same r" and "u = text r"
  shows "attempt (ins r (put rs db)) v
    (\<lambda>e. replayed (put rs db) v (map_option text (find f (rows (put rs db)))) u (a e) (b e)) = Inr (put rs db, False, d)"
proof -
  from assms(1,2) have i: "ins r db = Inr (put rs db)" and "d = v" by (auto simp: attempt_Inr)
  then show ?thesis using again [OF i] found [OF i] assms(3,4) by (auto simp: rows_put)
qed

end

interpretation terminals: keyed_table "insert_terminal J" db_terminals "\<lambda>ts db. db\<lparr>db_terminals := ts\<rparr>"
  "\<lambda>r t. te_lifecycle_id t = te_lifecycle_id r \<or> te_execution_id t = te_execution_id r \<or> te_terminal_digest t = te_terminal_digest r"
  for J
  by unfold_locales (use insert_terminal_Inr in blast, simp_all add: insert_terminal_def)

interpretation receipts: keyed_table "insert_receipt J" db_receipts "\<lambda>rs db. db\<lparr>db_receipts := rs\<rparr>"
  "\<lambda>r c. rc_lifecycle_id c = rc_lifecycle_id r \<or> rc_receipt_id c = rc_receipt_id r \<or> rc_receipt_digest c = rc_receipt_digest r"
  for J
  by unfold_locales (use insert_receipt_Inr in blast, simp_all add: insert_receipt_def)

interpretation cancels: keyed_table "insert_cancel J" db_cancels "\<lambda>cs db. db\<lparr>db_cancels := cs\<rparr>"
  "\<lambda>r c. ca_lifecycle_id c = ca_lifecycle_id r \<or> ca_cancel_id c = ca_cancel_id r \<or> ca_intent_digest c = ca_intent_digest r"
  for J
  by unfold_locales (use insert_cancel_Inr in blast, simp_all add: insert_cancel_def)

interpretation grant_sets: keyed_table "insert_grant_set J" db_grant_sets "\<lambda>gs db. db\<lparr>db_grant_sets := gs\<rparr>"
  "\<lambda>r g. gs_lifecycle_id g = gs_lifecycle_id r \<or> gs_grant_set_digest g = gs_grant_set_digest r"
  for J
  by unfold_locales (use insert_grant_set_Inr in blast, simp_all add: insert_grant_set_def)

interpretation approvals: keyed_table "insert_approval J" db_approvals "\<lambda>rs db. db\<lparr>db_approvals := rs\<rparr>" approval_conflict
  for J
  by unfold_locales (use insert_approval_Inr in blast, simp_all add: insert_approval_def approval_conflict_def)

interpretation operations: keyed_table "insert_operation J" db_operations "\<lambda>rs db. db\<lparr>db_operations := rs\<rparr>" operation_conflict
  for J
  by unfold_locales (use insert_operation_Inr in blast, simp_all add: insert_operation_def operation_conflict_def)

section \<open>The second recording\<close>

lemma bindE_transfer:
  "bindE m f = Inr x \<Longrightarrow> (\<And>a. m = Inr a \<Longrightarrow> f a = Inr x \<Longrightarrow> g a = Inr y) \<Longrightarrow> bindE m g = Inr y"
  by (cases m) simp_all

lemma if_transfer:
  "(if c then Inl e else m) = Inr x \<Longrightarrow> (\<not> c \<Longrightarrow> m = Inr x \<Longrightarrow> n = Inr y) \<Longrightarrow> (if c then Inl e else n) = Inr y"
  by (simp split: if_splits)

lemma row_transfer:
  "case_option (Inl e) f z = Inr x \<Longrightarrow> (\<And>p. z = Some p \<Longrightarrow> f p = Inr x \<Longrightarrow> g p = Inr y) \<Longrightarrow> case_option (Inl e) g z = Inr y"
  by (simp split: option.splits)

lemmas transfers = bindE_transfer if_transfer row_transfer

lemmas reads = reads_requests reads_rows reads_operations reads_plan reads_documents reads_terminal

lemma terminal_repeats:
  assumes "recordTerminal E v db = Inr (db', True, d)"
  shows "recordTerminal E v db' = Inr (db', False, d)"
proof -
  from terminal_cases [OF assms] obtain rs where db': "db' = db\<lparr>db_terminals := rs\<rparr>" using terminals.put_or_same by metis
  show ?thesis
    using assms unfolding db' recordTerminal_def Let_def reads
    by - (elim transfers, rule terminals.retry, assumption, simp_all)
qed

lemma grant_set_repeats:
  assumes "recordGrantSet E clock l h gs db = Inr (db', True, d)"
  shows "recordGrantSet E clock l h gs db' = Inr (db', False, d)"
proof -
  from grant_set_cases [OF assms] obtain rs where db': "db' = db\<lparr>db_grant_sets := rs\<rparr>" using grant_sets.put_or_same by metis
  show ?thesis
    using assms unfolding db' recordGrantSet_def Let_def reads
    by - (elim transfers, rule grant_sets.retry, assumption, simp_all)
qed

lemma cancel_repeats:
  assumes "recordCancelIntent E clock v db = Inr (db', True, d)"
  shows "recordCancelIntent E clock v db' = Inr (db', False, d)"
proof -
  from cancel_cases [OF assms] obtain rs where db': "db' = db\<lparr>db_cancels := rs\<rparr>" using cancels.put_or_same by metis
  show ?thesis
    using assms unfolding db' recordCancelIntent_def Let_def reads
    by - (elim transfers, rule cancels.retry, assumption, simp_all)
qed

lemma receipt_retry:
  assumes "attempt (insert_dated_receipt J m r db) v h = Inr (db\<lparr>db_receipts := ts\<rparr>, True, d)"
    and "\<And>e. h e \<noteq> Inr (db\<lparr>db_receipts := ts\<rparr>, True, d)"
    and "l = rc_lifecycle_id r" and "x = rc_receipt_id r" and "g = rc_receipt_digest r" and "u = rc_receipt_json r"
  shows "attempt (insert_dated_receipt J m r (db\<lparr>db_receipts := ts\<rparr>)) v
    (\<lambda>e. replayed (db\<lparr>db_receipts := ts\<rparr>) v (map_option rc_receipt_json
       (find (\<lambda>c. rc_lifecycle_id c = l \<or> rc_receipt_id c = x \<or> rc_receipt_digest c = g) (db_receipts (db\<lparr>db_receipts := ts\<rparr>)))) u (a e) (b e))
     = Inr (db\<lparr>db_receipts := ts\<rparr>, False, d)"
proof -
  from assms(1,2) obtain ms where m: "m = Inr ms" and i: "insert_receipt J (r\<lparr>rc_recorded_at_ms := ms\<rparr>) db = Inr (db\<lparr>db_receipts := ts\<rparr>)"
    and "d = v" by (auto simp: attempt_Inr insert_dated_receipt_Inr)
  then show ?thesis using receipts.again [OF i] receipts.found [OF i] assms(3-)
    by (auto simp: insert_dated_receipt_def)
qed

lemma receipt_repeats:
  assumes "recordReceipt E v db = Inr (db', True, d)"
  shows "recordReceipt E v db' = Inr (db', False, d)"
proof -
  from receipt_cases [OF assms] obtain rs where db': "db' = db\<lparr>db_receipts := rs\<rparr>" using receipts.put_or_same by metis
  show ?thesis
    using assms unfolding db' recordReceipt_def Let_def reads
    by - (elim transfers, rule receipt_retry, assumption, simp_all)
qed

text \<open>An approval and an operation look for their row before they insert, whatever the clock says.\<close>

lemma approval_retry:
  assumes "(if approval_twin db l i g \<noteq> None then replayed db v (approval_twin db l i g) u e f
     else bindE (clock_now c) (\<lambda>now. if out now then Inl x else attempt (insert_approval J (approval_values v g u a z now) db) v h))
     = Inr (db\<lparr>db_approvals := ts\<rparr>, True, d)" and "\<And>e. h e \<noteq> Inr (db\<lparr>db_approvals := ts\<rparr>, True, d)"
    and "l = str_of (opt_prop (opt_prop v ''identity'') ''lifecycleId'')" and "i = str_of (opt_prop v ''approvalId'')"
  shows "(if approval_twin (db\<lparr>db_approvals := ts\<rparr>) l i g \<noteq> None
      then replayed (db\<lparr>db_approvals := ts\<rparr>) v (approval_twin (db\<lparr>db_approvals := ts\<rparr>) l i g) u e f else m)
     = Inr (db\<lparr>db_approvals := ts\<rparr>, False, d)"
proof -
  from assms(1,2) obtain now where ins: "insert_approval J (approval_values v g u a z now) db = Inr (db\<lparr>db_approvals := ts\<rparr>)" and "d = v"
    by (auto simp: attempt_Inr bindE_Inr_iff split: if_splits)
  moreover have "approval_twin (db\<lparr>db_approvals := ts\<rparr>) l i g = Some u"
    using approvals.found [OF ins] by (simp add: approval_twin_def approval_values_def approval_conflict_def [abs_def] assms(3,4))
  ultimately show ?thesis by simp
qed

lemma approval_repeats:
  assumes "recordApprovalIntent E clock v db = Inr (db', True, d)"
  shows "recordApprovalIntent E clock' v db' = Inr (db', False, d)"
proof -
  from approval_cases [OF assms] obtain rs where db': "db' = db\<lparr>db_approvals := rs\<rparr>" using approvals.put_or_same by metis
  show ?thesis
    using assms unfolding db' recordApprovalIntent_def Let_def reads
    by - (elim transfers, rule approval_retry, assumption, simp_all)
qed

lemma find_unless_member: "find f xs = None \<Longrightarrow> find f (xs @ [x]) = (if f x then Some x else None)"
  by (induction xs) (auto split: if_splits)

lemma store_repeats:
  assumes "store_operation E db q r = Inr (db', True, p)"
  shows "store_operation E db' q r = Inr (db', False, p)"
proof -
  from assms have none: "existing_operation db r = None" and ins: "insert_operation (host E) r db = Inr db'"
    and p: "getOperation db' (JStr (op_lifecycle_id r)) = Inr p"
    by (auto simp: store_operation_def Let_def bindE_Inr_iff split: if_splits option.splits sum.splits)
  from ins have db': "db' = db\<lparr>db_operations := db_operations db @ [r]\<rparr>" using insert_operation_Inr by blast
  have "find_operation db' (op_lifecycle_id r) = Some r"
    using none unfolding db' by (auto simp: existing_operation_def find_operation_def find_unless_member split: option.splits)
  then have "existing_operation db' r = Some r" by (simp add: existing_operation_def)
  then show ?thesis using assms p
    by (auto simp: store_operation_def Let_def bindE_Inr_iff db' split: if_splits option.splits sum.splits)
qed

lemma register_repeats:
  assumes "registerOperation E m db = Inr (db', True, p)"
  shows "registerOperation E m db' = Inr (db', False, p)"
  using assms store_repeats unfolding registerOperation_def Let_def by - (elim bindE_transfer, auto)

end
