(* ===== verification/M2AuthorityFinal.thy ===== *)
theory M2AuthorityFinal
  imports M2AuthorityReplay
begin

text \<open>
  The guarantees of the lifecycle authority over any run: a recorded success rests on the whole chain, a
  cancellation and a terminal are final, the record is append-only and its journal is backed by rows.
\<close>

section \<open>A recorded success\<close>

lemma extract_parse: "json_extract t [k] = JStr s \<Longrightarrow> opt_prop (parseJson (Some t)) k = JStr s"
  by (auto simp: json_extract_def parseJson_def Let_def split: option.splits if_splits)

lemma caught_valid: "catchE (valid_js m) False \<Longrightarrow> \<exists>r. m = Inr r \<and> valid r"
  by (cases m) (auto simp: valid_js_def)

text \<open>
  C9. A success that is recorded stands on everything it needs. Whatever sequence of recordings, refused
  attempts and changes by the other repositories leads from one state of the database to another, for
  each terminal with status succeeded that was added on the way there are the operation, its
  execution request, the approval, the grant set, the receipt and a succeeded result of the same lifecycle
  and execution, no cancellation, and the documents stored in those rows are backed by the whole chain:
  the terminal carries the digests of exactly those documents, and the revision it reports is the one the
  result produced and the decision committed to.
\<close>

theorem recorded_success_backed:
  assumes "(lifecycle_step E)\<^sup>*\<^sup>* db db'" and "t \<in> set (db_terminals db')" and "t \<notin> set (db_terminals db)"
    and "te_terminal_status t = ''succeeded''"
  shows "\<not> has_cancel db' (te_lifecycle_id t) \<and> has_grant_set db' (te_lifecycle_id t)
    \<and> (\<exists>p \<in> set (db_operations db'). \<exists>q \<in> set (db_requests db'). \<exists>a \<in> set (db_approvals db'). \<exists>w \<in> set (db_results db').
         \<exists>c \<in> set (db_receipts db').
           op_lifecycle_id p = te_lifecycle_id t \<and> op_execution_id p = te_execution_id t
           \<and> rq_execution_id q = op_execution_id p \<and> ap_lifecycle_id a = op_lifecycle_id p
           \<and> re_execution_id w = op_execution_id p \<and> re_terminal_status w = ''succeeded'' \<and> rc_lifecycle_id c = op_lifecycle_id p
           \<and> backed_by_chain (host E) (stored_execution (stored_for p q (Some a) (Some w) (Some c)) (te_terminal_json t)))"
proof -
  from terminals_steps [OF assms(1)] assms(2-4)
  have state: "json_extract (te_terminal_json t) [''state''] = JStr ''succeeded''"
    and backed: "success_backed (host E) db' t" and none: "\<not> has_cancel db' (te_lifecycle_id t)"
    by (auto simp: terminals_ok_def)
  have chain: "backed_by_chain (host E) (stored_execution s (te_terminal_json t))"
    if "terminalValid (host E) s (te_terminal_json t) ms" for s ms
  proof -
    have "opt_prop (terminal (stored_execution s (te_terminal_json t))) ''state'' = JStr ''succeeded''"
      using extract_parse [OF state] by (simp add: stored_execution_def)
    with that have "catchE (valid_js (v2_validateM2LifecycleTerminalSnapshotForExecution (host E)
        (stored_execution s (te_terminal_json t)))) False"
      by (simp add: terminalValid_def Let_def)
    with caught_valid chain_backed show ?thesis by blast
  qed
  from backed none chain show ?thesis unfolding success_backed_def by blast
qed

section \<open>What is final\<close>

text \<open>The rows of one lifecycle.\<close>

definition rows_of :: "database \<Rightarrow> string \<Rightarrow> approval_row list \<times> grant_set_row list \<times> cancel_row list \<times> receipt_row list" where
  "rows_of db l = (filter (\<lambda>a. ap_lifecycle_id a = l) (db_approvals db), filter (\<lambda>g. gs_lifecycle_id g = l) (db_grant_sets db),
     filter (\<lambda>c. ca_lifecycle_id c = l) (db_cancels db), filter (\<lambda>c. rc_lifecycle_id c = l) (db_receipts db))"

lemma rows_written:
  assumes "row_written E db db'" and "has_cancel db l \<or> has_terminal db l"
  shows "rows_of db' l = rows_of db l"
  using assms
proof (induction rule: row_written.induct)
  case (4 c db db')
  then have "ca_lifecycle_id c \<noteq> l" by (auto simp: has_cancel_def list_ex_iff dest!: inserted)
  with 4 show ?case by (auto simp: rows_of_def dest!: inserted)
qed (auto simp: rows_of_def dest!: inserted)

lemma rows_step:
  assumes "lifecycle_step E db db'" and "has_cancel db l \<or> has_terminal db l"
  shows "rows_of db' l = rows_of db l"
  using step_effect [OF assms(1)] rows_written [OF _ assms(2)] external_lifecycle by (auto simp: rows_of_def)

lemma rows_steps:
  assumes "(lifecycle_step E)\<^sup>*\<^sup>* db db'" and "has_cancel db l \<or> has_terminal db l"
  shows "rows_of db' l = rows_of db l"
  using assms
proof (induction rule: rtranclp_induct)
  case (step y z)
  then have "has_cancel y l \<or> has_terminal y l" using extends_has [OF steps_extend [OF step(1)]] by blast
  with step rows_step show ?case by metis
qed simp

text \<open>
  C10. A cancellation is final. Once one is recorded, whatever is recorded or stored later, the
  approval, the grant set, the receipt and the cancellation of that lifecycle stay as they are, so no
  authority is added after it; and no terminal that is recorded for that lifecycle later is a success.
\<close>

theorem cancellation_final:
  assumes "has_cancel db l" and "(lifecycle_step E)\<^sup>*\<^sup>* db db'"
  shows "has_cancel db' l \<and> rows_of db' l = rows_of db l
    \<and> (\<forall>t \<in> set (db_terminals db') - set (db_terminals db). te_lifecycle_id t = l \<longrightarrow> te_terminal_status t \<noteq> ''succeeded'')"
proof -
  have "has_cancel db' l" using extends_has(3) [OF steps_extend [OF assms(2)] assms(1)] .
  with terminals_steps [OF assms(2)] rows_steps [OF assms(2)] assms(1) show ?thesis by (auto simp: terminals_ok_def)
qed

definition terminals_of :: "database \<Rightarrow> string \<Rightarrow> terminal_row list" where
  "terminals_of db l = filter (\<lambda>t. te_lifecycle_id t = l) (db_terminals db)"

lemma closed_written:
  assumes "row_written E db db'" and "has_terminal db l"
  shows "terminals_of db' l = terminals_of db l
    \<and> (\<exists>new. db_events db' = db_events db @ new \<and> (\<forall>e \<in> set new. ev_lifecycle_id e = l \<longrightarrow> ev_event_type e = ''terminal_recorded''))"
  using assms
proof (induction rule: row_written.induct)
  case (6 t db db')
  then have "te_lifecycle_id t \<noteq> l" by (auto simp: has_terminal_def list_ex_iff dest!: inserted)
  with 6 show ?case by (auto simp: terminals_of_def dest!: inserted)
next
  case (7 e db db')
  then show ?case by (auto simp: terminals_of_def event_refused_def Let_def dest!: inserted)
qed (auto simp: terminals_of_def dest!: inserted)

lemma closed_steps:
  assumes "(lifecycle_step E)\<^sup>*\<^sup>* db db'" and "has_terminal db l"
  shows "terminals_of db' l = terminals_of db l
    \<and> (\<exists>new. db_events db' = db_events db @ new \<and> (\<forall>e \<in> set new. ev_lifecycle_id e = l \<longrightarrow> ev_event_type e = ''terminal_recorded''))"
  using assms
proof (induction rule: rtranclp_induct)
  case (step y z)
  have t: "has_terminal y l" using extends_has(5) [OF steps_extend [OF step(1)] step(4)] .
  have "terminals_of z l = terminals_of y l
    \<and> (\<exists>new. db_events z = db_events y @ new \<and> (\<forall>e \<in> set new. ev_lifecycle_id e = l \<longrightarrow> ev_event_type e = ''terminal_recorded''))"
    using step_effect [OF step(2)] closed_written [OF _ t] external_lifecycle by (auto simp: terminals_of_def)
  with step.IH [OF step(4)] show ?case by (auto simp: ball_Un)
qed simp

text \<open>
  C11. A terminal closes its lifecycle. Once one is recorded, no run of the system changes a row of that
  lifecycle or records another terminal for it, the only events its journal still takes are
  \<open>terminal_recorded\<close>, and recovery never lists it again.
\<close>

theorem terminal_closes_lifecycle:
  assumes "has_terminal db l" and "(lifecycle_step E)\<^sup>*\<^sup>* db db'"
  shows "terminals_of db' l = terminals_of db l \<and> rows_of db' l = rows_of db l
    \<and> (\<forall>e \<in> set (drop (length (db_events db)) (db_events db')). ev_lifecycle_id e = l \<longrightarrow> ev_event_type e = ''terminal_recorded'')
    \<and> l \<notin> rv_lifecycle_id ` set (listRecoverable db')"
proof -
  have "has_terminal db' l" using extends_has(5) [OF steps_extend [OF assms(2)] assms(1)] .
  then show ?thesis using closed_steps [OF assms(2,1)] rows_steps [OF assms(2)] assms(1)
    by (auto simp: listRecoverable_def recoverable_row_def Let_def)
qed

section \<open>The journal\<close>

definition event_backed :: "database \<Rightarrow> event_row \<Rightarrow> bool" where
  "event_backed db e \<longleftrightarrow>
     (let l = ev_lifecycle_id e; kind = ev_event_type e
      in (\<exists>p \<in> set (db_operations db). op_lifecycle_id p = l)
         \<and> (kind = ''approval_recorded'' \<longrightarrow> has_approval db l) \<and> (kind = ''grant_set_recorded'' \<longrightarrow> has_grant_set db l)
         \<and> (kind = ''cancel_requested'' \<longrightarrow> has_cancel db l) \<and> (kind = ''governance_receipt_recorded'' \<longrightarrow> has_receipt db l)
         \<and> (kind = ''terminal_recorded'' \<longrightarrow> has_terminal db l))"

lemma event_backed_extends: "extends db db' \<Longrightarrow> event_backed db e \<Longrightarrow> event_backed db' e"
  using extends_sets(1) extends_has unfolding event_backed_def Let_def by blast

lemma written_events:
  "row_written E db db' \<Longrightarrow> e \<in> set (db_events db') \<Longrightarrow> e \<in> set (db_events db) \<or> event_backed db e"
  by (induction rule: row_written.induct) (auto simp: event_backed_def event_refused_def Let_def list_ex_iff dest!: inserted)

lemma events_reachable: "reachable E db \<Longrightarrow> \<forall>e \<in> set (db_events db). event_backed db e"
proof (induction rule: reachable.induct)
  case (further db db')
  have ext: "extends db db'" by (rule step_extends [OF further(2)])
  have "e \<in> set (db_events db) \<or> event_backed db e" if "e \<in> set (db_events db')" for e
    using step_effect [OF further(2)] written_events external_lifecycle that by metis
  with further(3) event_backed_extends [OF ext] show ?case by blast
qed (simp add: empty_database_def)

text \<open>The order of the numbers is the order of recording.\<close>

lemma later_events_above:
  assumes "extends db db'" and "keys_ok db'" and "e \<in> set (db_events db)" and "e' \<in> set (drop (length (db_events db)) (db_events db'))"
  shows "ev_seq e < ev_seq e'"
proof -
  obtain new where "db_events db' = db_events db @ new" using assms(1) by (auto simp: extends_def prefix_def)
  then show ?thesis using assms(2-4) by (auto simp: keys_ok_def sorted_wrt_append)
qed

lemma events_in_order:
  assumes "keys_ok db"
  shows "sort_key ev_seq (filter P (db_events db)) = filter P (db_events db)"
proof -
  have "sorted_wrt (<) (map ev_seq (db_events db))" using assms by (simp add: keys_ok_def)
  then have "sorted (map ev_seq (db_events db))" by (rule strict_sorted_imp_sorted)
  then show ?thesis by (simp add: sorted_filter sorted_sort_id sort_key_id_if_sorted)
qed

text \<open>
  C12. The record is append-only and its journal tells the truth. In every reachable state each
  lifecycle and each execution has at most one operation, approval, grant set, cancellation, receipt and
  terminal; the numbers of the events are positive and grow strictly, whatever numbers SQLite skips, and an
  event that says a row was recorded finds that row. Every later state has all rows of this one, in the
  same order, before the new ones, and a later event has a greater number than every earlier one, so
  \<open>ORDER BY seq\<close> lists a lifecycle in the order of recording.
\<close>

theorem record_append_only:
  assumes "reachable E db" and "(lifecycle_step E)\<^sup>*\<^sup>* db db'"
  shows "keys_ok db \<and> (\<forall>e \<in> set (db_events db). event_backed db e) \<and> extends db db'
    \<and> (\<forall>e \<in> set (db_events db). \<forall>e' \<in> set (drop (length (db_events db)) (db_events db')). ev_seq e < ev_seq e')
    \<and> sort_key ev_seq (filter (\<lambda>e. ev_lifecycle_id e = l) (db_events db')) = filter (\<lambda>e. ev_lifecycle_id e = l) (db_events db')"
  using keys_reachable [OF assms(1)] events_reachable [OF assms(1)] steps_extend [OF assms(2)]
    later_events_above [OF steps_extend [OF assms(2)]] events_in_order keys_reachable [OF reachable_steps [OF assms(2,1)]] by blast

section \<open>Repetition\<close>

text \<open>
  C21. A recording can be repeated. When registering an operation, an approval, a grant set, a cancellation,
  a receipt or a terminal created its row, the same call on the database it left, after a crash or a lost
  answer say, reports the same document as not created and leaves the database as it is, so the
  record has the row once. For an approval this holds whatever the clock says then.
\<close>

theorem recording_repeats_harmlessly:
  "(registerOperation E m db = Inr (db', True, p) \<longrightarrow> registerOperation E m db' = Inr (db', False, p))
   \<and> (recordApprovalIntent E clock v db = Inr (db', True, d) \<longrightarrow> recordApprovalIntent E clock' v db' = Inr (db', False, d))
   \<and> (recordGrantSet J clock l h v db = Inr (db', True, d) \<longrightarrow> recordGrantSet J clock l h v db' = Inr (db', False, d))
   \<and> (recordCancelIntent E clock v db = Inr (db', True, d) \<longrightarrow> recordCancelIntent E clock v db' = Inr (db', False, d))
   \<and> (recordReceipt E v db = Inr (db', True, d) \<longrightarrow> recordReceipt E v db' = Inr (db', False, d))
   \<and> (recordTerminal E v db = Inr (db', True, d) \<longrightarrow> recordTerminal E v db' = Inr (db', False, d))"
  by (auto intro: register_repeats approval_repeats grant_set_repeats cancel_repeats receipt_repeats terminal_repeats)

end
