(* ===== verification/M2AuthorityReads.thy ===== *)
theory M2AuthorityReads
  imports M2AuthorityRuns
begin

text \<open>
  What was registered can be read: the documents of an operation that passed the trigger are read back
  by the getters, in every later state.
\<close>

section \<open>What the stored requests and operations have passed\<close>

lemma all_js_True: "all_js ms = Inr True \<longleftrightarrow> (\<forall>m \<in> set ms. m = Inr True)"
  by (induction ms) (auto simp: all_js_simps bindE_Inr_iff split: if_splits)

lemma catch_False: "catchE m False \<longleftrightarrow> m = Inr True"
  by (cases m) auto

lemma valid_js_True: "valid_js m = Inr True \<longleftrightarrow> (\<exists>r. m = Inr r \<and> valid r)"
  by (auto simp: valid_js_def bindE_Inr_iff)

lemma digest_is_True: "digest_is x m = Inr True \<longleftrightarrow> (\<exists>d. m = Inr d \<and> x = JStr d)"
  by (auto simp: digest_is_def bindE_Inr_iff)

lemmas accepted_simps = all_js_True catch_False valid_js_True digest_is_True

definition requests_ok :: "effect_env \<Rightarrow> database \<Rightarrow> bool" where
  "requests_ok E db = list_all (request_exact E db) (db_requests db)"

definition operations_ok :: "effect_env \<Rightarrow> database \<Rightarrow> bool" where
  "operations_ok E db = list_all (\<lambda>p. operation_checks p \<and> list_ex (operation_exact (host E) p) (db_requests db)) (db_operations db)"

lemma request_exact_extends:
  assumes "extends db db'" and "request_exact E db q"
  shows "request_exact E db' q"
proof -
  have "list_ex f (db_effects db')" if "list_ex f (db_effects db)" for f
    using that extends_sets(10) [OF assms(1)] by (auto simp: list_ex_iff)
  with assms(2) show ?thesis unfolding request_exact_def Let_def by (auto split: if_splits)
qed

lemma written_requests: "row_written E db db' \<Longrightarrow> db_requests db' = db_requests db"
  by (induction rule: row_written.induct) (auto dest!: inserted)

lemma requests_step:
  assumes "lifecycle_step E db db'" and "requests_ok E db"
  shows "requests_ok E db'"
proof -
  note ext = request_exact_extends [OF step_extends [OF assms(1)]]
  have "q \<in> set (db_requests db) \<or> request_exact E db q" if "q \<in> set (db_requests db')" for q
    using step_effect [OF assms(1)] that written_requests by (auto elim: external.cases)
  with assms(2) ext show ?thesis by (auto simp: requests_ok_def list_all_iff)
qed

lemma operations_step:
  assumes "lifecycle_step E db db'" and "operations_ok E db"
  shows "operations_ok E db'"
proof -
  note sets = extends_sets [OF step_extends [OF assms(1)]]
  have "p \<in> set (db_operations db) \<or> operation_checks p \<and> list_ex (operation_exact (host E) p) (db_requests db)"
    if "p \<in> set (db_operations db')" for p
  proof -
    consider "db' = db" | "row_written (host E) db db'" | "external E db db'" using step_effect [OF assms(1)] by blast
    then show ?thesis
    proof cases
      case 2
      then show ?thesis using that by (induction rule: row_written.induct) (auto dest!: inserted)
    qed (use that external_lifecycle in auto)
  qed
  with assms(2) sets(8) show ?thesis unfolding operations_ok_def list_all_iff list_ex_iff by blast
qed

lemma stored_ok_reachable: "reachable E db \<Longrightarrow> requests_ok E db \<and> operations_ok E db"
  by (induction rule: reachable.induct) (use requests_step operations_step in \<open>auto simp: requests_ok_def operations_ok_def empty_database_def\<close>)

section \<open>Reading them back\<close>

text \<open>A text equal to the canonical text of the document it parses to.\<close>

lemma parsed_truthy: "truthy (parseJson (Some t)) \<Longrightarrow> JSON_parse t = Some (parseJson (Some t))"
  by (auto simp: parseJson_def truthy_def split: option.splits)

lemma canonicalEquals_iff: "canonicalEquals E v (Some t) \<longleftrightarrow> canonicalizeM2ExecutionValue E v = Inr t"
  by (auto simp: canonicalEquals_def accepted_simps bindE_Inr_iff)

lemma parse_accepted:
  assumes "JSON_parse t = Some v" and "validator v = Inr r" and "valid r" and "canonicalizeM2ExecutionValue E v = Inr t"
  shows "parseStored E validator t = Inr v"
  using assms by (simp add: parseStored_def all_js_simps valid_js_def)

lemma extract_string: "JSON_parse t = Some v \<Longrightarrow> json_extract t ks = JStr s \<Longrightarrow> fold (\<lambda>k x. opt_prop x k) ks v = JStr s"
  by (auto simp: json_extract_def Let_def split: if_splits)

text \<open>The plan of an accepted pair of plan and context.\<close>

lemma plan_identifier: "errors (validateM2LifecyclePlanSnapshot E v) = [] \<Longrightarrow> isIdentifier (opt_prop (opt_prop v ''identity'') ''lifecycleId'')"
  by (auto simp: validateM2LifecyclePlanSnapshot_def validateIdentity_def Let_def split: if_splits)

lemma context_accepted_v1:
  assumes "validateM2LifecyclePlanSnapshotForContext E snapshot planDoc = Inr r" and "valid r"
  shows "valid (validateM2LifecyclePlanSnapshot E planDoc) \<and> valid (validateProjectContextSnapshot E snapshot)"
  using when_valid_accepted [OF assms(1) [unfolded validateM2LifecyclePlanSnapshotForContext_def] assms(2)] validations_consistent by auto

lemma plan_for_context_accepted:
  assumes "v2_validateM2LifecyclePlanSnapshotForContext E snapshot planDoc = Inr r" and "valid r"
  shows "(\<exists>rp. v2_validateM2LifecyclePlanSnapshot E planDoc = Inr rp \<and> valid rp)
    \<and> valid (validateProjectContextSnapshot E snapshot) \<and> isIdentifier (opt_prop (opt_prop planDoc ''identity'') ''lifecycleId'')"
proof (cases "opt_prop planDoc ''version'' = JInt 1")
  case True
  with assms have "validateM2LifecyclePlanSnapshotForContext E snapshot planDoc = Inr r"
    by (simp add: v2_validateM2LifecyclePlanSnapshotForContext_def)
  from context_accepted_v1 [OF this assms(2)] True show ?thesis
    using plan_identifier validations_consistent(1) by (auto simp: v2_validateM2LifecyclePlanSnapshot_def Let_def consistent_def)
next
  case False
  with assms obtain rp c where rp: "v2_validateM2LifecyclePlanSnapshot E planDoc = Inr rp" "valid rp"
    and c: "validateM2LifecyclePlanSnapshotForContext E snapshot (planBase planDoc) = Inr c" "errors c = []"
    by (auto simp: v2_validateM2LifecyclePlanSnapshotForContext_def bindE_Inr_iff split: if_splits)
  have "valid c"
    using c when_valid_consistent valid_consistent unfolding validateM2LifecyclePlanSnapshotForContext_def by blast
  from context_accepted_v1 [OF c(1) this] rp show ?thesis
    using plan_identifier [of E "planBase planDoc"] validations_consistent(1) [of E "planBase planDoc"] by (auto simp: planBase_prop consistent_def)
qed

lemma plan_digest_accepted:
  assumes "v2_validateM2LifecyclePlanSnapshot E v = Inr r" and "valid r" and "computeM2ExecutionValueDigest E v = Inr d"
  shows "v2_computeM2LifecyclePlanSnapshotDigest E v = Inr d"
  using assms by (auto simp: v2_computeM2LifecyclePlanSnapshotDigest_def v2_validateM2LifecyclePlanSnapshot_def Let_def
      computeM2LifecyclePlanSnapshotDigest_def digest_if_valid_def bindE_Inr_iff split: if_splits)

lemma find_unique: "distinct (map f xs) \<Longrightarrow> x \<in> set xs \<Longrightarrow> find (\<lambda>y. f y = f x) xs = Some x"
  by (induction xs) (auto simp: image_iff)

text \<open>The request of an operation is read from its row.\<close>

lemma request_readable:
  assumes "keys_ok db" and "q \<in> set (db_requests db)" and "request_exact E db q"
    and "canonicalizeM2ExecutionValue (host E) v = Inr (rq_request_json q)" and "JSON_parse (rq_request_json q) = Some v"
    and "int_ge (rq_project_id q) 1"
  shows "stored_request E db (rq_execution_id q) = Inr v"
proof -
  let ?J = "host E" and ?t = "rq_request_json q"
  note x = assms(3) [unfolded request_exact_def Let_def]
  have row: "find (\<lambda>y. rq_execution_id y = rq_execution_id q) (db_requests db) = Some q"
    using find_unique assms(1,2) by (auto simp: keys_ok_def)
  have parse: "parseStored ?J (v2_validateM2ProjectChangeRequest ?J) ?t = Inr v"
    using x assms(4,5) by (auto simp: requestValid_def accepted_simps intro: parse_accepted)
  have "stored_request_exact E db q v = Inr True" if two: "opt_prop v ''version'' = JInt 2"
  proof -
    have cols: "opt_prop v ''executionId'' = JStr (rq_execution_id q)" "opt_prop v ''runId'' = JStr (rq_run_id q)"
      "opt_prop (opt_prop v ''project'') ''workspaceRevision'' = JStr (rq_workspace_revision q)"
      "opt_prop v ''authoritySetDigest'' = JStr (rq_authority_set_digest q)"
      using x extract_string [OF assms(5)] by fastforce+
    have pid: "strict_eq (opt_prop (opt_prop v ''project'') ''projectId'') (rq_project_id q)"
      using x assms(5,6) by (auto simp: json_extract_def Let_def int_ge_iff safe_int_def strict_eq_def split: if_splits jsval.splits)
    have "json_extract ?t [''version''] = JInt 2" using assms(5) two by (simp add: json_extract_def)
    then have h: "privateHttpRequestDigest ?J ?t = Some (rq_request_digest q)"
      and f: "list_ex (\<lambda>f. json_extract ?t [''focusedTest'', ''authority'', ''effectId''] = JStr (ef_effect_id f)
                   \<and> privateHttpPayloadMatches E ?t (ef_request_json f) (rq_focused_process_payload q)) (db_effects db)"
      using x by auto
    have digest: "v2_computeM2ProjectChangeRequestDigest ?J v = Inr (rq_request_digest q)"
      using h assms(5) by (auto simp: privateHttpRequestDigest_def catchE_def bindE_Inr_iff bindE_def split: if_splits sum.splits)
    from f obtain e where e: "e \<in> set (db_effects db)"
      and id: "json_extract ?t [''focusedTest'', ''authority'', ''effectId''] = JStr (ef_effect_id e)"
      and ok: "privateHttpPayloadMatches E ?t (ef_request_json e) (rq_focused_process_payload q)" by (auto simp: list_ex_iff)
    from extract_string [OF assms(5) id] have path: "opt_prop (opt_prop (opt_prop v ''focusedTest'') ''authority'') ''effectId'' = JStr (ef_effect_id e)" by simp
    have "find (\<lambda>f. ef_effect_id f = ef_effect_id e) (db_effects db) = Some e"
      using find_unique e assms(1) by (auto simp: keys_ok_def)
    with path have found: "find (\<lambda>f. JStr (ef_effect_id f) = opt_prop (opt_prop (opt_prop v ''focusedTest'') ''authority'') ''effectId'') (db_effects db) = Some e"
      by simp
    from ok assms(5) obtain w where "JSON_parse (ef_request_json e) = Some w" "validatePrivateHttpDurablePayload E v w (rq_focused_process_payload q)"
      by (auto simp: privateHttpPayloadMatches_def split: option.splits)
    with found show ?thesis
      unfolding stored_request_exact_def Let_def by (simp add: two cols pid digest digest_is_def all_js_simps)
  qed
  then have "stored_request_exact E db q v = Inr True" by (cases "opt_prop v ''version'' = JInt 2") (simp_all add: stored_request_exact_def)
  with row parse show ?thesis by (simp add: stored_request_def)
qed

text \<open>A getter reads a stored text: it returns the document the text stands for.\<close>

definition reads_text :: "js_env \<Rightarrow> jsval js \<Rightarrow> string \<Rightarrow> bool" where
  "reads_text E m t \<longleftrightarrow> (\<exists>v. m = Inr v \<and> truthy v \<and> JSON_parse t = Some v \<and> canonicalizeM2ExecutionValue E v = Inr t)"

lemma material_reads:
  assumes "material_exact E (material_of p r)"
  shows "let m = parsed (material_of p r); c = canonicalizeM2ExecutionValue E
    in (JSON_parse (op_plan_json p) = Some (m_plan m) \<and> c (m_plan m) = Inr (op_plan_json p))
       \<and> (JSON_parse r = Some (m_request m) \<and> c (m_request m) = Inr r)
       \<and> (JSON_parse (op_context_snapshot_json p) = Some (m_context m) \<and> c (m_context m) = Inr (op_context_snapshot_json p))
       \<and> (JSON_parse (op_focused_environment_json p) = Some (m_environment m) \<and> c (m_environment m) = Inr (op_focused_environment_json p))
       \<and> (JSON_parse (op_policy_json p) = Some (m_policy m) \<and> c (m_policy m) = Inr (op_policy_json p))
       \<and> (JSON_parse (op_baseline_json p) = Some (m_baseline m) \<and> c (m_baseline m) = Inr (op_baseline_json p))
       \<and> (JSON_parse (op_decision_json p) = Some (m_decision m) \<and> c (m_decision m) = Inr (op_decision_json p))"
  using assms by (auto simp: material_exact_def material_list_def parsed_def material_of_def canonicalEquals_iff intro: parsed_truthy)

lemma digest_reads:
  "jsonDigest E t = Some d \<Longrightarrow> JSON_parse t = Some v \<Longrightarrow> computeM2ExecutionValueDigest E v = Inr d"
  by (auto simp: jsonDigest_def parseJson_def Let_def catchE_def bindE_def split: if_splits sum.splits)

text \<open>The row and the request of a registered operation are found.\<close>

lemma operation_found:
  assumes "keys_ok db" and "p \<in> set (db_operations db)" and "q \<in> set (db_requests db)" and "rq_execution_id q = op_execution_id p"
  shows "find_operation db (op_lifecycle_id p) = Some p \<and> operationMaterial db (op_lifecycle_id p) = Some p"
proof -
  have "find_operation db (op_lifecycle_id p) = Some p"
    using find_unique assms(1,2) by (auto simp: find_operation_def keys_ok_def)
  moreover have "requests_of db p \<noteq> []" using assms(3,4) by (auto simp: requests_of_def filter_empty_conv)
  ultimately show ?thesis by (simp add: operationMaterial_def)
qed

lemma all_readable:
  assumes "keys_ok db" and "requests_ok E db" and "operations_ok E db" and "p \<in> set (db_operations db)"
  shows "let l = JStr (op_lifecycle_id p); J = host E
    in reads_text J (getPlan E db l) (op_plan_json p) \<and> reads_text J (getContextSnapshot J db l) (op_context_snapshot_json p)
       \<and> reads_text J (getFocusedEnvironment J db l) (op_focused_environment_json p) \<and> reads_text J (getPolicy J db l) (op_policy_json p)
       \<and> reads_text J (getBaseline J db l) (op_baseline_json p) \<and> reads_text J (getDecision J db l) (op_decision_json p)
       \<and> (\<exists>q \<in> set (db_requests db). rq_execution_id q = op_execution_id p \<and> reads_text J (getRequest E db l) (rq_request_json q))"
proof -
  let ?J = "host E"
  obtain q where q: "q \<in> set (db_requests db)" and x: "operation_exact ?J p q" and checks: "operation_checks p"
    using assms(3,4) by (auto simp: operations_ok_def list_all_iff list_ex_iff)
  let ?t = "material_of p (rq_request_json q)" let ?m = "parsed ?t"
  have val: "operationValid ?J ?t" and cols: "plan_columns_exact p" and pd: "jsonDigest ?J (op_plan_json p) = Some (op_plan_digest p)"
    and ed: "jsonDigest ?J (op_focused_environment_json p) = Some (op_focused_environment_digest p)"
    and ids: "rq_execution_id q = op_execution_id p" "rq_project_id q = op_project_id p"
    using x by (auto simp: operation_exact_def)
  from val have exact: "material_exact ?J ?t" by (simp add: operationValid_def Let_def)
  have truths: "list_all truthy (material_list ?m)" using exact by (simp add: material_exact_def)
  note texts = material_reads [OF exact, unfolded Let_def]
  obtain rc rd rg where rc: "v2_validateM2LifecyclePlanSnapshotForContext ?J (m_context ?m) (m_plan ?m) = Inr rc" "valid rc"
    and rd: "v2_validateM2LifecyclePlanSnapshotForDecision ?J (m_request ?m) (m_decision ?m) (m_plan ?m) = Inr rd" "valid rd"
    and rg: "validateM2GovernanceDecision ?J (m_decision ?m) = Inr rg" "valid rg"
    and pv: "valid (validateM2GovernancePolicySnapshot ?J (m_policy ?m))" and bv: "valid (validateM2GovernanceBaselineSnapshot ?J (m_baseline ?m))"
    and ev: "validFocusedEnvironment ?J (m_environment ?m)"
    using val unfolding operationValid_def Let_def accepted_simps by (auto simp: valid_js_True)
  from plan_for_context_accepted [OF rc] obtain rp where rp: "v2_validateM2LifecyclePlanSnapshot ?J (m_plan ?m) = Inr rp" "valid rp"
    and cv: "valid (validateProjectContextSnapshot ?J (m_context ?m))"
    and ident: "isIdentifier (opt_prop (opt_prop (m_plan ?m) ''identity'') ''lifecycleId'')" by blast
  have "opt_prop (opt_prop (m_plan ?m) ''identity'') ''lifecycleId'' = JStr (op_lifecycle_id p)"
    using cols texts extract_string [of "op_plan_json p" "m_plan ?m"] by (fastforce simp: plan_columns_exact_def Let_def)
  with ident have l: "requireLifecycleId (JStr (op_lifecycle_id p)) = Inr (op_lifecycle_id p)" by (simp add: requireLifecycleId_def)
  note found = operation_found [OF assms(1,4) q ids(1)]
  have "stored_request E db (rq_execution_id q) = Inr (m_request ?m)"
    using assms(1,2) q texts ids checks by (intro request_readable) (auto simp: requests_ok_def list_all_iff operation_checks_def)
  then have sr: "stored_request E db (op_execution_id p) = Inr (m_request ?m)" by (simp add: ids)
  have digest: "computeM2ExecutionValueDigest ?J (m_plan ?m) = Inr (op_plan_digest p)"
    and env_digest: "computeM2ExecutionValueDigest ?J (m_environment ?m) = Inr (op_focused_environment_digest p)"
    using pd ed texts digest_reads by blast+
  have parses: "parseStored ?J (v2_validateM2LifecyclePlanSnapshot ?J) (op_plan_json p) = Inr (m_plan ?m)"
    "parseStored ?J (\<lambda>v. Inr (validateProjectContextSnapshot ?J v)) (op_context_snapshot_json p) = Inr (m_context ?m)"
    "parseStored ?J (\<lambda>v. Inr (validateM2GovernancePolicySnapshot ?J v)) (op_policy_json p) = Inr (m_policy ?m)"
    "parseStored ?J (\<lambda>v. Inr (validateM2GovernanceBaselineSnapshot ?J v)) (op_baseline_json p) = Inr (m_baseline ?m)"
    "parseStored ?J (validateM2GovernanceDecision ?J) (op_decision_json p) = Inr (m_decision ?m)"
    by (rule parse_accepted; use texts rp cv rg pv bv in simp)+
  have getters: "getPlan E db (JStr (op_lifecycle_id p)) = Inr (m_plan ?m)"
    "getContextSnapshot ?J db (JStr (op_lifecycle_id p)) = Inr (m_context ?m)"
    "getFocusedEnvironment ?J db (JStr (op_lifecycle_id p)) = Inr (m_environment ?m)"
    "getPolicy ?J db (JStr (op_lifecycle_id p)) = Inr (m_policy ?m)" "getBaseline ?J db (JStr (op_lifecycle_id p)) = Inr (m_baseline ?m)"
    "getDecision ?J db (JStr (op_lifecycle_id p)) = Inr (m_decision ?m)"
    "getRequest E db (JStr (op_lifecycle_id p)) = Inr (m_request ?m)"
    using parses rc rd plan_digest_accepted [OF rp digest] texts env_digest ev found
    by (simp_all add: getPlan_def getContextSnapshot_def getFocusedEnvironment_def getPolicy_def getBaseline_def getDecision_def
        getRequest_def getOperation_def stored_document_def l sr all_js_simps valid_js_def digest_is_def)
  then show ?thesis using texts q ids truths
    by (auto simp: Let_def reads_text_def material_list_def)
qed

text \<open>
  C22. What was registered stays readable. In every reachable state, and after everything that is recorded or
  stored later, each document of each registered operation is read without an error: the getters of the
  plan, the request, the context, the focused environment, the policy, the baseline and the decision return
  the documents whose canonical texts are the ones in the rows. No sequence of calls leaves an operation that
  the authority can no longer read.
\<close>

theorem registered_documents_readable:
  assumes "reachable E db" and "p \<in> set (db_operations db)" and "(lifecycle_step E)\<^sup>*\<^sup>* db db'"
  shows "let l = JStr (op_lifecycle_id p); J = host E
    in reads_text J (getPlan E db' l) (op_plan_json p) \<and> reads_text J (getContextSnapshot J db' l) (op_context_snapshot_json p)
       \<and> reads_text J (getFocusedEnvironment J db' l) (op_focused_environment_json p) \<and> reads_text J (getPolicy J db' l) (op_policy_json p)
       \<and> reads_text J (getBaseline J db' l) (op_baseline_json p) \<and> reads_text J (getDecision J db' l) (op_decision_json p)
       \<and> (\<exists>q \<in> set (db_requests db'). rq_execution_id q = op_execution_id p \<and> reads_text J (getRequest E db' l) (rq_request_json q))"
proof -
  have "reachable E db'" using reachable_steps assms(1,3) by blast
  moreover have "p \<in> set (db_operations db')" using extends_sets(1) [OF steps_extend [OF assms(3)]] assms(2) by blast
  ultimately show ?thesis using all_readable keys_reachable stored_ok_reachable by blast
qed

end
