(* ===== verification/M2AuthoritySamples.thy ===== *)
theory M2AuthoritySamples
  imports M2AuthorityFinal M2AuthorityReads M2LifeSamples
begin

text \<open>
  The documents of the sample execution as stored rows, on the ASCII host: they are read back as they
  were stored, their request passes its trigger, and their operation is registered, evaluated by the
  kernel.
\<close>

section \<open>Stored documents\<close>

definition text_of :: "jsval \<Rightarrow> string" where
  "text_of v = (case canonicalizeM2ExecutionValue ascii_env v of Inl e \<Rightarrow> [] | Inr t \<Rightarrow> t)"

text \<open>A document in canonical order that has a digest is stored as a text that is read back as it is.\<close>

definition stored :: "jsval \<Rightarrow> bool" where
  "stored v \<longleftrightarrow> canonicalizeM2ExecutionValue ascii_env v = Inr (text_of v) \<and> JSON_parse (text_of v) = Some v"

lemma storedI:
  assumes "computeM2ExecutionValueDigest ascii_env v = Inr d" and "json_build (normal_value ascii_env v) = v"
  shows "stored v"
proof -
  from assms(1) obtain t where t: "canonicalizeM2ExecutionValue ascii_env v = Inr t"
    by (auto simp: computeM2ExecutionValueDigest_def bindE_Inr_iff)
  with assms(2) canonical_parsed [of ascii_env 0 v t] show ?thesis
    by (simp add: stored_def text_of_def canonicalizeM2ExecutionValue_def)
qed

lemma stored_plan: "stored good_plan"
  by (rule storedI [OF good_plan_digest]) code_simp

lemma stored_approval: "stored good_approval"
  by (rule storedI [OF good_approval_digest]) code_simp

lemma stored_request_doc: "stored good_request"
  by (rule storedI [OF good_request_digest]) code_simp

lemma stored_snapshot: "stored good_snapshot"
  by (rule storedI [OF good_snapshot_digest]) code_simp

lemma stored_result_doc: "stored good_result"
  by (rule storedI [OF result_digest]) code_simp

lemma stored_decision: "stored good_allow"
  by (rule storedI [OF good_digests(1)]) code_simp

lemma stored_receipt: "stored good_receipt"
  by (rule storedI [OF good_receipt_digest]) code_simp

lemma good_terminal_digest: "computeM2ExecutionValueDigest ascii_env good_terminal = Inr (''sha256:'' @ zeros 64 ''4'')"
  by code_simp

lemma stored_terminal: "stored good_terminal"
  by (rule storedI [OF good_terminal_digest]) code_simp

definition sample_environment :: jsval where
  "sample_environment = JObj [(''HOME'', JStr ''/home/users'')]"

lemma environment_digest: "computeM2ExecutionValueDigest ascii_env sample_environment = Inr (''sha256:'' @ zeros 64 ''6'')"
  by code_simp

lemma policy_digest: "computeM2ExecutionValueDigest ascii_env sample_policy = Inr (''sha256:'' @ zeros 64 ''0'')"
  by code_simp

lemma baseline_digest: "computeM2ExecutionValueDigest ascii_env sample_baseline = Inr (''sha256:'' @ zeros 64 ''2'')"
  by code_simp

lemma stored_environment: "stored sample_environment"
  by (rule storedI [OF environment_digest]) code_simp

lemma stored_policy: "stored sample_policy"
  by (rule storedI [OF policy_digest]) code_simp

lemma stored_baseline: "stored sample_baseline"
  by (rule storedI [OF baseline_digest]) code_simp

lemmas stored_docs = stored_plan stored_approval stored_request_doc stored_snapshot stored_result_doc stored_decision
  stored_receipt stored_terminal stored_environment stored_policy stored_baseline

lemma encoded:
  assumes "stored v"
  shows "canonicalizeM2ExecutionValue ascii_env v = Inr (text_of v)" "JSON_parse (text_of v) = Some v"
    "parseJson (Some (text_of v)) = v" "canonicalEquals ascii_env v (Some (text_of v))"
  using assms by (simp_all add: stored_def parseJson_def canonicalEquals_def)

text \<open>The length of a text, counted in steps of sixteen.\<close>

fun fits :: "unit list \<Rightarrow> string \<Rightarrow> bool" where
  "fits (u # us) (_ # _ # _ # _ # _ # _ # _ # _ # _ # _ # _ # _ # _ # _ # _ # _ # s) = fits us s"
| "fits us s = (us \<noteq> [])"

lemma fits_length: "fits us s \<Longrightarrow> length s \<le> 16 * length us"
  by (induction us s rule: fits.induct) (auto simp: neq_Nil_conv)

lemma terminal_fits: "fits (replicate 64 ()) (text_of good_terminal)"
  by code_simp

definition sample_material :: "jsval material" where
  "sample_material = \<lparr>m_plan = good_plan, m_request = good_request, m_context = good_snapshot, m_environment = sample_environment,
     m_policy = sample_policy, m_baseline = sample_baseline, m_decision = good_allow\<rparr>"

definition sample_projection :: jsval where
  "sample_projection = JObj
       [(''plan'', good_plan), (''requestDigest'', sha ''e''), (''contextSnapshot'', good_snapshot),
        (''focusedEnvironment'', sample_environment), (''policySnapshot'', sample_policy),
        (''baselineSnapshot'', sample_baseline), (''decision'', good_allow)]"

lemma fits: 
  "fits (replicate 256 ()) (text_of good_plan)" "fits (replicate 256 ()) (text_of good_snapshot)" "fits (replicate 256 ()) (text_of sample_policy)"
  "fits (replicate 256 ()) (text_of sample_baseline)" "fits (replicate 256 ()) (text_of good_allow)" "fits (replicate 256 ()) (text_of sample_environment)"
  by code_simp+

lemma projection_digest: "computeM2ExecutionValueDigest ascii_env sample_projection = Inr (''sha256:'' @ zeros 64 ''f'')"
  by code_simp

section \<open>The database\<close>

definition digest_text :: "string \<Rightarrow> string" where
  "digest_text s = ''sha256:'' @ zeros 64 s"

definition sample_host :: effect_env where
  "sample_host = js_env.extend ascii_env (effect_env.fields (\<lambda>s. None) (\<lambda>s. False) (\<lambda>v. ''0''))"

lemma host_sample [simp]: "host sample_host = ascii_env"
  by (simp add: sample_host_def js_env.defs)

definition sample_operation :: operation_row where
  "sample_operation =
     \<lparr>op_lifecycle_id = ''l1'', op_milestone_id = ''m1'', op_run_id = ''r1'', op_execution_id = ''x1'', op_project_id = JInt 7,
      op_plan_version = JInt 1, op_plan_digest = digest_text ''2'', op_request_digest = digest_text ''e'',
      op_authority_set_digest = digest_text ''7'', op_context_snapshot_digest = digest_text ''5'',
      op_focused_environment_digest = digest_text ''6'', op_policy_digest = digest_text ''0'', op_baseline_digest = digest_text ''2'',
      op_decision_digest = digest_text ''2'', op_expected_after_revision = ''wsr1:'' @ zeros 64 ''9'', op_operation_digest = digest_text ''f'',
      op_plan_json = text_of good_plan, op_context_snapshot_json = text_of good_snapshot, op_focused_environment_json = text_of sample_environment,
      op_policy_json = text_of sample_policy, op_baseline_json = text_of sample_baseline, op_decision_json = text_of good_allow,
      op_created_at_ms = 1767323045006, op_approval_expires_at_ms = 1767326400000\<rparr>"

definition sample_request_row :: request_row where
  "sample_request_row =
     \<lparr>rq_execution_id = ''x1'', rq_run_id = ''r1'', rq_project_id = JInt 7, rq_request_digest = digest_text ''e'',
      rq_workspace_revision = ''wsr1:'' @ zeros 64 ''3'', rq_authority_set_digest = digest_text ''7'',
      rq_request_json = text_of good_request, rq_focused_process_payload = None\<rparr>"

definition requested_database :: database where
  "requested_database = empty_database\<lparr>db_requests := [sample_request_row]\<rparr>"

definition registered_database :: database where
  "registered_database = requested_database\<lparr>db_operations := [sample_operation]\<rparr>"

lemma sample_versions:
  "opt_prop good_plan ''version'' = JInt 1" "opt_prop good_request ''version'' = JInt 1" "opt_prop good_result ''version'' = JInt 1"
  by code_simp+

lemma v2_request_accepted: "v2_validateM2ProjectChangeRequest ascii_env good_request = Inr (validationResult [] good_request)"
  by (simp add: v2_validateM2ProjectChangeRequest_def sample_versions good_request_accepted)

lemma request_columns:
  "opt_prop good_request ''executionId'' = JStr ''x1''" "opt_prop good_request ''runId'' = JStr ''r1''"
  "opt_prop (opt_prop good_request ''project'') ''projectId'' = JInt 7"
  "opt_prop (opt_prop good_request ''project'') ''workspaceRevision'' = JStr (''wsr1:'' @ zeros 64 ''3'')"
  "opt_prop good_request ''authoritySetDigest'' = JStr (digest_text ''7'')"
  "opt_prop (opt_prop good_request ''focusedTest'') ''environmentDigest'' = JStr (''sha256:'' @ zeros 64 ''6'')"
  by (simp_all add: good_request_def sample_request_def sample_project_def sha_def digest_text_def)

lemma request_row_exact: "request_exact sample_host empty_database sample_request_row"
  by (simp add: request_exact_def sample_request_row_def requestValid_def json_extract_def encoded stored_request_doc v2_request_accepted
      valid_js_def all_js_simps sample_versions request_columns)

lemma requested_reachable: "reachable sample_host requested_database"
proof -
  have "external sample_host empty_database requested_database"
    using external.request_stored [OF request_row_exact] by (simp add: requested_database_def empty_database_def)
  then show ?thesis using reachable.fresh reachable.further lifecycle_step.elsewhere by blast
qed

section \<open>An operation is registered\<close>

lemma v2_plan_accepted: "v2_validateM2LifecyclePlanSnapshot ascii_env good_plan = Inr (validationResult [] good_plan)"
  by (simp add: v2_validateM2LifecyclePlanSnapshot_def sample_versions good_plan_accepted Let_def)

lemma v2_digests:
  "v2_computeM2LifecyclePlanSnapshotDigest ascii_env good_plan = Inr (digest_text ''2'')"
  "v2_computeM2ProjectChangeRequestDigest ascii_env good_request = Inr (digest_text ''e'')"
  by (simp_all add: v2_computeM2LifecyclePlanSnapshotDigest_def v2_computeM2ProjectChangeRequestDigest_def sample_versions document_digests digest_text_def)

lemma v2_stages:
  "v2_validateM2LifecyclePlanSnapshotForContext ascii_env good_snapshot good_plan = Inr (validationResult [] good_plan)"
  "v2_validateM2LifecyclePlanSnapshotForDecision ascii_env good_request good_allow good_plan = Inr (validationResult [] good_plan)"
  by (simp_all add: v2_validateM2LifecyclePlanSnapshotForContext_def v2_validateM2LifecyclePlanSnapshotForDecision_def sample_versions
      context_stage decision_stage)

lemma snapshot_digests:
  "computeM2GovernancePolicySnapshotDigest ascii_env sample_policy = Inr (digest_text ''0'')"
  "computeM2GovernanceBaselineDigest ascii_env sample_baseline = Inr (digest_text ''2'')"
  "computeM2GovernanceDecisionDigest ascii_env good_allow = Inr (digest_text ''2'')"
  by (simp_all add: computeM2GovernancePolicySnapshotDigest_def computeM2GovernanceBaselineDigest_def document_digests digest_if_valid_def
      good_policy_accepted good_baseline_accepted policy_digest baseline_digest digest_text_def)

lemma plan_columns:
  "opt_prop good_plan ''governancePolicyDigest'' = JStr (digest_text ''0'')" "opt_prop good_plan ''governanceBaselineDigest'' = JStr (digest_text ''2'')"
  "opt_prop good_plan ''governanceDecisionDigest'' = JStr (digest_text ''2'')" "opt_prop good_plan ''contextSnapshotDigest'' = JStr (digest_text ''5'')"
  "opt_prop good_plan ''requestDigest'' = JStr (digest_text ''e'')" "opt_prop good_plan ''authoritySetDigest'' = JStr (digest_text ''7'')"
  "opt_prop good_plan ''expectedAfterRevision'' = JStr (''wsr1:'' @ zeros 64 ''9'')" "opt_prop good_plan ''planVersion'' = JInt 1"
  "opt_prop good_plan ''identity'' = sample_identity" "opt_prop (opt_prop good_plan ''project'') ''projectId'' = JInt 7"
  "opt_prop good_plan ''state'' = JStr ''awaiting_approval''"
  by (simp_all add: good_plan_def sample_project_def sha_def wsr_def digest_text_def)

lemma identity_columns:
  "opt_prop sample_identity ''lifecycleId'' = JStr ''l1''" "opt_prop sample_identity ''milestoneId'' = JStr ''m1''"
  "opt_prop sample_identity ''runId'' = JStr ''r1''" "opt_prop sample_identity ''executionId'' = JStr ''x1''"
  by (simp_all add: sample_identity_def)

lemma snapshot_columns:
  "opt_prop sample_baseline ''complete'' = JBool True" "opt_prop sample_policy ''projectId'' = JInt 7" "opt_prop sample_baseline ''projectId'' = JInt 7"
  "opt_prop sample_policy ''workspaceRevision'' = JStr (''wsr1:'' @ zeros 64 ''3'')" "opt_prop sample_baseline ''workspaceRevision'' = JStr (''wsr1:'' @ zeros 64 ''3'')"
  by (simp_all add: sample_policy_def sample_baseline_def wsr_def)

lemma sample_bound: "\<forall>m \<in> set (snapshots_bound ascii_env sample_material). m = Inr True"
  by (simp add: snapshots_bound_def sample_material_def snapshot_columns request_columns plan_columns snapshot_digests digest_is_def strict_eq_def)

lemma sample_environment_valid: "validFocusedEnvironment ascii_env sample_environment"
  by code_simp

lemma sample_parsed: "parsed (material_of sample_operation (text_of good_request)) = sample_material"
  by (simp add: parsed_def material_of_def sample_operation_def sample_material_def encoded stored_docs)

lemma sample_truthy:
  "truthy good_plan" "truthy good_approval" "truthy good_request" "truthy good_snapshot" "truthy good_result" "truthy good_allow"
  "truthy good_receipt" "truthy good_terminal" "truthy sample_environment" "truthy sample_policy" "truthy sample_baseline"
  by code_simp+

lemma sample_exact: "material_exact ascii_env (material_of sample_operation (text_of good_request))"
  by (simp add: material_exact_def sample_parsed) (simp add: material_list_def sample_material_def material_of_def sample_operation_def sample_truthy encoded stored_docs)

lemma sample_operation_valid: "operationValid ascii_env (material_of sample_operation (text_of good_request))"
  using sample_bound
  by (simp add: operationValid_def Let_def sample_exact sample_parsed accepted_simps ball_Un)
    (simp add: sample_material_def v2_request_accepted v2_stages good_policy_accepted good_baseline_accepted good_allow_accepted sample_environment_valid
      plan_columns request_columns environment_digest)

lemma sample_operation_digest: "operationDigest ascii_env (material_of sample_operation (text_of good_request)) = Some (digest_text ''f'')"
proof -
  have "operationProjection ascii_env sample_material = Inr sample_projection"
    by (simp add: operationProjection_def sample_material_def v2_digests sample_projection_def sha_def digest_text_def)
  then show ?thesis by (simp add: operationDigest_def sample_exact sample_parsed projection_digest digest_text_def)
qed

lemma sample_row_digests:
  "jsonDigest ascii_env (text_of good_plan) = Some (digest_text ''2'')" "jsonDigest ascii_env (text_of good_snapshot) = Some (digest_text ''5'')"
  "jsonDigest ascii_env (text_of sample_environment) = Some (digest_text ''6'')"
proof -
  have "good_plan \<noteq> JNull" "good_snapshot \<noteq> JNull" "sample_environment \<noteq> JNull"
    by (simp_all add: good_plan_def good_snapshot_def sample_snapshot_def sample_environment_def)
  then show "jsonDigest ascii_env (text_of good_plan) = Some (digest_text ''2'')" "jsonDigest ascii_env (text_of good_snapshot) = Some (digest_text ''5'')"
    "jsonDigest ascii_env (text_of sample_environment) = Some (digest_text ''6'')"
    by (simp_all add: jsonDigest_def encoded stored_docs chain_digests environment_digest digest_text_def)
qed

lemma sample_plan_columns: "plan_columns_exact sample_operation"
  by (simp add: plan_columns_exact_def sample_operation_def json_extract_def encoded stored_plan plan_columns identity_columns)

lemma sample_operation_exact: "operation_exact ascii_env sample_operation sample_request_row"
  using sample_operation_valid sample_plan_columns sample_row_digests sample_operation_digest
  by (simp add: operation_exact_def sample_request_row_def) (simp add: sample_operation_def)

lemma digest_column_text: "digest_column (digest_text [c])"
  by (simp add: digest_column_def digest_text_def zeros_def)

lemma fits_column: "stored v \<Longrightarrow> fits us (text_of v) \<Longrightarrow> 16 * length us \<le> n \<Longrightarrow> json_column n (text_of v)"
  using fits_length [of us "text_of v"] by (simp add: json_column_def encoded)

lemma document_columns:
  "json_column 4194304 (text_of good_plan)" "json_column 4194304 (text_of good_snapshot)" "json_column 4194304 (text_of sample_policy)"
  "json_column 4194304 (text_of good_allow)" "json_column 1048576 (text_of sample_environment)" "json_column 16777216 (text_of sample_baseline)"
  by (rule fits_column, rule stored_docs, rule fits, simp)+

lemma sample_texts:
  "text_between 1 128 ''l1''" "text_between 1 128 ''m1''" "text_between 1 128 ''r1''" "text_between 1 256 (''wsr1:'' @ zeros 64 ''9'')"
  by code_simp+

lemma sample_operation_checks: "operation_checks sample_operation"
  using sample_texts
  by (simp add: operation_checks_def sample_operation_def digest_column_text document_columns int_ge_def safe_int_def MAX_SAFE_INTEGER_def)

lemma sample_operation_inserted: "insert_operation ascii_env sample_operation requested_database = Inr registered_database"
  by (simp add: insert_operation_Inr sample_operation_checks requested_database_def registered_database_def empty_database_def sample_operation_exact)

lemma sample_identifier: "requireLifecycleId (JStr ''l1'') = Inr ''l1''"
  by code_simp

text \<open>Every document is read back from its row.\<close>

lemma parse_stored:
  assumes "stored v" and "validator v = Inr (validationResult [] v)"
  shows "parseStored ascii_env validator (text_of v) = Inr v"
  using assms by (simp add: parseStored_def encoded all_js_simps valid_js_def)

lemma read_request: "db_requests db = [sample_request_row] \<Longrightarrow> stored_request sample_host db ''x1'' = Inr good_request"
  by (simp add: stored_request_def sample_request_row_def parse_stored stored_request_doc v2_request_accepted stored_request_exact_def sample_versions)

lemma sample_times:
  "requireTimestamp (opt_prop good_plan ''createdAt'') = Inr 1767323045006" "requireTimestamp (opt_prop good_plan ''approvalExpiresAt'') = Inr 1767326400000"
  by code_simp+

lemma sample_required: "require_material ascii_env sample_material = Inr ()"
proof -
  have "all_js (Inr True # snapshots_bound ascii_env sample_material) = Inr True" using sample_bound by (simp add: all_js_True)
  then show ?thesis
    unfolding sample_material_def
    by (simp add: require_material_def requireValid_def requireFocusedEnvironment_def v2_plan_accepted v2_request_accepted good_snapshot_accepted good_policy_accepted good_baseline_accepted
      good_allow_accepted sample_environment_valid environment_digest request_columns v2_stages)
qed

definition sample_texts_row :: operation_texts where
  "sample_texts_row =
     \<lparr>ot_material = \<lparr>m_plan = text_of good_plan, m_request = [], m_context = text_of good_snapshot, m_environment = text_of sample_environment,
        m_policy = text_of sample_policy, m_baseline = text_of sample_baseline, m_decision = text_of good_allow\<rparr>,
      ot_operation_digest = digest_text ''f'', ot_plan_digest = digest_text ''2'', ot_request_digest = digest_text ''e'',
      ot_environment_digest = digest_text ''6''\<rparr>"

lemma sample_encoded: "encode_operation ascii_env sample_material = Inr sample_texts_row"
proof -
  have "operationProjection ascii_env sample_material = Inr sample_projection"
    by (simp add: operationProjection_def sample_material_def v2_digests sample_projection_def sha_def digest_text_def)
  then show ?thesis
    by (simp add: encode_operation_def projection_digest)
      (simp add: sample_material_def encoded stored_docs v2_digests environment_digest sample_texts_row_def digest_text_def)
qed

lemma sample_values: "operation_values sample_material sample_texts_row 1767323045006 1767326400000 = sample_operation"
  by (simp add: operation_values_def Let_def sample_material_def sample_texts_row_def sample_operation_def plan_columns identity_columns request_columns)

lemma sample_registered: "registerOperation sample_host sample_material requested_database = Inr (registered_database, True, Some sample_operation)"
proof -
  have l: "op_lifecycle_id sample_operation = ''l1''" "op_execution_id sample_operation = ''x1''" by (simp_all add: sample_operation_def)
  have m: "m_request sample_material = good_request" "m_plan sample_material = good_plan" by (simp_all add: sample_material_def)
  have r: "stored_request sample_host requested_database ''x1'' = Inr good_request" by (rule read_request) (simp add: requested_database_def)
  have none: "existing_operation requested_database sample_operation = None" and found: "find_operation registered_database ''l1'' = Some sample_operation"
    by (simp_all add: existing_operation_def find_operation_def requested_database_def registered_database_def empty_database_def l)
  have "store_operation sample_host requested_database good_request sample_operation = Inr (registered_database, True, Some sample_operation)"
    using none found
    by (simp add: store_operation_def Let_def request_columns r sample_truthy encoded stored_request_doc sample_operation_inserted l
        getOperation_def sample_identifier)
  then show ?thesis
    by (simp add: registerOperation_def Let_def sample_required sample_encoded m sample_times sample_values)
qed

lemma registered_reachable: "reachable sample_host registered_database"
  using reachable.further [OF requested_reachable lifecycle_step.register [OF sample_registered]] .

end
