(* ===== verification/M2AuthorityWitnesses.thy ===== *)
theory M2AuthorityWitnesses
  imports M2AuthoritySamples
begin

text \<open>
  The terminal of the sample execution is recorded by the kernel, and the guarantees of the lifecycle authority
  are applied to that recording and to the operation registered before it.
\<close>

section \<open>The database before and after\<close>

definition sample_approval_row :: approval_row where
  "sample_approval_row =
     \<lparr>ap_lifecycle_id = ''l1'', ap_approval_id = ''a1'', ap_plan_digest = digest_text ''2'', ap_request_digest = digest_text ''e'',
      ap_authority_set_digest = digest_text ''7'', ap_actor_id = ''u1'', ap_intent_digest = digest_text ''3'',
      ap_intent_json = text_of good_approval, ap_approved_at_ms = 1767323070000, ap_expires_at_ms = 1767324600000,
      ap_recorded_at_ms = 1767323071000\<rparr>"

definition sample_database :: database where
  "sample_database = registered_database
     \<lparr>db_approvals := [sample_approval_row],
      db_grant_sets := [\<lparr>gs_lifecycle_id = ''l1'', gs_approval_intent_digest = digest_text ''3'', gs_authority_set_digest = digest_text ''7'',
        gs_grant_set_digest = digest_text ''9'', gs_grant_set_json = ''[]'', gs_recorded_at_ms = 1767323072000\<rparr>],
      db_receipts := [\<lparr>rc_lifecycle_id = ''l1'', rc_receipt_id = ''govreceipt1:'' @ zeros 64 ''5'', rc_decision_digest = digest_text ''2'',
        rc_result_digest = digest_text ''f'', rc_receipt_digest = digest_text ''0'', rc_receipt_json = text_of good_receipt,
        rc_recorded_at_ms = 1767323110000\<rparr>],
      db_results := [\<lparr>re_execution_id = ''x1'', re_terminal_status = ''succeeded'', re_result_json = text_of good_result\<rparr>]\<rparr>"

lemmas sample_bases = sample_database_def registered_database_def requested_database_def empty_database_def

lemma sample_rows:
  "db_terminals sample_database = []" "db_cancels sample_database = []" "db_operations sample_database = [sample_operation]"
  "db_requests sample_database = [sample_request_row]" "op_lifecycle_id sample_operation = ''l1''" "op_execution_id sample_operation = ''x1''"
  "rq_execution_id sample_request_row = ''x1''"
  by (simp_all add: sample_bases sample_operation_def sample_request_row_def)

lemma sample_found:
  "find_operation sample_database ''l1'' = Some sample_operation" "operationMaterial sample_database ''l1'' = Some sample_operation"
  by (simp_all add: find_operation_def operationMaterial_def requests_of_def sample_rows)

lemma sample_getOperation: "getOperation sample_database (JStr ''l1'') = Inr (Some sample_operation)"
  by (simp add: getOperation_def sample_identifier sample_found)

lemma sample_request_read: "stored_request sample_host sample_database ''x1'' = Inr good_request"
  by (rule read_request) (rule sample_rows)

lemma sample_parses:
  "parseStored ascii_env (v2_validateM2LifecyclePlanSnapshot ascii_env) (text_of good_plan) = Inr good_plan"
  "parseStored ascii_env (\<lambda>v. Inr (validateProjectContextSnapshot ascii_env v)) (text_of good_snapshot) = Inr good_snapshot"
  "parseStored ascii_env (validateM2GovernanceDecision ascii_env) (text_of good_allow) = Inr good_allow"
  "parseStored ascii_env (\<lambda>v. Inr (validateM2LifecycleApprovalIntent v)) (text_of good_approval) = Inr good_approval"
  "parseStored ascii_env (\<lambda>v. Inr (validateM2GovernanceReceipt ascii_env v)) (text_of good_receipt) = Inr good_receipt"
  by (rule parse_stored, rule stored_docs, simp add: v2_plan_accepted good_snapshot_accepted good_allow_accepted good_approval_accepted
      good_receipt_accepted)+

text \<open>Every document is read back from its row.\<close>

lemma sample_reads:
  "getPlan sample_host sample_database (JStr ''l1'') = Inr good_plan"
  "getContextSnapshot ascii_env sample_database (JStr ''l1'') = Inr good_snapshot"
  "getDecision ascii_env sample_database (JStr ''l1'') = Inr good_allow"
  "getApprovalIntent ascii_env sample_database (JStr ''l1'') = Inr good_approval"
  "getReceipt ascii_env sample_database (JStr ''l1'') = Inr good_receipt"
  "stored_result sample_database sample_operation = Inr (Some good_result)"
proof -
  have texts: "op_plan_json sample_operation = text_of good_plan" "op_context_snapshot_json sample_operation = text_of good_snapshot"
    "op_decision_json sample_operation = text_of good_allow" "op_plan_digest sample_operation = digest_text ''2''"
    by (simp_all add: sample_operation_def)
  show "getPlan sample_host sample_database (JStr ''l1'') = Inr good_plan"
    by (simp add: getPlan_def sample_identifier sample_found texts sample_parses sample_rows sample_request_read v2_stages v2_digests all_js_simps
        valid_js_def digest_is_def)
  show "getContextSnapshot ascii_env sample_database (JStr ''l1'') = Inr good_snapshot" "getDecision ascii_env sample_database (JStr ''l1'') = Inr good_allow"
    by (simp_all add: getContextSnapshot_def getDecision_def stored_document_def sample_identifier sample_found texts sample_parses)
  show "getApprovalIntent ascii_env sample_database (JStr ''l1'') = Inr good_approval" "getReceipt ascii_env sample_database (JStr ''l1'') = Inr good_receipt"
    by (simp_all add: getApprovalIntent_def getReceipt_def sample_identifier sample_database_def sample_approval_row_def sample_parses)
  show "stored_result sample_database sample_operation = Inr (Some good_result)"
    by (simp add: stored_result_def results_of_def sample_database_def sample_rows encoded stored_result_doc)
qed

section \<open>The terminal is recorded\<close>

definition sample_terminal_row :: terminal_row where
  "sample_terminal_row =
     \<lparr>te_lifecycle_id = ''l1'', te_execution_id = ''x1'', te_terminal_status = ''succeeded'', te_terminal_digest = digest_text ''4'',
      te_terminal_json = text_of good_terminal, te_completed_at_ms = 1767323111000\<rparr>"

definition closed_database :: database where
  "closed_database = sample_database\<lparr>db_terminals := [sample_terminal_row]\<rparr>"

definition sample_stored :: stored_documents where
  "sample_stored = \<lparr>sd_plan = text_of good_plan, sd_approval = Some (text_of good_approval), sd_request = text_of good_request,
     sd_context = text_of good_snapshot, sd_result = Some (text_of good_result), sd_decision = text_of good_allow,
     sd_receipt = Some (text_of good_receipt)\<rparr>"

lemma sample_execution: "stored_execution sample_stored (text_of good_terminal) = good_documents"
  by (simp add: stored_execution_def sample_stored_def good_documents_def encoded stored_docs)

lemma sample_completed: "date_is (opt_prop good_terminal ''completedAt'') 1767323111000"
  by code_simp

lemma sample_state: "opt_prop good_terminal ''state'' = JStr ''succeeded''" "opt_prop good_terminal ''errorCode'' = JNull"
  by code_simp+

lemma sample_terminal_valid: "terminalValid ascii_env sample_stored (text_of good_terminal) 1767323111000"
proof -
  have "terminal_exact ascii_env sample_stored (text_of good_terminal) 1767323111000"
    by (simp add: terminal_exact_def sample_execution sample_truthy sample_completed)
      (simp add: sample_stored_def encoded stored_docs)
  then show ?thesis
    by (simp add: terminalValid_def Let_def sample_execution sample_truthy sample_state valid_js_def terminal_stage_v2)
qed

lemma sample_terminal_digest: "jsonDigest ascii_env (text_of good_terminal) = Some (digest_text ''4'')"
proof -
  have "good_terminal \<noteq> JNull" by (simp add: good_terminal_def)
  then show ?thesis by (simp add: jsonDigest_def encoded stored_terminal good_terminal_digest digest_text_def)
qed

lemma sample_extract:
  "json_extract (text_of good_terminal) [''state''] = JStr ''succeeded''" "json_extract (text_of good_terminal) [''errorCode''] = JNull"
  by (simp_all add: json_extract_def encoded stored_terminal sample_state)

lemma sample_authority: "terminal_joined ascii_env sample_database sample_terminal_row sample_operation"
  using sample_terminal_valid
  by (simp add: terminal_joined_def requests_of_def left_join_def sample_bases sample_approval_row_def sample_request_row_def
      terminal_authority_def stored_for_def sample_stored_def sample_terminal_row_def sample_operation_def sample_extract
      sample_terminal_digest has_grant_set_def has_cancel_def late_success_def)

lemma sample_insert: "insert_terminal ascii_env sample_terminal_row sample_database = Inr closed_database"
proof -
  have "length (text_of good_terminal) \<le> 4194304" using fits_length [OF terminal_fits] by simp
  then have "json_column 4194304 (text_of good_terminal)" by (simp add: json_column_def encoded stored_terminal)
  moreover have "digest_column (digest_text ''4'')" by code_simp
  ultimately show ?thesis using sample_authority
    by (simp add: insert_terminal_def closed_database_def sample_rows) (simp add: sample_terminal_row_def TERMINAL_ROW_STATES_def)
qed

lemma sample_fields:
  "opt_prop good_terminal ''terminal'' = JUndef" "opt_prop (opt_prop good_terminal ''identity'') ''lifecycleId'' = JStr ''l1''"
  "opt_prop (opt_prop good_terminal ''identity'') ''executionId'' = JStr ''x1''"
  by code_simp+

lemma sample_timestamp: "requireTimestamp (opt_prop good_terminal ''completedAt'') = Inr 1767323111000"
  by code_simp

lemma sample_wrapped: "unwrap good_terminal ''terminal'' = good_terminal" "\<not> wrapper_mismatch good_terminal ''terminal'' (JStr ''l1'')"
  by (simp_all add: unwrap_def or_value_def wrapper_mismatch_def sample_fields truthy_def)

lemma terminal_digest: "computeM2LifecycleTerminalSnapshotDigest ascii_env good_terminal = Inr (digest_text ''4'')"
  by (simp add: computeM2LifecycleTerminalSnapshotDigest_def digest_if_valid_def good_terminal_accepted good_terminal_digest digest_text_def)

lemma terminal_documents_sample:
  "terminal_documents good_snapshot good_plan good_approval good_request (Some good_result) good_allow good_receipt good_terminal = good_documents"
  by (simp add: terminal_documents_def good_documents_def)

lemma terminal_recorded: "recordTerminal sample_host good_terminal sample_database = Inr (closed_database, True, good_terminal)"
  unfolding recordTerminal_def Let_def host_sample sample_wrapped sample_fields
  using sample_insert
  by (simp add: sample_wrapped requireValid_def good_terminal_accepted sample_getOperation sample_reads sample_request_read sample_rows
      encoded stored_terminal sample_timestamp terminal_digest sample_state terminal_documents_sample terminal_stage_v2 valid_js_def
      sample_terminal_row_def)

lemma sample_run: "(lifecycle_step sample_host)\<^sup>*\<^sup>* sample_database closed_database"
  by (rule r_into_rtranclp, rule lifecycle_step.terminate [OF terminal_recorded])

section \<open>The guarantees at this database\<close>

theorem recorded_success_backed_witness:
  "\<not> has_cancel closed_database ''l1'' \<and> has_grant_set closed_database ''l1''
   \<and> (\<exists>c \<in> set (db_receipts closed_database). rc_lifecycle_id c = ''l1'')"
  using recorded_success_backed [OF sample_run, of sample_terminal_row]
  by (auto simp: closed_database_def sample_terminal_row_def sample_rows)

definition next_step :: step_row where
  "next_step = \<lparr>st_execution_id = ''x2'', st_effect_id = ''e9'', st_request_digest = digest_text ''1''\<rparr>"

lemma stored_step: "(lifecycle_step sample_host)\<^sup>*\<^sup>* db (db\<lparr>db_steps := db_steps db @ [next_step]\<rparr>)"
  by (rule r_into_rtranclp) (rule lifecycle_step.elsewhere, rule external.step_stored)

definition cancelled_database :: database where
  "cancelled_database = sample_database\<lparr>db_cancels := [\<lparr>ca_lifecycle_id = ''l1'', ca_cancel_id = ''k1'', ca_actor_id = ''u1'',
     ca_intent_digest = digest_text ''8'', ca_intent_json = ''{}'', ca_requested_at_ms = 1767323073000\<rparr>]\<rparr>"

theorem cancellation_final_witness:
  "rows_of (cancelled_database\<lparr>db_steps := db_steps cancelled_database @ [next_step]\<rparr>) ''l1'' = rows_of cancelled_database ''l1''"
  using cancellation_final [OF _ stored_step, of cancelled_database "''l1''"] by (simp add: has_cancel_def cancelled_database_def)

theorem terminal_closes_lifecycle_witness:
  "''l1'' \<notin> rv_lifecycle_id ` set (listRecoverable (closed_database\<lparr>db_steps := db_steps closed_database @ [next_step]\<rparr>))"
  using terminal_closes_lifecycle [OF _ stored_step, of closed_database "''l1''"]
  by (simp add: has_terminal_def closed_database_def sample_terminal_row_def)

text \<open>Two events, the first of which finds two numbers used up.\<close>

definition first_event :: event_row where
  "first_event = \<lparr>ev_seq = 3, ev_event_id = ''ev1'', ev_lifecycle_id = ''l1'', ev_event_type = ''operation_registered'',
     ev_occurred_at_ms = 1767323073000, ev_details_json = ''{}''\<rparr>"

definition second_event :: event_row where
  "second_event = \<lparr>ev_seq = 4, ev_event_id = ''ev2'', ev_lifecycle_id = ''l1'', ev_event_type = ''recovery_observed'',
     ev_occurred_at_ms = 1767323073000, ev_details_json = ''{}''\<rparr>"

definition journal_database :: database where
  "journal_database = registered_database\<lparr>db_events := [first_event]\<rparr>"

definition longer_journal :: database where
  "longer_journal = registered_database\<lparr>db_events := [first_event, second_event]\<rparr>"

lemma empty_details: "canonicalizeM2ExecutionValue ascii_env (JObj []) = Inr ''{}''" "jsonDigest ascii_env ''{}'' \<noteq> None"
  "json_column 65536 ''{}''" "text_between 1 128 ''ev1''" "text_between 1 128 ''ev2''"
  by code_simp+

lemma event_names: "isIdentifier (JStr ''ev1'')" "isIdentifier (JStr ''ev2'')" "isIdentifier (JStr ''l1'')"
  "''operation_registered'' \<in> set EVENT_TYPES" "''recovery_observed'' \<in> set EVENT_TYPES" "clock_now (JInt 1767323073000) = Inr 1767323073000"
  by code_simp+

lemma registered_l1: "list_ex (\<lambda>p. op_lifecycle_id p = ''l1'') (db_operations registered_database)"
  "db_terminals registered_database = []" "db_events registered_database = []"
  by (simp_all add: registered_database_def sample_operation_def requested_database_def empty_database_def)

lemma events_inserted:
  "insert_event ascii_env 2 (first_event\<lparr>ev_seq := 0\<rparr>) registered_database = Inr journal_database"
  "insert_event ascii_env 0 (second_event\<lparr>ev_seq := 0\<rparr>) journal_database = Inr longer_journal"
  using empty_details event_names registered_l1
  by (simp_all add: insert_event_def event_refused_def has_terminal_def first_event_def second_event_def journal_database_def
      longer_journal_def next_event_seq_def)

lemma events_appended:
  "appendEvent ascii_env 2 (JInt 1767323073000) (JStr ''ev1'') (JStr ''l1'') (JStr ''operation_registered'') JUndef JUndef registered_database
     = Inr (journal_database, True, 1767323073000)"
  "appendEvent ascii_env 0 (JInt 1767323073000) (JStr ''ev2'') (JStr ''l1'') (JStr ''recovery_observed'') JUndef JUndef journal_database
     = Inr (longer_journal, True, 1767323073000)"
  using empty_details event_names events_inserted
  by (simp_all add: appendEvent_def requireLifecycleId_def given_or_def or_value_def str_in_def str_sat_def isPlainRecord_def
      attempt_def first_event_def second_event_def)

lemma journal_reachable: "reachable sample_host journal_database"
  using reachable.further [OF registered_reachable lifecycle_step.journal] events_appended(1) by (simp add: host_sample)

lemma journal_run: "(lifecycle_step sample_host)\<^sup>*\<^sup>* journal_database longer_journal"
  using lifecycle_step.journal [of sample_host] events_appended(2) by (simp add: host_sample r_into_rtranclp)

theorem record_append_only_witness:
  "extends journal_database longer_journal \<and> event_backed journal_database first_event \<and> ev_seq first_event < ev_seq second_event
   \<and> map ev_seq (sort_key ev_seq (filter (\<lambda>e. ev_lifecycle_id e = ''l1'') (db_events longer_journal))) = [3, 4]"
proof -
  have rows: "db_events journal_database = [first_event]" "db_events longer_journal = [first_event, second_event]"
    by (simp_all add: journal_database_def longer_journal_def)
  then show ?thesis
    using record_append_only [OF journal_reachable journal_run, of "''l1''"] by (simp add: first_event_def second_event_def)
qed

theorem recording_repeats_harmlessly_witness:
  "recordTerminal sample_host good_terminal closed_database = Inr (closed_database, False, good_terminal)"
  using recording_repeats_harmlessly [of sample_host _ sample_database closed_database _ _ good_terminal good_terminal] terminal_recorded
  by blast

theorem registered_documents_readable_witness:
  "reads_text ascii_env (getPlan sample_host (registered_database\<lparr>db_steps := db_steps registered_database @ [next_step]\<rparr>) (JStr ''l1''))
     (text_of good_plan)"
proof -
  have m: "sample_operation \<in> set (db_operations registered_database)" and j: "op_plan_json sample_operation = text_of good_plan"
    by (simp_all add: registered_database_def sample_operation_def)
  show ?thesis using registered_documents_readable [OF registered_reachable m stored_step] j by (simp add: Let_def sample_rows)
qed

end
