(* ===== verification/CircuitBreaker.thy ===== *)
theory CircuitBreaker
  imports Prelude JsValue
begin

text \<open>
  The circuit breaker of \<open>src/executor/circuit-breaker.js\<close>: the breaker of one tool and the
  registry of breakers. Every operation is synchronous, so \<open>Date.now()\<close> is one argument
  \<open>now\<close> of the operation, in milliseconds; thresholds and times are integers.
\<close>

section \<open>State\<close>

datatype CircuitState = CLOSED | OPEN | HALF_OPEN

record breaker_options =
  opt_failureThreshold :: "int option"
  opt_successThreshold :: "int option"
  opt_resetTimeout :: "int option"
  opt_failureWindow :: "int option"
  opt_halfOpenMaxRequests :: "int option"

record breaker_config =
  failureThreshold :: int
  successThreshold :: int
  resetTimeout :: int
  failureWindow :: int
  halfOpenMaxRequests :: int

record failure_entry =
  timestamp :: int
  error_message :: "string option"

record state_change =
  change_from :: CircuitState
  change_to :: CircuitState
  change_timestamp :: string

record breaker_metrics =
  total_calls :: int
  total_successes :: int
  total_failures :: int
  total_blocked :: int
  state_changes :: "state_change list"

record breaker =
  config :: breaker_config
  state :: CircuitState
  failures :: "failure_entry list"
  successes :: int
  lastFailureTime :: "int option"
  openedAt :: "int option"
  halfOpenRequests :: int
  metrics :: breaker_metrics

definition default_to :: "int option \<Rightarrow> int \<Rightarrow> int" where
  "default_to v d = (case v of None \<Rightarrow> d | Some x \<Rightarrow> x)"

definition empty_metrics :: breaker_metrics where
  "empty_metrics = \<lparr>total_calls = 0, total_successes = 0, total_failures = 0, total_blocked = 0, state_changes = []\<rparr>"

definition new_breaker :: "breaker_options \<Rightarrow> breaker" where
  "new_breaker c =
     \<lparr>config = \<lparr>failureThreshold = default_to (opt_failureThreshold c) 5,
                successThreshold = default_to (opt_successThreshold c) 2,
                resetTimeout = default_to (opt_resetTimeout c) 30000,
                failureWindow = default_to (opt_failureWindow c) 60000,
                halfOpenMaxRequests = default_to (opt_halfOpenMaxRequests c) 3\<rparr>,
      state = CLOSED, failures = [], successes = 0, lastFailureTime = None, openedAt = None,
      halfOpenRequests = 0, metrics = empty_metrics\<rparr>"

section \<open>Operations\<close>

definition cleanupOldFailures :: "int \<Rightarrow> breaker \<Rightarrow> breaker" where
  "cleanupOldFailures now b =
     (let cutoff = now - failureWindow (config b)
      in b\<lparr>failures := filter (\<lambda>f. timestamp f > cutoff) (failures b)\<rparr>)"

text \<open>\<open>!this.openedAt\<close> holds for null and for 0.\<close>

definition shouldAttemptReset :: "int \<Rightarrow> breaker \<Rightarrow> bool" where
  "shouldAttemptReset now b =
     (case openedAt b of
        None \<Rightarrow> False
      | Some t \<Rightarrow> t \<noteq> 0 \<and> now - t \<ge> resetTimeout (config b))"

definition transitionTo :: "CircuitState \<Rightarrow> int \<Rightarrow> breaker \<Rightarrow> breaker" where
  "transitionTo newState now b =
     (let b1 = b\<lparr>state := newState,
                metrics := (metrics b)\<lparr>state_changes := state_changes (metrics b)
                  @ [\<lparr>change_from = state b, change_to = newState, change_timestamp = toISOString now\<rparr>]\<rparr>\<rparr>
      in case newState of
           OPEN \<Rightarrow> b1\<lparr>openedAt := Some now\<rparr>
         | HALF_OPEN \<Rightarrow> b1\<lparr>halfOpenRequests := 0, successes := 0\<rparr>
         | CLOSED \<Rightarrow> b1\<lparr>failures := [], openedAt := None, successes := 0\<rparr>)"

record permission =
  allowed :: bool
  reason :: string
  reported_state :: CircuitState

definition count_blocked :: "breaker \<Rightarrow> breaker" where
  "count_blocked b = b\<lparr>metrics := (metrics b)\<lparr>total_blocked := total_blocked (metrics b) + 1\<rparr>\<rparr>"

definition canProceed :: "int \<Rightarrow> breaker \<Rightarrow> permission \<times> breaker" where
  "canProceed now b0 =
     (let b = cleanupOldFailures now b0
      in case state b of
           CLOSED \<Rightarrow> (\<lparr>allowed = True, reason = ''Circuit closed'', reported_state = CLOSED\<rparr>, b)
         | OPEN \<Rightarrow>
             if shouldAttemptReset now b then
               (\<lparr>allowed = True, reason = ''Testing recovery'', reported_state = HALF_OPEN\<rparr>, transitionTo HALF_OPEN now b)
             else (\<lparr>allowed = False, reason = ''Circuit open'', reported_state = OPEN\<rparr>, count_blocked b)
         | HALF_OPEN \<Rightarrow>
             if halfOpenRequests b < halfOpenMaxRequests (config b) then
               (\<lparr>allowed = True, reason = ''Half-open test'', reported_state = HALF_OPEN\<rparr>,
                b\<lparr>halfOpenRequests := halfOpenRequests b + 1\<rparr>)
             else (\<lparr>allowed = False, reason = ''Half-open limit reached'', reported_state = HALF_OPEN\<rparr>, count_blocked b))"

definition recordSuccess :: "int \<Rightarrow> breaker \<Rightarrow> breaker" where
  "recordSuccess now b0 =
     (let b = b0\<lparr>metrics := (metrics b0)\<lparr>total_calls := total_calls (metrics b0) + 1,
                                         total_successes := total_successes (metrics b0) + 1\<rparr>\<rparr>
      in if state b = HALF_OPEN then
           (let b' = b\<lparr>successes := successes b + 1\<rparr>
            in if successes b' \<ge> successThreshold (config b') then transitionTo CLOSED now b' else b')
         else b)"

definition recordFailure :: "int \<Rightarrow> string option \<Rightarrow> breaker \<Rightarrow> breaker" where
  "recordFailure now err b0 =
     (let b1 = b0\<lparr>metrics := (metrics b0)\<lparr>total_calls := total_calls (metrics b0) + 1,
                                          total_failures := total_failures (metrics b0) + 1\<rparr>,
                  failures := failures b0 @ [\<lparr>timestamp = now, error_message = err\<rparr>],
                  lastFailureTime := Some now\<rparr>;
          b = cleanupOldFailures now b1
      in if state b = HALF_OPEN then transitionTo OPEN now b
         else if state b = CLOSED \<and> int (length (failures b)) \<ge> failureThreshold (config b) then transitionTo OPEN now b
         else b)"

definition forceOpen :: "int \<Rightarrow> breaker \<Rightarrow> breaker" where
  "forceOpen now b = transitionTo OPEN now b"

definition forceClose :: "int \<Rightarrow> breaker \<Rightarrow> breaker" where
  "forceClose now b = transitionTo CLOSED now b"

definition resetMetrics :: "breaker \<Rightarrow> breaker" where
  "resetMetrics b = b\<lparr>metrics := empty_metrics\<rparr>"

record breaker_status =
  status_state :: CircuitState
  failures_in_window :: nat
  failure_threshold :: int
  last_failure :: "string option"
  opened_at :: "string option"
  time_until_reset :: "int option"

text \<open>\<open>t ? f(t) : null\<close> for a time that may be null: 0 counts as absent.\<close>

definition when_time :: "int option \<Rightarrow> (int \<Rightarrow> 'a) \<Rightarrow> 'a option" where
  "when_time t f = (case t of None \<Rightarrow> None | Some x \<Rightarrow> if x = 0 then None else Some (f x))"

definition getStatus :: "int \<Rightarrow> breaker \<Rightarrow> breaker_status" where
  "getStatus now b =
     \<lparr>status_state = state b, failures_in_window = length (failures b), failure_threshold = failureThreshold (config b),
      last_failure = when_time (lastFailureTime b) toISOString, opened_at = when_time (openedAt b) toISOString,
      time_until_reset = (if state b = OPEN then when_time (openedAt b) (\<lambda>t. max 0 (resetTimeout (config b) - (now - t)))
                          else None)\<rparr>"

record metrics_report = breaker_metrics +
  current_state :: CircuitState
  report_failures_in_window :: nat

definition getMetrics :: "breaker \<Rightarrow> metrics_report" where
  "getMetrics b = breaker_metrics.extend (metrics b)
     (metrics_report.fields (state b) (length (failures b)))"

section \<open>Registry\<close>

record registry =
  defaultConfig :: breaker_options
  breakers :: "(string \<times> breaker) list"

definition getBreaker :: "string \<Rightarrow> breaker_options option \<Rightarrow> registry \<Rightarrow> breaker \<times> registry" where
  "getBreaker toolName cfg r =
     (case map_of (breakers r) toolName of
        Some b \<Rightarrow> (b, r)
      | None \<Rightarrow>
          let b = new_breaker (case cfg of None \<Rightarrow> defaultConfig r | Some c \<Rightarrow> c)
          in (b, r\<lparr>breakers := AList.update toolName b (breakers r)\<rparr>))"

text \<open>The registry hands out the breaker object itself: an operation on it is visible in the map.\<close>

definition on_breaker :: "string \<Rightarrow> (breaker \<Rightarrow> 'a \<times> breaker) \<Rightarrow> registry \<Rightarrow> 'a \<times> registry" where
  "on_breaker toolName f r =
     (let (b, r1) = getBreaker toolName None r; (x, b') = f b
      in (x, r1\<lparr>breakers := AList.update toolName b' (breakers r1)\<rparr>))"

definition registry_canProceed :: "string \<Rightarrow> int \<Rightarrow> registry \<Rightarrow> permission \<times> registry" where
  "registry_canProceed toolName now r = on_breaker toolName (canProceed now) r"

definition registry_recordSuccess :: "string \<Rightarrow> int \<Rightarrow> registry \<Rightarrow> registry" where
  "registry_recordSuccess toolName now r = snd (on_breaker toolName (\<lambda>b. ((), recordSuccess now b)) r)"

definition registry_recordFailure :: "string \<Rightarrow> int \<Rightarrow> string option \<Rightarrow> registry \<Rightarrow> registry" where
  "registry_recordFailure toolName now err r = snd (on_breaker toolName (\<lambda>b. ((), recordFailure now err b)) r)"

definition getOpenCircuits :: "registry \<Rightarrow> string list" where
  "getOpenCircuits r = map fst (filter (\<lambda>(n, b). state b = OPEN) (breakers r))"

definition resetAll :: "int \<Rightarrow> registry \<Rightarrow> registry" where
  "resetAll now r = r\<lparr>breakers := map (\<lambda>(n, b). (n, resetMetrics (forceClose now b))) (breakers r)\<rparr>"


section \<open>Runs\<close>

datatype cb_event =
    CanProceed int
  | Success int
  | Failure int "string option"
  | ForceOpen int
  | ForceClose int
  | ResetMetrics

fun cb_step :: "cb_event \<Rightarrow> breaker \<Rightarrow> breaker" where
  "cb_step (CanProceed now) b = snd (canProceed now b)"
| "cb_step (Success now) b = recordSuccess now b"
| "cb_step (Failure now err) b = recordFailure now err b"
| "cb_step (ForceOpen now) b = forceOpen now b"
| "cb_step (ForceClose now) b = forceClose now b"
| "cb_step ResetMetrics b = resetMetrics b"

text \<open>The answers \<open>canProceed\<close> gives during a run.\<close>

fun replies :: "cb_event list \<Rightarrow> breaker \<Rightarrow> permission list" where
  "replies [] b = []"
| "replies (e # es) b =
     (case e of CanProceed now \<Rightarrow> [fst (canProceed now b)] | _ \<Rightarrow> []) @ replies es (cb_step e b)"

lemmas breaker_ops = cleanupOldFailures_def shouldAttemptReset_def transitionTo_def count_blocked_def canProceed_def
  recordSuccess_def recordFailure_def forceOpen_def forceClose_def resetMetrics_def Let_def

lemma config_step [simp]: "config (cb_step e b) = config b"
  by (cases e) (auto simp: breaker_ops split: CircuitState.splits)

section \<open>The state invariant\<close>

definition breaker_inv :: "breaker \<Rightarrow> bool" where
  "breaker_inv b \<longleftrightarrow>
     (openedAt b = None \<longleftrightarrow> state b = CLOSED)
   \<and> 0 \<le> halfOpenRequests b \<and> halfOpenRequests b \<le> max 0 (halfOpenMaxRequests (config b))
   \<and> 0 \<le> successes b \<and> (state b = HALF_OPEN \<longrightarrow> successes b < max 1 (successThreshold (config b)))
   \<and> (state b = CLOSED \<longrightarrow> int (length (failures b)) < max 1 (failureThreshold (config b)))
   \<and> total_calls (metrics b) = total_successes (metrics b) + total_failures (metrics b)"

lemma new_breaker_inv: "breaker_inv (new_breaker c)"
  by (simp add: breaker_inv_def new_breaker_def empty_metrics_def)

lemma length_filter_less_int: "int (length xs) < m \<Longrightarrow> int (length (filter P xs)) < m"
  using length_filter_le [of P xs] by linarith

lemma canProceed_inv: "breaker_inv b \<Longrightarrow> breaker_inv (snd (canProceed now b))"
  by (cases "state b") (auto simp: breaker_inv_def breaker_ops intro: length_filter_less_int)

lemma recordSuccess_inv: "breaker_inv b \<Longrightarrow> breaker_inv (recordSuccess now b)"
  by (cases "state b") (auto simp: breaker_inv_def breaker_ops)

lemma recordFailure_inv: "breaker_inv b \<Longrightarrow> breaker_inv (recordFailure now err b)"
  by (cases "state b") (auto simp: breaker_inv_def breaker_ops)

lemma control_inv:
  "breaker_inv b \<Longrightarrow> breaker_inv (forceOpen now b)"
  "breaker_inv b \<Longrightarrow> breaker_inv (forceClose now b)"
  "breaker_inv b \<Longrightarrow> breaker_inv (resetMetrics b)"
  by (auto simp: breaker_inv_def breaker_ops empty_metrics_def)

interpretation breaker_runs: guarded_machine cb_step "\<lambda>_. True" breaker_inv
proof unfold_locales
  fix e b
  assume "breaker_inv b"
  then show "breaker_inv (cb_step e b)"
    by (cases e) (simp_all add: canProceed_inv recordSuccess_inv recordFailure_inv control_inv)
qed

text \<open>
  The bookkeeping of a breaker is consistent in every state any sequence of operations reaches:
  the opening time is recorded exactly while the circuit is not closed, the half-open requests and
  successes stay inside their limits, a closed circuit holds fewer failures than its threshold, and
  every counted call is a success or a failure.
\<close>

theorem breaker_invariant: "breaker_inv (fold cb_step es (new_breaker c))"
  by (rule breaker_runs.run_inv) (simp_all add: new_breaker_inv list_all_iff)

section \<open>An open circuit blocks\<close>

text \<open>The deadline of an open circuit, and the events that may happen before it.\<close>

fun before_deadline :: "int \<Rightarrow> cb_event \<Rightarrow> bool" where
  "before_deadline d (CanProceed now) = (now < d)"
| "before_deadline d (ForceOpen now) = False"
| "before_deadline d (ForceClose now) = False"
| "before_deadline d _ = True"

fun_cases before_deadline_proceed: "before_deadline d (CanProceed now)"

definition open_until :: "int \<Rightarrow> breaker \<Rightarrow> bool" where
  "open_until d b \<longleftrightarrow> state b = OPEN \<and> (\<exists>t. openedAt b = Some t \<and> d \<le> t + resetTimeout (config b))"

lemma open_until_step: "before_deadline d e \<Longrightarrow> open_until d b \<Longrightarrow> open_until d (cb_step e b)"
  by (cases e) (auto simp: open_until_def breaker_ops)

interpretation open_runs: guarded_machine cb_step "before_deadline d" "open_until d" for d
  by unfold_locales (rule open_until_step)

lemma open_denies: "now < d \<Longrightarrow> open_until d b \<Longrightarrow> \<not> allowed (fst (canProceed now b))"
  by (auto simp: open_until_def breaker_ops)

text \<open>
  C30. While a circuit is open and its reset timeout has not passed, every request is refused,
  whatever is recorded in between and however many requests are made, and the circuit stays open.
\<close>

theorem open_circuit_blocks:
  assumes "state b = OPEN" and "openedAt b = Some t"
    and "list_all (before_deadline (t + resetTimeout (config b))) es"
  shows "state (fold cb_step es b) = OPEN \<and> list_all (\<lambda>p. \<not> allowed p) (replies es b)"
proof -
  let ?d = "t + resetTimeout (config b)"
  have start: "open_until ?d b" using assms by (simp add: open_until_def)
  have "list_all (before_deadline d) es \<Longrightarrow> open_until d b \<Longrightarrow> list_all (\<lambda>p. \<not> allowed p) (replies es b)" for d es b
  proof (induction es arbitrary: b)
    case (Cons e es)
    then have rest: "list_all (\<lambda>p. \<not> allowed p) (replies es (cb_step e b))"
      by (simp add: open_until_step)
    with Cons.prems show ?case
      by (cases e) (auto dest: open_denies)
  qed simp
  with start assms(3) have "list_all (\<lambda>p. \<not> allowed p) (replies es b)" by blast
  moreover have "open_until ?d (fold cb_step es b)"
    by (rule open_runs.run_inv [OF assms(3) start])
  ultimately show ?thesis by (simp add: open_until_def)
qed

section \<open>Admission while half-open\<close>

lemma half_open_admits:
  assumes "state b = HALF_OPEN" and "halfOpenRequests b \<le> max 0 (halfOpenMaxRequests (config b))" and "0 \<le> halfOpenRequests b"
  shows "int (length (filter allowed (replies (map CanProceed ts) b)))
    = min (int (length ts)) (max 0 (halfOpenMaxRequests (config b)) - halfOpenRequests b)"
  using assms
proof (induction ts arbitrary: b)
  case (Cons t ts)
  show ?case
  proof (cases "halfOpenRequests b < halfOpenMaxRequests (config b)")
    case True
    then have "state (snd (canProceed t b)) = HALF_OPEN" "allowed (fst (canProceed t b))"
      "halfOpenRequests (snd (canProceed t b)) = halfOpenRequests b + 1"
      using Cons.prems by (simp_all add: breaker_ops)
    moreover have "config (snd (canProceed t b)) = config b" using config_step [of "CanProceed t" b] by simp
    ultimately show ?thesis using Cons.IH [of "snd (canProceed t b)"] Cons.prems True by simp
  next
    case False
    then have "state (snd (canProceed t b)) = HALF_OPEN" "\<not> allowed (fst (canProceed t b))"
      "halfOpenRequests (snd (canProceed t b)) = halfOpenRequests b"
      using Cons.prems by (simp_all add: breaker_ops)
    moreover have "config (snd (canProceed t b)) = config b" using config_step [of "CanProceed t" b] by simp
    ultimately show ?thesis using Cons.IH [of "snd (canProceed t b)"] Cons.prems False by simp
  qed
qed simp

lemma probe_step:
  assumes "state b = OPEN" and "openedAt b = Some t0" and "t0 \<noteq> 0" and "t0 + resetTimeout (config b) \<le> t"
  shows "state (snd (canProceed t b)) = HALF_OPEN" "allowed (fst (canProceed t b))"
    "halfOpenRequests (snd (canProceed t b)) = 0" "successes (snd (canProceed t b)) = 0"
    "config (snd (canProceed t b)) = config b"
  using assms by (simp_all add: breaker_ops)

text \<open>
  C20. The exact number of requests a recovering circuit lets through. When an open circuit's reset
  timeout has passed and requests arrive without any result being recorded, exactly the first
  \<open>1 + halfOpenMaxRequests\<close> of them are admitted: the request that moves the circuit to
  half-open is admitted without being counted against the limit.
\<close>

theorem half_open_admission:
  assumes "state b = OPEN" and "openedAt b = Some t0" and "t0 \<noteq> 0"
    and "list_all (\<lambda>t. t0 + resetTimeout (config b) \<le> t) ts"
  shows "int (length (filter allowed (replies (map CanProceed ts) b)))
    = min (int (length ts)) (1 + max 0 (halfOpenMaxRequests (config b)))"
proof (cases ts)
  case (Cons t us)
  then have "t0 + resetTimeout (config b) \<le> t" using assms(4) by simp
  note first = probe_step [OF assms(1,2,3) this]
  show ?thesis
    using half_open_admits [of "snd (canProceed t b)" us] first Cons by simp
qed simp

section \<open>Recovery\<close>

text \<open>A caller that asks, and records a success for every admitted call.\<close>

definition serve :: "int \<Rightarrow> breaker \<Rightarrow> breaker" where
  "serve now b = (let (p, b') = canProceed now b in if allowed p then recordSuccess now b' else b')"

lemma serve_closed: "state b = CLOSED \<Longrightarrow> state (serve now b) = CLOSED"
  by (simp add: serve_def breaker_ops)

lemma serves_closed: "state b = CLOSED \<Longrightarrow> state (fold serve ts b) = CLOSED"
  by (induction ts arbitrary: b) (simp_all add: serve_closed)

lemma serve_half_open:
  assumes "state b = HALF_OPEN" and "halfOpenRequests b < halfOpenMaxRequests (config b)"
  shows "state (serve now b) = (if successThreshold (config b) \<le> successes b + 1 then CLOSED else HALF_OPEN)"
    and "config (serve now b) = config b"
    and "successThreshold (config b) > successes b + 1 \<Longrightarrow>
      successes (serve now b) = successes b + 1 \<and> halfOpenRequests (serve now b) = halfOpenRequests b + 1"
  using assms by (auto simp: serve_def breaker_ops)

lemma serve_stuck:
  assumes "state b = HALF_OPEN" and "\<not> halfOpenRequests b < halfOpenMaxRequests (config b)"
  shows "state (serve now b) = HALF_OPEN \<and> config (serve now b) = config b
    \<and> successes (serve now b) = successes b \<and> halfOpenRequests (serve now b) = halfOpenRequests b"
  using assms by (simp add: serve_def breaker_ops)

lemma half_open_recovery:
  assumes "state b = HALF_OPEN" and "successes b = halfOpenRequests b + 1"
    and "successes b < successThreshold (config b)"
    and "0 \<le> halfOpenRequests b" and "halfOpenRequests b \<le> max 0 (halfOpenMaxRequests (config b))"
  shows "state (fold serve ts b) =
    (if successThreshold (config b) \<le> successes b + min (int (length ts)) (max 0 (halfOpenMaxRequests (config b)) - halfOpenRequests b)
     then CLOSED else HALF_OPEN)"
  using assms
proof (induction ts arbitrary: b)
  case (Cons t ts)
  show ?case
  proof (cases "halfOpenRequests b < halfOpenMaxRequests (config b)")
    case True
    note step = serve_half_open [OF Cons.prems(1) True, of t]
    show ?thesis
    proof (cases "successThreshold (config b) \<le> successes b + 1")
      case True
      then show ?thesis using step(1) serves_closed [of "serve t b" ts] \<open>halfOpenRequests b < _\<close> by simp
    next
      case False
      then show ?thesis
        using Cons.IH [of "serve t b"] Cons.prems step \<open>halfOpenRequests b < _\<close>
        by (auto simp: min_def max_def)
    qed
  next
    case False
    then show ?thesis
      using Cons.IH [of "serve t b"] Cons.prems serve_stuck [OF Cons.prems(1) False, of t] by simp
  qed
qed simp

text \<open>
  C34. Recovery, and its limit. Once the reset timeout of an open circuit has passed and every
  admitted call succeeds, \<open>successThreshold\<close> calls close the circuit, provided the threshold is at
  most \<open>halfOpenMaxRequests + 1\<close>. With a larger threshold the circuit never closes, however long
  the healthy service is called: it stays half-open and refuses everything.
\<close>

theorem recovery_closes_circuit:
  assumes "state b = OPEN" and "openedAt b = Some t0" and "t0 \<noteq> 0"
    and "list_all (\<lambda>t. t0 + resetTimeout (config b) \<le> t) ts"
    and "ts \<noteq> []" and "successThreshold (config b) \<le> int (length ts)"
  shows "state (fold serve ts b) =
    (if successThreshold (config b) \<le> 1 + max 0 (halfOpenMaxRequests (config b)) then CLOSED else HALF_OPEN)"
proof -
  obtain t us where ts: "ts = t # us" using assms(5) by (cases ts) auto
  then have "t0 + resetTimeout (config b) \<le> t" using assms(4) by simp
  note first = probe_step [OF assms(1,2,3) this]
  let ?b = "serve t b"
  have split: "?b = recordSuccess t (snd (canProceed t b))"
    using first(2) by (simp add: serve_def case_prod_unfold)
  have st: "config ?b = config b" "halfOpenRequests ?b = 0"
    "state ?b = (if successThreshold (config b) \<le> 1 then CLOSED else HALF_OPEN)"
    "\<not> successThreshold (config b) \<le> 1 \<Longrightarrow> successes ?b = 1"
    using first by (simp_all add: split recordSuccess_def transitionTo_def Let_def)
  show ?thesis
  proof (cases "successThreshold (config b) \<le> 1")
    case True
    then show ?thesis using st serves_closed [of ?b us] ts by simp
  next
    case False
    then show ?thesis
      using half_open_recovery [of ?b us] st ts assms(6) by (auto simp: min_def max_def)
  qed
qed

section \<open>When a closed circuit trips\<close>

definition in_window :: "int \<Rightarrow> int \<Rightarrow> int list \<Rightarrow> nat" where
  "in_window w now ts = length (filter (\<lambda>t. t > now - w) ts)"

lemma filter_window: "(a::int) \<le> b \<Longrightarrow> filter (\<lambda>t. t > b) (filter (\<lambda>t. t > a) ts) = filter (\<lambda>t. t > b) ts"
  by (auto intro: filter_cong)

lemma filter_map_timestamp:
  "map timestamp (filter (\<lambda>f. timestamp f > c) fs) = filter (\<lambda>t. t > c) (map timestamp fs)"
  by (simp add: filter_map comp_def)

text \<open>
  The failures since the circuit was last closed, read off the events of a run: closing, by recovery or by
  an operator, starts a new list.
\<close>

fun event_time :: "cb_event \<Rightarrow> int option" where
  "event_time (CanProceed now) = Some now"
| "event_time (Success now) = Some now"
| "event_time (Failure now err) = Some now"
| "event_time (ForceOpen now) = Some now"
| "event_time (ForceClose now) = Some now"
| "event_time ResetMetrics = None"

definition closes :: "cb_event \<Rightarrow> breaker \<Rightarrow> bool" where
  "closes e b \<longleftrightarrow> state (cb_step e b) = CLOSED \<and> (state b \<noteq> CLOSED \<or> (case e of ForceClose now \<Rightarrow> True | _ \<Rightarrow> False))"

definition log_step :: "cb_event \<Rightarrow> breaker \<times> int list \<Rightarrow> breaker \<times> int list" where
  "log_step e p =
     (cb_step e (fst p),
      if closes e (fst p) then [] else snd p @ (case e of Failure now err \<Rightarrow> [now] | _ \<Rightarrow> []))"

definition failures_since_close :: "cb_event list \<Rightarrow> breaker \<Rightarrow> int list" where
  "failures_since_close es b = snd (fold log_step es (b, []))"

lemma log_run: "fst (fold log_step es (b, ts)) = fold cb_step es b"
  by (induction es rule: rev_induct) (simp_all add: log_step_def)

text \<open>A closed breaker remembers exactly the failures since it was closed that a later window can still see.\<close>

definition remembers :: "int list \<Rightarrow> int \<Rightarrow> breaker \<Rightarrow> bool" where
  "remembers ts s b \<longleftrightarrow>
     (\<forall>u \<ge> s. filter (\<lambda>t. t > u - failureWindow (config b)) (map timestamp (failures b))
       = filter (\<lambda>t. t > u - failureWindow (config b)) ts)"

lemma remembers_later: "remembers ts s b \<Longrightarrow> s \<le> u \<Longrightarrow> remembers ts u b"
  by (simp add: remembers_def)

lemma remembers_trim:
  assumes "remembers ts u b" and "u \<le> now" and "config b' = config b"
    and "failures b' = filter (\<lambda>f. timestamp f > now - failureWindow (config b)) (failures b @ fs)"
  shows "remembers (ts @ map timestamp fs) now b'"
  using assms unfolding remembers_def
  by (simp add: filter_map_timestamp filter_window del: filter_filter)

lemma remembers_step:
  assumes "state b = CLOSED \<Longrightarrow> remembers ts s b" and "pred_option ((\<le>) s) (event_time e)" and "state (cb_step e b) = CLOSED"
  shows "remembers (snd (log_step e (b, ts))) (case event_time e of None \<Rightarrow> s | Some u \<Rightarrow> u) (cb_step e b)"
proof (cases "closes e b")
  case True
  then have "failures (cb_step e b) = []"
    by (cases e; cases "state b") (auto simp: closes_def breaker_ops split: if_splits)
  with True show ?thesis by (simp add: log_step_def remembers_def)
next
  case False
  then have closed: "state b = CLOSED" using assms(3) by (auto simp: closes_def)
  note known = assms(1) [OF closed]
  show ?thesis
  proof (cases e)
    case (CanProceed now)
    with known closed assms(2) show ?thesis
      using remembers_trim [of ts s b now "cb_step e b" "[]"] False by (simp add: log_step_def breaker_ops)
  next
    case (Success now)
    with known closed assms(2) False show ?thesis by (simp add: log_step_def breaker_ops remembers_def)
  next
    case (Failure now err)
    let ?fs = "[\<lparr>timestamp = now, error_message = err\<rparr>]"
    have "failures (cb_step e b) = filter (\<lambda>f. timestamp f > now - failureWindow (config b)) (failures b @ ?fs)"
      using Failure closed assms(3) by (auto simp: breaker_ops split: if_splits)
    from remembers_trim [OF known _ config_step this] assms(2) Failure False show ?thesis by (simp add: log_step_def)
  next
    case (ForceOpen now)
    with assms(3) show ?thesis by (simp add: breaker_ops)
  next
    case (ForceClose now)
    with False show ?thesis by (simp add: closes_def breaker_ops)
  next
    case ResetMetrics
    with known False show ?thesis by (simp add: log_step_def breaker_ops remembers_def)
  qed
qed

lemma remembers_run:
  assumes "sorted (List.map_filter event_time es @ [now])" and "state (fold cb_step es (new_breaker c)) = CLOSED"
  shows "remembers (failures_since_close es (new_breaker c)) now (fold cb_step es (new_breaker c))"
  using assms
proof (induction es arbitrary: now rule: rev_induct)
  case Nil
  then show ?case by (simp add: failures_since_close_def remembers_def new_breaker_def)
next
  case (snoc e es)
  let ?b = "fold cb_step es (new_breaker c)" and ?ts = "failures_since_close es (new_breaker c)"
  have step: "failures_since_close (es @ [e]) (new_breaker c) = snd (log_step e (?b, ?ts))"
    by (simp add: failures_since_close_def log_run log_step_def)
  let ?u = "case event_time e of None \<Rightarrow> now | Some u \<Rightarrow> u"
  have srt: "sorted (List.map_filter event_time es @ [?u])" and u: "?u \<le> now" "pred_option ((\<le>) ?u) (event_time e)"
    using snoc.prems(1) by (auto simp: map_filter_simps sorted_append List.map_filter_def split: option.splits)
  have "remembers (snd (log_step e (?b, ?ts))) (case event_time e of None \<Rightarrow> ?u | Some u \<Rightarrow> u) (cb_step e ?b)"
    by (rule remembers_step) (use snoc.IH [OF srt] u snoc.prems(2) in simp_all)
  then show ?case using u(1) step remembers_later by (auto split: option.splits)
qed


section \<open>The documented state diagram\<close>

inductive cb_edge :: "CircuitState \<Rightarrow> CircuitState \<Rightarrow> bool" where
  trip: "cb_edge CLOSED OPEN"
| probe: "cb_edge OPEN HALF_OPEN"
| recover: "cb_edge HALF_OPEN CLOSED"
| reopen: "cb_edge HALF_OPEN OPEN"

declare cb_edge.intros [simp, intro]

inductive_cases closed_edge: "cb_edge CLOSED t"

text \<open>A log of changes that leads from one state to another along edges of the diagram.\<close>

fun diagram_path :: "CircuitState \<Rightarrow> state_change list \<Rightarrow> CircuitState \<Rightarrow> bool" where
  "diagram_path s [] t \<longleftrightarrow> s = t"
| "diagram_path s (c # cs) t \<longleftrightarrow> change_from c = s \<and> cb_edge s (change_to c) \<and> diagram_path (change_to c) cs t"

lemma diagram_path_snoc:
  "diagram_path s (cs @ [c]) t \<longleftrightarrow> diagram_path s cs (change_from c) \<and> cb_edge (change_from c) (change_to c) \<and> change_to c = t"
  by (induction cs arbitrary: s) auto

definition logged :: "breaker \<Rightarrow> bool" where
  "logged b \<longleftrightarrow> diagram_path CLOSED (state_changes (metrics b)) (state b)"

fun unforced :: "cb_event \<Rightarrow> bool" where
  "unforced (ForceOpen now) = False"
| "unforced (ForceClose now) = False"
| "unforced ResetMetrics = False"
| "unforced _ = True"

lemma logged_step: "unforced e \<Longrightarrow> logged b \<Longrightarrow> logged (cb_step e b)"
  by (cases e; cases "state b") (auto simp: logged_def breaker_ops diagram_path_snoc)

interpretation diagram_runs: guarded_machine cb_step unforced logged
  by unfold_locales (rule logged_step)

text \<open>
  A breaker moves only along the documented diagram. Whatever calls and results it sees, as
  long as no operator forces it, its log of state changes is a path from closed to its present state
  whose every step is closed to open, open to half-open, or half-open to closed or open.
\<close>

theorem moves_along_diagram:
  assumes "list_all unforced es"
  shows "diagram_path CLOSED (state_changes (metrics (fold cb_step es (new_breaker c)))) (state (fold cb_step es (new_breaker c)))"
proof -
  have "logged (new_breaker c)" by (simp add: logged_def new_breaker_def empty_metrics_def)
  from diagram_runs.run_inv [OF assms this] show ?thesis by (simp add: logged_def)
qed

section \<open>The registry refines independent breakers\<close>

text \<open>The abstract registry: every tool has a breaker, a fresh one until it is used.\<close>

definition breaker_of :: "registry \<Rightarrow> string \<Rightarrow> breaker" where
  "breaker_of r n = (case map_of (breakers r) n of None \<Rightarrow> new_breaker (defaultConfig r) | Some b \<Rightarrow> b)"

lemma on_breaker_result: "fst (on_breaker n f r) = fst (f (breaker_of r n))"
  by (simp add: on_breaker_def getBreaker_def breaker_of_def Let_def case_prod_unfold split: option.splits)

lemma on_breaker_refines: "breaker_of (snd (on_breaker n f r)) = (breaker_of r)(n := snd (f (breaker_of r n)))"
  by (rule ext)
    (auto simp: on_breaker_def getBreaker_def breaker_of_def Let_def case_prod_unfold jmap.lookup_store split: option.splits)

text \<open>
  C27. The registry is one independent breaker per tool. Asking for a tool answers what the tool's
  breaker answers, and every registry operation changes the breaker of its own tool exactly as the
  breaker's operation does and leaves the breaker of every other tool as it was.
\<close>

theorem registry_refines_breakers:
  "fst (registry_canProceed n now r) = fst (canProceed now (breaker_of r n))
   \<and> breaker_of (snd (registry_canProceed n now r)) = (breaker_of r)(n := snd (canProceed now (breaker_of r n)))
   \<and> breaker_of (registry_recordSuccess n now r) = (breaker_of r)(n := recordSuccess now (breaker_of r n))
   \<and> breaker_of (registry_recordFailure n now err r) = (breaker_of r)(n := recordFailure now err (breaker_of r n))"
  by (simp add: registry_canProceed_def registry_recordSuccess_def registry_recordFailure_def
      on_breaker_result on_breaker_refines)

section \<open>The properties at a concrete breaker\<close>

definition tripped :: breaker where
  "tripped = fold (\<lambda>t. recordFailure t None) [1000, 1001, 1002, 1003, 1004] (new_breaker \<lparr>opt_failureThreshold = None, opt_successThreshold = None,
     opt_resetTimeout = None, opt_failureWindow = None, opt_halfOpenMaxRequests = None\<rparr>)"

lemma tripped_state: "state tripped = OPEN" "openedAt tripped = Some 1004" "resetTimeout (config tripped) = 30000"
  "successThreshold (config tripped) = 2" "halfOpenMaxRequests (config tripped) = 3"
  by code_simp+

theorem open_circuit_blocks_witness:
  "list_all (\<lambda>p. \<not> allowed p) (replies [CanProceed 2000, Success 2001, Failure 2002 None, CanProceed 31003] tripped)"
  using open_circuit_blocks [OF tripped_state(1,2), of "[CanProceed 2000, Success 2001, Failure 2002 None, CanProceed 31003]"]
  by (simp add: tripped_state)

theorem half_open_admission_witness:
  "length (filter allowed (replies (map CanProceed [31004, 31005, 31006, 31007, 31008]) tripped)) = 4"
  using half_open_admission [OF tripped_state(1,2), of "[31004, 31005, 31006, 31007, 31008]"]
  by (simp add: tripped_state)

theorem recovery_closes_circuit_witness: "state (fold serve [31004, 31005] tripped) = CLOSED"
  using recovery_closes_circuit [OF tripped_state(1,2), of "[31004, 31005]"] by (simp add: tripped_state)

text \<open>Two failures open this circuit; after its recovery one more failure, well inside the window, does not.\<close>

definition recovered_run :: "cb_event list" where
  "recovered_run = [Failure 1000 None, Failure 1001 None, CanProceed 31001, Success 31002]"

definition recovered_options :: breaker_options where
  "recovered_options = \<lparr>opt_failureThreshold = Some 2, opt_successThreshold = Some 1,
     opt_resetTimeout = None, opt_failureWindow = None, opt_halfOpenMaxRequests = None\<rparr>"

lemma recovered: "state (fold cb_step recovered_run (new_breaker recovered_options)) = CLOSED"
  "failures_since_close recovered_run (new_breaker recovered_options) = []"
  "sorted (List.map_filter event_time recovered_run @ [31003])" "default_to (opt_failureThreshold recovered_options) 5 = 2"
  by code_simp+


theorem moves_along_diagram_witness:
  "state (fold cb_step [CanProceed 5, Failure 6 (Some ''boom'')] (new_breaker \<lparr>opt_failureThreshold = Some 1, opt_successThreshold = None,
     opt_resetTimeout = None, opt_failureWindow = None, opt_halfOpenMaxRequests = None\<rparr>)) = OPEN"
proof -
  let ?c = "\<lparr>opt_failureThreshold = Some 1, opt_successThreshold = None,
     opt_resetTimeout = None, opt_failureWindow = None, opt_halfOpenMaxRequests = None\<rparr>"
  have "state_changes (metrics (fold cb_step [CanProceed 5, Failure 6 (Some ''boom'')] (new_breaker ?c)))
      = [\<lparr>change_from = CLOSED, change_to = OPEN, change_timestamp = toISOString 6\<rparr>]"
    by (simp add: breaker_ops new_breaker_def empty_metrics_def default_to_def)
  with moves_along_diagram [of "[CanProceed 5, Failure 6 (Some ''boom'')]" ?c] show ?thesis by simp
qed

end
