(* ===== verification/ShellParser.thy ===== *)
theory ShellParser
  imports JsText
begin

text \<open>
  \<open>parseCommand\<close> of \<open>src/executor/shell-parser.js\<close>: splitting a command line into an argument
  vector without a shell. The loop reads UTF-16 units and compares them with ASCII characters only;
  here it reads the bytes of the UTF-8 text, where no ASCII byte is part of another character.
\<close>

section \<open>The parser\<close>

record lexer =
  tokens :: "string list"
  current :: string
  inSingle :: bool
  inDouble :: bool
  escaped :: bool

definition start :: lexer where
  "start = \<lparr>tokens = [], current = [], inSingle = False, inDouble = False, escaped = False\<rparr>"

definition blank :: "char \<Rightarrow> bool" where
  "blank ch \<longleftrightarrow> ch = CHR '' '' \<or> ch = CHR 0x09"

definition push_token :: "lexer \<Rightarrow> lexer" where
  "push_token st = (if current st \<noteq> [] then st\<lparr>tokens := tokens st @ [current st], current := []\<rparr> else st)"

definition operator_error :: "char \<Rightarrow> string \<Rightarrow> string option" where
  "operator_error ch rest =
     (if ch = CHR ''|'' \<or> ch = CHR ''&'' \<or> ch = CHR '';'' then
        Some (''Shell operator \"'' @ [ch] @ ''\" is not allowed '' @ [CHR 0xE2, CHR 0x80, CHR 0x94] @ '' use separate commands'')
      else if ch = CHR ''>'' \<or> ch = CHR ''<'' then Some (''Redirect operator \"'' @ [ch] @ ''\" is not allowed'')
      else if ch = CHR 0x60 then Some ''Backtick subshell is not allowed''
      else if ch = CHR ''$'' \<and> take 1 rest = ''('' then Some ''$() subshell is not allowed''
      else None)"

fun lex :: "string \<Rightarrow> lexer \<Rightarrow> lexer js" where
  "lex [] st = Inr st"
| "lex (ch # rest) st =
     (if escaped st then lex rest (st\<lparr>current := current st @ [ch], escaped := False\<rparr>)
      else if ch = CHR 0x5C \<and> \<not> inSingle st then lex rest (st\<lparr>escaped := True\<rparr>)
      else if ch = CHR 0x27 \<and> \<not> inDouble st then lex rest (st\<lparr>inSingle := \<not> inSingle st\<rparr>)
      else if ch = CHR 0x22 \<and> \<not> inSingle st then lex rest (st\<lparr>inDouble := \<not> inDouble st\<rparr>)
      else if \<not> inSingle st \<and> \<not> inDouble st then
        (case operator_error ch rest of
           Some e \<Rightarrow> Inl (Err e)
         | None \<Rightarrow> if blank ch then lex rest (push_token st) else lex rest (st\<lparr>current := current st @ [ch]\<rparr>))
      else lex rest (st\<lparr>current := current st @ [ch]\<rparr>))"

definition parseCommand :: "jsval \<Rightarrow> string list js" where
  "parseCommand command =
     (case command of
        JStr s \<Rightarrow>
          let trimmed = js_trim s
          in if trimmed = [] then Inl (Err ''Command must be a non-empty string'')
             else bindE (lex trimmed start) (\<lambda>st.
               if inSingle st then Inl (Err ''Unterminated single quote'')
               else if inDouble st then Inl (Err ''Unterminated double quote'')
               else let ts = tokens (push_token st)
                    in if ts = [] then Inl (Err ''Empty command after parsing'') else Inr ts)
      | _ \<Rightarrow> Inl (Err ''Command must be a non-empty string''))"

section \<open>Reference semantics of a command line\<close>

text \<open>
  How a command line is read, independently of the lexer's flags: a mode for the quotes, a pending
  backslash, and the character each position contributes.
\<close>

datatype mode = Plain | Single | Double

fun next_mode :: "mode \<times> bool \<Rightarrow> char \<Rightarrow> mode \<times> bool" where
  "next_mode (m, True) c = (m, False)"
| "next_mode (Single, False) c = (if c = CHR 0x27 then Plain else Single, False)"
| "next_mode (Double, False) c = (if c = CHR 0x22 then Plain else Double, c = CHR 0x5C)"
| "next_mode (Plain, False) c =
     (if c = CHR 0x27 then Single else if c = CHR 0x22 then Double else Plain, c = CHR 0x5C)"

fun contributes :: "mode \<times> bool \<Rightarrow> char \<Rightarrow> bool" where
  "contributes (m, True) c = True"
| "contributes (Single, False) c = (c \<noteq> CHR 0x27)"
| "contributes (Double, False) c = (c \<noteq> CHR 0x22 \<and> c \<noteq> CHR 0x5C)"
| "contributes (Plain, False) c = (c \<noteq> CHR 0x27 \<and> c \<noteq> CHR 0x22 \<and> c \<noteq> CHR 0x5C \<and> \<not> blank c)"

definition mode_after :: "string \<Rightarrow> mode \<times> bool \<Rightarrow> mode \<times> bool" where
  "mode_after s m = fold (\<lambda>c m. next_mode m c) s m"

fun literal :: "mode \<times> bool \<Rightarrow> string \<Rightarrow> string" where
  "literal m [] = []"
| "literal m (c # s) = (if contributes m c then [c] else []) @ literal (next_mode m c) s"

fun plain_operator :: "mode \<times> bool \<Rightarrow> string \<Rightarrow> bool" where
  "plain_operator m [] = False"
| "plain_operator m (c # s) \<longleftrightarrow>
     m = (Plain, False) \<and> operator_error c s \<noteq> None \<or> plain_operator (next_mode m c) s"

lemma plain_operator_iff:
  "plain_operator m s \<longleftrightarrow> (\<exists>u c v. s = u @ c # v \<and> mode_after u m = (Plain, False) \<and> operator_error c v \<noteq> None)"
proof (induction s arbitrary: m)
  case (Cons d s)
  have "(\<exists>u c v. d # s = u @ c # v \<and> mode_after u m = (Plain, False) \<and> operator_error c v \<noteq> None)
    \<longleftrightarrow> (m = (Plain, False) \<and> operator_error d s \<noteq> None)
      \<or> (\<exists>u c v. s = u @ c # v \<and> mode_after u (next_mode m d) = (Plain, False) \<and> operator_error c v \<noteq> None)"
    (is "?l \<longleftrightarrow> ?a \<or> ?b")
  proof
    assume ?l
    then obtain u c v where u: "d # s = u @ c # v" "mode_after u m = (Plain, False)" "operator_error c v \<noteq> None" by blast
    then show "?a \<or> ?b" by (cases u) (auto simp: mode_after_def)
  next
    assume "?a \<or> ?b"
    then show ?l
    proof
      assume ?a
      then show ?l by (intro exI [of _ "[]"] exI [of _ d] exI [of _ s]) (simp add: mode_after_def)
    next
      assume ?b
      then obtain u c v where "s = u @ c # v" "mode_after u (next_mode m d) = (Plain, False)" "operator_error c v \<noteq> None" by blast
      then show ?l by (intro exI [of _ "d # u"] exI [of _ c] exI [of _ v]) (simp add: mode_after_def)
    qed
  qed
  with Cons show ?case by simp
qed simp

section \<open>The lexer against the reference\<close>

definition mode_of :: "lexer \<Rightarrow> mode \<times> bool" where
  "mode_of st = (if inSingle st then Single else if inDouble st then Double else Plain, escaped st)"

definition lexer_inv :: "lexer \<Rightarrow> bool" where
  "lexer_inv st \<longleftrightarrow> \<not> (inSingle st \<and> inDouble st) \<and> \<not> (inSingle st \<and> escaped st) \<and> (\<forall>t \<in> set (tokens st). t \<noteq> [])"

definition spelled :: "lexer \<Rightarrow> string" where
  "spelled st = concat (tokens st) @ current st"

lemma push_token_simps:
  "spelled (push_token st) = spelled st" "mode_of (push_token st) = mode_of st"
  "lexer_inv st \<Longrightarrow> lexer_inv (push_token st)"
  by (auto simp: push_token_def spelled_def mode_of_def lexer_inv_def)

lemma lex_step:
  assumes "lexer_inv st"
  shows "(\<exists>e. lex (ch # rest) st = Inl (Err e) \<and> mode_of st = (Plain, False) \<and> operator_error ch rest = Some e)
    \<or> (\<exists>st1. lex (ch # rest) st = lex rest st1 \<and> lexer_inv st1 \<and> mode_of st1 = next_mode (mode_of st) ch
        \<and> spelled st1 = spelled st @ (if contributes (mode_of st) ch then [ch] else [])
        \<and> \<not> (mode_of st = (Plain, False) \<and> operator_error ch rest \<noteq> None))"
proof (cases "escaped st")
  case True
  then show ?thesis
    using assms by (intro disjI2 exI [of _ "st\<lparr>current := current st @ [ch], escaped := False\<rparr>"])
      (auto simp: lexer_inv_def mode_of_def spelled_def)
next
  case False
  note plain = this
  consider (esc) "ch = CHR 0x5C" "\<not> inSingle st" | (single) "ch = CHR 0x27" "\<not> inDouble st"
    | (double) "ch = CHR 0x22" "\<not> inSingle st"
    | (quoted) "inSingle st" "ch \<noteq> CHR 0x27" | (quoted2) "inDouble st" "ch \<noteq> CHR 0x5C" "ch \<noteq> CHR 0x22"
    | (bare) "\<not> inSingle st" "\<not> inDouble st" "ch \<noteq> CHR 0x27" "ch \<noteq> CHR 0x22" "ch \<noteq> CHR 0x5C"
    using assms by (auto simp: lexer_inv_def)
  then show ?thesis
  proof cases
    case esc
    then show ?thesis
      using assms plain by (intro disjI2 exI [of _ "st\<lparr>escaped := True\<rparr>"])
        (auto simp: lexer_inv_def mode_of_def spelled_def operator_error_def)
  next
    case single
    then show ?thesis
      using assms plain by (intro disjI2 exI [of _ "st\<lparr>inSingle := \<not> inSingle st\<rparr>"])
        (auto simp: lexer_inv_def mode_of_def spelled_def operator_error_def)
  next
    case double
    then show ?thesis
      using assms plain by (intro disjI2 exI [of _ "st\<lparr>inDouble := \<not> inDouble st\<rparr>"])
        (auto simp: lexer_inv_def mode_of_def spelled_def operator_error_def)
  next
    case quoted
    then show ?thesis
      using assms plain by (intro disjI2 exI [of _ "st\<lparr>current := current st @ [ch]\<rparr>"])
        (auto simp: lexer_inv_def mode_of_def spelled_def)
  next
    case quoted2
    then show ?thesis
      using assms plain by (intro disjI2 exI [of _ "st\<lparr>current := current st @ [ch]\<rparr>"])
        (auto simp: lexer_inv_def mode_of_def spelled_def)
  next
    case bare
    then have m: "mode_of st = (Plain, False)" using plain by (simp add: mode_of_def)
    show ?thesis
    proof (cases "operator_error ch rest")
      case None
      then show ?thesis
        using assms plain bare m push_token_simps [of st]
        by (intro disjI2 exI [of _ "if blank ch then push_token st else st\<lparr>current := current st @ [ch]\<rparr>"])
          (auto simp: lexer_inv_def mode_of_def spelled_def)
    next
      case (Some e)
      then show ?thesis using plain bare m by (intro disjI1 exI [of _ e]) simp
    qed
  qed
qed

lemma lex_reference:
  assumes "lexer_inv st"
  shows "(case lex s st of
            Inl e \<Rightarrow> plain_operator (mode_of st) s
          | Inr st' \<Rightarrow> \<not> plain_operator (mode_of st) s \<and> lexer_inv st' \<and> mode_of st' = mode_after s (mode_of st)
              \<and> spelled st' = spelled st @ literal (mode_of st) s)"
  using assms
proof (induction s arbitrary: st)
  case Nil
  then show ?case by (simp add: mode_after_def)
next
  case (Cons ch rest)
  from lex_step [OF Cons.prems, of ch rest] show ?case
  proof (elim disjE exE conjE)
    fix e assume "lex (ch # rest) st = Inl (Err e)" "mode_of st = (Plain, False)" "operator_error ch rest = Some e"
    then show ?thesis by (simp del: lex.simps)
  next
    fix st1
    assume l: "lex (ch # rest) st = lex rest st1" and i: "lexer_inv st1" and m: "mode_of st1 = next_mode (mode_of st) ch"
      and sp: "spelled st1 = spelled st @ (if contributes (mode_of st) ch then [ch] else [])"
      and n: "\<not> (mode_of st = (Plain, False) \<and> operator_error ch rest \<noteq> None)"
    show ?thesis
      using Cons.IH [OF i] n unfolding l m sp
      by (cases "lex rest st1") (simp_all add: mode_after_def)
  qed
qed

lemma start_simps: "lexer_inv start" "mode_of start = (Plain, False)" "spelled start = []"
  by (simp_all add: start_def lexer_inv_def mode_of_def spelled_def)

lemma final_tokens:
  assumes "lexer_inv st"
  shows "concat (tokens (push_token st)) = spelled st" and "\<forall>t \<in> set (tokens (push_token st)). t \<noteq> []"
  using assms by (auto simp: push_token_def spelled_def lexer_inv_def)

lemma tokens_Nil_iff: "lexer_inv st \<Longrightarrow> tokens (push_token st) = [] \<longleftrightarrow> spelled st = []"
  by (auto simp: push_token_def spelled_def lexer_inv_def)

section \<open>Properties\<close>

text \<open>
  C31. Which command lines are accepted. A command is split into arguments exactly when no shell
  operator, redirection, backtick or \<open>$(\<close> stands outside quotes and unescaped, every quote is
  closed, and the line spells at least one character; every other command is refused.
\<close>

theorem command_accepted_iff:
  "(\<exists>ts. parseCommand (JStr s) = Inr ts) \<longleftrightarrow>
     (\<nexists>u c v. js_trim s = u @ c # v \<and> mode_after u (Plain, False) = (Plain, False) \<and> operator_error c v \<noteq> None)
   \<and> fst (mode_after (js_trim s) (Plain, False)) = Plain
   \<and> literal (Plain, False) (js_trim s) \<noteq> []"
proof -
  let ?t = "js_trim s"
  note ref = lex_reference [OF start_simps(1), of ?t, unfolded start_simps]
  show ?thesis
  proof (cases "lex ?t start")
    case (Inl e)
    then have "plain_operator (Plain, False) ?t" using ref by simp
    then show ?thesis using Inl unfolding plain_operator_iff by (auto simp: parseCommand_def Let_def)
  next
    case (Inr st)
    then have no: "\<not> plain_operator (Plain, False) ?t" and i: "lexer_inv st"
      and m: "mode_of st = mode_after ?t (Plain, False)" and sp: "spelled st = literal (Plain, False) ?t"
      using ref by simp_all
    have quotes: "\<not> inSingle st \<and> \<not> inDouble st \<longleftrightarrow> fst (mode_after ?t (Plain, False)) = Plain"
      using m by (auto simp: mode_of_def simp flip: m split: if_splits)
    have "?t = [] \<Longrightarrow> literal (Plain, False) ?t = []" by simp
    then show ?thesis
      using no Inr quotes tokens_Nil_iff [OF i] sp unfolding plain_operator_iff
      by (auto simp: parseCommand_def Let_def)
  qed
qed

text \<open>
  What the arguments are. The arguments of an accepted command are not empty, there is at least
  one, and together they spell exactly the literal characters of the line in their order: nothing
  is expanded, inserted or lost but quotes, backslashes and the blanks between arguments.
\<close>

theorem arguments_literal:
  assumes "parseCommand (JStr s) = Inr ts"
  shows "concat ts = literal (Plain, False) (js_trim s) \<and> ts \<noteq> [] \<and> [] \<notin> set ts"
proof -
  obtain st where l: "lex (js_trim s) start = Inr st" and ts: "ts = tokens (push_token st)" "ts \<noteq> []"
    using assms by (cases "lex (js_trim s) start") (auto simp: parseCommand_def Let_def split: if_splits)
  have "lexer_inv st \<and> spelled st = literal (Plain, False) (js_trim s)"
    using lex_reference [OF start_simps(1), of "js_trim s"] l by (simp add: start_simps)
  with ts final_tokens [of st] show ?thesis by auto
qed

section \<open>Quoting an argument vector\<close>

text \<open>The usual single-quote rendering of an argument: a quote inside is closed, escaped, reopened.\<close>

definition quote_char :: "char \<Rightarrow> string" where
  "quote_char c = (if c = CHR 0x27 then [CHR 0x27, CHR 0x5C, CHR 0x27, CHR 0x27] else [c])"

lemma quote_char_simps:
  "quote_char (CHR 0x27) = [CHR 0x27, CHR 0x5C, CHR 0x27, CHR 0x27]"
  "c \<noteq> CHR 0x27 \<Longrightarrow> quote_char c = [c]"
  by (simp_all add: quote_char_def)

definition shell_quote :: "string \<Rightarrow> string" where
  "shell_quote w = [CHR 0x27] @ concat (map quote_char w) @ [CHR 0x27]"

lemma lex_quoted:
  assumes "\<not> inSingle st" and "\<not> inDouble st" and "\<not> escaped st"
  shows "lex (concat (map quote_char w) @ CHR 0x27 # rest) (st\<lparr>inSingle := True\<rparr>) = lex rest (st\<lparr>current := current st @ w\<rparr>)"
  using assms
proof (induction w arbitrary: st)
  case Nil
  then show ?case by (cases st) simp
next
  case (Cons c w)
  have "lex (concat (map quote_char w) @ CHR 0x27 # rest) (st\<lparr>current := current st @ [c], inSingle := True\<rparr>)
      = lex rest (st\<lparr>current := current st @ c # w\<rparr>)"
    using Cons.IH [of "st\<lparr>current := current st @ [c]\<rparr>"] Cons.prems by simp
  with Cons.prems show ?case by (cases st; cases "c = CHR 0x27") (simp_all add: quote_char_simps)
qed

lemma lex_shell_quote:
  assumes "\<not> inSingle st" and "\<not> inDouble st" and "\<not> escaped st"
  shows "lex (shell_quote w @ rest) st = lex rest (st\<lparr>current := current st @ w\<rparr>)"
  using lex_quoted [OF assms, of w rest] assms by (simp add: shell_quote_def)

lemma lex_quoted_vector:
  assumes "ws \<noteq> []" and "[] \<notin> set ws" and "\<not> inSingle st" and "\<not> inDouble st" and "\<not> escaped st" and "current st = []"
  shows "lex (join_with '' '' (map shell_quote ws)) st
    = Inr (st\<lparr>tokens := tokens st @ butlast ws, current := last ws\<rparr>)"
  using assms
proof (induction ws arbitrary: st)
  case (Cons w ws)
  show ?case
  proof (cases ws)
    case Nil
    then show ?thesis using lex_shell_quote [of st w "[]"] Cons.prems by simp
  next
    case (Cons v vs)
    have "lex ('' '' @ join_with '' '' (map shell_quote ws)) (st\<lparr>current := w\<rparr>)
        = lex (join_with '' '' (map shell_quote ws)) (st\<lparr>tokens := tokens st @ [w], current := []\<rparr>)"
      using Cons.prems by (auto simp: push_token_def operator_error_def blank_def)
    with Cons.IH [of "st\<lparr>tokens := tokens st @ [w], current := []\<rparr>"] Cons.prems Cons
    show ?thesis using lex_shell_quote [of st w "'' '' @ join_with '' '' (map shell_quote ws)"] by simp
  qed
qed simp

lemma quoted_vector_trim:
  assumes "ws \<noteq> []"
  shows "js_trim (join_with '' '' (map shell_quote ws)) = join_with '' '' (map shell_quote ws)"
proof -
  let ?s = "join_with '' '' (map shell_quote ws)"
  have "?s \<noteq> [] \<and> hd ?s = CHR 0x27 \<and> last ?s = CHR 0x27"
    using assms
  proof (induction ws)
    case (Cons w ws)
    then show ?case by (cases ws) (auto simp: shell_quote_def)
  qed simp
  then show ?thesis by (intro js_trim_plain) (auto simp: visible_ascii_def ascii_ws_def Let_def)
qed

text \<open>
  C24. Quoting round trip. An argument vector of non-empty arguments, every argument single-quoted
  and the results joined by blanks, parses back to exactly that vector, whatever characters the
  arguments hold: blanks, quotes, backslashes and shell operators included.
\<close>

theorem quoted_vector_roundtrip:
  assumes "ws \<noteq> []" and "[] \<notin> set ws"
  shows "parseCommand (JStr (join_with '' '' (map shell_quote ws))) = Inr ws"
proof -
  have ne: "join_with '' '' (map shell_quote ws) \<noteq> []"
    using assms(1) by (cases ws rule: list.exhaust; cases "tl ws") (auto simp: shell_quote_def)
  have last: "last ws \<noteq> []" using assms by (metis last_in_set)
  show ?thesis
    using lex_quoted_vector [OF assms, of start] last ne assms(1)
    by (simp add: parseCommand_def quoted_vector_trim start_def push_token_def)
qed

section \<open>Concrete command lines\<close>

lemma command_line_example:
  "parseCommand (JStr ''git commit -m \"a | b\" '') = Inr [''git'', ''commit'', ''-m'', ''a | b'']"
  by code_simp

text \<open>An empty argument and a trailing backslash leave no trace in the vector.\<close>

lemma empty_argument_dropped:
  "parseCommand (JStr ''printf \"\" x'') = Inr [''printf'', ''x'']"
  "parseCommand (JStr (''printf x'' @ [CHR 0x5C])) = Inr [''printf'', ''x'']"
  by code_simp+

theorem arguments_literal_witness:
  "concat [''git'', ''commit'', ''-m'', ''a | b''] = literal (Plain, False) (js_trim ''git commit -m \"a | b\" '')"
  using arguments_literal [OF command_line_example] by simp

theorem quoted_vector_roundtrip_witness:
  "parseCommand (JStr (join_with '' '' (map shell_quote [''echo'', ''it'' @ [CHR 0x27] @ ''s; $(x)'']))) = Inr [''echo'', ''it'' @ [CHR 0x27] @ ''s; $(x)'']"
  using quoted_vector_roundtrip [of "[''echo'', ''it'' @ [CHR 0x27] @ ''s; $(x)'']"] by simp

end
