(* ===== verification/MemoryPolicy.thy ===== *)
theory MemoryPolicy
  imports Prelude JsValue
begin

text \<open>
  The fact store of \<open>src/memory/policy.js\<close>. The clock is an argument of every operation that
  reads it; the eviction callback and the log are not part of the state, so \<open>set\<close> also returns the
  entry it evicted, which is what the callback receives. The statistics counters (\<open>getStats\<close>,
  \<open>countByField\<close>, \<open>countTags\<close>) only report and are not modelled.
\<close>

section \<open>State and operations\<close>

record entry =
  key :: string
  val :: jsval
  storedAt :: int
  expiresAt :: "int option"
  source :: string
  tags :: "string list"
  accessCount :: int
  lastAccessedAt :: "int option"

record meta =
  ttl :: "int option"
  meta_source :: string
  meta_tags :: "string list"

record policy =
  store :: "(string \<times> entry) list"
  maxEntries :: int
  defaultTTL :: "int option"

text \<open>\<open>x || d\<close> for a number that may be absent.\<close>

definition or_else :: "int option \<Rightarrow> int \<Rightarrow> int" where
  "or_else x d = (case x of None \<Rightarrow> d | Some i \<Rightarrow> if i = 0 then d else i)"

definition nonzero :: "int option \<Rightarrow> int option" where
  "nonzero x = (case x of None \<Rightarrow> None | Some i \<Rightarrow> if i = 0 then None else Some i)"

definition new_policy :: "int option \<Rightarrow> int option \<Rightarrow> policy" where
  "new_policy maxE ttlD = \<lparr>store = [], maxEntries = or_else maxE 500, defaultTTL = nonzero ttlD\<rparr>"

text \<open>The loop keeps the first entry with the least \<open>storedAt\<close>.\<close>

fun oldest :: "(string \<times> entry) list \<Rightarrow> (string \<times> entry) option \<Rightarrow> (string \<times> entry) option" where
  "oldest [] best = best"
| "oldest ((k, e) # es) best =
     oldest es (case best of
                  None \<Rightarrow> Some (k, e)
                | Some (bk, be) \<Rightarrow> if storedAt e < storedAt be then Some (k, e) else Some (bk, be))"

definition evictOldest :: "policy \<Rightarrow> (string \<times> entry) option \<times> policy" where
  "evictOldest p =
     (case oldest (store p) None of
        None \<Rightarrow> (None, p)
      | Some (k, e) \<Rightarrow> if k = [] then (None, p) else (Some (k, e), p\<lparr>store := AList.delete k (store p)\<rparr>))"

definition new_entry :: "int \<Rightarrow> string \<Rightarrow> jsval \<Rightarrow> meta \<Rightarrow> policy \<Rightarrow> entry" where
  "new_entry now k v m p =
     (let t = (case ttl m of Some x \<Rightarrow> Some x | None \<Rightarrow> defaultTTL p)
      in \<lparr>key = k, val = v, storedAt = now,
          expiresAt = (case nonzero t of None \<Rightarrow> None | Some x \<Rightarrow> Some (now + x)),
          source = (if meta_source m = [] then ''system'' else meta_source m), tags = meta_tags m,
          accessCount = 0, lastAccessedAt = None\<rparr>)"

definition set_fact :: "int \<Rightarrow> string \<Rightarrow> jsval \<Rightarrow> meta \<Rightarrow> policy \<Rightarrow> (string js \<times> (string \<times> entry) option) \<times> policy" where
  "set_fact now k v m p =
     (if k = [] then ((Inl (Coded ''INVALID_KEY''), None), p)
      else let (victim, p1) = (if int (length (store p)) \<ge> maxEntries p \<and> map_of (store p) k = None
                               then evictOldest p else (None, p))
           in ((Inr k, victim), p1\<lparr>store := AList.update k (new_entry now k v m p) (store p1)\<rparr>))"

definition expired :: "int \<Rightarrow> entry \<Rightarrow> bool" where
  "expired now e = (case nonzero (expiresAt e) of None \<Rightarrow> False | Some t \<Rightarrow> now > t)"

definition accessed :: "int \<Rightarrow> entry \<Rightarrow> entry" where
  "accessed now e = e\<lparr>accessCount := accessCount e + 1, lastAccessedAt := Some now\<rparr>"

definition get_fact :: "int \<Rightarrow> string \<Rightarrow> policy \<Rightarrow> entry js \<times> policy" where
  "get_fact now k p =
     (case map_of (store p) k of
        None \<Rightarrow> (Inl (Coded ''NOT_FOUND''), p)
      | Some e \<Rightarrow>
          if expired now e then (Inl (Coded ''EXPIRED''), p\<lparr>store := AList.delete k (store p)\<rparr>)
          else (Inr e, p\<lparr>store := AList.update k (accessed now e) (store p)\<rparr>))"

text \<open>The loops over the map: expired entries are deleted, matching ones are touched and reported.\<close>

fun recall_where :: "int \<Rightarrow> (string \<Rightarrow> entry \<Rightarrow> bool) \<Rightarrow> (string \<times> entry) list
    \<Rightarrow> (string \<times> jsval) list \<times> (string \<times> entry) list" where
  "recall_where now P [] = ([], [])"
| "recall_where now P ((k, e) # es) =
     (let (rs, es') = recall_where now P es
      in if expired now e then (rs, es')
         else if P k e then ((k, val e) # rs, (k, accessed now e) # es')
         else (rs, (k, e) # es'))"

definition getByTag :: "int \<Rightarrow> string \<Rightarrow> policy \<Rightarrow> (string \<times> jsval) list \<times> policy" where
  "getByTag now tag p =
     (let (rs, es) = recall_where now (\<lambda>_ e. tag \<in> set (tags e)) (store p) in (rs, p\<lparr>store := es\<rparr>))"

definition getByPrefix :: "int \<Rightarrow> string \<Rightarrow> policy \<Rightarrow> (string \<times> jsval) list \<times> policy" where
  "getByPrefix now pre p =
     (let (rs, es) = recall_where now (\<lambda>k _. take (length pre) k = pre) (store p) in (rs, p\<lparr>store := es\<rparr>))"

definition forget :: "string \<Rightarrow> policy \<Rightarrow> bool \<times> policy" where
  "forget k p = (map_of (store p) k \<noteq> None, p\<lparr>store := AList.delete k (store p)\<rparr>)"

definition has_fact :: "int \<Rightarrow> string \<Rightarrow> policy \<Rightarrow> bool \<times> policy" where
  "has_fact now k p =
     (case map_of (store p) k of
        None \<Rightarrow> (False, p)
      | Some e \<Rightarrow> if expired now e then (False, p\<lparr>store := AList.delete k (store p)\<rparr>) else (True, p))"

definition clear_facts :: "policy \<Rightarrow> policy" where
  "clear_facts p = p\<lparr>store := []\<rparr>"

section \<open>Capacity\<close>

datatype memory_event =
    SetFact int string jsval meta
  | GetFact int string
  | ByTag int string
  | ByPrefix int string
  | Forget string
  | HasFact int string
  | ClearFacts

fun memory_step :: "memory_event \<Rightarrow> policy \<Rightarrow> policy" where
  "memory_step (SetFact now k v m) p = snd (set_fact now k v m p)"
| "memory_step (GetFact now k) p = snd (get_fact now k p)"
| "memory_step (ByTag now t) p = snd (getByTag now t p)"
| "memory_step (ByPrefix now q) p = snd (getByPrefix now q p)"
| "memory_step (Forget k) p = snd (forget k p)"
| "memory_step (HasFact now k) p = snd (has_fact now k p)"
| "memory_step ClearFacts p = clear_facts p"

definition memory_inv :: "policy \<Rightarrow> bool" where
  "memory_inv p \<longleftrightarrow> jm_wf (store p) \<and> int (length (store p)) \<le> max 1 (maxEntries p)
    \<and> (\<forall>x \<in> set (store p). fst x \<noteq> [] \<and> key (snd x) = fst x)"

lemma oldest_Cons:
  obtains b where "oldest (x # es) best = oldest es (Some b)" "b \<in> insert x (set_option best)"
    "storedAt (snd b) \<le> storedAt (snd x)" "\<forall>c \<in> set_option best. storedAt (snd b) \<le> storedAt (snd c)"
proof (cases best)
  case None
  then show thesis by (intro that [of x]) (cases x; simp)+
next
  case (Some c)
  show thesis
    by (rule that [of "if storedAt (snd x) < storedAt (snd c) then x else c"]) (cases x; cases c; simp add: Some)+
qed

lemma oldest_member: "oldest es best = Some p \<Longrightarrow> p \<in> set es \<or> best = Some p"
proof (induction es arbitrary: best)
  case (Cons x es)
  obtain b where b: "oldest (x # es) best = oldest es (Some b)" "b \<in> insert x (set_option best)"
    by (rule oldest_Cons [of x es best])
  then have "p \<in> set es \<or> Some b = Some p" using Cons by simp
  with b(2) show ?case by auto
qed simp

lemma oldest_best_Some: "oldest es (Some b) \<noteq> None"
proof (induction es arbitrary: b)
  case (Cons x es)
  then show ?case by (metis oldest_Cons)
qed simp

lemma oldest_None_iff: "oldest es None = None \<longleftrightarrow> es = []"
proof (cases es)
  case (Cons x es')
  then show ?thesis by (metis list.distinct(1) oldest_Cons oldest_best_Some)
qed simp

lemma oldest_minimal:
  "oldest es best = Some p \<Longrightarrow> q \<in> set es \<union> set_option best \<Longrightarrow> storedAt (snd p) \<le> storedAt (snd q)"
proof (induction es arbitrary: best q)
  case (Cons x es)
  obtain b where b: "oldest (x # es) best = oldest es (Some b)" "storedAt (snd b) \<le> storedAt (snd x)"
      "\<forall>c \<in> set_option best. storedAt (snd b) \<le> storedAt (snd c)"
    by (rule oldest_Cons [of x es best])
  note IH = Cons.IH [OF Cons.prems(1) [unfolded b(1)]]
  have "storedAt (snd p) \<le> storedAt (snd b)" by (rule IH) simp
  with b(2,3) Cons.prems(2) IH [of q] show ?case by fastforce
qed simp

lemma jm_keys_map_of: "map_of m k = None \<longleftrightarrow> k \<notin> set (jm_keys m)"
  using jmap.keys_lookup [of k m] by blast

lemma length_jm_keys: "length (jm_keys m) = length m"
  by (simp add: jm_keys_def)

lemma length_delete: "jm_wf m \<Longrightarrow> map_of m k \<noteq> None \<Longrightarrow> Suc (length (AList.delete k m)) = length m"
  using jmap.size_remove_old [of m k] by (simp add: length_jm_keys)

lemma length_update: "jm_wf m \<Longrightarrow> length (AList.update k v m) = (if map_of m k = None then Suc (length m) else length m)"
  using jmap.size_store_new [of m k v] jmap.size_store_old [of m k v] by (simp add: length_jm_keys)

lemma set_delete_subset: "set (AList.delete k m) \<subseteq> set m"
  by (induction m) auto

lemma set_update_subset: "set (AList.update k v m) \<subseteq> insert (k, v) (set m)"
  by (induction m) auto

lemma delete_inv: "memory_inv p \<Longrightarrow> memory_inv (p\<lparr>store := AList.delete k (store p)\<rparr>)"
  using set_delete_subset [of k "store p"] AList.length_delete_le [of k "store p"]
  by (auto simp: memory_inv_def jmap.wf_remove)

lemma update_inv:
  assumes "memory_inv p" and "k \<noteq> []" and "key e = k"
    and "map_of (store p) k = None \<longrightarrow> int (length (store p)) < max 1 (maxEntries p)"
  shows "memory_inv (p\<lparr>store := AList.update k e (store p)\<rparr>)"
proof -
  have w: "jm_wf (store p)" using assms(1) by (simp add: memory_inv_def)
  have "\<forall>x \<in> set (AList.update k e (store p)). fst x \<noteq> [] \<and> key (snd x) = fst x"
    using set_update_subset [of k e "store p"] assms(1-3) by (auto simp: memory_inv_def)
  moreover have "int (length (AList.update k e (store p))) \<le> max 1 (maxEntries p)"
    using assms(1,4) w by (auto simp: length_update memory_inv_def)
  ultimately show ?thesis using jmap.wf_store [OF w] by (simp add: memory_inv_def)
qed

lemma evict_inv: "memory_inv p \<Longrightarrow> memory_inv (snd (evictOldest p))"
  by (auto simp: evictOldest_def delete_inv split: option.splits)

lemma evict_frees:
  assumes "memory_inv p"
  shows "int (length (store (snd (evictOldest p)))) < max 1 (maxEntries p) \<and> maxEntries (snd (evictOldest p)) = maxEntries p"
proof (cases "oldest (store p) None")
  case None
  then show ?thesis by (simp add: oldest_None_iff evictOldest_def)
next
  case (Some ke)
  obtain k e where ke: "ke = (k, e)" by (cases ke)
  have m: "(k, e) \<in> set (store p)" using oldest_member [of "store p" None "(k, e)"] Some ke by simp
  have wf: "jm_wf (store p)" using assms by (simp add: memory_inv_def)
  then have "map_of (store p) k \<noteq> None" using m by (auto simp: jm_wf_def)
  then have "Suc (length (AList.delete k (store p))) = length (store p)" by (rule length_delete [OF wf])
  moreover have "k \<noteq> []" using assms m by (force simp: memory_inv_def)
  ultimately show ?thesis using assms Some ke by (simp add: evictOldest_def memory_inv_def)
qed

lemma new_entry_key [simp]: "key (new_entry now k v m p) = k"
  by (simp add: new_entry_def Let_def)

lemma set_fact_inv:
  assumes "memory_inv p"
  shows "memory_inv (snd (set_fact now k v m p))"
proof (cases "k = []")
  case False
  show ?thesis
  proof (cases "int (length (store p)) \<ge> maxEntries p \<and> map_of (store p) k = None")
    case True
    then have "snd (set_fact now k v m p)
        = (snd (evictOldest p))\<lparr>store := AList.update k (new_entry now k v m p) (store (snd (evictOldest p)))\<rparr>"
      using False by (simp add: set_fact_def case_prod_unfold Let_def)
    then show ?thesis
      using update_inv [OF evict_inv [OF assms] False] evict_frees [OF assms] by simp
  next
    case no_evict: False
    then show ?thesis
      using update_inv [OF assms False] False by (auto simp: set_fact_def)
  qed
qed (simp add: set_fact_def assms)

lemma recall_entries:
  "set (map fst (snd (recall_where now P es))) \<subseteq> set (map fst es)
   \<and> length (snd (recall_where now P es)) \<le> length es
   \<and> (distinct (map fst es) \<longrightarrow> distinct (map fst (snd (recall_where now P es))))
   \<and> (\<forall>x \<in> set (snd (recall_where now P es)). \<exists>y \<in> set es. fst y = fst x \<and> key (snd y) = key (snd x))"
proof (induction es)
  case (Cons x es)
  obtain k e where "x = (k, e)" by (cases x)
  with Cons show ?case by (auto simp: Let_def case_prod_unfold accessed_def)
qed simp

lemma recall_inv: "memory_inv p \<Longrightarrow> memory_inv (p\<lparr>store := snd (recall_where now P (store p))\<rparr>)"
  using recall_entries [of now P "store p"] unfolding memory_inv_def jm_wf_def by fastforce

interpretation memory_runs: guarded_machine memory_step "\<lambda>_. True" memory_inv
proof unfold_locales
  fix e p
  assume i: "memory_inv p"
  have g: "memory_inv (snd (get_fact now k p))" for now k
  proof (cases "map_of (store p) k")
    case (Some e)
    then have "(k, e) \<in> set (store p)" by (rule map_of_SomeD)
    then have "k \<noteq> []" "key e = k" using i by (force simp: memory_inv_def)+
    then show ?thesis
      using Some i update_inv [OF i, of k "accessed now e"] by (auto simp: get_fact_def delete_inv accessed_def)
  qed (simp add: get_fact_def i)
  show "memory_inv (memory_step e p)"
    by (cases e)
      (use i g in \<open>auto simp: set_fact_inv getByTag_def getByPrefix_def recall_inv forget_def delete_inv
         has_fact_def clear_facts_def memory_inv_def [of "p\<lparr>store := []\<rparr>"] case_prod_unfold Let_def split: option.splits\<close>)
qed

text \<open>
  C25. The store never outgrows its capacity. Whatever sequence of operations is run, the map has no
  key twice, no empty key, every entry sits under its own key, and it holds at most \<open>maxEntries\<close>
  entries (one, should the capacity be configured below one).
\<close>

theorem memory_capacity:
  "memory_inv (fold memory_step es (new_policy maxE ttlD))"
  by (rule memory_runs.run_inv) (simp_all add: list_all_iff memory_inv_def new_policy_def)

section \<open>Expiry\<close>

text \<open>The abstract store at a time: the values of the entries that have not expired.\<close>

definition live :: "int \<Rightarrow> policy \<Rightarrow> string \<Rightarrow> jsval option" where
  "live now p k = (case map_of (store p) k of None \<Rightarrow> None | Some e \<Rightarrow> if expired now e then None else Some (val e))"

lemma expired_mono: "now \<le> now' \<Longrightarrow> expired now e \<Longrightarrow> expired now' e"
  by (auto simp: expired_def split: option.splits)

lemma accessed_simps [simp]: "expired t (accessed now e) = expired t e" "val (accessed now e) = val e"
  by (simp_all add: accessed_def expired_def)

lemma recall_live:
  assumes "distinct (map fst es)"
  shows "map_of (snd (recall_where now P es)) k =
      (case map_of es k of None \<Rightarrow> None | Some e \<Rightarrow> if expired now e then None else Some (if P k e then accessed now e else e))"
    and "(k, v) \<in> set (fst (recall_where now P es)) \<longleftrightarrow> (\<exists>e. map_of es k = Some e \<and> \<not> expired now e \<and> P k e \<and> v = val e)"
proof -
  have absent: "k \<notin> fst ` set es \<Longrightarrow> k \<notin> fst ` set (snd (recall_where now P es))" for k es
    using recall_entries [of now P es] by auto
  show "map_of (snd (recall_where now P es)) k =
      (case map_of es k of None \<Rightarrow> None | Some e \<Rightarrow> if expired now e then None else Some (if P k e then accessed now e else e))"
    using assms
  proof (induction es)
    case (Cons x es)
    obtain k1 e1 where x: "x = (k1, e1)" by (cases x)
    have "map_of (snd (recall_where now P es)) k1 = None"
      using absent [of k1 es] Cons.prems x by (simp add: map_of_eq_None_iff)
    moreover have "map_of es k1 = None" using Cons.prems x by (simp add: map_of_eq_None_iff)
    ultimately show ?case using Cons x by (simp add: Let_def case_prod_unfold)
  qed simp
  show "(k, v) \<in> set (fst (recall_where now P es)) \<longleftrightarrow> (\<exists>e. map_of es k = Some e \<and> \<not> expired now e \<and> P k e \<and> v = val e)"
    using assms
  proof (induction es)
    case (Cons x es)
    obtain k1 e1 where x: "x = (k1, e1)" by (cases x)
    have "map_of es k1 = None" using Cons.prems x by (simp add: map_of_eq_None_iff)
    then show ?case using Cons x by (cases "k = k1") (auto simp: Let_def case_prod_unfold)
  qed simp
qed

lemma recall_live_later:
  assumes "jm_wf (store p)" and "now \<le> now'"
  shows "live now' (p\<lparr>store := snd (recall_where now P (store p))\<rparr>) = live now' p"
proof
  fix k
  show "live now' (p\<lparr>store := snd (recall_where now P (store p))\<rparr>) k = live now' p k"
    using recall_live(1) [of "store p" now P k] assms
    by (auto simp: live_def jm_wf_def dest: expired_mono split: option.splits)
qed

lemma keyed_live:
  "live t (p\<lparr>store := AList.delete k (store p)\<rparr>) = (live t p)(k := None)"
  "live t (p\<lparr>store := AList.update k e (store p)\<rparr>) = (live t p)(k := if expired t e then None else Some (val e))"
  by (auto simp: live_def jmap.lookup_remove jmap.lookup_store)

text \<open>
  C35. Expiry, and its invisibility. Recalling by key, by tag or by prefix and testing a key report
  exactly the facts that are stored and not expired at that moment, and none of these operations
  changes what any later recall can see: the entries they delete have expired, and the access
  statistics they update are not part of a fact.
\<close>

theorem recall_reports_live_facts:
  assumes "jm_wf (store p)" and "now \<le> now'"
  shows "(case fst (get_fact now k p) of Inl _ \<Rightarrow> None | Inr e \<Rightarrow> Some (val e)) = live now p k
    \<and> (fst (has_fact now k p) \<longleftrightarrow> live now p k \<noteq> None)
    \<and> set (fst (getByTag now t p)) = {(k, v). live now p k = Some v \<and> (\<exists>e. map_of (store p) k = Some e \<and> t \<in> set (tags e))}
    \<and> set (fst (getByPrefix now q p)) = {(k, v). live now p k = Some v \<and> take (length q) k = q}
    \<and> live now' (snd (get_fact now k p)) = live now' p \<and> live now' (snd (has_fact now k p)) = live now' p
    \<and> live now' (snd (getByTag now t p)) = live now' p \<and> live now' (snd (getByPrefix now q p)) = live now' p"
proof -
  have d: "distinct (map fst (store p))" using assms(1) by (simp add: jm_wf_def)
  have g: "(case fst (get_fact now k p) of Inl _ \<Rightarrow> None | Inr e \<Rightarrow> Some (val e)) = live now p k"
    "fst (has_fact now k p) \<longleftrightarrow> live now p k \<noteq> None"
    by (simp_all add: get_fact_def has_fact_def live_def split: option.splits)
  have later: "live now' (snd (get_fact now k p)) = live now' p" "live now' (snd (has_fact now k p)) = live now' p"
  proof -
    have "live now' p k = None" if "map_of (store p) k = Some e" "expired now e" for e
      using that expired_mono [OF assms(2)] by (simp add: live_def)
    moreover have "live now' p k = (if expired now' e then None else Some (val e))" if "map_of (store p) k = Some e" for e
      using that by (simp add: live_def)
    ultimately show "live now' (snd (get_fact now k p)) = live now' p" "live now' (snd (has_fact now k p)) = live now' p"
      by (cases "map_of (store p) k"; fastforce simp: get_fact_def has_fact_def keyed_live fun_upd_idem_iff)+
  qed
  have tag: "set (fst (getByTag now t p)) = {(k, v). live now p k = Some v \<and> (\<exists>e. map_of (store p) k = Some e \<and> t \<in> set (tags e))}"
    using recall_live(2) [OF d, of _ _ now "\<lambda>_ e. t \<in> set (tags e)"]
    by (auto simp: getByTag_def Let_def case_prod_unfold live_def split: option.splits if_splits)
  have pre: "set (fst (getByPrefix now q p)) = {(k, v). live now p k = Some v \<and> take (length q) k = q}"
    using recall_live(2) [OF d, of _ _ now "\<lambda>k _. take (length q) k = q"]
    by (auto simp: getByPrefix_def Let_def case_prod_unfold live_def split: option.splits if_splits)
  have "live now' (snd (getByTag now t p)) = live now' p" "live now' (snd (getByPrefix now q p)) = live now' p"
    using recall_live_later [OF assms] by (simp_all add: getByTag_def getByPrefix_def Let_def case_prod_unfold)
  with g later tag pre show ?thesis by blast
qed

section \<open>Storing\<close>

text \<open>
  What a store operation does. Storing under a non-empty key makes the fact readable under that
  key; if the key was present or there was room, nothing else changes; otherwise exactly one other
  entry is evicted, and no remaining entry is older than it. An empty key is refused without effect.
\<close>

theorem set_fact_evicts_oldest:
  assumes "memory_inv p"
  shows "(k = [] \<longrightarrow> set_fact now k v m p = ((Inl (Coded ''INVALID_KEY''), None), p))
    \<and> (k \<noteq> [] \<longrightarrow> fst (fst (set_fact now k v m p)) = Inr k
        \<and> map_of (store (snd (set_fact now k v m p))) k = Some (new_entry now k v m p)
        \<and> (case snd (fst (set_fact now k v m p)) of
             None \<Rightarrow> \<forall>k'. k' \<noteq> k \<longrightarrow> map_of (store (snd (set_fact now k v m p))) k' = map_of (store p) k'
           | Some (old, e) \<Rightarrow> maxEntries p \<le> int (length (store p)) \<and> map_of (store p) k = None \<and> map_of (store p) old = Some e
               \<and> (\<forall>k'. k' \<noteq> k \<longrightarrow> map_of (store (snd (set_fact now k v m p))) k' = (if k' = old then None else map_of (store p) k'))
               \<and> (\<forall>k' e'. map_of (store p) k' = Some e' \<longrightarrow> storedAt e \<le> storedAt e')))"
proof (cases "k = []")
  case False
  show ?thesis
  proof (cases "maxEntries p \<le> int (length (store p)) \<and> map_of (store p) k = None \<and> store p \<noteq> []")
    case True
    then obtain old e where o: "oldest (store p) None = Some (old, e)"
      using oldest_None_iff [of "store p"] by fastforce
    then have mem: "(old, e) \<in> set (store p)" using oldest_member [of "store p" None "(old, e)"] by simp
    then have ne: "old \<noteq> []" using assms by (force simp: memory_inv_def)
    have present: "map_of (store p) old = Some e"
      using mem assms by (simp add: memory_inv_def jm_wf_def)
    have minimal: "storedAt e \<le> storedAt e'" if "map_of (store p) k' = Some e'" for k' e'
      using oldest_minimal [OF o, of "(k', e')"] map_of_SomeD [OF that] by simp
    have "set_fact now k v m p = ((Inr k, Some (old, e)),
        p\<lparr>store := AList.update k (new_entry now k v m p) (AList.delete old (store p))\<rparr>)"
      using True False o ne by (simp add: set_fact_def evictOldest_def)
    then show ?thesis using False True present minimal by (simp add: jmap.lookup_store jmap.lookup_remove)
  next
    case no_evict: False
    then have "set_fact now k v m p = ((Inr k, None), p\<lparr>store := AList.update k (new_entry now k v m p) (store p)\<rparr>)"
      using False by (auto simp: set_fact_def evictOldest_def)
    then show ?thesis using False by (simp add: jmap.lookup_store)
  qed
qed (simp add: set_fact_def)

section \<open>A concrete store\<close>

definition two_slots :: policy where
  "two_slots = fold memory_step
     [SetFact 10 ''a'' (JInt 1) \<lparr>ttl = Some 5, meta_source = [], meta_tags = [''t'']\<rparr>,
      SetFact 12 ''b'' (JInt 2) \<lparr>ttl = None, meta_source = ''user'', meta_tags = [''t'']\<rparr>] (new_policy (Some 2) None)"

lemma two_slots_inv: "memory_inv two_slots"
  unfolding two_slots_def by (rule memory_runs.run_inv) (simp_all add: memory_inv_def new_policy_def)

theorem recall_reports_live_facts_witness: "fst (has_fact 16 ''a'' two_slots) = False"
proof -
  have "jm_wf (store two_slots)" using two_slots_inv by (simp add: memory_inv_def)
  moreover have "(16::int) \<le> 20" by simp
  ultimately have "fst (has_fact 16 ''a'' two_slots) \<longleftrightarrow> live 16 two_slots ''a'' \<noteq> None"
    by (rule recall_reports_live_facts [THEN conjunct2, THEN conjunct1])
  moreover have "live 16 two_slots ''a'' = None" by code_simp
  ultimately show ?thesis by simp
qed

theorem set_fact_evicts_oldest_witness:
  "map_of (store (snd (set_fact 14 ''c'' (JInt 3) \<lparr>ttl = None, meta_source = [], meta_tags = []\<rparr> two_slots))) ''c''
     = Some (new_entry 14 ''c'' (JInt 3) \<lparr>ttl = None, meta_source = [], meta_tags = []\<rparr> two_slots)"
  using set_fact_evicts_oldest [OF two_slots_inv, of "''c''"] by blast

end
