(* ===== verification/PatchDiff.thy ===== *)
theory PatchDiff
  imports Prelude JsText
begin

text \<open>
  Line edits, and the fallback diff of \<open>src/patch/patch-parser.js\<close>: \<open>splice\<close> as the applier
  uses it, the single pass that applies all edits at once, and \<open>_computeChangedRegions\<close>, which
  compares the lines of a file with the lines a model answered.
\<close>

section \<open>Edits\<close>

text \<open>
  An edit removes \<open>d\<close> lines at line \<open>s\<close> and puts new lines there: \<open>lines.splice(s, d, ...new)\<close>,
  which clamps a start beyond the end.
\<close>

type_synonym edit = "nat \<times> nat \<times> string list"

definition splice :: "edit \<Rightarrow> string list \<Rightarrow> string list" where
  "splice e ls = (case e of (s, d, n) \<Rightarrow> take s ls @ n @ drop (s + d) ls)"

text \<open>The reference: all edits in one pass over the original lines, from the top.\<close>

fun weave :: "nat \<Rightarrow> string list \<Rightarrow> edit list \<Rightarrow> string list" where
  "weave i ls [] = ls"
| "weave i ls ((s, d, n) # es) = take (s - i) ls @ n @ weave (s + d) (drop (s - i + d) ls) es"

text \<open>Edits in order, apart from each other and inside the file.\<close>

fun separated :: "nat \<Rightarrow> nat \<Rightarrow> edit list \<Rightarrow> bool" where
  "separated i len [] = (i \<le> len)"
| "separated i len ((s, d, n) # es) = (i \<le> s \<and> separated (s + d) len es)"

lemma separated_bound: "separated i len es \<Longrightarrow> i \<le> len"
  by (induction i len es rule: separated.induct) auto

lemma separated_weaken: "separated i len es \<Longrightarrow> j \<le> i \<Longrightarrow> separated j len es"
  by (cases es) auto

lemma weave_split: "separated i (length ls) es \<Longrightarrow> foldr splice es ls = take i ls @ weave i (drop i ls) es"
proof (induction es arbitrary: i)
  case (Cons e es)
  obtain s d n where e: "e = (s, d, n)" by (cases e)
  with Cons.prems have "i \<le> s" and sep: "separated (s + d) (length ls) es" by auto
  then have "s + d \<le> length ls" using separated_bound by blast
  moreover have "foldr splice (e # es) ls = splice e (take (s + d) ls @ weave (s + d) (drop (s + d) ls) es)"
    using Cons.IH [OF sep] by simp
  ultimately have "foldr splice (e # es) ls = take s ls @ n @ weave (s + d) (drop (s + d) ls) es"
    by (simp add: e splice_def)
  also have "take s ls = take i ls @ take (s - i) (drop i ls)"
    using \<open>i \<le> s\<close> by (metis le_add_diff_inverse take_add)
  finally show ?case using \<open>i \<le> s\<close> by (simp add: e)
qed (simp add: splice_def)

lemma bottom_up_weave:
  assumes "separated 0 (length ls) es"
  shows "fold splice (rev es) ls = weave 0 ls es"
  using weave_split [OF assms] by (simp add: foldr_conv_fold)

lemma length_weave:
  "separated i (i + length ls) es \<Longrightarrow>
     length (weave i ls es) + (\<Sum>(s, d, n) \<leftarrow> es. d) = length ls + (\<Sum>(s, d, n) \<leftarrow> es. length n)"
proof (induction i ls es rule: weave.induct)
  case (2 i ls s d n es)
  then have sep: "separated (s + d) (i + length ls) es" and "i \<le> s" by auto
  then have b: "s + d \<le> i + length ls" using separated_bound by blast
  have eq: "s + d + length (drop (s - i + d) ls) = i + length ls" using b \<open>i \<le> s\<close> by simp
  then have "length (weave (s + d) (drop (s - i + d) ls) es) + (\<Sum>(s, d, n) \<leftarrow> es. d)
      = length (drop (s - i + d) ls) + (\<Sum>(s, d, n) \<leftarrow> es. length n)"
    using 2(1) sep by simp
  then show ?case using eq b \<open>i \<le> s\<close> by simp
qed simp

section \<open>The changed regions of two files\<close>

record changed_region =
  region_start :: nat
  region_old :: "string list"
  region_new :: "string list"

text \<open>
  The lists are what is left of the two files at \<open>oi\<close> and \<open>ni\<close>. Three equal lines end a region.
\<close>

definition synced :: "string list \<Rightarrow> string list \<Rightarrow> bool" where
  "synced os ns \<longleftrightarrow> 3 \<le> length os \<and> 3 \<le> length ns \<and> take 3 os = take 3 ns"

fun scan :: "string list \<Rightarrow> string list \<Rightarrow> string list \<Rightarrow> string list
    \<Rightarrow> (string list \<times> string list) \<times> (string list \<times> string list)" where
  "scan [] [] ro rn = (([], []), (ro, rn))"
| "scan (x # xs) [] ro rn = scan xs [] (ro @ [x]) rn"
| "scan [] (y # ys) ro rn = scan [] ys ro (rn @ [y])"
| "scan (x # xs) (y # ys) ro rn =
     (if synced (x # xs) (y # ys) then ((x # xs, y # ys), (ro, rn))
      else scan xs ys (ro @ [x]) (rn @ [y]))"

lemma scan_parts:
  "scan os ns ro rn = ((os', ns'), (ro', rn')) \<Longrightarrow>
     \<exists>po pn. ro' = ro @ po \<and> rn' = rn @ pn \<and> os = po @ os' \<and> ns = pn @ ns'"
proof (induction os ns ro rn rule: scan.induct)
  case (4 x xs y ys ro rn)
  then show ?case by (auto split: if_splits)
qed auto

lemma scan_progress:
  assumes "scan os ns [] [] = ((os', ns'), (ro, rn))" and "os \<noteq> [] \<or> ns \<noteq> []"
    and "\<not> (os \<noteq> [] \<and> ns \<noteq> [] \<and> hd os = hd ns)"
  shows "ro \<noteq> [] \<or> rn \<noteq> []"
proof -
  have "\<not> synced os ns" using assms(3) by (cases os; cases ns) (auto simp: synced_def)
  then obtain ro1 rn1 os1 ns1 where "scan os1 ns1 ro1 rn1 = ((os', ns'), (ro, rn))" "ro1 \<noteq> [] \<or> rn1 \<noteq> []"
    using assms(1,2) by (cases os; cases ns) auto
  then show ?thesis using scan_parts by fastforce
qed

function regions_from :: "nat \<Rightarrow> string list \<Rightarrow> string list \<Rightarrow> changed_region list" where
  "regions_from oi os ns =
     (if os = [] \<and> ns = [] then []
      else if os \<noteq> [] \<and> ns \<noteq> [] \<and> hd os = hd ns then regions_from (oi + 1) (tl os) (tl ns)
      else let p = scan os ns [] []; rest = fst p; changed = snd p
           in (if fst changed \<noteq> [] \<or> snd changed \<noteq> []
               then [\<lparr>region_start = oi, region_old = fst changed, region_new = snd changed\<rparr>] else [])
              @ regions_from (oi + length (fst changed)) (fst rest) (snd rest))"
  by pat_completeness auto
termination
proof (relation "measure (\<lambda>(oi, os, ns). length os + length ns)", goal_cases)
  case (2 oi os ns)
  then show ?case by (cases os; cases ns) auto
next
  case (3 oi os ns p rest changed)
  obtain os' ns' ro rn where e: "scan os ns [] [] = ((os', ns'), (ro, rn))" by (metis surj_pair)
  from scan_parts [OF e] scan_progress [OF e] 3 e show ?case by auto
qed simp

declare regions_from.simps [simp del]

definition computeChangedRegions :: "string list \<Rightarrow> string list \<Rightarrow> changed_region list" where
  "computeChangedRegions oldLines newLines = regions_from 0 oldLines newLines"

definition region_edit :: "changed_region \<Rightarrow> edit" where
  "region_edit r = (region_start r, length (region_old r), region_new r)"

lemma regions_from_cases:
  obtains (stop) "os = []" "ns = []" "regions_from oi os ns = []"
  | (same) x os' ns' where "os = x # os'" "ns = x # ns'" "regions_from oi os ns = regions_from (oi + 1) os' ns'"
  | (differ) ro rn os' ns' where "os = ro @ os'" "ns = rn @ ns'" "ro \<noteq> rn"
      "regions_from oi os ns = \<lparr>region_start = oi, region_old = ro, region_new = rn\<rparr> # regions_from (oi + length ro) os' ns'"
      "length os' + length ns' < length os + length ns"
proof -
  consider "os = [] \<and> ns = []" | "os \<noteq> [] \<and> ns \<noteq> [] \<and> hd os = hd ns"
    | "\<not> (os = [] \<and> ns = [])" "\<not> (os \<noteq> [] \<and> ns \<noteq> [] \<and> hd os = hd ns)" by blast
  then show thesis
  proof cases
    case 1
    then show thesis by (intro stop) (simp_all add: regions_from.simps)
  next
    case 2
    then obtain x os' ns' where x: "os = x # os'" "ns = x # ns'" by (cases os; cases ns) auto
    moreover have "regions_from oi (x # os') (x # ns') = regions_from (oi + 1) os' ns'"
      by (subst regions_from.simps) simp
    ultimately show thesis by (intro same) simp_all
  next
    case 3
    obtain os' ns' ro rn where e: "scan os ns [] [] = ((os', ns'), (ro, rn))" by (metis surj_pair)
    then have parts: "os = ro @ os'" "ns = rn @ ns'" using scan_parts [OF e] by auto
    have ne: "ro \<noteq> [] \<or> rn \<noteq> []" using scan_progress [OF e] 3 by auto
    have "ro \<noteq> rn" using 3 parts ne by (cases ro; cases rn) auto
    moreover have "regions_from oi os ns
        = \<lparr>region_start = oi, region_old = ro, region_new = rn\<rparr> # regions_from (oi + length ro) os' ns'"
      unfolding regions_from.simps [of oi os ns] if_not_P [OF 3(1)] if_not_P [OF 3(2)] e Let_def
      using ne by simp
    moreover have "length os' + length ns' < length os + length ns" using parts ne by auto
    ultimately show thesis using parts by (intro differ)
  qed
qed

lemma regions_from_sound:
  "weave oi os (map region_edit (regions_from oi os ns)) = ns
   \<and> separated oi (oi + length os) (map region_edit (regions_from oi os ns))"
proof (induction "length os + length ns" arbitrary: oi os ns rule: less_induct)
  case less
  show ?case
  proof (cases rule: regions_from_cases [of os ns oi])
    case stop
    then show ?thesis by simp
  next
    case (same x os' ns')
    let ?es = "map region_edit (regions_from (oi + 1) os' ns')"
    have IH: "weave (oi + 1) os' ?es = ns'" "separated (oi + 1) (oi + 1 + length os') ?es"
      using less [of os' ns' "oi + 1"] same by simp_all
    have "weave oi (x # os') ?es = x # weave (oi + 1) os' ?es"
    proof (cases ?es)
      case (Cons e es)
      then show ?thesis using IH(2) by (cases e) (simp add: Suc_diff_Suc take_Cons' drop_Cons')
    qed simp
    with IH same show ?thesis using separated_weaken [OF IH(2), of oi] by simp
  next
    case (differ ro rn os' ns')
    then show ?thesis
      using less [of os' ns' "oi + length ro"] by (simp add: region_edit_def add.assoc)
  qed
qed

lemma regions_from_faithful:
  "r \<in> set (regions_from oi os ns) \<Longrightarrow> oi \<le> region_start r
     \<and> take (length (region_old r)) (drop (region_start r - oi) os) = region_old r \<and> region_old r \<noteq> region_new r"
proof (induction "length os + length ns" arbitrary: oi os ns rule: less_induct)
  case less
  show ?case
  proof (cases rule: regions_from_cases [of os ns oi])
    case stop
    then show ?thesis using less.prems by simp
  next
    case (same x os' ns')
    then have "oi + 1 \<le> region_start r
        \<and> take (length (region_old r)) (drop (region_start r - (oi + 1)) os') = region_old r \<and> region_old r \<noteq> region_new r"
      using less.hyps [of os' ns' "oi + 1"] less.prems by simp
    then show ?thesis using same by (simp add: drop_Cons')
  next
    case (differ ro rn os' ns')
    show ?thesis
    proof (cases "r = \<lparr>region_start = oi, region_old = ro, region_new = rn\<rparr>")
      case True
      then show ?thesis using differ by simp
    next
      case False
      then have "oi + length ro \<le> region_start r
          \<and> take (length (region_old r)) (drop (region_start r - (oi + length ro)) os') = region_old r \<and> region_old r \<noteq> region_new r"
        using less.hyps [of os' ns' "oi + length ro"] less.prems differ by simp
      then show ?thesis using differ(1) by (auto simp: diff_diff_left)
    qed
  qed
qed

text \<open>
  C26. The fallback diff is exact. The regions it computes for any two files are in order and
  disjoint, the old text of each stands at its line in the old file and differs from its new text,
  and putting the new texts in their places, from the bottom up as the applier does, turns the old
  file into the new file.
\<close>

theorem changed_regions_roundtrip:
  "fold splice (rev (map region_edit (computeChangedRegions oldLines newLines))) oldLines = newLines
   \<and> separated 0 (length oldLines) (map region_edit (computeChangedRegions oldLines newLines))
   \<and> list_all (\<lambda>r. take (length (region_old r)) (drop (region_start r) oldLines) = region_old r
        \<and> region_old r \<noteq> region_new r) (computeChangedRegions oldLines newLines)"
proof -
  have "weave 0 oldLines (map region_edit (computeChangedRegions oldLines newLines)) = newLines"
    and sep: "separated 0 (length oldLines) (map region_edit (computeChangedRegions oldLines newLines))"
    using regions_from_sound [of 0 oldLines newLines] by (simp_all add: computeChangedRegions_def)
  then show ?thesis
    using bottom_up_weave [OF sep] regions_from_faithful [of _ 0 oldLines newLines]
    by (auto simp: list_all_iff computeChangedRegions_def)
qed

end
