(* ===== verification/PatchApply.thy ===== *)
theory PatchApply
  imports PatchDiff Complex_Main "HOL-Library.Multiset"
begin

text \<open>
  Structured patches: \<open>src/patch/patch-validator.js\<close> (anchor resolution, validation) and
  \<open>src/patch/patch-applier.js\<close> (application, composition). Text is UTF-8 and lines are lists of
  bytes. \<open>findAnchor\<close> is modelled as every caller calls it, without symbols; its third tier needs
  them. Lists the source may leave undefined are empty lists here, as the source treats them.
\<close>

section \<open>Data\<close>

record hunk =
  sourceLine :: int
  expectedOldLines :: int
  expectedNewLines :: int

record region =
  anchor :: string
  anchorType :: string
  contextBefore :: string
  old_lines :: "string list"
  new_lines :: "string list"
  exact_context :: bool
  numeric :: "hunk option"

text \<open>A property the object does not have is \<open>None\<close>.\<close>

record metadata =
  meta_type :: "string option"
  confidence :: "rat option"
  description :: "string option"
  milestone :: "string option"

record patch =
  patch_file :: string
  regions :: "region list"
  meta_info :: "metadata option"

record found =
  line :: nat
  tier :: string
  matches :: nat

record resolution = found +
  startLine :: nat

section \<open>Text helpers\<close>

abbreviation newline :: char where
  "newline \<equiv> CHR 0x0A"

fun normalizeNewlines :: "string \<Rightarrow> string" where
  "normalizeNewlines [] = []"
| "normalizeNewlines (c # s) =
     (if c = CHR 0x0D \<and> take 1 s = [newline] then normalizeNewlines s else c # normalizeNewlines s)"

definition file_lines :: "string \<Rightarrow> string list" where
  "file_lines content = split_at newline content"

fun str_includes :: "string \<Rightarrow> string \<Rightarrow> bool" where
  "str_includes [] t = (t = [])"
| "str_includes (c # s) t = (take (length t) (c # s) = t \<or> str_includes s t)"

text \<open>\<open>s.replace(/\s+/g, ' ')\<close>; \<open>\s\<close> is the white space \<open>trim\<close> drops.\<close>

fun collapse :: "string list \<Rightarrow> string list" where
  "collapse [] = []"
| "collapse (w # ws) =
     (if trim_space w then
        (case ws of
           [] \<Rightarrow> ['' '']
         | v # _ \<Rightarrow> if trim_space v then collapse ws else '' '' # collapse ws)
      else w # collapse ws)"

definition collapse_ws :: "string \<Rightarrow> string" where
  "collapse_ws s = concat (collapse (utf8_chars s))"

section \<open>Resolving a region\<close>

text \<open>The first match, or the first one whose preceding line agrees with the context.\<close>

definition choose_match :: "nat list \<Rightarrow> bool \<Rightarrow> (nat \<Rightarrow> bool) \<Rightarrow> string \<Rightarrow> found option" where
  "choose_match ms context P t =
     (if ms = [] then None
      else let d = (if length ms > 1 \<and> context then filter (\<lambda>idx. idx > 0 \<and> P (idx - 1)) ms else [])
           in if d \<noteq> [] then Some \<lparr>line = hd d, tier = t, matches = length d\<rparr>
              else Some \<lparr>line = hd ms, tier = t, matches = length ms\<rparr>)"

definition findAnchor :: "string \<Rightarrow> string \<Rightarrow> string \<Rightarrow> found option" where
  "findAnchor content anch context =
     (if content = [] \<or> anch = [] then None
      else let ls = file_lines (normalizeNewlines content); trimmedAnchor = js_trim anch;
               exact = filter (\<lambda>i. str_includes (ls ! i) trimmedAnchor) [0..<length ls];
               normalizedAnchor = collapse_ws trimmedAnchor;
               normalized = filter (\<lambda>i. str_includes (js_trim (collapse_ws (ls ! i))) normalizedAnchor) [0..<length ls]
           in case choose_match exact (context \<noteq> []) (\<lambda>i. str_includes (js_trim (ls ! i)) (js_trim context)) ''exact'' of
                Some f \<Rightarrow> Some f
              | None \<Rightarrow> choose_match normalized (context \<noteq> [])
                  (\<lambda>i. str_includes (js_trim (collapse_ws (ls ! i))) (collapse_ws (js_trim context))) ''normalized'')"

definition getRegionOffset :: "string \<Rightarrow> nat" where
  "getRegionOffset t = (if t = ''function'' \<or> t = ''class'' \<or> t = ''method'' then 1 else 0)"

definition with_start :: "region \<Rightarrow> found \<Rightarrow> resolution" where
  "with_start r f =
     found.extend f (resolution.fields (line f + (if anchorType r = ''insert_after'' then 1 else getRegionOffset (anchorType r))))"

text \<open>\<open>expected.every((text, i) => same(lines[start + i], text))\<close>; a line beyond the end is undefined.\<close>

definition same_at :: "(string \<Rightarrow> string \<Rightarrow> bool) \<Rightarrow> string list \<Rightarrow> int \<Rightarrow> string list \<Rightarrow> bool" where
  "same_at same ls start expected \<longleftrightarrow>
     start \<ge> 0 \<and> list_all (\<lambda>i. nat start + i < length ls \<and> same (ls ! (nat start + i)) (expected ! i)) [0..<length expected]"

definition candidates :: "(string \<Rightarrow> string \<Rightarrow> bool) \<Rightarrow> string list \<Rightarrow> region \<Rightarrow> string list \<Rightarrow> nat list" where
  "candidates same ls r before =
     filter (\<lambda>start.
         \<not> (old_lines r \<noteq> [] \<and> \<not> same_at same ls (int start) (old_lines r))
       \<and> \<not> (before \<noteq> [] \<and> \<not> same_at same ls (int start - int (length before)) before)
       \<and> \<not> (old_lines r = [] \<and> before = [])
       \<and> list_ex (\<lambda>l. str_includes l (js_trim (anchor r))) (take (start + 1) ls)) [0..<length ls]"

definition at_line :: "nat \<Rightarrow> string \<Rightarrow> resolution" where
  "at_line n t = \<lparr>line = n, tier = t, matches = 1, startLine = n\<rparr>"

definition resolveRegion :: "string \<Rightarrow> region \<Rightarrow> resolution option" where
  "resolveRegion content r =
     (let ls = file_lines (normalizeNewlines content);
          before = (if contextBefore r = [] then [] else split_at newline (contextBefore r))
      in if \<not> exact_context r then map_option (with_start r) (findAnchor content (anchor r) (contextBefore r))
         else case numeric r of
           Some h \<Rightarrow>
             if sourceLine h < 0 \<or> sourceLine h > int (length ls) \<or> int (length (old_lines r)) \<noteq> expectedOldLines h
                \<or> int (length (new_lines r)) \<noteq> expectedNewLines h \<or> \<not> same_at (=) ls (sourceLine h) (old_lines r) then None
             else Some (at_line (nat (sourceLine h)) ''exact'')
         | None \<Rightarrow>
             if old_lines r = [] \<and> before = [] then
               (case findAnchor content (anchor r) [] of
                  None \<Rightarrow> None
                | Some f \<Rightarrow> if matches f = 1 then Some (with_start r f) else None)
             else case candidates (=) ls r before of
               [n] \<Rightarrow> Some (at_line n ''exact'')
             | _ # _ # _ \<Rightarrow> None
             | [] \<Rightarrow> (case candidates (\<lambda>a b. js_trim a = js_trim b) ls r before of
                        [n] \<Rightarrow> Some (at_line n ''normalized'')
                      | _ \<Rightarrow> None))"

section \<open>Validation\<close>

definition MAX_LINES_CHANGED :: nat where "MAX_LINES_CHANGED = 300"
definition MAX_FILES :: nat where "MAX_FILES = 5"
definition MAX_REGIONS_PER_FILE :: nat where "MAX_REGIONS_PER_FILE = 20"
definition MAX_FILE_SIZE :: nat where "MAX_FILE_SIZE = 50000"

definition quoted :: "string \<Rightarrow> string" where "quoted s = ''\"'' @ s @ ''\"''"

definition em_dash :: string where "em_dash = [CHR 0xE2, CHR 0x80, CHR 0x94]"

record patch_validation =
  patch_errors :: "string list"
  patch_warnings :: "string list"

definition patch_valid :: "patch_validation \<Rightarrow> bool" where
  "patch_valid v \<longleftrightarrow> patch_errors v = []"

definition total_changed :: "region list \<Rightarrow> nat" where
  "total_changed rs = sum_list (map (\<lambda>r. length (old_lines r) + length (new_lines r)) rs)"

text \<open>The first old line the file does not have at its place.\<close>

fun stale_error :: "nat \<Rightarrow> region \<Rightarrow> string list \<Rightarrow> nat \<Rightarrow> nat \<Rightarrow> string list \<Rightarrow> string list" where
  "stale_error i r ls start j [] = []"
| "stale_error i r ls start j (p # ps) =
     (if start + j < length ls \<and> js_trim (ls ! (start + j)) = js_trim p then stale_error i r ls start (j + 1) ps
      else [''Region '' @ dec_digits i @ '': stale patch '' @ em_dash @ '' old line '' @ dec_digits j @ '' mismatch at anchor ''
            @ quoted (anchor r) @ '' (expected '' @ quoted (js_trim p) @ '', got ''
            @ quoted (if start + j < length ls then js_trim (ls ! (start + j)) else ''undefined'') @ '')''])"

text \<open>What one region adds: messages, and its index, first line and end line when it resolves.\<close>

definition check_region :: "string \<Rightarrow> string list \<Rightarrow> nat \<Rightarrow> region \<Rightarrow> string list \<times> (nat \<times> nat \<times> nat) list" where
  "check_region content ls i r =
     (let pre = ''Region '' @ dec_digits i @ '': ''
      in if anchor r = [] then ([pre @ ''missing anchor''], [])
         else if content = [] \<and> old_lines r = [] then ([], [])
         else case resolveRegion content r of
           None \<Rightarrow> ([pre @ ''source range not found, ambiguous or stale: '' @ quoted (anchor r)], [])
         | Some f \<Rightarrow>
             if matches f > 1 then
               ([pre @ ''ambiguous anchor '' @ quoted (anchor r) @ '' ('' @ dec_digits (matches f)
                 @ '' matches, no contextBefore for disambiguation)''], [])
             else (stale_error i r ls (startLine f) 0 (old_lines r),
                   [(i, startLine f, startLine f + length (old_lines r))]))"

fun overlap_errors :: "(nat \<times> nat \<times> nat) list \<Rightarrow> string list" where
  "overlap_errors ((i, l, e) # (i', l', e') # rest) =
     chk (l' < e) (''Regions '' @ dec_digits i @ '' and '' @ dec_digits i' @ '' overlap at line '' @ dec_digits l')
     @ overlap_errors ((i', l', e') # rest)"
| "overlap_errors _ = []"

definition checked_regions :: "string \<Rightarrow> region list \<Rightarrow> (string list \<times> (nat \<times> nat \<times> nat) list) list" where
  "checked_regions content rs =
     map (\<lambda>(i, r). check_region content (if content = [] then [] else file_lines content) i r) (enumerate 0 rs)"

definition validatePatch :: "patch \<Rightarrow> (string \<rightharpoonup> string) \<Rightarrow> patch_validation" where
  "validatePatch p fileContents =
     (if patch_file p = [] then \<lparr>patch_errors = [''Patch missing file path''], patch_warnings = []\<rparr>
      else let content = fileContents (patch_file p); rs = regions p
           in if content = None \<and> \<not> list_all (\<lambda>r. old_lines r = []) rs then
                \<lparr>patch_errors = [''File not found: '' @ patch_file p @ '' (and patch has non-empty old lines)''], patch_warnings = []\<rparr>
              else let raw = (case content of None \<Rightarrow> [] | Some c \<Rightarrow> c);
                       lineCount = length (split_at newline raw);
                       changed = total_changed rs;
                       checks = checked_regions (normalizeNewlines raw) rs;
                       resolved = concat (map snd checks)
                   in \<lparr>patch_errors =
                         chk (changed > MAX_LINES_CHANGED) (''Patch changes '' @ dec_digits changed @ '' lines (max 300)'')
                         @ chk (length rs > MAX_REGIONS_PER_FILE) (''Patch has '' @ dec_digits (length rs) @ '' regions (max 20)'')
                         @ concat (map fst checks)
                         @ overlap_errors (sort_key (\<lambda>(i, l, e). l) resolved),
                       patch_warnings =
                         chk (raw \<noteq> [] \<and> lineCount > MAX_FILE_SIZE)
                           (''File '' @ patch_file p @ '' has '' @ dec_digits lineCount @ '' lines (>50000) '' @ em_dash
                            @ '' LLM patches may be unreliable'')\<rparr>)"

definition validatePatchSet :: "patch list \<Rightarrow> (string \<rightharpoonup> string) \<Rightarrow> patch_validation" where
  "validatePatchSet ps fileContents =
     (let uniqueFiles = length (js_set (map patch_file ps)); totalLines = sum_list (map (\<lambda>p. total_changed (regions p)) ps)
      in \<lparr>patch_errors =
            chk (uniqueFiles > MAX_FILES) (''Patch set touches '' @ dec_digits uniqueFiles @ '' files (max 5)'')
            @ chk (totalLines > MAX_LINES_CHANGED) (''Patch set changes '' @ dec_digits totalLines @ '' lines total (max 300)'')
            @ concat (map (\<lambda>p. map (\<lambda>e. ''['' @ patch_file p @ ''] '' @ e) (patch_errors (validatePatch p fileContents))) ps),
          patch_warnings = concat (map (\<lambda>p. patch_warnings (validatePatch p fileContents)) ps)\<rparr>)"

section \<open>Application\<close>

datatype patch_detail =
    Applied string string nat nat nat
  | Skipped string

record applied_patch =
  content :: string
  applied :: nat
  skipped :: nat
  details :: "patch_detail list"

definition region_splice :: "region \<times> resolution \<Rightarrow> edit" where
  "region_splice p =
     (let r = fst p; f = snd p; oldLen = length (old_lines r); newLines = new_lines r
      in if anchorType r = ''insert_after'' then (line f + 1, 0, newLines)
         else if oldLen = 0 \<and> newLines \<noteq> [] then (startLine f, 0, newLines)
         else if newLines = [] \<and> oldLen > 0 then (startLine f, oldLen, [])
         else (startLine f, oldLen, newLines))"

definition applied_detail :: "region \<times> resolution \<Rightarrow> patch_detail" where
  "applied_detail p = Applied (anchor (fst p)) (tier (snd p)) (startLine (snd p)) (length (old_lines (fst p))) (length (new_lines (fst p)))"

fun resolve_all :: "string \<Rightarrow> region list \<Rightarrow> (region \<times> resolution) list \<times> patch_detail list" where
  "resolve_all c [] = ([], [])"
| "resolve_all c (r # rs) =
     (let (res, skip) = resolve_all c rs
      in case resolveRegion c r of
           None \<Rightarrow> (res, Skipped (anchor r) # skip)
         | Some f \<Rightarrow> if matches f \<noteq> 1 then (res, Skipped (anchor r) # skip) else ((r, f) # res, skip))"

text \<open>\<open>resolved.sort((a, b) => b.startLine - a.startLine)\<close>, a stable sort.\<close>

definition bottom_up :: "(region \<times> resolution) list \<Rightarrow> (region \<times> resolution) list" where
  "bottom_up ps = sort_key (\<lambda>p. - int (startLine (snd p))) ps"

definition end_with_newline :: "string \<Rightarrow> string" where
  "end_with_newline s = (if s \<noteq> [] \<and> last s \<noteq> newline then s @ [newline] else s)"

definition applyPatch :: "patch \<Rightarrow> string \<Rightarrow> applied_patch" where
  "applyPatch p fileContent =
     (let c = normalizeNewlines fileContent; ls = file_lines c; rs = regions p
      in if rs = [] then \<lparr>content = c, applied = 0, skipped = 0, details = []\<rparr>
         else let (resolved, skip) = resolve_all c rs
              in if resolved = [] then \<lparr>content = c, applied = 0, skipped = length rs, details = skip\<rparr>
                 else let order = bottom_up resolved
                      in \<lparr>content = end_with_newline (join_with [newline] (fold splice (map region_splice order) ls)),
                          applied = length resolved, skipped = length skip, details = map applied_detail order @ skip\<rparr>)"

section \<open>Composition\<close>

text \<open>The patches of one file, in order; files in the order of their first patch.\<close>

definition patches_of :: "string \<Rightarrow> patch list \<Rightarrow> patch list" where
  "patches_of f ps = filter (\<lambda>p. patch_file p = f) ps"

record conflict =
  conflict_file :: string
  conflict_anchor :: string
  conflict_indices :: "nat \<times> nat"

text \<open>One pass over the regions of a file: an anchor seen before is a conflict, a new one is kept.\<close>

fun merge_regions :: "string \<Rightarrow> (nat \<times> region) list \<Rightarrow> (string \<times> nat) list \<Rightarrow> region list \<times> conflict list" where
  "merge_regions f [] seen = ([], [])"
| "merge_regions f ((k, r) # rs) seen =
     (case map_of seen (anchor r) of
        Some first \<Rightarrow> (let (ms, cs) = merge_regions f rs seen
                      in (ms, \<lparr>conflict_file = f, conflict_anchor = anchor r, conflict_indices = (first, k)\<rparr> # cs))
      | None \<Rightarrow> (let (ms, cs) = merge_regions f rs (AList.update (anchor r) k seen) in (r # ms, cs)))"

definition indexed_regions :: "patch list \<Rightarrow> (nat \<times> region) list" where
  "indexed_regions ps = concat (map (\<lambda>(i, p). map (\<lambda>r. (i, r)) (regions p)) (enumerate 0 ps))"

definition patch_confidence :: "patch \<Rightarrow> rat" where
  "patch_confidence p =
     (case meta_info p of None \<Rightarrow> 0 | Some m \<Rightarrow> (case confidence m of None \<Rightarrow> 0 | Some c \<Rightarrow> c))"

definition patch_description :: "patch \<Rightarrow> string" where
  "patch_description p =
     (case meta_info p of None \<Rightarrow> [] | Some m \<Rightarrow> (case description m of None \<Rightarrow> [] | Some d \<Rightarrow> d))"

text \<open>
  The composed metadata: the spread of the most confident patch's (the spread of undefined adds
  nothing), then the joined descriptions. The list has at least two patches.
\<close>

definition composed_metadata :: "patch list \<Rightarrow> metadata" where
  "composed_metadata ps =
     (case meta_info (hd (sort_key (\<lambda>p. - patch_confidence p) ps)) of
        None \<Rightarrow> \<lparr>meta_type = None, confidence = None, description = None, milestone = None\<rparr>
      | Some m \<Rightarrow> m)\<lparr>description := Some (join_with ''; '' (filter (\<lambda>d. d \<noteq> []) (map patch_description ps)))\<rparr>"

definition compose_file :: "string \<Rightarrow> patch list \<Rightarrow> patch \<times> conflict list" where
  "compose_file f ps =
     (case ps of
        [p] \<Rightarrow> (p, [])
      | _ \<Rightarrow> (let (ms, cs) = merge_regions f (indexed_regions ps) []
              in (\<lparr>patch_file = f, regions = ms, meta_info = Some (composed_metadata ps)\<rparr>, cs)))"

definition composePatchSet :: "patch list \<Rightarrow> patch list \<times> conflict list" where
  "composePatchSet ps =
     (let parts = map (\<lambda>f. compose_file f (patches_of f ps)) (js_set (map patch_file ps))
      in (map fst parts, concat (map snd parts)))"

section \<open>Metrics\<close>

record patch_metrics =
  linesChanged :: nat
  linesAdded :: nat
  linesRemoved :: nat
  linesModified :: nat
  anchors_exact :: nat
  anchors_normalized :: nat

text \<open>The \<open>ast\<close> counter stays 0: no region resolves by symbols.\<close>

definition computeMetrics :: "patch \<Rightarrow> applied_patch \<Rightarrow> patch_metrics" where
  "computeMetrics p res =
     (let rs = regions p; sum = (\<lambda>f. sum_list (map f rs));
          added = sum (\<lambda>r. if old_lines r = [] \<and> new_lines r \<noteq> [] then length (new_lines r) else 0);
          removed = sum (\<lambda>r. if new_lines r = [] \<and> old_lines r \<noteq> [] then length (old_lines r) else 0);
          modified = sum (\<lambda>r. if (old_lines r = []) = (new_lines r = []) then max (length (old_lines r)) (length (new_lines r)) else 0);
          tiers = (\<lambda>t. length (filter (\<lambda>d. case d of Applied _ u _ _ _ \<Rightarrow> u = t | Skipped _ \<Rightarrow> False) (details res)))
      in \<lparr>linesChanged = added + removed + modified, linesAdded = added, linesRemoved = removed, linesModified = modified,
          anchors_exact = tiers ''exact'', anchors_normalized = tiers ''normalized''\<rparr>)"

section \<open>What resolution guarantees\<close>

lemma normalizeNewlines_Nil_iff [simp]: "normalizeNewlines s = [] \<longleftrightarrow> s = []"
  by (induction s) (auto split: if_splits)

lemma length_split_at: "length (split_at d s) = Suc (count_list s d)"
proof (induction s)
  case (Cons c s)
  then show ?case by (cases "split_at d s") auto
qed simp

lemma count_normalizeNewlines: "count_list (normalizeNewlines s) newline = count_list s newline"
  by (induction s) auto

lemma length_file_lines_normalize [simp]: "length (file_lines (normalizeNewlines s)) = length (file_lines s)"
  by (simp add: file_lines_def length_split_at count_normalizeNewlines)

lemma choose_match_bounds:
  assumes "choose_match (filter Q [0..<n]) b P t = Some f"
  shows "line f < n \<and> 1 \<le> matches f"
proof -
  define ms where "ms = filter Q [0..<n]"
  define d where "d = (if length ms > 1 \<and> b then filter (\<lambda>idx. idx > 0 \<and> P (idx - 1)) ms else [])"
  have sub: "set ms \<subseteq> {..<n}" "set d \<subseteq> {..<n}" by (auto simp: ms_def d_def)
  have ne: "ms \<noteq> []" using assms by (auto simp: choose_match_def simp flip: ms_def)
  then have f: "f = (if d \<noteq> [] then \<lparr>line = hd d, tier = t, matches = length d\<rparr> else \<lparr>line = hd ms, tier = t, matches = length ms\<rparr>)"
    using assms unfolding choose_match_def Let_def ms_def [symmetric] d_def [symmetric] by (auto split: if_splits)
  have "d \<noteq> [] \<Longrightarrow> hd d \<in> {..<n}" "hd ms \<in> {..<n}"
    using sub hd_in_set [of d] hd_in_set [of ms] ne by blast+
  with f ne show ?thesis by (auto simp: Suc_le_eq)
qed

lemma findAnchor_bounds:
  assumes "findAnchor c a x = Some f"
  shows "line f < length (file_lines c) \<and> 1 \<le> matches f"
  using assms choose_match_bounds
  by (fastforce simp: findAnchor_def Let_def split: if_splits option.splits)

lemma with_start_simps [simp]:
  "line (with_start r f) = line f" "matches (with_start r f) = matches f"
  "startLine (with_start r f) = line f + (if anchorType r = ''insert_after'' then 1 else getRegionOffset (anchorType r))"
  by (simp_all add: with_start_def found.defs resolution.defs)

lemma candidates_bound: "n \<in> set (candidates same ls r before) \<Longrightarrow> n < length ls"
  by (simp add: candidates_def)

lemma resolveRegion_bounds:
  assumes "resolveRegion c r = Some f"
  shows "startLine f \<le> length (file_lines c) \<and> 1 \<le> matches f"
proof (cases "exact_context r")
  case False
  then show ?thesis
    using assms findAnchor_bounds by (fastforce simp: resolveRegion_def Let_def getRegionOffset_def)
next
  case True
  let ?ls = "file_lines (normalizeNewlines c)"
  let ?before = "if contextBefore r = [] then [] else split_at newline (contextBefore r)"
  have len: "length ?ls = length (file_lines c)" by simp
  show ?thesis
  proof (cases "numeric r")
    case (Some h)
    then show ?thesis using assms True len
      by (auto simp: resolveRegion_def Let_def at_line_def split: if_splits)
  next
    case None
    show ?thesis
    proof (cases "old_lines r = [] \<and> ?before = []")
      case pure: True
      then show ?thesis using assms True None findAnchor_bounds
        by (fastforce simp: resolveRegion_def Let_def getRegionOffset_def split: option.splits if_splits)
    next
      case False
      then obtain n t where "f = at_line n t"
        "n \<in> set (candidates (=) ?ls r ?before) \<union> set (candidates (\<lambda>a b. js_trim a = js_trim b) ?ls r ?before)"
        using assms True None
        by (auto simp: resolveRegion_def Let_def split: list.splits)
      then show ?thesis using candidates_bound [of n _ ?ls r ?before] len by (auto simp: at_line_def dest: less_imp_le)
    qed
  qed
qed

lemma all_Suc_less: "(\<forall>k < Suc n. P k) \<longleftrightarrow> P 0 \<and> (\<forall>k < n. P (Suc k))"
  using less_Suc_eq_0_disj by auto

lemma stale_error_Nil_iff:
  "stale_error i r ls start j ps = [] \<longleftrightarrow>
     (\<forall>k < length ps. start + j + k < length ls \<and> js_trim (ls ! (start + j + k)) = js_trim (ps ! k))"
proof (induction i r ls start j ps rule: stale_error.induct)
  case (2 i r ls start j p ps)
  show ?case
  proof (cases "start + j < length ls \<and> js_trim (ls ! (start + j)) = js_trim p")
    case True
    then have "stale_error i r ls start j (p # ps) = stale_error i r ls start (j + 1) ps" by simp
    also have "\<dots> = [] \<longleftrightarrow> (\<forall>k < length ps. start + (j + 1) + k < length ls \<and> js_trim (ls ! (start + (j + 1) + k)) = js_trim (ps ! k))"
      by (rule 2(1) [OF True])
    also have "\<dots> \<longleftrightarrow> (\<forall>k < length (p # ps). start + j + k < length ls \<and> js_trim (ls ! (start + j + k)) = js_trim ((p # ps) ! k))"
      using True by (simp add: all_Suc_less del: all_simps)
    finally show ?thesis .
  next
    case False
    then show ?thesis by auto
  qed
qed simp

section \<open>Patches that pass validation\<close>

lemma resolve_all_filter:
  "fst (resolve_all c rs) = map (\<lambda>r. (r, the (resolveRegion c r))) (filter (\<lambda>r. \<exists>f. resolveRegion c r = Some f \<and> matches f = 1) rs)"
  by (induction rs) (auto simp: Let_def case_prod_unfold split: option.splits)

lemma resolve_all_every:
  assumes "\<forall>r \<in> set rs. \<exists>f. resolveRegion c r = Some f \<and> matches f = 1"
  shows "resolve_all c rs = (map (\<lambda>r. (r, the (resolveRegion c r))) rs, [])"
  using assms by (induction rs) (auto simp: Let_def)

lemma adjacent_separated:
  assumes "overlap_errors xs = []" and "sorted (map (\<lambda>(i, l, e). l) xs)"
    and "\<forall>(i, l, e) \<in> set xs. l \<le> e \<and> e \<le> n" and "\<forall>(i, l, e) \<in> set (take 1 xs). k \<le> l" and "k \<le> n"
  shows "separated k n (map (\<lambda>(i, l, e). (l, e - l, g i)) xs)"
  using assms
proof (induction xs arbitrary: k rule: overlap_errors.induct)
  case (1 i l e i' l' e' rest)
  then have "separated e n (map (\<lambda>(i, l, e). (l, e - l, g i)) ((i', l', e') # rest))" by auto
  with 1(2-) show ?case by auto
qed auto

text \<open>What a validated patch says of each region, for a file with content.\<close>

definition fits :: "string \<Rightarrow> region \<Rightarrow> bool" where
  "fits c r \<longleftrightarrow> (\<exists>f. resolveRegion c r = Some f \<and> matches f = 1
     \<and> startLine f + length (old_lines r) \<le> length (file_lines c)
     \<and> map js_trim (take (length (old_lines r)) (drop (startLine f) (file_lines c))) = map js_trim (old_lines r))"

lemma check_region_fits:
  assumes "fst (check_region c (file_lines c) i r) = []" and "c \<noteq> []"
  shows "fits c r \<and> snd (check_region c (file_lines c) i r)
    = [(i, startLine (the (resolveRegion c r)), startLine (the (resolveRegion c r)) + length (old_lines r))]"
proof -
  obtain f where f: "resolveRegion c r = Some f" "\<not> matches f > 1"
    using assms by (auto simp: check_region_def Let_def split: option.splits if_splits)
  then have m: "matches f = 1" using resolveRegion_bounds [OF f(1)] by simp
  have chk: "check_region c (file_lines c) i r = (stale_error i r (file_lines c) (startLine f) 0 (old_lines r),
      [(i, startLine f, startLine f + length (old_lines r))])"
    using assms f by (auto simp: check_region_def Let_def split: if_splits)
  let ?old = "old_lines r" and ?ls = "file_lines c" and ?s = "startLine f"
  have lines: "\<forall>k < length ?old. ?s + k < length ?ls \<and> js_trim (?ls ! (?s + k)) = js_trim (?old ! k)"
    using assms(1) unfolding chk fst_conv stale_error_Nil_iff by simp
  have "?s + length ?old \<le> length ?ls"
  proof (cases "?old = []")
    case True
    then show ?thesis using resolveRegion_bounds [OF f(1)] by simp
  next
    case False
    then have "?s + (length ?old - 1) < length ?ls" "0 < length ?old" using lines by auto
    then show ?thesis by linarith
  qed
  moreover from this have "map js_trim (take (length ?old) (drop ?s ?ls)) = map js_trim ?old"
    using lines by (intro nth_equalityI) auto
  ultimately show ?thesis using f m chk by (simp add: fits_def)
qed

lemma validated:
  assumes "patch_valid (validatePatch p fs)" and "fs (patch_file p) = Some raw" and "raw \<noteq> []"
    and "c = normalizeNewlines raw"
  shows "\<forall>r \<in> set (regions p). fits c r"
    and "overlap_errors (sort_key (\<lambda>(i, l, e). l) (map (\<lambda>(i, r). (i, startLine (the (resolveRegion c r)),
           startLine (the (resolveRegion c r)) + length (old_lines r))) (enumerate 0 (regions p)))) = []"
proof -
  have c: "c \<noteq> []" using assms by simp
  have errs: "concat (map fst (checked_regions c (regions p))) = []"
    "overlap_errors (sort_key (\<lambda>(i, l, e). l) (concat (map snd (checked_regions c (regions p))))) = []"
    using assms by (auto simp: patch_valid_def validatePatch_def Let_def split: if_splits)
  have each: "fits c r \<and> snd (check_region c (file_lines c) i r)
      = [(i, startLine (the (resolveRegion c r)), startLine (the (resolveRegion c r)) + length (old_lines r))]"
    if "(i, r) \<in> set (enumerate 0 (regions p))" for i r
  proof (rule check_region_fits)
    show "fst (check_region c (file_lines c) i r) = []"
      using errs(1) c that by (auto simp: checked_regions_def)
  qed (rule c)
  have "\<exists>i. (i, r) \<in> set (enumerate 0 (regions p))" if "r \<in> set (regions p)" for r
  proof -
    obtain i where "i < length (regions p)" "regions p ! i = r" using \<open>r \<in> set (regions p)\<close> by (auto simp: in_set_conv_nth)
    then have "(i, r) \<in> set (enumerate 0 (regions p))" by (simp add: in_set_enumerate_eq)
    then show ?thesis ..
  qed
  with each show "\<forall>r \<in> set (regions p). fits c r" by blast
  have "map snd (checked_regions c (regions p)) = map (\<lambda>(i, r). [(i, startLine (the (resolveRegion c r)),
      startLine (the (resolveRegion c r)) + length (old_lines r))]) (enumerate 0 (regions p))"
    using each c by (auto simp: checked_regions_def)
  then have "concat (map snd (checked_regions c (regions p))) = map (\<lambda>(i, r). (i, startLine (the (resolveRegion c r)),
      startLine (the (resolveRegion c r)) + length (old_lines r))) (enumerate 0 (regions p))"
    by (simp add: case_prod_unfold)
  with errs(2) show "overlap_errors (sort_key (\<lambda>(i, l, e). l) (map (\<lambda>(i, r). (i, startLine (the (resolveRegion c r)),
           startLine (the (resolveRegion c r)) + length (old_lines r))) (enumerate 0 (regions p)))) = []" by simp
qed

text \<open>Separation as a relation between any two edits.\<close>

definition edit_before :: "edit \<Rightarrow> edit \<Rightarrow> bool" where
  "edit_before e e' \<longleftrightarrow> fst e + fst (snd e) \<le> fst e'"

lemma edit_before_simp [simp]: "edit_before (s, d, m) e \<longleftrightarrow> s + d \<le> fst e"
  by (simp add: edit_before_def)

lemma separated_iff:
  "k \<le> n \<Longrightarrow> separated k n es \<longleftrightarrow>
     sorted_wrt edit_before es \<and> (\<forall>e \<in> set es. k \<le> fst e \<and> fst e + fst (snd e) \<le> n)"
proof (induction es arbitrary: k)
  case (Cons e es)
  obtain s d m where e: "e = (s, d, m)" by (cases e)
  show ?case
  proof (cases "k \<le> s \<and> s + d \<le> n")
    case True
    then have "separated (s + d) n es \<longleftrightarrow>
        sorted_wrt edit_before es \<and> (\<forall>x \<in> set es. s + d \<le> fst x \<and> fst x + fst (snd x) \<le> n)"
      by (intro Cons.IH) simp
    then show ?thesis using True e by auto
  next
    case False
    then show ?thesis using separated_bound [of "s + d" n es] by (auto simp: e)
  qed
qed simp

lemma sorted_wrt_either:
  "sorted_wrt P xs \<Longrightarrow> x \<in> set xs \<Longrightarrow> y \<in> set xs \<Longrightarrow> x \<noteq> y \<Longrightarrow> P x y \<or> P y x"
  by (induction xs) auto

lemma region_splice_eq:
  "anchorType r \<noteq> ''insert_after'' \<Longrightarrow> region_splice (r, f) = (startLine f, length (old_lines r), new_lines r)"
  by (auto simp: region_splice_def Let_def)

text \<open>The place of each region of a patch in a file.\<close>

definition place :: "string \<Rightarrow> region \<Rightarrow> nat" where
  "place c r = startLine (the (resolveRegion c r))"

definition placed :: "string \<Rightarrow> region list \<Rightarrow> (region \<times> resolution) list" where
  "placed c rs = map (\<lambda>r. (r, the (resolveRegion c r))) rs"

lemma regions_apart:
  assumes "\<forall>r \<in> set rs. fits c r"
    and ov: "overlap_errors (sort_key (\<lambda>(i, l, e). l) (map (\<lambda>(i, r). (i, place c r, place c r + length (old_lines r))) (enumerate 0 rs))) = []"
    and r: "r \<in> set rs" "r' \<in> set rs" "place c r < place c r'"
  shows "place c r + length (old_lines r) \<le> place c r'"
proof -
  let ?n = "length (file_lines c)"
  let ?xs = "map (\<lambda>(i, r). (i, place c r, place c r + length (old_lines r))) (enumerate 0 rs)"
  let ?as = "sort_key (\<lambda>(i, l, e). l) ?xs"
  have bound: "place c r + length (old_lines r) \<le> ?n" if "r \<in> set rs" for r
    using assms(1) that by (fastforce simp: fits_def place_def)
  have inside: "\<forall>(i, l, e) \<in> set ?as. l \<le> e \<and> e \<le> ?n"
    using bound by (auto simp: in_set_enumerate_eq)
  have "separated 0 ?n (map (\<lambda>(i, l, e). (l, e - l, [] :: string list)) ?as)"
    by (rule adjacent_separated [where g = "\<lambda>_. []"]) (use ov inside in \<open>auto simp: case_prod_unfold\<close>)
  then have apart: "sorted_wrt edit_before (map (\<lambda>(i, l, e). (l, e - l, [] :: string list)) ?as)"
    by (simp add: separated_iff)
  have mem: "(place c r, length (old_lines r), []) \<in> set (map (\<lambda>(i, l, e). (l, e - l, [] :: string list)) ?as)"
    if "r \<in> set rs" for r
  proof -
    obtain i where "i < length rs" "rs ! i = r" using \<open>r \<in> set rs\<close> by (auto simp: in_set_conv_nth)
    then have "(i, r) \<in> set (enumerate 0 rs)" by (simp add: in_set_enumerate_eq)
    then show ?thesis by force
  qed
  have "edit_before (place c r, length (old_lines r), []) (place c r', length (old_lines r'), [])
      \<or> edit_before (place c r', length (old_lines r'), []) (place c r, length (old_lines r), [])"
    by (rule sorted_wrt_either [OF apart mem [OF r(1)] mem [OF r(2)]]) (use r(3) in auto)
  with r(3) show ?thesis by (auto simp: edit_before_def)
qed

lemma bottom_up_order:
  assumes "distinct (map (place c) rs)"
  shows "sorted_wrt (\<lambda>p q. startLine (snd p) < startLine (snd q)) (rev (bottom_up (placed c rs)))"
proof -
  let ?ps = "placed c rs"
  have dist: "distinct (map (\<lambda>p. startLine (snd p)) (bottom_up ?ps))"
    using assms by (auto simp: distinct_map bottom_up_def placed_def place_def inj_on_def)
  have "sorted (map (\<lambda>p. - int (startLine (snd p))) (bottom_up ?ps))"
    by (simp add: bottom_up_def)
  then have "sorted_wrt (\<lambda>p q. startLine (snd q) \<le> startLine (snd p)) (bottom_up ?ps)"
    by (simp add: sorted_wrt_map)
  with dist have "sorted_wrt (\<lambda>p q. startLine (snd q) < startLine (snd p)) (bottom_up ?ps)"
    by (auto simp: sorted_wrt_iff_nth_less distinct_conv_nth order_less_le)
  then show ?thesis by (simp add: sorted_wrt_rev)
qed

lemma splice_sums:
  assumes "mset ps = mset (placed c rs)" and "\<And>r. r \<in> set rs \<Longrightarrow> anchorType r \<noteq> ''insert_after''"
  shows "(\<Sum>(s, d, n) \<leftarrow> map region_splice ps. d) = (\<Sum>r \<leftarrow> rs. length (old_lines r))"
    and "(\<Sum>(s, d, n) \<leftarrow> map region_splice ps. length n) = (\<Sum>r \<leftarrow> rs. length (new_lines r))"
proof -
  have perm: "(\<Sum>x \<leftarrow> ps. f x) = (\<Sum>r \<leftarrow> rs. f (r, the (resolveRegion c r)))" for f :: "region \<times> resolution \<Rightarrow> nat"
  proof -
    have "sum_list (map f ps) = sum_mset (mset (map f ps))" by (simp only: sum_mset_sum_list)
    also have "\<dots> = sum_mset (mset (map f (placed c rs)))" by (simp only: mset_map assms(1))
    also have "\<dots> = sum_list (map f (placed c rs))" by (simp only: sum_mset_sum_list)
    finally show ?thesis by (simp add: placed_def comp_def)
  qed
  have eq: "map (\<lambda>r. g (region_splice (r, the (resolveRegion c r)))) rs = map (\<lambda>r. g (place c r, length (old_lines r), new_lines r)) rs"
    for g :: "edit \<Rightarrow> nat"
    using assms(2) by (simp add: region_splice_eq place_def)
  show "(\<Sum>(s, d, n) \<leftarrow> map region_splice ps. d) = (\<Sum>r \<leftarrow> rs. length (old_lines r))"
    using perm [of "\<lambda>x. case region_splice x of (s, d, n) \<Rightarrow> d"] eq [of "\<lambda>(s, d, n). d"] by (simp add: comp_def)
  show "(\<Sum>(s, d, n) \<leftarrow> map region_splice ps. length n) = (\<Sum>r \<leftarrow> rs. length (new_lines r))"
    using perm [of "\<lambda>x. case region_splice x of (s, d, n) \<Rightarrow> length n"] eq [of "\<lambda>(s, d, n). length n"] by (simp add: comp_def)
qed

text \<open>
  C16. A validated patch rewrites exactly the places it names. When a patch passes validation for a
  file with content, every region resolves to one place, the lines it removes there agree with its
  old lines up to surrounding blanks, and no two regions overlap. If moreover no two regions start
  on one line and none is an insertion after an anchor, applying the patch from the bottom up gives
  what rewriting all places of the original file in one pass gives, nothing is skipped, and the
  number of lines grows by the lines added less the lines removed.
\<close>

theorem validated_patch_applies_as_written:
  assumes "patch_valid (validatePatch p fs)" and "fs (patch_file p) = Some raw" and "raw \<noteq> []"
    and "c = normalizeNewlines raw" and "regions p \<noteq> []"
    and "distinct (map (place c) (regions p))"
    and "list_all (\<lambda>r. anchorType r \<noteq> ''insert_after'') (regions p)"
  shows "\<exists>es. es = map region_splice (rev (bottom_up (placed c (regions p))))
    \<and> set es = (\<lambda>r. (place c r, length (old_lines r), new_lines r)) ` set (regions p)
    \<and> list_all (fits c) (regions p) \<and> separated 0 (length (file_lines c)) es
    \<and> applied (applyPatch p raw) = length (regions p) \<and> skipped (applyPatch p raw) = 0
    \<and> content (applyPatch p raw) = end_with_newline (join_with [newline] (weave 0 (file_lines c) es))
    \<and> length (weave 0 (file_lines c) es) + (\<Sum>r \<leftarrow> regions p. length (old_lines r))
        = length (file_lines c) + (\<Sum>r \<leftarrow> regions p. length (new_lines r))"
proof -
  let ?rs = "regions p" and ?ls = "file_lines c"
  define es where "es = map region_splice (rev (bottom_up (placed c ?rs)))"
  note v = validated [OF assms(1-4), folded place_def]
  have kind: "anchorType r \<noteq> ''insert_after''" if "r \<in> set ?rs" for r using assms(7) that by (simp add: list_all_iff)
  have members: "set es = (\<lambda>r. (place c r, length (old_lines r), new_lines r)) ` set ?rs"
    using kind by (auto simp: es_def bottom_up_def placed_def place_def region_splice_eq image_image)
  have order: "sorted_wrt edit_before es"
  proof -
    have in_rs: "fst q \<in> set ?rs \<and> snd q = the (resolveRegion c (fst q))" if "q \<in> set (rev (bottom_up (placed c ?rs)))" for q
      using that by (auto simp: bottom_up_def placed_def)
    have "edit_before (region_splice q) (region_splice q')"
      if q: "q \<in> set (rev (bottom_up (placed c ?rs)))" "q' \<in> set (rev (bottom_up (placed c ?rs)))"
        "startLine (snd q) < startLine (snd q')" for q q'
    proof -
      have "place c (fst q) + length (old_lines (fst q)) \<le> place c (fst q')"
        by (rule regions_apart [OF v]) (use in_rs q in \<open>auto simp: place_def\<close>)
      then show ?thesis
        using in_rs q kind by (cases q; cases q') (auto simp: region_splice_eq place_def)
    qed
    then show ?thesis
      unfolding es_def sorted_wrt_map
      by (rule sorted_wrt_mono_rel [rotated, OF bottom_up_order [OF assms(6)]]) auto
  qed
  have sep: "separated 0 (length ?ls) es"
    using order v(1) members by (fastforce simp: separated_iff fits_def place_def)
  have res: "resolve_all c ?rs = (placed c ?rs, [])"
    unfolding placed_def using v(1) by (intro resolve_all_every) (auto simp: fits_def)
  have "fold splice (map region_splice (bottom_up (placed c ?rs))) ?ls = weave 0 ?ls es"
    using bottom_up_weave [OF sep] by (simp add: es_def rev_map)
  then have app: "applied (applyPatch p raw) = length ?rs" "skipped (applyPatch p raw) = 0"
      "content (applyPatch p raw) = end_with_newline (join_with [newline] (weave 0 ?ls es))"
    using assms(4,5) res by (simp_all add: applyPatch_def placed_def Let_def)
  have sums: "(\<Sum>(s, d, n) \<leftarrow> es. d) = (\<Sum>r \<leftarrow> ?rs. length (old_lines r))"
    "(\<Sum>(s, d, n) \<leftarrow> es. length n) = (\<Sum>r \<leftarrow> ?rs. length (new_lines r))"
    using splice_sums [of "rev (bottom_up (placed c ?rs))" c ?rs] kind by (simp_all add: es_def bottom_up_def)
  show ?thesis
    using members v(1) sep app length_weave [of 0 ?ls es] sums by (auto simp: list_all_iff simp flip: es_def)
qed

section \<open>Patch sets\<close>

lemma merge_regions_clean:
  "snd (merge_regions f rs seen) = [] \<longleftrightarrow>
     distinct (map (\<lambda>x. anchor (snd x)) rs) \<and> (\<forall>x \<in> set rs. map_of seen (anchor (snd x)) = None)"
proof (induction f rs seen rule: merge_regions.induct)
  case (2 f k r rs seen)
  show ?case
  proof (cases "map_of seen (anchor r)")
    case None
    then have "snd (merge_regions f ((k, r) # rs) seen) = snd (merge_regions f rs (AList.update (anchor r) k seen))"
      by (simp add: Let_def case_prod_unfold)
    also have "\<dots> = [] \<longleftrightarrow> distinct (map (\<lambda>x. anchor (snd x)) rs)
        \<and> (\<forall>x \<in> set rs. map_of (AList.update (anchor r) k seen) (anchor (snd x)) = None)"
      by (rule 2(1) [OF None])
    also have "(\<forall>x \<in> set rs. map_of (AList.update (anchor r) k seen) (anchor (snd x)) = None)
        \<longleftrightarrow> anchor r \<notin> set (map (\<lambda>x. anchor (snd x)) rs) \<and> (\<forall>x \<in> set rs. map_of seen (anchor (snd x)) = None)"
      by (induction rs) (auto simp: jmap.lookup_store)
    finally show ?thesis using None by (auto simp del: merge_regions.simps)
  next
    case (Some first)
    then show ?thesis by (auto simp: Let_def case_prod_unfold)
  qed
qed simp

lemma merge_regions_keeps: "snd (merge_regions f rs seen) = [] \<Longrightarrow> fst (merge_regions f rs seen) = map snd rs"
  by (induction f rs seen rule: merge_regions.induct) (auto simp: Let_def case_prod_unfold split: option.splits)

lemma indexed_regions_snd: "map snd (indexed_regions ps) = concat (map regions ps)"
proof -
  have "map snd (concat (map (\<lambda>(i, p). map (\<lambda>r. (i, r)) (regions p)) (enumerate n ps))) = concat (map regions ps)" for n
    by (induction ps arbitrary: n) (simp_all add: comp_def)
  then show ?thesis by (simp add: indexed_regions_def)
qed

lemma compose_file_many:
  assumes "length ps \<noteq> 1"
  shows "compose_file f ps = (\<lparr>patch_file = f, regions = fst (merge_regions f (indexed_regions ps) []),
      meta_info = Some (composed_metadata ps)\<rparr>, snd (merge_regions f (indexed_regions ps) []))"
  using assms by (cases ps rule: remdups_adj.cases) (simp_all add: compose_file_def Let_def case_prod_unfold)

lemma compose_file_clean:
  assumes "length ps \<noteq> 1"
  shows "snd (compose_file f ps) = [] \<longleftrightarrow> distinct (map anchor (concat (map regions ps)))"
proof -
  have "map anchor (concat (map regions ps)) = map (\<lambda>x. anchor (snd x)) (indexed_regions ps)"
    by (simp flip: indexed_regions_snd add: comp_def)
  then show ?thesis using merge_regions_clean [of f "indexed_regions ps" "[]"] compose_file_many [OF assms] by simp
qed

lemma compose_file_keeps:
  assumes "\<forall>p \<in> set ps. patch_file p = f" and "snd (compose_file f ps) = []"
  shows "patch_file (fst (compose_file f ps)) = f \<and> regions (fst (compose_file f ps)) = concat (map regions ps)"
proof (cases "length ps = 1")
  case True
  then obtain p where "ps = [p]" by (auto simp: length_Suc_conv)
  then show ?thesis using assms(1) by (simp add: compose_file_def)
next
  case False
  then show ?thesis
    using assms(2) merge_regions_keeps [of f "indexed_regions ps" "[]"] indexed_regions_snd [of ps]
    by (simp add: compose_file_many)
qed

text \<open>
  Composing a patch set loses nothing. The composition reports no conflict exactly when no anchor
  is named twice by the patches of a file that has several; then there is one patch per file, in
  the order the files first appear, holding all regions of the file's patches in their order.
\<close>

theorem composition_complete:
  "(snd (composePatchSet ps) = [] \<longleftrightarrow>
      list_all (\<lambda>f. length (patches_of f ps) = 1 \<or> distinct (map anchor (concat (map regions (patches_of f ps))))) (map patch_file ps))
   \<and> (snd (composePatchSet ps) = [] \<longrightarrow>
        map patch_file (fst (composePatchSet ps)) = js_set (map patch_file ps)
      \<and> map regions (fst (composePatchSet ps)) = map (\<lambda>f. concat (map regions (patches_of f ps))) (js_set (map patch_file ps)))"
proof -
  have own: "\<forall>p \<in> set (patches_of f ps). patch_file p = f" for f by (simp add: patches_of_def)
  have single: "snd (compose_file f qs) = []" if "length qs = 1" for f qs
    using that by (cases qs) (auto simp: compose_file_def)
  have "snd (composePatchSet ps) = [] \<longleftrightarrow> (\<forall>f \<in> set (map patch_file ps). snd (compose_file f (patches_of f ps)) = [])"
    by (simp add: composePatchSet_def Let_def)
  also have "\<dots> \<longleftrightarrow> list_all (\<lambda>f. length (patches_of f ps) = 1 \<or> distinct (map anchor (concat (map regions (patches_of f ps))))) (map patch_file ps)"
    using compose_file_clean single unfolding list_all_iff by blast
  finally have iff: "snd (composePatchSet ps) = [] \<longleftrightarrow>
      list_all (\<lambda>f. length (patches_of f ps) = 1 \<or> distinct (map anchor (concat (map regions (patches_of f ps))))) (map patch_file ps)" .
  have keep: "map patch_file (fst (composePatchSet ps)) = js_set (map patch_file ps)
      \<and> map regions (fst (composePatchSet ps)) = map (\<lambda>f. concat (map regions (patches_of f ps))) (js_set (map patch_file ps))"
    if clean: "snd (composePatchSet ps) = []"
  proof -
    have "snd (compose_file f (patches_of f ps)) = []" if "f \<in> set (js_set (map patch_file ps))" for f
      using clean that by (auto simp: composePatchSet_def Let_def)
    then have "patch_file (fst (compose_file f (patches_of f ps))) = f
        \<and> regions (fst (compose_file f (patches_of f ps))) = concat (map regions (patches_of f ps))"
      if "f \<in> set (js_set (map patch_file ps))" for f
      using compose_file_keeps [OF own] that by blast
    then show ?thesis by (auto simp: composePatchSet_def Let_def comp_def intro!: map_idI)
  qed
  from iff keep show ?thesis by blast
qed

section \<open>Concrete patches\<close>

definition sample_file :: string where
  "sample_file = join_with [newline] [''function f() {'', ''  return 1'', ''}'', ''f()'', []]"

definition sample_region :: "string \<Rightarrow> string \<Rightarrow> string \<Rightarrow> string list \<Rightarrow> string list \<Rightarrow> bool \<Rightarrow> region" where
  "sample_region a t before old new exact =
     \<lparr>anchor = a, anchorType = t, contextBefore = before, old_lines = old, new_lines = new, exact_context = exact, numeric = None\<rparr>"

definition sample_patch :: "region list \<Rightarrow> patch" where
  "sample_patch rs = \<lparr>patch_file = ''a.js'', regions = rs, meta_info = None\<rparr>"

definition good_patch :: patch where
  "good_patch = sample_patch
     [sample_region ''function f()'' ''function'' [] [''return 1''] [''  const x = 2'', ''  return x''] False,
      sample_region ''f()'' ''line'' ''}'' [''f()''] [''f(); f()''] False]"

lemma good_patch_valid: "patch_valid (validatePatch good_patch (Map.empty(''a.js'' \<mapsto> sample_file)))"
  by code_simp

lemma good_patch_places: "map (place (normalizeNewlines sample_file)) (regions good_patch) = [1, 3]"
  by code_simp

theorem validated_patch_applies_as_written_witness:
  "applied (applyPatch good_patch sample_file) = 2"
proof -
  have "(Map.empty(''a.js'' \<mapsto> sample_file)) (patch_file good_patch) = Some sample_file"
    by (simp add: good_patch_def sample_patch_def)
  moreover have "sample_file \<noteq> []" "regions good_patch \<noteq> []"
    "list_all (\<lambda>r. anchorType r \<noteq> ''insert_after'') (regions good_patch)" "length (regions good_patch) = 2"
    by (simp_all add: sample_file_def good_patch_def sample_patch_def sample_region_def)
  moreover have "distinct (map (place (normalizeNewlines sample_file)) (regions good_patch))"
    by (simp add: good_patch_places)
  ultimately show ?thesis
    using validated_patch_applies_as_written [OF good_patch_valid, of sample_file "normalizeNewlines sample_file"] by auto
qed

definition second_patch :: patch where
  "second_patch = sample_patch [sample_region ''}'' ''line'' [] [''}''] [] False]"

theorem composition_complete_witness:
  "map patch_file (fst (composePatchSet [good_patch, second_patch])) = [''a.js'']"
proof -
  have "snd (composePatchSet [good_patch, second_patch]) = []" by code_simp
  then show ?thesis
    using composition_complete [of "[good_patch, second_patch]"]
    by (simp add: good_patch_def second_patch_def sample_patch_def)
qed

text \<open>
  An insertion after a line and a replacement of the next line pass validation together, and the
  replacement then overwrites the inserted line instead of the line it names.
\<close>

definition adjacent_patch :: patch where
  "adjacent_patch = sample_patch
     [sample_region ''}'' ''insert_after'' [] [] [''g()''] False, sample_region ''f()'' ''line'' ''}'' [''f()''] [''h()''] False]"

lemma insertion_overwritten:
  "patch_valid (validatePatch adjacent_patch (Map.empty(''a.js'' \<mapsto> sample_file)))"
  "split_at newline (content (applyPatch adjacent_patch sample_file))
     = [''function f() {'', ''  return 1'', ''}'', ''h()'', ''f()'', []]"
  by code_simp+

text \<open>
  An insertion whose place is found from its context line goes one line below the place: the place
  already is the line after the context, and the applier adds one.
\<close>

lemma insertion_one_line_late:
  "split_at newline (content (applyPatch (sample_patch
      [sample_region ''function f()'' ''insert_after'' ''function f() {'' [] [''  log()''] True]) sample_file))
     = [''function f() {'', ''  return 1'', ''  log()'', ''}'', ''f()'', []]"
  by code_simp

end
