(* ===== verification/Triggers.thy ===== *)
theory Triggers
  imports Prelude JsValue
begin

text \<open>
  Agent triggers, \<open>src/agents/triggers.js\<close>: edge detection on conditions with a cooldown and a
  daily limit. Times are milliseconds; the state keeps a fire time itself where the source keeps the
  ISO text it prints of it and reads back. The objects of the state are maps: a property that is
  undefined is not in the map.
\<close>

section \<open>Data\<close>

record trigger =
  trigger_id :: string
  condition_id :: string
  trigger_edge :: "string option"
  trigger_cooldown :: "int option"
  trigger_max_fires :: "int option"

record agent_state =
  condition_states :: "string \<rightharpoonup> bool"
  trigger_fires :: "string \<rightharpoonup> int"
  daily_counts :: "string \<rightharpoonup> int"
  last_day :: "string option"

record trigger_result =
  result_id :: string
  result_condition :: string
  fired :: bool
  fire_reason :: string
  current_value :: "bool option"
  previous_value :: "bool option"
  result_edge :: string

definition empty_state :: agent_state where
  "empty_state = \<lparr>condition_states = Map.empty, trigger_fires = Map.empty, daily_counts = Map.empty, last_day = None\<rparr>"

definition edge_of :: "trigger \<Rightarrow> string" where
  "edge_of t = (case trigger_edge t of None \<Rightarrow> ''rising'' | Some e \<Rightarrow> e)"

definition cooldown_of :: "trigger \<Rightarrow> int" where
  "cooldown_of t = (case trigger_cooldown t of None \<Rightarrow> 300 | Some c \<Rightarrow> c)"

definition limit_of :: "trigger \<Rightarrow> int" where
  "limit_of t = (case trigger_max_fires t of None \<Rightarrow> 10 | Some m \<Rightarrow> m)"

section \<open>Evaluation of one trigger\<close>

definition bool_text :: "bool option \<Rightarrow> string" where
  "bool_text v = (case v of None \<Rightarrow> ''undefined'' | Some True \<Rightarrow> ''true'' | Some False \<Rightarrow> ''false'')"

definition arrow :: string where
  "arrow = '' '' @ [CHR 0xE2, CHR 0x86, CHR 0x92] @ '' ''"

definition edge_fires :: "string \<Rightarrow> bool option \<Rightarrow> bool option \<Rightarrow> bool \<times> string" where
  "edge_fires edge previous current =
     (if edge = ''rising'' then
        (let f = (previous = Some False \<and> current = Some True)
         in (f, if f then ''Rising edge: false'' @ arrow @ ''true''
                else if current = Some True then ''Already true (no edge)'' else ''Condition false''))
      else if edge = ''falling'' then
        (let f = (previous = Some True \<and> current = Some False)
         in (f, if f then ''Falling edge: true'' @ arrow @ ''false''
                else if current = Some False then ''Already false (no edge)'' else ''Condition true''))
      else if edge = ''any'' then
        (let f = (previous \<noteq> current)
         in (f, if f then ''Change detected: '' @ bool_text previous @ arrow @ bool_text current else ''No change''))
      else (False, ''Unknown edge type: '' @ edge))"

text \<open>\<open>Math.ceil(cooldown - elapsed / 1000)\<close>\<close>

definition seconds_left :: "int \<Rightarrow> int \<Rightarrow> int" where
  "seconds_left cooldown elapsed = - ((elapsed - 1000 * cooldown) div 1000)"

definition evaluate :: "trigger \<Rightarrow> (string \<rightharpoonup> bool) \<Rightarrow> agent_state \<Rightarrow> int \<Rightarrow> trigger_result" where
  "evaluate t results st now =
     (let current = results (condition_id t); previous = condition_states st (condition_id t);
          dailyCount = (case daily_counts st (trigger_id t) of None \<Rightarrow> 0 | Some n \<Rightarrow> n);
          res = (\<lambda>f why prev. \<lparr>result_id = trigger_id t, result_condition = condition_id t, fired = f, fire_reason = why,
                   current_value = current, previous_value = prev, result_edge = edge_of t\<rparr>);
          limited = (if dailyCount \<ge> limit_of t then
              res False (''Daily limit reached: '' @ int_to_string dailyCount @ ''/'' @ int_to_string (limit_of t)) previous
            else if previous = None then
              (let f = (current = Some True \<and> (edge_of t = ''rising'' \<or> edge_of t = ''any''))
               in res f (if f then ''First run with condition true'' else ''First run, waiting for edge'') None)
            else (let (f, why) = edge_fires (edge_of t) previous current in res f why previous))
      in case trigger_fires st (trigger_id t) of
           None \<Rightarrow> limited
         | Some fired_at \<Rightarrow>
             if now - fired_at < 1000 * cooldown_of t then
               res False (''Cooldown: '' @ int_to_string (seconds_left (cooldown_of t) (now - fired_at)) @ ''s remaining'') previous
             else limited)"

section \<open>Evaluation of all triggers\<close>

definition day_of :: "int \<Rightarrow> string" where
  "day_of now = hd (split_at (CHR ''T'') (toISOString now))"

definition new_day :: "int \<Rightarrow> agent_state \<Rightarrow> agent_state" where
  "new_day now st =
     (if last_day st \<noteq> Some (day_of now) then st\<lparr>daily_counts := Map.empty, last_day := Some (day_of now)\<rparr> else st)"

definition note_fire :: "trigger \<Rightarrow> int \<Rightarrow> agent_state \<Rightarrow> agent_state" where
  "note_fire t now st =
     st\<lparr>trigger_fires := (trigger_fires st)(trigger_id t \<mapsto> now),
        daily_counts := (daily_counts st)(trigger_id t \<mapsto>
          (case daily_counts st (trigger_id t) of None \<Rightarrow> 0 | Some n \<Rightarrow> n) + 1)\<rparr>"

definition note_condition :: "trigger \<Rightarrow> (string \<rightharpoonup> bool) \<Rightarrow> agent_state \<Rightarrow> agent_state" where
  "note_condition t results st =
     st\<lparr>condition_states := (condition_states st)(condition_id t := results (condition_id t))\<rparr>"

fun evaluate_each :: "trigger list \<Rightarrow> (string \<rightharpoonup> bool) \<Rightarrow> int \<Rightarrow> agent_state \<Rightarrow> trigger_result list \<times> agent_state" where
  "evaluate_each [] results now st = ([], st)"
| "evaluate_each (t # ts) results now st =
     (let r = evaluate t results st now;
          st1 = note_condition t results (if fired r then note_fire t now st else st);
          (rs, st') = evaluate_each ts results now st1
      in (r # rs, st'))"

record evaluation =
  fired_ids :: "string list"
  evaluation_details :: "trigger_result list"
  new_state :: agent_state

definition evaluateAll :: "trigger list \<Rightarrow> (string \<rightharpoonup> bool) \<Rightarrow> agent_state \<Rightarrow> int \<Rightarrow> evaluation" where
  "evaluateAll triggers results st now =
     (let (rs, st') = evaluate_each triggers results now (new_day now st)
      in \<lparr>fired_ids = map result_id (filter fired rs), evaluation_details = rs, new_state = st'\<rparr>)"

section \<open>Triggers on different conditions do not interfere\<close>

lemma evaluate_cong:
  assumes "condition_states st (condition_id t) = condition_states st' (condition_id t)"
    and "trigger_fires st (trigger_id t) = trigger_fires st' (trigger_id t)"
    and "daily_counts st (trigger_id t) = daily_counts st' (trigger_id t)"
  shows "evaluate t results st now = evaluate t results st' now"
  by (simp only: evaluate_def assms)

lemma evaluate_id [simp]: "result_id (evaluate t results st now) = trigger_id t"
  by (simp add: evaluate_def Let_def case_prod_unfold split: option.splits)

lemma evaluate_each_independent:
  assumes "distinct (map trigger_id ts)" and "distinct (map condition_id ts)"
    and "\<forall>t \<in> set ts. condition_states st (condition_id t) = condition_states st0 (condition_id t)
      \<and> trigger_fires st (trigger_id t) = trigger_fires st0 (trigger_id t)
      \<and> daily_counts st (trigger_id t) = daily_counts st0 (trigger_id t)"
  shows "fst (evaluate_each ts results now st) = map (\<lambda>t. evaluate t results st0 now) ts"
  using assms
proof (induction ts arbitrary: st)
  case (Cons t ts)
  let ?st1 = "note_condition t results (if fired (evaluate t results st now) then note_fire t now st else st)"
  have first: "evaluate t results st now = evaluate t results st0 now"
    by (rule evaluate_cong) (use Cons.prems(3) in auto)
  have "fst (evaluate_each ts results now ?st1) = map (\<lambda>t. evaluate t results st0 now) ts"
  proof (rule Cons.IH)
    show "distinct (map trigger_id ts)" "distinct (map condition_id ts)" using Cons.prems by simp_all
    have own: "trigger_id u \<noteq> trigger_id t \<and> condition_id u \<noteq> condition_id t" if "u \<in> set ts" for u
      using Cons.prems(1,2) that by (metis distinct.simps(2) image_eqI list.simps(9) set_map)
    show "\<forall>u \<in> set ts. condition_states ?st1 (condition_id u) = condition_states st0 (condition_id u)
      \<and> trigger_fires ?st1 (trigger_id u) = trigger_fires st0 (trigger_id u)
      \<and> daily_counts ?st1 (trigger_id u) = daily_counts st0 (trigger_id u)"
    proof
      fix u assume u: "u \<in> set ts"
      then show "condition_states ?st1 (condition_id u) = condition_states st0 (condition_id u)
        \<and> trigger_fires ?st1 (trigger_id u) = trigger_fires st0 (trigger_id u)
        \<and> daily_counts ?st1 (trigger_id u) = daily_counts st0 (trigger_id u)"
        using Cons.prems(3) own [OF u] by (simp add: note_condition_def note_fire_def)
    qed
  qed
  then show ?case by (simp add: Let_def case_prod_unfold first)
qed simp

text \<open>
  Triggers with their own identifiers and their own conditions are evaluated independently: one
  evaluation reports for every trigger, in the order they are listed, what evaluating it alone
  against the state before the evaluation gives.
\<close>

theorem triggers_independent:
  assumes "distinct (map trigger_id ts)" and "distinct (map condition_id ts)"
  shows "evaluation_details (evaluateAll ts results st now) = map (\<lambda>t. evaluate t results (new_day now st) now) ts
    \<and> fired_ids (evaluateAll ts results st now)
        = map trigger_id (filter (\<lambda>t. fired (evaluate t results (new_day now st) now)) ts)"
  using evaluate_each_independent [OF assms, of "new_day now st" "new_day now st" results now]
  by (simp add: evaluateAll_def Let_def case_prod_unfold filter_map comp_def)

lemma unchanged_condition_quiet:
  assumes "condition_states st (condition_id t) = Some v" and "results (condition_id t) = Some v"
  shows "\<not> fired (evaluate t results st now)"
proof -
  have "\<not> fst (edge_fires (edge_of t) (Some v) (Some v))" by (cases v) (simp_all add: edge_fires_def Let_def)
  then show ?thesis by (simp add: evaluate_def Let_def case_prod_unfold assms split: option.split)
qed

text \<open>A second trigger on the same condition sees the value the first one stored, and no edge.\<close>

lemma shared_condition_starves:
  assumes "condition_id t = condition_id t'" and "results (condition_id t) = Some v"
  shows "\<not> fired (last (evaluation_details (evaluateAll [t, t'] results st now)))"
proof -
  have quiet: "\<not> fired (evaluate t' results st' now)" if "condition_states st' (condition_id t') = Some v" for st'
    by (rule unchanged_condition_quiet) (use assms that in simp_all)
  show ?thesis
    using assms by (simp add: evaluateAll_def Let_def case_prod_unfold quiet note_condition_def)
qed

section \<open>Runs of evaluations\<close>

text \<open>The times at which a trigger fires in a run of evaluations.\<close>

fun fire_times :: "trigger list \<Rightarrow> string \<Rightarrow> (int \<times> (string \<rightharpoonup> bool)) list \<Rightarrow> agent_state \<Rightarrow> int list" where
  "fire_times ts i [] st = []"
| "fire_times ts i ((now, results) # es) st =
     (let ev = evaluateAll ts results st now
      in (if i \<in> set (fired_ids ev) then [now] else []) @ fire_times ts i es (new_state ev))"

text \<open>One evaluation seen from one trigger: what a fire needs and records, and the frame when it does not fire.\<close>

definition count_of :: "string \<Rightarrow> agent_state \<Rightarrow> int" where
  "count_of i st = (case daily_counts st i of None \<Rightarrow> 0 | Some n \<Rightarrow> n)"

definition rested :: "trigger \<Rightarrow> int \<Rightarrow> agent_state \<Rightarrow> bool" where
  "rested t now st = (case trigger_fires st (trigger_id t) of None \<Rightarrow> True | Some fired_at \<Rightarrow> 1000 * cooldown_of t \<le> now - fired_at)"

definition tracked :: "trigger \<Rightarrow> int \<Rightarrow> agent_state \<Rightarrow> bool \<Rightarrow> agent_state \<Rightarrow> bool" where
  "tracked t now st f st' = (last_day st' = last_day st \<and>
     (if f then rested t now st \<and> count_of (trigger_id t) st < limit_of t
        \<and> trigger_fires st' (trigger_id t) = Some now \<and> daily_counts st' (trigger_id t) = Some (count_of (trigger_id t) st + 1)
      else trigger_fires st' (trigger_id t) = trigger_fires st (trigger_id t)
        \<and> daily_counts st' (trigger_id t) = daily_counts st (trigger_id t)))"

definition same_record :: "string \<Rightarrow> agent_state \<Rightarrow> agent_state \<Rightarrow> bool" where
  "same_record i st st' = (trigger_fires st' i = trigger_fires st i \<and> daily_counts st' i = daily_counts st i \<and> last_day st' = last_day st)"

definition after_one :: "trigger \<Rightarrow> (string \<rightharpoonup> bool) \<Rightarrow> int \<Rightarrow> agent_state \<Rightarrow> agent_state" where
  "after_one t results now st =
     note_condition t results (if fired (evaluate t results st now) then note_fire t now st else st)"

lemma evaluate_each_step [simp]:
  "fst (evaluate_each (t # ts) results now st) = evaluate t results st now # fst (evaluate_each ts results now (after_one t results now st))"
  "snd (evaluate_each (t # ts) results now st) = snd (evaluate_each ts results now (after_one t results now st))"
  by (simp_all add: Let_def case_prod_unfold after_one_def)

lemma fired_guard:
  assumes "fired (evaluate t results st now)"
  shows "rested t now st \<and> count_of (trigger_id t) st < limit_of t"
  using assms by (cases "trigger_fires st (trigger_id t)")
    (simp_all add: evaluate_def rested_def count_of_def Let_def not_less not_le split: if_split_asm)

lemma after_one_tracked: "tracked t now st (fired (evaluate t results st now)) (after_one t results now st)"
proof (cases "fired (evaluate t results st now)")
  case True
  then show ?thesis using fired_guard [OF True]
    by (simp add: tracked_def after_one_def note_condition_def note_fire_def count_of_def)
qed (simp add: tracked_def after_one_def note_condition_def)

lemma after_one_frame: "trigger_id t \<noteq> i \<Longrightarrow> same_record i st (after_one t results now st)"
  by (simp add: same_record_def after_one_def note_condition_def note_fire_def)

lemma same_record_trans: "same_record i st st' \<Longrightarrow> same_record i st' st'' \<Longrightarrow> same_record i st st''"
  by (simp add: same_record_def)

lemma tracked_framed:
  "same_record (trigger_id t) st st1 \<Longrightarrow> tracked t now st1 f st' \<Longrightarrow> tracked t now st f st'"
  "tracked t now st f st1 \<Longrightarrow> same_record (trigger_id t) st1 st' \<Longrightarrow> tracked t now st f st'"
  by (simp_all add: same_record_def tracked_def count_of_def rested_def split: if_split_asm)

lemma other_triggers_frame:
  "i \<notin> trigger_id ` set ts \<Longrightarrow> same_record i st (snd (evaluate_each ts results now st))"
proof (induction ts arbitrary: st)
  case (Cons t ts)
  have "same_record i st (after_one t results now st)" using Cons.prems by (intro after_one_frame) auto
  moreover have "same_record i (after_one t results now st) (snd (evaluate_each ts results now (after_one t results now st)))"
    using Cons by simp
  ultimately show ?case by (simp only: evaluate_each_step same_record_trans)
qed (simp add: same_record_def)

lemma results_named: "map result_id (fst (evaluate_each ts results now st)) = map trigger_id ts"
  by (induction ts arbitrary: st) (simp_all del: evaluate_each.simps(2))

definition hits :: "string \<Rightarrow> trigger_result list \<Rightarrow> bool" where
  "hits i rs = (i \<in> set (map result_id (filter fired rs)))"

lemma hits_Cons: "hits i (r # rs) = (fired r \<and> result_id r = i \<or> hits i rs)"
  by (auto simp: hits_def)

lemma hits_id: "hits i rs \<Longrightarrow> i \<in> set (map result_id rs)"
  by (auto simp: hits_def)

lemma evaluate_each_one:
  assumes "distinct (map trigger_id ts)" and "t \<in> set ts"
  shows "tracked t now st (hits (trigger_id t) (fst (evaluate_each ts results now st))) (snd (evaluate_each ts results now st))"
  using assms
proof (induction ts arbitrary: st)
  case (Cons u us)
  let ?st1 = "after_one u results now st"
  show ?case
  proof (cases "u = t")
    case True
    then have fr: "trigger_id t \<notin> set (map trigger_id us)" using Cons.prems by simp
    then have "\<not> hits (trigger_id t) (fst (evaluate_each us results now ?st1))"
      using hits_id results_named by metis
    then show ?thesis
      using tracked_framed(2) [OF after_one_tracked other_triggers_frame] fr True by (simp add: hits_Cons del: evaluate_each.simps)
  next
    case False
    then have mem: "t \<in> set us" and ne: "trigger_id u \<noteq> trigger_id t" using Cons.prems by auto
    show ?thesis
      using tracked_framed(1) [OF after_one_frame [OF ne] Cons.IH] mem ne Cons.prems(1) by (simp add: hits_Cons del: evaluate_each.simps)
  qed
qed simp

lemma evaluateAll_one:
  assumes "distinct (map trigger_id ts)" and "t \<in> set ts"
  shows "tracked t now (new_day now st) (trigger_id t \<in> set (fired_ids (evaluateAll ts results st now)))
      (new_state (evaluateAll ts results st now))"
  using evaluate_each_one [OF assms, of now "new_day now st" results]
  by (simp add: evaluateAll_def Let_def case_prod_unfold hits_def)

lemma rested_new_day [simp]: "rested t now (new_day d st) = rested t now st"
  by (simp add: rested_def new_day_def)

lemma new_day_day [simp]: "last_day (new_day now st) = Some (day_of now)" "trigger_fires (new_day now st) = trigger_fires st"
  by (simp_all add: new_day_def)

text \<open>Two fires lie the cooldown apart, and the first one the cooldown after the fire on record.\<close>

lemma fire_gap:
  assumes "distinct (map trigger_id ts)" and "t \<in> set ts" and "0 \<le> cooldown_of t"
  shows "sorted (map fst es) \<Longrightarrow>
      sorted_wrt (\<lambda>a b. a + 1000 * cooldown_of t \<le> b) (fire_times ts (trigger_id t) es st)
    \<and> (\<forall>b \<in> set (fire_times ts (trigger_id t) es st). b \<in> fst ` set es \<and> rested t b st)"
proof (induction es arbitrary: st)
  case (Cons e es)
  obtain now results where e: "e = (now, results)" by (cases e)
  let ?i = "trigger_id t" and ?st' = "new_state (evaluateAll ts results st now)"
  note one = evaluateAll_one [OF assms(1,2), of now st results]
  have IH: "sorted_wrt (\<lambda>a b. a + 1000 * cooldown_of t \<le> b) (fire_times ts ?i es ?st')"
    "\<forall>b \<in> set (fire_times ts ?i es ?st'). b \<in> fst ` set es \<and> rested t b ?st'"
    using Cons.IH [of ?st'] Cons.prems by simp_all
  show ?case
  proof (cases "?i \<in> set (fired_ids (evaluateAll ts results st now))")
    case True
    have now: "rested t now st" and stored: "trigger_fires ?st' ?i = Some now" using one True by (simp_all add: tracked_def)
    have later: "now + 1000 * cooldown_of t \<le> b" if "b \<in> set (fire_times ts ?i es ?st')" for b
      using IH(2) that stored by (force simp: rested_def)
    have after: "rested t b st" if "b \<in> set (fire_times ts ?i es ?st')" for b
      using later [OF that] now assms(3) by (auto simp: rested_def split: option.splits)
    show ?thesis using True IH later after now by (auto simp: e Let_def)
  next
    case False
    then have "trigger_fires ?st' ?i = trigger_fires st ?i" using one by (simp add: tracked_def)
    then show ?thesis using IH False by (auto simp: e Let_def rested_def)
  qed
qed simp

text \<open>
  C28. No trigger is repeated within its cooldown. In a run of evaluations at times that never go
  back, from any state, any two fires of a trigger lie at least its cooldown apart.
\<close>

theorem fires_respect_cooldown:
  assumes "distinct (map trigger_id ts)" and "t \<in> set ts" and "0 \<le> cooldown_of t" and "sorted (map fst es)"
  shows "sorted_wrt (\<lambda>a b. a + 1000 * cooldown_of t \<le> b) (fire_times ts (trigger_id t) es st)"
  using fire_gap [OF assms] by blast

text \<open>Within a day every fire is counted.\<close>

lemma fires_counted:
  assumes "distinct (map trigger_id ts)" and "t \<in> set ts"
  shows "list_all (\<lambda>e. day_of (fst e) = d) es \<Longrightarrow>
    int (length (fire_times ts (trigger_id t) es st)) \<le> max 0 (limit_of t - count_of (trigger_id t) (if last_day st = Some d then st else st\<lparr>daily_counts := Map.empty\<rparr>))"
proof (induction es arbitrary: st)
  case (Cons e es)
  obtain now results where e: "e = (now, results)" by (cases e)
  let ?i = "trigger_id t" and ?st' = "new_state (evaluateAll ts results st now)"
    and ?base = "if last_day st = Some d then st else st\<lparr>daily_counts := Map.empty\<rparr>"
  note one = evaluateAll_one [OF assms, of now st results]
  have day: "day_of now = d" using Cons.prems e by simp
  have base: "count_of ?i (new_day now st) = count_of ?i ?base" by (simp add: new_day_def day count_of_def)
  have last: "last_day ?st' = Some d" using one day by (simp add: tracked_def)
  have IH: "int (length (fire_times ts ?i es ?st')) \<le> max 0 (limit_of t - count_of ?i ?st')"
    using Cons.IH [of ?st'] Cons.prems last by simp
  show ?case
  proof (cases "?i \<in> set (fired_ids (evaluateAll ts results st now))")
    case True
    then have "count_of ?i ?st' = count_of ?i ?base + 1" "count_of ?i ?base < limit_of t"
      using one base by (simp_all add: tracked_def count_of_def)
    then show ?thesis using IH True by (simp add: e Let_def)
  next
    case False
    then have "count_of ?i ?st' = count_of ?i ?base" using one base by (simp add: tracked_def count_of_def)
    then show ?thesis using IH False by (simp add: e Let_def)
  qed
qed simp

text \<open>
  The daily limit holds. Within one day, from any state, a trigger fires at most as often as its
  limit allows.
\<close>

theorem fires_within_daily_limit:
  assumes "distinct (map trigger_id ts)" and "t \<in> set ts" and "list_all (\<lambda>e. day_of (fst e) = d) es"
    and "0 \<le> (case daily_counts st (trigger_id t) of None \<Rightarrow> 0 | Some n \<Rightarrow> n)"
  shows "int (length (fire_times ts (trigger_id t) es st)) \<le> max 0 (limit_of t)"
  using fires_counted [OF assms(1-3), of st] assms(4) by (simp add: count_of_def split: if_split_asm option.splits)

section \<open>Concrete triggers\<close>

definition budget_trigger :: trigger where
  "budget_trigger = \<lparr>trigger_id = ''t1'', condition_id = ''over_budget'', trigger_edge = None, trigger_cooldown = Some 60,
     trigger_max_fires = Some 2\<rparr>"

definition idle_trigger :: trigger where
  "idle_trigger = \<lparr>trigger_id = ''t2'', condition_id = ''idle'', trigger_edge = Some ''any'', trigger_cooldown = None,
     trigger_max_fires = None\<rparr>"

lemmas sample_triggers = budget_trigger_def idle_trigger_def

definition sample_run :: "(int \<times> (string \<rightharpoonup> bool)) list" where
  "sample_run = [(1000, Map.empty(''over_budget'' \<mapsto> True)), (2000, Map.empty(''over_budget'' \<mapsto> False)),
     (3000, Map.empty(''over_budget'' \<mapsto> True)), (62000, Map.empty(''over_budget'' \<mapsto> False)),
     (63000, Map.empty(''over_budget'' \<mapsto> True))]"

lemma sample_run_fires: "fire_times [budget_trigger, idle_trigger] ''t1'' sample_run empty_state = [1000, 63000]"
  by code_simp

theorem triggers_independent_witness:
  "fired_ids (evaluateAll [budget_trigger, idle_trigger] (Map.empty(''over_budget'' \<mapsto> True, ''idle'' \<mapsto> False)) empty_state 1000) = [''t1'']"
proof -
  have "map trigger_id (filter (\<lambda>t. fired (evaluate t (Map.empty(''over_budget'' \<mapsto> True, ''idle'' \<mapsto> False))
      (new_day 1000 empty_state) 1000)) [budget_trigger, idle_trigger]) = [''t1'']"
    by code_simp
  then show ?thesis
    using triggers_independent [of "[budget_trigger, idle_trigger]" "Map.empty(''over_budget'' \<mapsto> True, ''idle'' \<mapsto> False)" empty_state 1000]
    by (simp add: sample_triggers)
qed

theorem fires_respect_cooldown_witness: "1000 + 1000 * cooldown_of budget_trigger \<le> 63000"
  using fires_respect_cooldown [of "[budget_trigger, idle_trigger]" budget_trigger sample_run empty_state] sample_run_fires
  by (simp add: sample_triggers sample_run_def cooldown_of_def)

theorem fires_within_daily_limit_witness: "length (fire_times [budget_trigger, idle_trigger] ''t1'' sample_run empty_state) \<le> 2"
proof -
  have "day_of 1000 = ''1970-01-01'' \<and> day_of 2000 = ''1970-01-01'' \<and> day_of 3000 = ''1970-01-01''
      \<and> day_of 62000 = ''1970-01-01'' \<and> day_of 63000 = ''1970-01-01''" by code_simp
  then have "list_all (\<lambda>e. day_of (fst e) = ''1970-01-01'') sample_run" by (simp add: sample_run_def)
  then show ?thesis
    using fires_within_daily_limit [of "[budget_trigger, idle_trigger]" budget_trigger "''1970-01-01''" sample_run empty_state]
    unfolding sample_triggers limit_of_def empty_state_def by (simp add: sample_triggers del: fire_times.simps)
qed

end
