(* ===== verification/Spec2Isabelle.thy ===== *)
theory Spec2Isabelle
  imports M1Contract M2Canonical M2Execution M2Samples M2Governance M2GovSamples M2Context M2Lifecycle
    M2LifeSamples M2EffectSamples M2ExecutionV2 M2EvaluatorSamples M2Wire M2AuthorityWitnesses CircuitBreaker ShellParser MemoryPolicy PatchDiff PatchApply Triggers
begin

text \<open>
  A verification library for IntentSmith, a development assistant that plans, approves, executes and
  certifies changes to a project.

  \<^bold>\<open>The program.\<close> A change goes through a chain of immutable JSON documents. A lifecycle plan
  (\<open>contracts/m2/lifecycle-v1.js\<close>) names the request (\<open>execution-v1.js\<close>) that holds the edits, the focused
  test and the commit; the context the model saw is a snapshot (\<open>project-context-v1.js\<close>); a user's
  approval intent binds one plan for a limited time; execution produces a result; governance
  (\<open>governance-v1.js\<close>) turns a policy, a baseline and the edits into a decision and, after success, a
  receipt; a terminal snapshot ties them together. A repository over SQL tables records who approved what,
  what was granted, cancelled and reached (\<open>src/lifecycle\<close>). Every document is identified by the SHA-256 of its
  canonical text, and a validator per document and per pair of documents decides what the services may
  act on. A chat turn ends in one of the classes of \<open>contracts/m1/terminal.js\<close>. Below that, tools run
  behind a circuit breaker and an argument splitter (\<open>src/executor\<close>), model proposals reach files as
  patches (\<open>src/patch\<close>), facts are kept in a bounded store (\<open>src/memory\<close>), and agents fire triggers
  (\<open>src/agents\<close>).

  \<^bold>\<open>Theories.\<close>
  \<^item> \<open>Prelude\<close>: exceptions and error lists, sorting, insertion-ordered maps, and the interfaces as
    locales: \<open>keyed_store\<close>, interpreted as \<open>jmap\<close> on association lists, and \<open>guarded_machine\<close> (a step
    function with an invariant kept under a guard), interpreted by the breaker and the store.
  \<^item> \<open>JsValue\<close>, \<open>JsText\<close>, \<open>Base64\<close>: the values, strings, numbers, times and text operations of the
    language. Strings are lists of UTF-8 bytes; a document is a tree, so two references to one object
    are two equal values, and objects keep the insertion order of their properties. \<open>JsonParse\<close>:
    \<open>JSON.parse\<close>, with numbers rounded to the nearest double and the property order of objects.
  \<^item> \<open>M1Contract\<close>: \<open>contracts/m1/shared.js\<close> and \<open>terminal.js\<close>.
  \<^item> \<open>M2Canonical\<close>, \<open>M2Execution\<close>: \<open>execution-v1.js\<close>; \<open>M2Samples\<close> its concrete documents.
  \<^item> \<open>M2Governance\<close>, \<open>M2GovSamples\<close>: \<open>governance-v1.js\<close>. \<open>M2Context\<close>: \<open>project-context-v1.js\<close>.
    \<open>M2Lifecycle\<close>, \<open>M2LifeSamples\<close>: \<open>lifecycle-v1.js\<close>.
  \<^item> \<open>M2Effect\<close>, \<open>M2EffectResult\<close>: the requests, results and grants of \<open>effect-v1.js\<close>; \<open>M2EffectLaws\<close>
    their lemmas and properties, \<open>M2EffectSamples\<close> their documents.
  \<^item> \<open>M2ExecutionV2\<close>, \<open>M2LifecycleV2\<close>: \<open>execution-v2.js\<close> and \<open>lifecycle-v2.js\<close>, whose functions carry the
    prefix \<open>v2_\<close>; \<open>M2ChainV2\<close>: what an accepted terminal of either version guarantees.
  \<^item> \<open>M2Wire\<close>: the decoders of all these contracts; the locale \<open>wire_codec\<close> is the contract between a
    decoder and its encoder, interpreted for each of the five pairs.
  \<^item> \<open>M2LifecycleDb\<close>: the tables of the lifecycle authority with their constraints and insert triggers
    (\<open>src/db/migrations/\<close>, \<open>079\<close> and \<open>122\<close>) and the functions the triggers call; \<open>M2LifecycleAuthority\<close>:
    \<open>src/lifecycle/m2-lifecycle-authority-repository.js\<close>, one definition per method.
    \<open>M2AuthorityLaws\<close>: what a call does to the tables; \<open>M2AuthorityRuns\<close>: sequences of calls and their
    invariants; \<open>M2AuthorityReplay\<close>: repeated calls, with the locale \<open>keyed_table\<close> (a table with a key, its
    insert and its lookup) interpreted for six tables; \<open>M2AuthorityReads\<close>: the getters;
    \<open>M2AuthorityFinal\<close>: the guarantees; \<open>M2AuthoritySamples\<close>, \<open>M2AuthorityWitnesses\<close>: a recorded run.
  \<^item> \<open>ImportScanner\<close>, \<open>ImportScannerLaws\<close>: the trusted side of \<open>src/lifecycle/m2-import-scanner.js\<close>.
    \<open>M2Evaluator\<close>, \<open>M2EvaluatorLaws\<close>, \<open>M2EvaluatorSamples\<close>: \<open>m2-governance-evaluator.js\<close>.
  \<^item> \<open>CircuitBreaker\<close>: \<open>src/executor/circuit-breaker.js\<close>. \<open>ShellParser\<close>: \<open>src/executor/shell-parser.js\<close>.
  \<^item> \<open>MemoryPolicy\<close>: \<open>src/memory/policy.js\<close>. \<open>Triggers\<close>: \<open>src/agents/triggers.js\<close>.
  \<^item> \<open>PatchDiff\<close>: the fallback diff of \<open>src/patch/patch-parser.js\<close> and the splicing of regions;
    \<open>PatchApply\<close>: \<open>patch-validator.js\<close> and \<open>patch-applier.js\<close>.

  \<^bold>\<open>How state and operations correspond.\<close> A validator is a function from a value to the list of its
  error texts, in the order the source pushes them; one that may throw returns a sum, \<open>Inl\<close> the thrown
  error. A class is a record of its fields, a method a function from the arguments, the state and,
  where it reads the clock, the time of the call, to its answer and the new state. A \<open>Map\<close> is an
  association list in insertion order. Numbers are integers, as the code uses them; where the contracts
  can be given a fraction the value type has one. What is not under \<open>src/\<close> is a parameter: the record
  \<open>js_env\<close> holds SHA-256 and the Unicode normal form, with what the code relies on (the shape of a
  digest, idempotence of the normal form) as named hypotheses, and the witnesses instantiate both.
  \<open>effect_env\<close> adds the URL parser, the test for IP addresses and the text of a number; the reply of the
  scanner's child process and the identity of its parser are arguments.

  The database is a record of tables, a table the list of its rows in insertion order; a query that may
  return its rows in any order returns them so. A call of the repository is one transaction: it reads,
  inserts at most one row and either returns the new database or an error and leaves the old one; an
  insert fails where SQLite's constraints or the triggers refuse it. The clock is an argument. What the
  execution, effect and approval repositories write to the tables the triggers read is the relation
  \<open>external\<close>, which a run interleaves with the calls in any way.

  \<^bold>\<open>What the theorems show.\<close>
  \<^item> Documents: a canonical text identifies its document, reads back, and equal digests mean equal
    documents or a collision, and the values that have a digest are described exactly. An accepted request stays inside its project, is bounded, and its authority
    set covers each effect once. An accepted result belongs to its request, and a success means every
    requested change was applied and tested with no rollback.
  \<^item> Governance: the verdict of an accepted decision is a function of its checks, an allow has four
    passed checks, a receipt certifies one allowed execution.
  \<^item> Lifecycle: an approval binds one plan, its user and its window; a recorded success is backed by the
    whole chain of documents. In every run of the repository a success is recorded only on top of the
    approval, grants, result and receipt that back it; a cancellation or a terminal closes its
    lifecycle; the record only grows; a repeated recording changes nothing; what was registered is read
    back in every later state.
  \<^item> Effects: an accepted grant authorises exactly one request of its own user, an accepted success
    changed exactly what was requested, a path stays below its root, a failure leaves nothing behind.
  \<^item> Evaluation: an allow respects the layers and rules of the policy in the project as it will be, binds
    its documents and needs a fresh observation; the scanner's registry holds only checked replies.
  \<^item> Wire: the bytes that decode to a document are exactly its encoding.
  \<^item> Chat: what a terminal lets the chat show or store has passed every check, and no turn ends twice.
  \<^item> Tools: an open circuit blocks, recovery admits an exact number of requests and closes exactly when
    the limit allows, tripping is a statement on windows of failure times, the registry is independent
    breakers. A command line is split exactly when no shell operator is live, arguments spell it
    literally, quoting round-trips.
  \<^item> Patches: the fallback diff applied to the old file is the new file; a validated patch rewrites
    exactly the lines it names; composition loses no region without reporting a conflict.
  \<^item> Memory and triggers: capacity and expiry of the store; cooldown and daily limit of triggers.

  \<^bold>\<open>Termination and bounds.\<close> Every definition is total. Only \<open>JSON.parse\<close> uses fuel, and any fuel beyond
  twice the length of the text gives the same result (\<open>parse_terminates\<close>). The loops of the source that
  are not structural (the diff, the base64 and path readers) are recursive functions with a measure.
  The bounds of the contracts (32 changes, their byte limits, 300 changed lines, 20 regions) are the
  constants of the source.

  \<^bold>\<open>Not modelled.\<close> The diff parser and
  the anchor choice of the fallback diff, which are regular-expression work; the third tier of
  \<open>findAnchor\<close>, which needs the symbols of an external parser that \<open>resolveRegion\<close> never passes. Logging.
  Of the migrations, the installation of the schema, its fingerprints and the constraints of the tables of
  other repositories. The other services around the contracts are SQL, file system, process and network effects; chat, planning
  and model selection rest on model output and large pattern tables; the interfaces are front ends. The
  other contracts (the remaining ones of \<open>m2\<close>, \<open>m3\<close> to \<open>m7\<close>), the patch engine and the
  accounting ledger are the next candidates.
\<close>

end
